(* ===== verification/Prelude.thy ===== *)
theory Prelude
  imports
    Main
    "HOL-Library.Word"
    "HOL-Library.List_Lexorder"
    "HOL-Library.Char_ord"
    "HOL-Library.AList"
    "HOL-Library.Product_Lexorder"
    "HOL-Library.Multiset"
    "HOL-Library.Code_Target_Nat"
begin

text \<open>
  Shared vocabulary of the development: Go's machine integers, functions that return a value
  or an error, Go maps as association lists without duplicate keys, the sorted listings of
  \<^verbatim>\<open>k8s.io/apimachinery/pkg/util/sets\<close> and of \<open>sortMap\<close>, and the interfaces (locales)
  that the components use them through.

  Go strings are byte strings and are ordered bytewise; \<^typ>\<open>string\<close> with the lexicographic
  order of \<^verbatim>\<open>List_Lexorder\<close> over the byte order of \<^verbatim>\<open>Char_ord\<close> is that order.
\<close>

section \<open>Machine integers and results\<close>

type_synonym uint8 = "8 word"
type_synonym uint16 = "16 word"
type_synonym uint32 = "32 word"

text \<open>A Go function returning \<^verbatim>\<open>(T, error)\<close> returns \<open>Inl\<close> of the error or \<open>Inr\<close> of the value.\<close>

type_synonym ('e, 'a) result = "'e + 'a"

named_theorems result_simps "inversion of successful and failed computations"

definition bindE :: "('e, 'a) result \<Rightarrow> ('a \<Rightarrow> ('e, 'b) result) \<Rightarrow> ('e, 'b) result" where
  "bindE m f = (case m of Inl e \<Rightarrow> Inl e | Inr x \<Rightarrow> f x)"

definition mapErr :: "('e \<Rightarrow> 'f) \<Rightarrow> ('e, 'a) result \<Rightarrow> ('f, 'a) result" where
  "mapErr w m = (case m of Inl e \<Rightarrow> Inl (w e) | Inr x \<Rightarrow> Inr x)"

definition guardE :: "bool \<Rightarrow> 'e \<Rightarrow> ('e, unit) result" where
  "guardE b e = (if b then Inr () else Inl e)"

text \<open>\<open>for\<close> loops with an early error return: over a state, collecting results, checking only.\<close>

fun foldE :: "('s \<Rightarrow> 'a \<Rightarrow> ('e, 's) result) \<Rightarrow> 's \<Rightarrow> 'a list \<Rightarrow> ('e, 's) result" where
  "foldE f s [] = Inr s"
| "foldE f s (x # xs) = bindE (f s x) (\<lambda>s'. foldE f s' xs)"

fun mapE :: "('a \<Rightarrow> ('e, 'b) result) \<Rightarrow> 'a list \<Rightarrow> ('e, 'b list) result" where
  "mapE f [] = Inr []"
| "mapE f (x # xs) = bindE (f x) (\<lambda>y. bindE (mapE f xs) (\<lambda>ys. Inr (y # ys)))"

fun forE :: "('a \<Rightarrow> ('e, unit) result) \<Rightarrow> 'a list \<Rightarrow> ('e, unit) result" where
  "forE f [] = Inr ()"
| "forE f (x # xs) = bindE (f x) (\<lambda>_. forE f xs)"

definition isOk :: "('e, 'a) result \<Rightarrow> bool" where
  "isOk m = (case m of Inl _ \<Rightarrow> False | Inr _ \<Rightarrow> True)"

lemma bindE_simps [simp]: "bindE (Inl e) f = Inl e" "bindE (Inr x) f = f x"
  by (simp_all add: bindE_def)

lemma bindE_Inr_right [simp]: "bindE m Inr = m"
  by (cases m) simp_all

lemma bindE_assoc [simp]: "bindE (bindE m f) g = bindE m (\<lambda>x. bindE (f x) g)"
  by (cases m) simp_all

lemma mapErr_simps [simp]: "mapErr w (Inl e) = Inl (w e)" "mapErr w (Inr x) = Inr x"
  by (simp_all add: mapErr_def)

lemma isOk_simps [simp]: "\<not> isOk (Inl e)" "isOk (Inr x)"
  by (simp_all add: isOk_def)

lemma isOk_iff: "isOk m \<longleftrightarrow> (\<exists>x. m = Inr x)"
  by (cases m) simp_all

lemma bindE_Inr_iff [result_simps]: "bindE m f = Inr y \<longleftrightarrow> (\<exists>x. m = Inr x \<and> f x = Inr y)"
  by (cases m) simp_all

lemma bindE_Inl_iff [result_simps]:
  "bindE m f = Inl e \<longleftrightarrow> m = Inl e \<or> (\<exists>x. m = Inr x \<and> f x = Inl e)"
  by (cases m) simp_all

lemma mapErr_Inr_iff [result_simps]: "mapErr w m = Inr x \<longleftrightarrow> m = Inr x"
  by (cases m) simp_all

lemma mapErr_Inl_iff [result_simps]: "mapErr w m = Inl e \<longleftrightarrow> (\<exists>e'. m = Inl e' \<and> e = w e')"
  by (cases m) auto

lemma guardE_Inr_iff [result_simps]: "guardE b e = Inr u \<longleftrightarrow> b"
  by (simp add: guardE_def)

lemma guardE_Inl_iff [result_simps]: "guardE b e = Inl e' \<longleftrightarrow> \<not> b \<and> e' = e"
  by (auto simp: guardE_def)

lemma isOk_bindE: "isOk (bindE m f) \<longleftrightarrow> (\<exists>x. m = Inr x \<and> isOk (f x))"
  by (cases m) simp_all

lemma isOk_mapErr [simp]: "isOk (mapErr w m) = isOk m"
  by (cases m) simp_all

lemma isOk_guardE [simp]: "isOk (guardE b e) = b"
  by (simp add: guardE_def)

lemma forE_Inr_iff [result_simps]: "forE f xs = Inr u \<longleftrightarrow> (\<forall>x\<in>set xs. f x = Inr ())"
  by (induction xs) (auto simp: bindE_Inr_iff)

lemma isOk_forE: "isOk (forE f xs) \<longleftrightarrow> (\<forall>x\<in>set xs. isOk (f x))"
  by (induction xs) (auto simp: isOk_bindE, auto simp: isOk_iff)

lemma mapE_Inr_iff: "mapE f xs = Inr ys \<longleftrightarrow> list_all2 (\<lambda>x y. f x = Inr y) xs ys"
  by (induction xs arbitrary: ys) (auto simp: bindE_Inr_iff list_all2_Cons1)

lemma mapE_mem:
  assumes "mapE f xs = Inr ys" "y \<in> set ys"
  obtains x where "x \<in> set xs" "f x = Inr y"
proof -
  have *: "list_all2 (\<lambda>x y. f x = Inr y) xs ys"
    using assms(1) by (simp add: mapE_Inr_iff)
  obtain i where i: "i < length ys" "y = ys ! i"
    using assms(2) by (auto simp: in_set_conv_nth)
  have "xs ! i \<in> set xs" "f (xs ! i) = Inr y"
    using list_all2_nthD2 [OF * i(1)] list_all2_lengthD [OF *] i by auto
  then show ?thesis using that by blast
qed

lemma isOk_mapE: "isOk (mapE f xs) \<longleftrightarrow> (\<forall>x\<in>set xs. isOk (f x))"
  by (induction xs) (auto simp: isOk_bindE, auto simp: isOk_iff)

text \<open>A loop invariant of \<open>foldE\<close>: what every iteration keeps holds of the result.\<close>

lemma foldE_invariant:
  assumes "foldE f s xs = Inr t" "P s"
    and "\<And>s x s'. x \<in> set xs \<Longrightarrow> P s \<Longrightarrow> f s x = Inr s' \<Longrightarrow> P s'"
  shows "P t"
  using assms by (induction xs arbitrary: s) (auto simp: bindE_Inr_iff)

lemma foldE_append: "foldE f s (xs @ ys) = bindE (foldE f s xs) (\<lambda>t. foldE f t ys)"
proof (induction xs arbitrary: s)
  case (Cons x xs)
  then show ?case by (cases "f s x") simp_all
qed simp

section \<open>Sorted listings: sets.List\<close>

text \<open>
  \<^verbatim>\<open>sets.List(sets.New(xs...))\<close>: the distinct elements of \<open>xs\<close>, sorted.
\<close>

definition setsList :: "'a::linorder list \<Rightarrow> 'a list" where
  "setsList xs = sort (remdups xs)"

lemma set_setsList [simp]: "set (setsList xs) = set xs"
  by (simp add: setsList_def)

lemma sorted_setsList [simp]: "sorted (setsList xs)"
  by (simp add: setsList_def)

lemma distinct_setsList [simp]: "distinct (setsList xs)"
  by (simp add: setsList_def)

lemma strict_sorted_setsList [simp]: "sorted_wrt (<) (setsList xs)"
  by (simp add: strict_sorted_iff)

lemma setsList_eq_iff: "setsList xs = setsList ys \<longleftrightarrow> set xs = set ys"
proof
  assume "setsList xs = setsList ys"
  then have "set (setsList xs) = set (setsList ys)" by simp
  then show "set xs = set ys" by simp
next
  assume "set xs = set ys"
  then show "setsList xs = setsList ys"
    by (intro sorted_distinct_set_unique) simp_all
qed

lemma setsList_sorted: "sorted_wrt (<) xs \<Longrightarrow> setsList xs = xs"
  by (intro sorted_distinct_set_unique) (simp_all add: strict_sorted_iff)

lemma setsList_Nil_iff [simp]: "setsList xs = [] \<longleftrightarrow> xs = []"
  by (metis set_setsList set_empty)

lemma setsList_Nil [simp]: "setsList [] = []"
  by simp


section \<open>Go maps\<close>

text \<open>
  A Go map is an association list whose keys are distinct when it is built by \<open>mapSet\<close>; the
  code reads it by key or through \<open>sortMap\<close>, which lists the values by increasing key.
\<close>

type_synonym ('k, 'v) gomap = "('k \<times> 'v) list"

definition mapGet :: "('k, 'v) gomap \<Rightarrow> 'k \<Rightarrow> 'v option" where
  "mapGet m k = map_of m k"

definition mapSet :: "('k, 'v) gomap \<Rightarrow> 'k \<Rightarrow> 'v \<Rightarrow> ('k, 'v) gomap" where
  "mapSet m k v = AList.update k v m"

definition mapDel :: "('k, 'v) gomap \<Rightarrow> 'k \<Rightarrow> ('k, 'v) gomap" where
  "mapDel m k = AList.delete k m"

definition mapKeys :: "('k, 'v) gomap \<Rightarrow> 'k list" where
  "mapKeys m = map fst m"

text \<open>The interface the components rely on, and what follows from it.\<close>

locale go_map =
  fixes emp :: 'm
    and get :: "'m \<Rightarrow> 'k \<Rightarrow> 'v option"
    and put :: "'m \<Rightarrow> 'k \<Rightarrow> 'v \<Rightarrow> 'm"
    and del :: "'m \<Rightarrow> 'k \<Rightarrow> 'm"
    and keys :: "'m \<Rightarrow> 'k list"
  assumes get_emp: "get emp k = None"
    and get_put: "get (put m k v) = (get m)(k \<mapsto> v)"
    and get_del: "get (del m k) = (get m)(k := None)"
    and set_keys: "set (keys m) = dom (get m)"
begin

lemma get_put_eq: "get (put m k v) k' = (if k' = k then Some v else get m k')"
  by (simp add: get_put)

lemma get_del_eq: "get (del m k) k' = (if k' = k then None else get m k')"
  by (simp add: get_del)

lemma mem_keys_iff: "k \<in> set (keys m) \<longleftrightarrow> get m k \<noteq> None"
  by (auto simp: set_keys)

lemma keys_put: "set (keys (put m k v)) = insert k (set (keys m))"
  by (auto simp: set_keys get_put)

lemma keys_emp: "keys emp = []"
  using set_keys [of emp] by (simp add: get_emp dom_def)

text \<open>Filling a map from a list: the last element with a key is the one the map holds.\<close>

lemma get_fill:
  "get (foldl (\<lambda>m x. put m (f x) (g x)) m xs) k =
     (case find (\<lambda>x. f x = k) (rev xs) of Some x \<Rightarrow> Some (g x) | None \<Rightarrow> get m k)"
proof (induction xs rule: rev_induct)
  case (snoc x xs)
  then show ?case by (simp add: get_put)
qed simp

lemma keys_fill:
  "set (keys (foldl (\<lambda>m x. put m (f x) (g x)) m xs)) = set (keys m) \<union> f ` set xs"
proof (induction xs rule: rev_induct)
  case (snoc x xs)
  then show ?case by (auto simp: keys_put)
qed simp

end

lemma mapGet_map_of: "mapGet m = map_of m"
  by (rule ext) (rule mapGet_def)

interpretation gomap: go_map "[] :: ('k, 'v) gomap" mapGet mapSet mapDel mapKeys
  by unfold_locales
    (simp_all add: mapGet_map_of mapSet_def mapDel_def mapKeys_def update_conv' delete_conv'
      dom_map_of_conv_image_fst)

lemma mapGet_Nil [simp]: "mapGet [] k = None"
  by (rule gomap.get_emp)

lemma mapGet_mapSet [simp]: "mapGet (mapSet m k v) k' = (if k' = k then Some v else mapGet m k')"
  by (rule gomap.get_put_eq)

lemma mapGet_mapDel [simp]: "mapGet (mapDel m k) k' = (if k' = k then None else mapGet m k')"
  by (rule gomap.get_del_eq)

text \<open>
  \<open>sortMap\<close> and \<open>sortMapPtr\<close> (\<^verbatim>\<open>internal/controller/api_to_config.go\<close>): the values in the order of
  the sorted keys. The two differ only in the pointer the map holds.
\<close>

definition sortMap :: "('k::linorder, 'v) gomap \<Rightarrow> 'v list" where
  "sortMap m = map (\<lambda>k. the (mapGet m k)) (setsList (mapKeys m))"

definition sortMapPtr :: "('k::linorder, 'v) gomap \<Rightarrow> 'v list" where
  "sortMapPtr m = map (\<lambda>k. the (mapGet m k)) (setsList (mapKeys m))"

lemma sortMapPtr_eq: "sortMapPtr m = sortMap m"
  by (simp add: sortMapPtr_def sortMap_def)

lemma set_sortMap: "set (sortMap m) = {v. \<exists>k. mapGet m k = Some v}"
  by (force simp: sortMap_def gomap.mem_keys_iff)

lemma sortMap_cong:
  assumes "mapGet m = mapGet m'"
  shows "sortMap m = sortMap m'"
proof -
  have "set (mapKeys m) = set (mapKeys m')"
    using assms by (simp add: gomap.set_keys)
  then have "setsList (mapKeys m) = setsList (mapKeys m')"
    by (simp add: setsList_eq_iff)
  then show ?thesis using assms by (simp add: sortMap_def)
qed

lemma distinct_mapSet [simp]: "distinct (mapKeys m) \<Longrightarrow> distinct (mapKeys (mapSet m k v))"
  by (simp add: mapKeys_def mapSet_def distinct_update)

lemma distinct_mapKeys_Nil [simp]: "distinct (mapKeys [])"
  by (simp add: mapKeys_def)

lemma mset_sortMap:
  assumes "distinct (mapKeys m)"
  shows "mset (sortMap m) = mset (map snd m)"
proof -
  have "the (mapGet m k) = v" if "(k, v) \<in> set m" for k v
    using that assms by (simp add: mapGet_map_of mapKeys_def)
  then have "map (\<lambda>k. the (mapGet m k)) (mapKeys m) = map snd m"
    by (auto simp: mapKeys_def)
  moreover have "mset (setsList (mapKeys m)) = mset (mapKeys m)"
    using assms by (simp add: setsList_def distinct_remdups_id)
  ultimately show ?thesis by (simp add: sortMap_def) (metis mset_map)
qed

lemma distinct_concat_keyed:
  assumes "distinct (map k xs)" "\<And>x. x \<in> set xs \<Longrightarrow> distinct (f x)" "\<And>x y. x \<in> set xs \<Longrightarrow> y \<in> set (f x) \<Longrightarrow> g y = k x"
  shows "distinct (concat (map f xs))"
  using assms
proof (induction xs)
  case (Cons x xs)
  have "y \<notin> set (f x)" if "z \<in> set xs" "y \<in> set (f z)" for y z
  proof
    assume "y \<in> set (f x)"
    then have "k x = k z" using Cons.prems(3) [of x y] Cons.prems(3) [of z y] that by simp
    then show False using Cons.prems(1) that(1) by auto
  qed
  then have "set (f x) \<inter> (\<Union>z\<in>set xs. set (f z)) = {}" by blast
  moreover have "distinct (concat (map f xs))" using Cons.IH Cons.prems by simp
  ultimately show ?case using Cons.prems(2) by simp
qed simp

section \<open>Lists ordered by a key\<close>

definition lookupKey :: "('v \<Rightarrow> 'k) \<Rightarrow> 'v list \<Rightarrow> 'k \<Rightarrow> 'v option" where
  "lookupKey key vs k = find (\<lambda>v. key v = k) vs"

definition sortedByKey :: "('v \<Rightarrow> 'k::linorder) \<Rightarrow> 'v list \<Rightarrow> bool" where
  "sortedByKey key vs = sorted_wrt (<) (map key vs)"

text \<open>The map holds each value under its own key.\<close>

definition keyedBy :: "('v \<Rightarrow> 'k) \<Rightarrow> ('k, 'v) gomap \<Rightarrow> bool" where
  "keyedBy key m \<longleftrightarrow> (\<forall>k v. mapGet m k = Some v \<longrightarrow> key v = k)"

lemma keyedBy_Nil [simp]: "keyedBy key []"
  by (simp add: keyedBy_def)

lemma keyedBy_mapSet: "keyedBy key m \<Longrightarrow> key v = k \<Longrightarrow> keyedBy key (mapSet m k v)"
  by (simp add: keyedBy_def)

lemma lookupKey_Nil [simp]: "lookupKey key [] k = None"
  by (simp add: lookupKey_def)

lemma lookupKey_Cons [simp]:
  "lookupKey key (v # vs) k = (if key v = k then Some v else lookupKey key vs k)"
  by (simp add: lookupKey_def)

lemma lookupKey_Some: "lookupKey key vs k = Some v \<Longrightarrow> v \<in> set vs \<and> key v = k"
  by (induction vs) (auto split: if_splits)

lemma lookupKey_None: "lookupKey key vs k = None \<longleftrightarrow> k \<notin> key ` set vs"
  by (induction vs) auto

lemma sortedByKey_distinct: "sortedByKey key vs \<Longrightarrow> distinct (map key vs)"
  by (simp add: sortedByKey_def strict_sorted_iff)

lemma lookupKey_mem: "distinct (map key vs) \<Longrightarrow> v \<in> set vs \<Longrightarrow> lookupKey key vs (key v) = Some v"
  by (induction vs) force+

lemma sortedByKey_unique:
  assumes "sortedByKey key xs" "sortedByKey key ys" "set xs = set ys"
  shows "xs = ys"
proof -
  have "map key xs = map key ys"
    using assms by (intro sorted_distinct_set_unique) (simp_all add: sortedByKey_def strict_sorted_iff)
  moreover have "inj_on key (set xs \<union> set ys)"
    using assms(3) sortedByKey_distinct [OF assms(1)] by (simp add: distinct_map)
  ultimately show ?thesis by (rule map_inj_on)
qed

lemma sortedByKey_ext:
  assumes "sortedByKey key xs" "sortedByKey key ys"
    and "\<And>k. lookupKey key xs k = lookupKey key ys k"
  shows "xs = ys"
proof -
  have keys: "key ` set xs = key ` set ys"
    using assms(3) by (metis lookupKey_None set_eqI)
  have "map key xs = map key ys"
    using assms(1,2) keys
    by (intro sorted_distinct_set_unique)
      (simp_all add: sortedByKey_def strict_sorted_iff)
  moreover have "x = y" if "x \<in> set xs" "y \<in> set ys" "key x = key y" for x y
    using that assms by (metis lookupKey_mem option.inject sortedByKey_distinct)
  ultimately show ?thesis
    by (metis (no_types, lifting) nth_equalityI length_map nth_map nth_mem)
qed

lemma map_key_sortMap:
  assumes "keyedBy key m"
  shows "map key (sortMap m) = setsList (mapKeys m)"
proof -
  have "key (the (mapGet m k)) = k" if "k \<in> set (mapKeys m)" for k
    using that assms by (force simp: keyedBy_def gomap.mem_keys_iff)
  then have "map (\<lambda>k. key (the (mapGet m k))) (setsList (mapKeys m)) = setsList (mapKeys m)"
    by (intro map_idI) simp
  then show ?thesis by (simp add: sortMap_def comp_def)
qed

lemma sortedByKey_sortMap: "keyedBy key m \<Longrightarrow> sortedByKey key (sortMap m)"
  by (simp add: sortedByKey_def map_key_sortMap)

lemma lookupKey_sortMap:
  assumes "keyedBy key m"
  shows "lookupKey key (sortMap m) k = mapGet m k"
proof (cases "mapGet m k")
  case None
  then have "k \<notin> key ` set (sortMap m)"
    using assms by (auto simp: set_sortMap keyedBy_def)
  then show ?thesis using None by (simp add: lookupKey_None)
next
  case (Some v)
  then have "v \<in> set (sortMap m)" "key v = k"
    using assms by (auto simp: set_sortMap keyedBy_def)
  then show ?thesis
    using Some lookupKey_mem sortedByKey_distinct sortedByKey_sortMap [OF assms] by metis
qed

section \<open>sort.Slice\<close>

text \<open>
  \<^verbatim>\<open>sort.Slice(xs, less)\<close> leaves a permutation of \<open>xs\<close> in which no element is smaller than an earlier one.
  Where \<open>less\<close> compares a key that tells the elements apart there is only one such list.
\<close>

fun insertBy :: "('a \<Rightarrow> 'a \<Rightarrow> bool) \<Rightarrow> 'a \<Rightarrow> 'a list \<Rightarrow> 'a list" where
  "insertBy lt x [] = [x]"
| "insertBy lt x (y # ys) = (if lt y x then y # insertBy lt x ys else x # y # ys)"

fun sortSlice :: "('a \<Rightarrow> 'a \<Rightarrow> bool) \<Rightarrow> 'a list \<Rightarrow> 'a list" where
  "sortSlice lt [] = []"
| "sortSlice lt (x # xs) = insertBy lt x (sortSlice lt xs)"

lemma insertBy_key:
  assumes "\<And>a b. lt a b \<longleftrightarrow> key a < (key b :: 'k::linorder)"
  shows "insertBy lt x xs = insort_key key x xs"
  by (induction xs) (auto simp: assms)

lemma sortSlice_key:
  assumes "\<And>a b. lt a b \<longleftrightarrow> key a < (key b :: 'k::linorder)"
  shows "sortSlice lt xs = sort_key key xs"
  by (induction xs) (simp_all add: insertBy_key [OF assms] sort_key_def)

lemma mset_sortSlice [simp]: "mset (sortSlice lt xs) = mset xs"
proof -
  have "mset (insertBy lt x ys) = add_mset x (mset ys)" for x and ys :: "'a list"
    by (induction ys) auto
  then show ?thesis by (induction xs) simp_all
qed

lemma set_sortSlice [simp]: "set (sortSlice lt xs) = set xs"
  by (metis mset_sortSlice set_mset_mset)

lemma distinct_sortSlice [simp]: "distinct (sortSlice lt xs) = distinct xs"
  by (metis mset_eq_imp_distinct_iff mset_sortSlice)

lemma sortSlice_unique:
  assumes lt_key: "\<And>a b. lt a b \<longleftrightarrow> key a < (key b :: 'k::linorder)"
    and "mset ys = mset xs" "sorted (map key ys)" "inj_on key (set xs)"
  shows "ys = sortSlice lt xs"
proof -
  have "sort_key key xs = ys"
    using assms(2-4) by (intro sort_key_inj_key_eq) simp_all
  then show ?thesis by (simp add: sortSlice_key [OF lt_key])
qed

end
