(* ===== verification/Go_Strings.thy ===== *)
theory Go_Strings
  imports Prelude
begin

text \<open>
  What the program uses of Go's \<^verbatim>\<open>strconv\<close>, \<^verbatim>\<open>strings\<close> and \<^verbatim>\<open>fmt\<close>: decimal printing (\<open>%d\<close>,
  \<open>FormatUint\<close>, \<open>Itoa\<close>), decimal parsing (\<open>ParseUint\<close>, \<open>Atoi\<close>), \<open>Split\<close> on a separator byte,
  trimming, replacing and searching.
\<close>

section \<open>Decimal numbers\<close>

definition byteVal :: "char \<Rightarrow> nat" where
  "byteVal c = of_char c"

definition digitChar :: "nat \<Rightarrow> char" where
  "digitChar d = char_of (48 + d)"

definition isDigit :: "char \<Rightarrow> bool" where
  "isDigit c \<longleftrightarrow> 48 \<le> byteVal c \<and> byteVal c \<le> 57"

definition digitVal :: "char \<Rightarrow> nat" where
  "digitVal c = byteVal c - 48"

fun itoa :: "nat \<Rightarrow> string" where
  "itoa n = (if n < 10 then [digitChar n] else itoa (n div 10) @ [digitChar (n mod 10)])"

declare itoa.simps [simp del]

definition itoaInt :: "int \<Rightarrow> string" where
  "itoaInt i = (if i < 0 then CHR ''-'' # itoa (nat (- i)) else itoa (nat i))"

definition decVal :: "string \<Rightarrow> nat" where
  "decVal s = foldl (\<lambda>n c. n * 10 + digitVal c) 0 s"

text \<open>
  \<^verbatim>\<open>strconv.ParseUint(s, 10, bits)\<close>: one or more decimal digits, no sign, no separators; a value
  of \<open>2 ^ bits\<close> or more is a range error. Both failures are an error of the caller.
\<close>

definition ParseUint10 :: "nat \<Rightarrow> string \<Rightarrow> nat option" where
  "ParseUint10 bits s =
     (if s \<noteq> [] \<and> list_all isDigit s \<and> decVal s < 2 ^ bits then Some (decVal s) else None)"

lemma byteVal_digitChar [simp]: "d < 10 \<Longrightarrow> byteVal (digitChar d) = 48 + d"
  by (simp add: byteVal_def digitChar_def)

lemma isDigit_digitChar [simp]: "d < 10 \<Longrightarrow> isDigit (digitChar d)"
  by (simp add: isDigit_def)

lemma digitVal_digitChar [simp]: "d < 10 \<Longrightarrow> digitVal (digitChar d) = d"
  by (simp add: digitVal_def)

lemma digitChar_inj: "d < 10 \<Longrightarrow> e < 10 \<Longrightarrow> digitChar d = digitChar e \<longleftrightarrow> d = e"
  by (metis digitVal_digitChar)

lemma itoa_nonempty [simp]: "itoa n \<noteq> []"
  by (subst itoa.simps) simp

lemma itoa_digits: "c \<in> set (itoa n) \<Longrightarrow> isDigit c"
proof (induction n rule: itoa.induct)
  case (1 n)
  show ?case
  proof (cases "n < 10")
    case True
    then show ?thesis using "1.prems" by (simp add: itoa.simps [of n])
  next
    case False
    then show ?thesis using 1 by (auto simp: itoa.simps [of n])
  qed
qed

lemma list_all_itoa [simp]: "list_all isDigit (itoa n)"
  by (auto simp: list_all_iff intro: itoa_digits)

lemma decVal_append: "decVal (s @ [c]) = decVal s * 10 + digitVal c"
  by (simp add: decVal_def)

lemma decVal_itoa [simp]: "decVal (itoa n) = n"
proof (induction n rule: itoa.induct)
  case (1 n)
  show ?case
  proof (cases "n < 10")
    case True
    then show ?thesis by (simp add: itoa.simps [of n] decVal_def)
  next
    case False
    then have "decVal (itoa n) = (n div 10) * 10 + n mod 10"
      using 1 by (simp add: itoa.simps [of n] decVal_append)
    then show ?thesis by simp
  qed
qed

lemma itoa_inject [simp]: "itoa m = itoa n \<longleftrightarrow> m = n"
  by (metis decVal_itoa)

lemma ParseUint10_itoa: "n < 2 ^ bits \<Longrightarrow> ParseUint10 bits (itoa n) = Some n"
  by (simp add: ParseUint10_def)

lemma ParseUint10_bound: "ParseUint10 bits s = Some n \<Longrightarrow> n < 2 ^ bits"
  by (auto simp: ParseUint10_def split: if_splits)

lemma not_in_itoa: "\<not> isDigit c \<Longrightarrow> c \<notin> set (itoa n)"
  using itoa_digits by blast

lemma isDigit_seps [simp]:
  "\<not> isDigit CHR '':''" "\<not> isDigit CHR ''-''" "\<not> isDigit CHR ''.''" "\<not> isDigit CHR ''/''"
  "\<not> isDigit CHR '' ''" "\<not> isDigit CHR ''i''"
  by (simp_all add: isDigit_def byteVal_def)

lemma sep_notin_itoa [simp]:
  "CHR '':'' \<notin> set (itoa n)" "CHR ''-'' \<notin> set (itoa n)" "CHR ''.'' \<notin> set (itoa n)"
  "CHR ''/'' \<notin> set (itoa n)" "CHR '' '' \<notin> set (itoa n)"
  by (simp_all add: not_in_itoa)

text \<open>A number followed by a separator that is no digit can be read back.\<close>

lemma digits_prefix_inject:
  assumes "list_all isDigit a" "list_all isDigit b" "\<not> isDigit c" "a @ c # x = b @ c # y"
  shows "a = b \<and> x = y"
  using assms
proof (induction a arbitrary: b)
  case Nil
  then show ?case by (cases b) auto
next
  case (Cons d a)
  then show ?case by (cases b) auto
qed

lemma itoa_sep_inject [simp]:
  "itoa m @ CHR ''-'' # x = itoa n @ CHR ''-'' # y \<longleftrightarrow> m = n \<and> x = y"
  "itoa m @ CHR '':'' # x = itoa n @ CHR '':'' # y \<longleftrightarrow> m = n \<and> x = y"
  using digits_prefix_inject [of "itoa m" "itoa n" "CHR ''-''" x y]
    digits_prefix_inject [of "itoa m" "itoa n" "CHR '':''" x y]
  by auto

section \<open>Strings\<close>

text \<open>\<^verbatim>\<open>strings.Split(s, sep)\<close> for a separator of one byte: always at least one field.\<close>

fun splitOn :: "char \<Rightarrow> string \<Rightarrow> string list" where
  "splitOn c [] = [[]]"
| "splitOn c (x # xs) =
     (if x = c then [] # splitOn c xs
      else case splitOn c xs of f # fs \<Rightarrow> (x # f) # fs | [] \<Rightarrow> [[x]])"

lemma splitOn_nonempty [simp]: "splitOn c s \<noteq> []"
  by (induction s) (auto split: list.splits)

lemma splitOn_no_sep: "c \<notin> set s \<Longrightarrow> splitOn c s = [s]"
  by (induction s) auto

lemma splitOn_append_sep: "c \<notin> set s \<Longrightarrow> splitOn c (s @ c # t) = s # splitOn c t"
  by (induction s) auto

lemma splitOn_field_no_sep: "f \<in> set (splitOn c s) \<Longrightarrow> c \<notin> set f"
proof (induction s arbitrary: f)
  case (Cons x xs)
  obtain g gs where g: "splitOn c xs = g # gs"
    by (cases "splitOn c xs") simp_all
  with Cons show ?case by (auto split: if_splits)
qed simp

fun joinWith :: "string \<Rightarrow> string list \<Rightarrow> string" where
  "joinWith sep [] = []"
| "joinWith sep [s] = s"
| "joinWith sep (s # t # ts) = s @ sep @ joinWith sep (t # ts)"

lemma splitOn_joinWith:
  "fs \<noteq> [] \<Longrightarrow> \<forall>f\<in>set fs. c \<notin> set f \<Longrightarrow> splitOn c (joinWith [c] fs) = fs"
  by (induction "[c]" fs rule: joinWith.induct) (simp_all add: splitOn_no_sep splitOn_append_sep)

lemma joinWith_splitOn: "joinWith [c] (splitOn c s) = s"
proof (induction s)
  case (Cons x xs)
  obtain g gs where g: "splitOn c xs = g # gs"
    by (cases "splitOn c xs") simp_all
  with Cons show ?case by (cases gs) auto
qed simp

text \<open>\<^verbatim>\<open>strings.HasPrefix\<close>, \<^verbatim>\<open>strings.Contains\<close>, \<^verbatim>\<open>strings.TrimSuffix\<close>, \<^verbatim>\<open>strings.Trim\<close> of one byte.\<close>

fun hasPrefix :: "string \<Rightarrow> string \<Rightarrow> bool" where
  "hasPrefix s [] = True"
| "hasPrefix [] (p # ps) = False"
| "hasPrefix (c # s) (p # ps) = (c = p \<and> hasPrefix s ps)"

fun containsStr :: "string \<Rightarrow> string \<Rightarrow> bool" where
  "containsStr [] p = hasPrefix [] p"
| "containsStr (c # s) p = (hasPrefix (c # s) p \<or> containsStr s p)"

definition trimSuffix :: "string \<Rightarrow> string \<Rightarrow> string" where
  "trimSuffix s suf = (if hasPrefix (rev s) (rev suf) then take (length s - length suf) s else s)"

definition trimChar :: "char \<Rightarrow> string \<Rightarrow> string" where
  "trimChar c s = rev (dropWhile (\<lambda>x. x = c) (rev (dropWhile (\<lambda>x. x = c) s)))"

definition replaceChar :: "char \<Rightarrow> char \<Rightarrow> string \<Rightarrow> string" where
  "replaceChar a b s = map (\<lambda>x. if x = a then b else x) s"

lemma hasPrefix_iff: "hasPrefix s p \<longleftrightarrow> (\<exists>t. s = p @ t)"
  by (induction s p rule: hasPrefix.induct) auto

lemma containsStr_iff: "containsStr s p \<longleftrightarrow> (\<exists>a b. s = a @ p @ b)"
proof (induction s)
  case (Cons c s)
  have "(\<exists>a b. c # s = a @ p @ b) \<longleftrightarrow> (\<exists>b. c # s = p @ b) \<or> (\<exists>a b. s = a @ p @ b)"
    by (metis append_Cons append_Nil list.exhaust list.inject)
  with Cons show ?case by (simp add: hasPrefix_iff)
qed (auto simp: hasPrefix_iff)

end
