(* ===== verification/Errors.thy ===== *)
theory Errors
  imports Prelude
begin

text \<open>
  Errors of the pipeline: \<open>Errorf f args\<close> is the error \<^verbatim>\<open>fmt.Errorf(f, args...)\<close> builds, with the format
  of the source and the values it prints; an error that wraps another (\<open>%w\<close>) has it among its
  arguments. \<open>TransientError\<close> is the type of \<^verbatim>\<open>internal/controller/validate.go\<close>.
\<close>

datatype error =
    Errorf string "fmtarg list"
  | TransientError string "fmtarg list"
and fmtarg = AStr string | AStrs "string list" | ANat nat | AInt int | ABool bool | AErr error

abbreviation AU32 :: "uint32 \<Rightarrow> fmtarg" where
  "AU32 w \<equiv> ANat (unat w)"

text \<open>A transient error anywhere in the chain of wrapped errors.\<close>

fun isTransient :: "error \<Rightarrow> bool" and isTransientArg :: "fmtarg \<Rightarrow> bool" where
  "isTransient (TransientError f as) = True"
| "isTransient (Errorf f as) = (\<exists>a\<in>set as. isTransientArg a)"
| "isTransientArg (AErr e) = isTransient e"
| "isTransientArg (AStr _) = False"
| "isTransientArg (AStrs _) = False"
| "isTransientArg (ANat _) = False"
| "isTransientArg (AInt _) = False"
| "isTransientArg (ABool _) = False"

text \<open>\<^verbatim>\<open>errors.Join\<close> wraps its arguments and prints them on lines of their own.\<close>

definition errorsJoin :: "error \<Rightarrow> error \<Rightarrow> error" where
  "errorsJoin a b = Errorf (''%w'' @ [CHR 0x0A] @ ''%w'') [AErr a, AErr b]"

end
