(* ===== verification/Community.thy ===== *)
theory Community
  imports Go_Strings Errors
begin

text \<open>
  \<^verbatim>\<open>internal/community/community.go\<close>: legacy (two 16-bit values) and large (three 32-bit values) BGP
  communities, their parser \<open>New\<close>, their printer and the order \<open>lessThan\<close>.
\<close>

definition ErrInvalidCommunityValue :: error where
  "ErrInvalidCommunityValue = Errorf ''invalid community value'' []"

definition ErrInvalidCommunityFormat :: error where
  "ErrInvalidCommunityFormat = Errorf ''invalid community format'' []"

datatype BGPCommunity =
    BGPCommunityLegacy (upperVal: uint16) (lowerVal: uint16)
  | BGPCommunityLarge (globalAdministrator: uint32) (localDataPart1: uint32) (localDataPart2: uint32)

definition largeBGPCommunityMarker :: string where
  "largeBGPCommunityMarker = ''large''"

definition parseField :: "string \<Rightarrow> nat \<Rightarrow> string \<Rightarrow> (error, nat) result" where
  "parseField c bits f =
     (case ParseUint10 bits f of
        None \<Rightarrow> Inl (Errorf ''%w: invalid section %q of community %q, err: %q''
                        [AErr ErrInvalidCommunityValue, AStr f, AStr c])
      | Some n \<Rightarrow> Inr n)"

definition New :: "string \<Rightarrow> (error, BGPCommunity) result" where
  "New c =
     (case splitOn CHR '':'' c of
        [f0, f1] \<Rightarrow>
          bindE (parseField c 16 f0) (\<lambda>b0.
          bindE (parseField c 16 f1) (\<lambda>b1.
          Inr (BGPCommunityLegacy (of_nat b0) (of_nat b1))))
      | [f0, f1, f2, f3] \<Rightarrow>
          if f0 \<noteq> largeBGPCommunityMarker then
            Inl (Errorf ''%w: invalid marker for large community, expected community to be of format %s:<uint32>:<uint32>:<uint32> but got %q instead''
                   [AErr ErrInvalidCommunityValue, AStr largeBGPCommunityMarker, AStr c])
          else
            bindE (parseField c 32 f1) (\<lambda>b1.
            bindE (parseField c 32 f2) (\<lambda>b2.
            bindE (parseField c 32 f3) (\<lambda>b3.
            Inr (BGPCommunityLarge (of_nat b1) (of_nat b2) (of_nat b3)))))
      | _ \<Rightarrow> Inl (Errorf ''%w: %s'' [AErr ErrInvalidCommunityFormat, AStr c]))"

fun commString :: "BGPCommunity \<Rightarrow> string" where
  "commString (BGPCommunityLegacy u l) = itoa (unat u) @ '':'' @ itoa (unat l)"
| "commString (BGPCommunityLarge g a b) =
     itoa (unat g) @ '':'' @ itoa (unat a) @ '':'' @ itoa (unat b)"

fun ToUint32 :: "BGPCommunity \<Rightarrow> uint32" where
  "ToUint32 (BGPCommunityLegacy u l) = push_bit 16 (ucast u) + ucast l"
| "ToUint32 (BGPCommunityLarge g a b) = g"

definition IsLegacy :: "BGPCommunity \<Rightarrow> bool" where
  "IsLegacy c = (case c of BGPCommunityLegacy _ _ \<Rightarrow> True | BGPCommunityLarge _ _ _ \<Rightarrow> False)"

definition IsLarge :: "BGPCommunity \<Rightarrow> bool" where
  "IsLarge c = (case c of BGPCommunityLegacy _ _ \<Rightarrow> False | BGPCommunityLarge _ _ _ \<Rightarrow> True)"

text \<open>The large community a community is compared as: legacy ones as \<open><value>:0:0\<close>.\<close>

fun asLarge :: "BGPCommunity \<Rightarrow> uint32 \<times> uint32 \<times> uint32" where
  "asLarge (BGPCommunityLegacy u l) = (ToUint32 (BGPCommunityLegacy u l), 0, 0)"
| "asLarge (BGPCommunityLarge g a b) = (g, a, b)"

definition lessThan :: "BGPCommunity \<Rightarrow> BGPCommunity \<Rightarrow> bool" where
  "lessThan b c =
     (case (asLarge b, asLarge c) of
        ((bg, b1, b2), (cg, c1, c2)) \<Rightarrow>
          bg < cg \<or> (bg = cg \<and> (b1 < c1 \<or> (b1 = c1 \<and> b2 < c2))))"

section \<open>Printing and parsing\<close>

text \<open>What \<open>New\<close> accepts for a community: the printed form, behind the marker for a large one.\<close>

definition configString :: "BGPCommunity \<Rightarrow> string" where
  "configString c = (if IsLarge c then largeBGPCommunityMarker @ '':'' @ commString c else commString c)"

lemma splitOn_itoa: "splitOn CHR '':'' (itoa n) = [itoa n]"
  by (simp add: splitOn_no_sep)

lemma splitOn_itoa_sep: "splitOn CHR '':'' (itoa n @ CHR '':'' # t) = itoa n # splitOn CHR '':'' t"
  by (simp add: splitOn_append_sep)

lemma splitOn_marker:
  "splitOn CHR '':'' (largeBGPCommunityMarker @ CHR '':'' # t) = ''large'' # splitOn CHR '':'' t"
  by (simp add: largeBGPCommunityMarker_def)

lemma parseField_itoa16: "parseField c 16 (itoa (unat (u :: uint16))) = Inr (unat u)"
  using unsigned_less [of u, where ?'a = nat] by (simp add: parseField_def ParseUint10_itoa)

lemma parseField_itoa32: "parseField c 32 (itoa (unat (u :: uint32))) = Inr (unat u)"
  using unsigned_less [of u, where ?'a = nat] by (simp add: parseField_def ParseUint10_itoa)


lemma colon_itoa_inject: "itoa m @ CHR '':'' # x \<noteq> itoa n"
  by (metis in_set_conv_decomp sep_notin_itoa(1))

lemma commString_inject [simp]: "commString c = commString d \<longleftrightarrow> c = d"
proof
  assume "commString c = commString d"
  then show "c = d"
    by (cases c; cases d)
      (auto simp: colon_itoa_inject colon_itoa_inject [symmetric] unsigned_word_eqI)
qed simp

text \<open>
  \<open>New\<close> only returns a legacy community for two fields below \<open>2 ^ 16\<close> and a large one for the marker
  and three fields below \<open>2 ^ 32\<close>; nothing is truncated on the way.
\<close>

lemma parseField_Inr: "parseField c bits f = Inr n \<longleftrightarrow> ParseUint10 bits f = Some n"
  by (simp add: parseField_def split: option.splits)

lemma ParseUint10_unat16: "ParseUint10 16 f = Some n \<Longrightarrow> unat (of_nat n :: uint16) = n"
  using ParseUint10_bound [of 16 f n] by (simp add: unsigned_of_nat take_bit_nat_eq_self)

lemma ParseUint10_unat32: "ParseUint10 32 f = Some n \<Longrightarrow> unat (of_nat n :: uint32) = n"
  using ParseUint10_bound [of 32 f n] by (simp add: unsigned_of_nat take_bit_nat_eq_self)

lemma New_legacy_values:
  assumes "New s = Inr (BGPCommunityLegacy u l)"
  obtains f0 f1 where "splitOn CHR '':'' s = [f0, f1]"
    "ParseUint10 16 f0 = Some (unat u)" "ParseUint10 16 f1 = Some (unat l)"
  using assms that
  by (auto simp: New_def parseField_Inr ParseUint10_unat16 result_simps
      split: list.splits if_splits)

lemma New_large_values:
  assumes "New s = Inr (BGPCommunityLarge g a b)"
  obtains f1 f2 f3 where "splitOn CHR '':'' s = [''large'', f1, f2, f3]"
    "ParseUint10 32 f1 = Some (unat g)" "ParseUint10 32 f2 = Some (unat a)"
    "ParseUint10 32 f3 = Some (unat b)"
  using assms that
  by (auto simp: New_def parseField_Inr ParseUint10_unat32 largeBGPCommunityMarker_def result_simps
      split: list.splits if_splits)

section \<open>The order\<close>

lemma unat_ToUint32_legacy: "unat (ToUint32 (BGPCommunityLegacy u l)) = unat u * 65536 + unat l"
proof -
  have u: "unat u < 65536" and l: "unat l < 65536"
    using unsigned_less [of u, where ?'a = nat] unsigned_less [of l, where ?'a = nat] by simp_all
  have "unat (push_bit 16 (ucast u :: uint32)) = unat u * 65536"
    using u by (simp add: push_bit_eq_mult unat_word_ariths unsigned_ucast_eq take_bit_nat_eq_self)
  then show ?thesis
    using u l by (simp add: unat_word_ariths unsigned_ucast_eq take_bit_nat_eq_self)
qed

lemma lessThan_irrefl: "\<not> lessThan c c"
  by (cases "asLarge c") (simp add: lessThan_def)

lemma lessThan_trans: "lessThan a b \<Longrightarrow> lessThan b c \<Longrightarrow> lessThan a c"
  by (cases "asLarge a"; cases "asLarge b"; cases "asLarge c") (auto simp: lessThan_def)

lemma lessThan_total: "asLarge a \<noteq> asLarge b \<Longrightarrow> lessThan a b \<or> lessThan b a"
  by (cases "asLarge a"; cases "asLarge b") (auto simp: lessThan_def)

lemma asLarge_legacy_inject:
  "asLarge (BGPCommunityLegacy u l) = asLarge (BGPCommunityLegacy v k) \<longleftrightarrow> u = v \<and> l = k"
proof
  assume "asLarge (BGPCommunityLegacy u l) = asLarge (BGPCommunityLegacy v k)"
  then have eq: "unat u * 65536 + unat l = unat v * 65536 + unat k"
    by (metis asLarge.simps(1) prod.inject unat_ToUint32_legacy)
  have "unat l < 65536" "unat k < 65536"
    using unsigned_less [of l, where ?'a = nat] unsigned_less [of k, where ?'a = nat] by simp_all
  with arg_cong [OF eq, of "\<lambda>n. n div 65536"] have "unat u = unat v"
    by simp
  with eq have "unat u = unat v \<and> unat l = unat k"
    by simp
  then show "u = v \<and> l = k" by (auto intro: unsigned_word_eqI)
qed simp

text \<open>
  \<open>lessThan\<close> orders communities as large communities: it is irreflexive and transitive, any two
  communities compare unless they are the same large community, and legacy communities compare as
  the 32-bit number of their two halves.
\<close>

theorem lessThan_strict_order:
  "\<not> lessThan a a
   \<and> (lessThan a b \<and> lessThan b c \<longrightarrow> lessThan a c)
   \<and> (lessThan a b \<or> lessThan b a \<or> asLarge a = asLarge b)
   \<and> (lessThan (BGPCommunityLegacy u l) (BGPCommunityLegacy v k) \<longleftrightarrow>
        unat u * 65536 + unat l < unat v * 65536 + unat k)"
proof (intro conjI)
  have "lessThan (BGPCommunityLegacy u l) (BGPCommunityLegacy v k) \<longleftrightarrow>
      unat (ToUint32 (BGPCommunityLegacy u l)) < unat (ToUint32 (BGPCommunityLegacy v k))"
    by (simp add: lessThan_def word_less_nat_alt)
  then show "lessThan (BGPCommunityLegacy u l) (BGPCommunityLegacy v k) \<longleftrightarrow>
      unat u * 65536 + unat l < unat v * 65536 + unat k"
    by (simp only: unat_ToUint32_legacy)
qed (use lessThan_irrefl lessThan_trans lessThan_total in blast)+

theorem lessThan_strict_order_witness:
  "lessThan (BGPCommunityLegacy 1 2) (BGPCommunityLegacy 1 3)
   \<and> lessThan (BGPCommunityLegacy 1 3) (BGPCommunityLarge 65540 0 0)
   \<and> lessThan (BGPCommunityLegacy 1 2) (BGPCommunityLarge 65540 0 0)"
  using lessThan_strict_order [of "BGPCommunityLegacy 1 2" "BGPCommunityLegacy 1 3"
      "BGPCommunityLarge 65540 0 0" 1 2 1 3]
  by (simp add: lessThan_def push_bit_eq_mult)

end
