(* ===== verification/Go_Net.thy ===== *)
theory Go_Net
  imports Go_Strings
begin

text \<open>
  What the program uses of Go's \<^verbatim>\<open>net\<close> and \<^verbatim>\<open>net/netip\<close>: parsing of addresses and CIDRs, the
  test for an IPv4 (or IPv4-mapped) address \<open>To4\<close>, masks, and printing. The parsers are the
  library's single-pass loops: the state is what the loop keeps, the result \<open>None\<close> stands for
  any of its parse errors.
\<close>

unbundle bit_operations_syntax

type_synonym IP = "uint8 list"

datatype netipAddr = Addr4 "uint8 list" | Addr6 "uint8 list" string

section \<open>Parsing\<close>

text \<open>\<^verbatim>\<open>netip.parseIPv4Fields\<close>: value and number of digits of the current octet, octets so far.\<close>

fun parseIPv4Loop :: "nat \<Rightarrow> nat \<Rightarrow> uint8 list \<Rightarrow> string \<Rightarrow> uint8 list option" where
  "parseIPv4Loop val digLen fields [] =
     (if length fields < 3 then None else Some (fields @ [of_nat val]))"
| "parseIPv4Loop val digLen fields (c # s) =
     (if isDigit c then
        (if digLen = 1 \<and> val = 0 then None
         else if val * 10 + digitVal c > 255 then None
         else parseIPv4Loop (val * 10 + digitVal c) (digLen + 1) fields s)
      else if c = CHR ''.'' then
        (if digLen = 0 \<or> s = [] then None
         else if length fields = 3 then None
         else parseIPv4Loop 0 0 (fields @ [of_nat val]) s)
      else None)"

definition parseIPv4Fields :: "string \<Rightarrow> uint8 list option" where
  "parseIPv4Fields s = parseIPv4Loop 0 0 [] s"

definition hexVal :: "char \<Rightarrow> nat option" where
  "hexVal c =
     (let n = byteVal c in
      if 48 \<le> n \<and> n \<le> 57 then Some (n - 48)
      else if 97 \<le> n \<and> n \<le> 102 then Some (n - 87)
      else if 65 \<le> n \<and> n \<le> 70 then Some (n - 55)
      else None)"

text \<open>One hexadecimal group: the value, the number of digits and the rest; more than four digits fail.\<close>

fun hexRun :: "nat \<Rightarrow> nat \<Rightarrow> string \<Rightarrow> (nat \<times> nat \<times> string) option" where
  "hexRun off acc [] = Some (acc, off, [])"
| "hexRun off acc (c # s) =
     (case hexVal c of
        None \<Rightarrow> Some (acc, off, c # s)
      | Some d \<Rightarrow>
          if off > 3 then None
          else if acc * 16 + d > 65535 then None
          else hexRun (off + 1) (acc * 16 + d) s)"

text \<open>
  The loop of \<^verbatim>\<open>netip.parseIPv6\<close>. The first argument counts the 16-bit groups still to fill
  (the loop runs while \<open>i < 16\<close>), \<open>ip\<close> holds the bytes filled so far (\<open>i = length ip\<close>), \<open>ell\<close> is
  the position of the ellipsis.
\<close>

fun parseIPv6Loop :: "nat \<Rightarrow> uint8 list \<Rightarrow> nat option \<Rightarrow> string \<Rightarrow> (uint8 list \<times> nat option \<times> string) option" where
  "parseIPv6Loop 0 ip ell s = Some (ip, ell, s)"
| "parseIPv6Loop (Suc n) ip ell s =
     (case hexRun 0 0 s of
        None \<Rightarrow> None
      | Some (acc, off, rest) \<Rightarrow>
          if off = 0 then None
          else if rest \<noteq> [] \<and> hd rest = CHR ''.'' then
            (if ell = None \<and> length ip \<noteq> 12 then None
             else if length ip + 4 > 16 then None
             else case parseIPv4Fields s of
                 None \<Rightarrow> None
               | Some f \<Rightarrow> Some (ip @ f, ell, []))
          else
            (let ip' = ip @ [of_nat (acc div 256), of_nat (acc mod 256)] in
             case rest of
               [] \<Rightarrow> Some (ip', ell, [])
             | c # r \<Rightarrow>
                 if c \<noteq> CHR '':'' then None
                 else if r = [] then None
                 else if hd r = CHR '':'' then
                   (if ell \<noteq> None then None
                    else if tl r = [] then Some (ip', Some (length ip'), [])
                    else parseIPv6Loop n ip' (Some (length ip')) (tl r))
                 else parseIPv6Loop n ip' ell r))"

definition parseIPv6 :: "string \<Rightarrow> netipAddr option" where
  "parseIPv6 inp =
     (let s = takeWhile (\<lambda>c. c \<noteq> CHR ''%'') inp;
          hasZone = CHR ''%'' \<in> set inp;
          zone = drop (length s + 1) inp
      in if hasZone \<and> zone = [] then None
         else if s = ''::'' then Some (Addr6 (replicate 16 0) zone)
         else
           (let lead = hasPrefix s ''::'' in
            case parseIPv6Loop 8 [] (if lead then Some 0 else None) (if lead then drop 2 s else s) of
              None \<Rightarrow> None
            | Some (ip, ell, rest) \<Rightarrow>
                if rest \<noteq> [] then None
                else if length ip < 16 then
                  (case ell of
                     None \<Rightarrow> None
                   | Some e \<Rightarrow> Some (Addr6 (take e ip @ replicate (16 - length ip) 0 @ drop e ip) zone))
                else if ell \<noteq> None then None
                else Some (Addr6 ip zone)))"

text \<open>\<^verbatim>\<open>netip.ParseAddr\<close>: the first of \<open>.\<close>, \<open>:\<close> and \<open>%\<close> decides.\<close>

definition ParseAddr :: "string \<Rightarrow> netipAddr option" where
  "ParseAddr s =
     (case find (\<lambda>c. c = CHR ''.'' \<or> c = CHR '':'' \<or> c = CHR ''%'') s of
        None \<Rightarrow> None
      | Some c \<Rightarrow>
          if c = CHR ''.'' then map_option Addr4 (parseIPv4Fields s)
          else if c = CHR '':'' then parseIPv6 s
          else None)"

definition v4InV6Prefix :: "uint8 list" where
  "v4InV6Prefix = replicate 10 0 @ [255, 255]"

fun As16 :: "netipAddr \<Rightarrow> IP" where
  "As16 (Addr4 b) = v4InV6Prefix @ b"
| "As16 (Addr6 b z) = b"

fun addrZone :: "netipAddr \<Rightarrow> string" where
  "addrZone (Addr4 b) = []"
| "addrZone (Addr6 b z) = z"

fun BitLen :: "netipAddr \<Rightarrow> nat" where
  "BitLen (Addr4 b) = 32"
| "BitLen (Addr6 b z) = 128"

definition ParseIP :: "string \<Rightarrow> IP option" where
  "ParseIP s =
     (case ParseAddr s of
        None \<Rightarrow> None
      | Some a \<Rightarrow> if addrZone a \<noteq> [] then None else Some (As16 a))"

definition To4 :: "IP \<Rightarrow> IP option" where
  "To4 ip =
     (if length ip = 4 then Some ip
      else if length ip = 16 \<and> take 12 ip = v4InV6Prefix then Some (drop 12 ip)
      else None)"

section \<open>Masks and networks\<close>

record IPNet =
  net_IP :: IP
  net_Mask :: "uint8 list"

fun CIDRMaskBytes :: "nat \<Rightarrow> nat \<Rightarrow> uint8 list" where
  "CIDRMaskBytes n 0 = []"
| "CIDRMaskBytes n (Suc l) =
     (if n \<ge> 8 then 255 # CIDRMaskBytes (n - 8) l
      else (NOT (drop_bit n 255)) # CIDRMaskBytes 0 l)"

definition CIDRMask :: "nat \<Rightarrow> nat \<Rightarrow> uint8 list" where
  "CIDRMask ones bits = CIDRMaskBytes ones (bits div 8)"

text \<open>\<^verbatim>\<open>IP.Mask\<close>, for the two mask lengths \<open>ParseCIDR\<close> builds.\<close>

definition IPMask :: "IP \<Rightarrow> uint8 list \<Rightarrow> IP option" where
  "IPMask ip msk =
     (let ip' = (if length msk = 4 \<and> length ip = 16 \<and> take 12 ip = v4InV6Prefix
                 then drop 12 ip else ip)
      in if length ip' \<noteq> length msk then None
         else Some (map2 (\<lambda>a b. a AND b) ip' msk))"

text \<open>\<open>dtoi\<close> accepts a mask of decimal digits only; \<open>ParseCIDR\<close> bounds it by the address length.\<close>

definition ParseCIDR :: "string \<Rightarrow> (IP \<times> IPNet) option" where
  "ParseCIDR s =
     (let addr = takeWhile (\<lambda>c. c \<noteq> CHR ''/'') s;
          msk = drop (length addr + 1) s
      in if CHR ''/'' \<notin> set s then None
         else case ParseAddr addr of
             None \<Rightarrow> None
           | Some a \<Rightarrow>
               if addrZone a \<noteq> [] then None
               else if msk = [] \<or> \<not> list_all isDigit msk \<or> decVal msk > BitLen a then None
               else
                 (let m = CIDRMask (decVal msk) (BitLen a)
                  in case IPMask (As16 a) m of
                       None \<Rightarrow> None
                     | Some net \<Rightarrow> Some (As16 a, \<lparr>net_IP = net, net_Mask = m\<rparr>)))"

text \<open>The leading one bits of a byte, provided the rest is zero (\<open>None\<close> for the library's \<open>-1\<close>).\<close>

fun byteOnes :: "nat \<Rightarrow> uint8 \<Rightarrow> nat option" where
  "byteOnes 0 v = (if v = 0 then Some 0 else None)"
| "byteOnes (Suc k) v =
     (if v AND 128 \<noteq> 0 then map_option Suc (byteOnes k (push_bit 1 v))
      else if v = 0 then Some 0 else None)"

fun simpleMaskLength :: "uint8 list \<Rightarrow> nat option" where
  "simpleMaskLength [] = Some 0"
| "simpleMaskLength (v # vs) =
     (if v = 255 then map_option (\<lambda>n. 8 + n) (simpleMaskLength vs)
      else if list_all (\<lambda>b. b = 0) vs then byteOnes 8 v else None)"

text \<open>\<^verbatim>\<open>ones, _ := mask.Size()\<close>: \<open>0\<close> for a mask that is not canonical.\<close>

definition maskSize :: "uint8 list \<Rightarrow> nat" where
  "maskSize m = (case simpleMaskLength m of None \<Rightarrow> 0 | Some n \<Rightarrow> n)"

section \<open>Printing\<close>

definition hexDigit :: "nat \<Rightarrow> char" where
  "hexDigit d = (if d < 10 then char_of (48 + d) else char_of (87 + d))"

fun hexStr :: "nat \<Rightarrow> string" where
  "hexStr n = (if n < 16 then [hexDigit n] else hexStr (n div 16) @ [hexDigit (n mod 16)])"

declare hexStr.simps [simp del]

definition string4 :: "uint8 list \<Rightarrow> string" where
  "string4 b = joinWith ''.'' (map (\<lambda>x. itoa (unat x)) b)"

fun groups16 :: "uint8 list \<Rightarrow> nat list" where
  "groups16 (a # b # r) = (unat a * 256 + unat b) # groups16 r"
| "groups16 _ = []"

text \<open>The first longest run of at least two zero groups: (start, end), or (8, 8) when there is none.\<close>

definition zeroRun :: "nat list \<Rightarrow> nat \<times> nat" where
  "zeroRun g =
     foldl (\<lambda>(zs, ze) i.
         let j = i + length (takeWhile (\<lambda>x. x = 0) (drop i g))
         in if j - i \<ge> 2 \<and> j - i > ze - zs then (i, j) else (zs, ze))
       (8, 8) [0..<8]"

definition string6 :: "uint8 list \<Rightarrow> string" where
  "string6 b =
     (let g = groups16 b; (zs, ze) = zeroRun g
      in if zs \<ge> 8 then joinWith '':'' (map hexStr g)
         else joinWith '':'' (map hexStr (take zs g)) @ ''::'' @ joinWith '':'' (map hexStr (drop ze g)))"

definition IPString :: "IP \<Rightarrow> string" where
  "IPString ip =
     (case To4 ip of
        Some b \<Rightarrow> string4 b
      | None \<Rightarrow> if length ip = 16 then string6 ip else ''<nil>'')"

definition hex4 :: "nat \<Rightarrow> string" where
  "hex4 n = map hexDigit [n div 4096 mod 16, n div 256 mod 16, n div 16 mod 16, n mod 16]"

text \<open>\<^verbatim>\<open>netip.Addr.StringExpanded\<close> of a parsed address.\<close>

fun StringExpanded :: "netipAddr \<Rightarrow> string" where
  "StringExpanded (Addr4 b) = string4 b"
| "StringExpanded (Addr6 b z) =
     joinWith '':'' (map hex4 (groups16 b)) @ (if z = [] then [] else CHR ''%'' # z)"

definition IPNetString :: "IPNet \<Rightarrow> string" where
  "IPNetString n =
     (let ip = (case To4 (net_IP n) of Some b \<Rightarrow> b | None \<Rightarrow> net_IP n);
          m = (if length (net_Mask n) = 16 \<and> length ip = 4 then drop 12 (net_Mask n) else net_Mask n)
      in if length ip \<noteq> length m \<or> (length m \<noteq> 4 \<and> length m \<noteq> 16) then ''<nil>''
         else IPString ip @ ''/'' @
           (case simpleMaskLength m of
              Some l \<Rightarrow> itoa l
            | None \<Rightarrow> concat (map (\<lambda>b. drop 2 (hex4 (unat b))) m)))"


section \<open>Lengths, masks and the IPv4 round trip\<close>

lemma parseIPv4Loop_length:
  "parseIPv4Loop v d fs s = Some b \<Longrightarrow> length fs \<le> 3 \<Longrightarrow> length b = 4"
proof (induction v d fs s rule: parseIPv4Loop.induct)
  case (2 v d fs c s)
  then show ?case by (auto split: if_splits)
qed (auto split: if_splits)

lemma parseIPv4Fields_length: "parseIPv4Fields s = Some b \<Longrightarrow> length b = 4"
  by (auto simp: parseIPv4Fields_def dest: parseIPv4Loop_length)

lemma parseIPv6Loop_length:
  "parseIPv6Loop n ip ell s = Some (b, e, r) \<Longrightarrow> length ip + 2 * n = 16 \<Longrightarrow>
   (\<forall>x. ell = Some x \<longrightarrow> x \<le> length ip) \<Longrightarrow>
   length b \<le> 16 \<and> (\<forall>x. e = Some x \<longrightarrow> x \<le> length b)"
proof (induction n ip ell s rule: parseIPv6Loop.induct)
  case (2 n ip ell s)
  obtain acc off rest where h: "hexRun 0 0 s = Some (acc, off, rest)" and off: "off \<noteq> 0"
    using "2.prems"(1) by (auto split: option.splits if_splits)
  show ?case
  proof (cases "rest \<noteq> [] \<and> hd rest = CHR ''.''")
    case True
    then show ?thesis
      using "2.prems" h off
      by (auto split: option.splits if_splits dest!: parseIPv4Fields_length)
  next
    case False
    let ?ip = "ip @ [of_nat (acc div 256), of_nat (acc mod 256)]"
    show ?thesis
    proof (cases rest)
      case Nil
      then show ?thesis using "2.prems" h off by auto
    next
      case (Cons c r)
      have le: "\<forall>x. ell = Some x \<longrightarrow> x \<le> Suc (Suc (length ip))"
        using "2.prems"(3) by (auto intro: le_SucI)
      from Cons have c: "c = CHR '':''" "r \<noteq> []"
        using "2.prems"(1) h off False by (auto simp: Let_def split: if_splits)
      show ?thesis
      proof (cases "hd r = CHR '':''")
        case True
        then show ?thesis
          using "2.prems" h off False Cons c
            "2.IH"(1) [OF h refl refl off False refl Cons _ _ True]
          by (auto simp: Let_def split: if_splits)
      next
        case F: False
        then show ?thesis
          using "2.prems" h off False Cons c le
            "2.IH"(2) [OF h refl refl off False refl Cons _ _ F]
          by (auto simp: Let_def split: if_splits)
      qed
    qed
  qed
qed auto

lemma parseIPv6_length: "parseIPv6 s = Some a \<Longrightarrow> length (As16 a) = 16"
  by (auto simp: parseIPv6_def Let_def split: if_splits option.splits
      dest!: parseIPv6Loop_length)

lemma parseIPv6_BitLen: "parseIPv6 s = Some a \<Longrightarrow> BitLen a = 128"
  by (auto simp: parseIPv6_def Let_def split: if_splits option.splits)

lemma ParseAddr_length: "ParseAddr s = Some a \<Longrightarrow> length (As16 a) = 16"
  by (auto simp: ParseAddr_def v4InV6Prefix_def split: option.splits if_splits
      dest!: parseIPv4Fields_length parseIPv6_length)

lemma ParseIP_length: "ParseIP s = Some ip \<Longrightarrow> length ip = 16"
  by (auto simp: ParseIP_def split: option.splits if_splits dest: ParseAddr_length)

lemma ParseCIDR_length: "ParseCIDR s = Some (ip, n) \<Longrightarrow> length ip = 16"
  by (auto simp: ParseCIDR_def Let_def split: option.splits if_splits dest: ParseAddr_length)

lemma CIDRMaskBytes_zero: "CIDRMaskBytes 0 l = replicate l 0"
  by (induction l) simp_all

lemma byteOnes_mask:
  assumes "n < 8"
  shows "byteOnes 8 (NOT (drop_bit n 255)) = Some n" "NOT (drop_bit n 255) \<noteq> (255 :: uint8)"
proof -
  have "\<forall>n\<in>set [0..<8]. byteOnes 8 (NOT (drop_bit n 255)) = Some n \<and> NOT (drop_bit n 255) \<noteq> (255 :: uint8)"
    by code_simp
  then show "byteOnes 8 (NOT (drop_bit n 255)) = Some n" "NOT (drop_bit n 255) \<noteq> (255 :: uint8)"
    using assms by auto
qed

lemma simpleMaskLength_CIDRMaskBytes: "n \<le> 8 * l \<Longrightarrow> simpleMaskLength (CIDRMaskBytes n l) = Some n"
proof (induction l arbitrary: n)
  case (Suc l)
  show ?case
  proof (cases "n \<ge> 8")
    case True
    then show ?thesis using Suc by simp
  next
    case False
    then show ?thesis
      using byteOnes_mask [of n] by (simp add: CIDRMaskBytes_zero list_all_iff)
  qed
qed simp

text \<open>What a parsed CIDR is made of; its mask has the length written after the slash.\<close>

lemma ParseCIDR_SomeE:
  assumes "ParseCIDR s = Some (ip, n)"
  obtains a t where "ParseAddr (takeWhile (\<lambda>c. c \<noteq> CHR ''/'') s) = Some a" "ip = As16 a"
    "addrZone a = []" "list_all isDigit t" "decVal t \<le> BitLen a"
    "net_Mask n = CIDRMask (decVal t) (BitLen a)"
    "t = drop (length (takeWhile (\<lambda>c. c \<noteq> CHR ''/'') s) + 1) s"
  using assms
  by (simp add: ParseCIDR_def Let_def split: option.splits if_splits) fastforce

lemma BitLen_cases: "BitLen a = 32 \<or> BitLen a = 128"
  by (cases a) simp_all

lemma maskSize_ParseCIDR:
  assumes "ParseCIDR s = Some (ip, n)"
  shows "maskSize (net_Mask n) = decVal (drop (length (takeWhile (\<lambda>c. c \<noteq> CHR ''/'') s) + 1) s)"
    and "maskSize (net_Mask n) \<le> 128"
  using assms
proof -
  obtain a t where t: "decVal t \<le> BitLen a" "net_Mask n = CIDRMask (decVal t) (BitLen a)"
    "t = drop (length (takeWhile (\<lambda>c. c \<noteq> CHR ''/'') s) + 1) s"
    using assms by (rule ParseCIDR_SomeE)
  have "simpleMaskLength (CIDRMask (decVal t) (BitLen a)) = Some (decVal t)"
    unfolding CIDRMask_def
    by (rule simpleMaskLength_CIDRMaskBytes) (use BitLen_cases [of a] t in auto)
  then have "maskSize (net_Mask n) = decVal t"
    by (simp add: maskSize_def t(2))
  then show "maskSize (net_Mask n) = decVal (drop (length (takeWhile (\<lambda>c. c \<noteq> CHR ''/'') s) + 1) s)"
    "maskSize (net_Mask n) \<le> 128"
    using t BitLen_cases [of a] by auto
qed

lemma itoa_1: "n < 10 \<Longrightarrow> itoa n = [digitChar n]"
  by (simp add: itoa.simps)

lemma itoa_2: "10 \<le> n \<Longrightarrow> n < 100 \<Longrightarrow> itoa n = [digitChar (n div 10), digitChar (n mod 10)]"
  by (subst itoa.simps) (simp add: itoa_1)

lemma itoa_3:
  "100 \<le> n \<Longrightarrow> n < 1000 \<Longrightarrow>
   itoa n = [digitChar (n div 100), digitChar (n div 10 mod 10), digitChar (n mod 10)]"
proof -
  assume n: "100 \<le> n" "n < 1000"
  have "itoa n = itoa (n div 10) @ [digitChar (n mod 10)]"
    using n by (subst itoa.simps) simp
  also have "itoa (n div 10) = [digitChar (n div 10 div 10), digitChar (n div 10 mod 10)]"
    by (rule itoa_2) (use n in auto)
  finally show ?thesis by (simp add: div_mult2_eq [symmetric])
qed

lemma parseIPv4Loop_octet:
  assumes "n \<le> 255"
  shows "parseIPv4Loop 0 0 fs (itoa n @ s) = parseIPv4Loop n (length (itoa n)) fs s"
proof -
  consider "n < 10" | "10 \<le> n" "n < 100" | "100 \<le> n" "n < 1000"
    using assms by linarith
  then show ?thesis
  proof cases
    case 1
    then show ?thesis by (simp add: itoa_1)
  next
    case 2
    then have "\<not> (n div 10 * 10 + n mod 10 > 255)" "n div 10 * 10 + n mod 10 = n" "n div 10 \<noteq> 0"
      "n div 10 < 10"
      using assms by auto
    then show ?thesis using 2 by (simp add: itoa_2)
  next
    case 3
    have "n div 100 = n div 10 div 10" by (simp add: div_mult2_eq [symmetric])
    then have "n div 100 * 10 + n div 10 mod 10 = n div 10" by simp
    moreover have "n div 10 * 10 + n mod 10 = n" by simp
    moreover have "n div 100 \<noteq> 0" "n div 10 \<noteq> 0" "n div 100 < 10" "\<not> n div 100 > 255" "\<not> n div 10 > 255"
      using 3 by auto
    ultimately show ?thesis using 3 assms by (simp add: itoa_3)
  qed
qed

lemma unat_uint8_le: "unat (v :: uint8) \<le> 255"
  using unsigned_less [of v, where ?'a = nat] by simp

lemma parseIPv4Loop_dot:
  "length fs < 3 \<Longrightarrow> s \<noteq> [] \<Longrightarrow>
   parseIPv4Loop 0 0 fs (itoa (unat (v :: uint8)) @ CHR ''.'' # s) = parseIPv4Loop 0 0 (fs @ [v]) s"
  by (simp add: parseIPv4Loop_octet unat_uint8_le)

lemma parseIPv4Loop_last:
  "length fs = 3 \<Longrightarrow> parseIPv4Loop 0 0 fs (itoa (unat (v :: uint8))) = Some (fs @ [v])"
  using parseIPv4Loop_octet [of "unat v" fs "[]"] by (simp add: unat_uint8_le)

lemma parseIPv4_string4:
  assumes "length b = 4"
  shows "parseIPv4Fields (string4 b) = Some b"
proof -
  obtain w x y z where "b = [w, x, y, z]"
    using assms by (auto simp: numeral_eq_Suc length_Suc_conv)
  then show ?thesis
    by (simp add: string4_def parseIPv4Fields_def parseIPv4Loop_dot parseIPv4Loop_last)
qed

lemma find_skip: "(\<And>c. c \<in> set xs \<Longrightarrow> \<not> P c) \<Longrightarrow> find P (xs @ ys) = find P ys"
  by (induction xs) auto

lemma ParseAddr_string4:
  assumes "length b = 4"
  shows "ParseAddr (string4 b) = Some (Addr4 b)"
proof -
  obtain w x y z where b: "b = [w, x, y, z]"
    using assms by (auto simp: numeral_eq_Suc length_Suc_conv)
  have "\<not> (c = CHR ''.'' \<or> c = CHR '':'' \<or> c = CHR ''%'')" if "c \<in> set (itoa n)" for c n
    using itoa_digits [OF that] by (auto simp: isDigit_def byteVal_def)
  then have "find (\<lambda>c. c = CHR ''.'' \<or> c = CHR '':'' \<or> c = CHR ''%'') (string4 b) = Some (CHR ''.'')"
    by (simp add: b string4_def find_skip)
  then show ?thesis
    using parseIPv4_string4 [OF assms] by (simp add: ParseAddr_def)
qed

text \<open>Printing and parsing an IPv4 address are inverse; the parser returns the mapped form.\<close>

lemma ParseIP_string4: "length b = 4 \<Longrightarrow> ParseIP (string4 b) = Some (v4InV6Prefix @ b)"
  by (simp add: ParseIP_def ParseAddr_string4)

lemma To4_mapped: "length b = 4 \<Longrightarrow> To4 (v4InV6Prefix @ b) = Some b"
  by (simp add: To4_def v4InV6Prefix_def)

end
