(* ===== verification/Ip_Family.thy ===== *)
theory Ip_Family
  imports Go_Net Errors
begin

text \<open>
  \<^verbatim>\<open>internal/ipfamily/ipfamily.go\<close> and \<^verbatim>\<open>internal/safeconvert\<close>: the address family of addresses and
  prefixes, filters by family, and the checked conversion from \<open>int\<close> to \<open>uint32\<close>.
\<close>

datatype Family = IPv4 | IPv6 | DualStack | Unknown

fun familyString :: "Family \<Rightarrow> string" where
  "familyString IPv4 = ''ipv4''"
| "familyString IPv6 = ''ipv6''"
| "familyString DualStack = ''dual''"
| "familyString Unknown = ''unknown''"

lemma familyString_inject [simp]: "familyString f = familyString g \<longleftrightarrow> f = g"
  by (cases f; cases g) simp_all

definition ForAddress :: "IP \<Rightarrow> Family" where
  "ForAddress ip = (if To4 ip = None then IPv6 else IPv4)"

definition ForAddresses :: "string list \<Rightarrow> (error, Family) result" where
  "ForAddresses ips =
     (case ips of
        [s] \<Rightarrow>
          (case ParseIP s of
             None \<Rightarrow> Inl (Errorf ''IPFamilyForAddresses: Invalid address %q'' [AStrs ips])
           | Some ip \<Rightarrow> Inr (ForAddress ip))
      | [s1, s2] \<Rightarrow>
          (case (ParseIP s1, ParseIP s2) of
             (Some ip1, Some ip2) \<Rightarrow>
               if (To4 ip1 = None) = (To4 ip2 = None) then Inl (Errorf ''IPFamilyForAddresses: same address family %q'' [AStrs ips])
               else Inr DualStack
           | _ \<Rightarrow> Inl (Errorf ''IPFamilyForAddresses: Invalid address %q'' [AStrs ips]))
      | _ \<Rightarrow> Inl (Errorf ''IPFamilyForAddresses: invalid ips length %d %q'' [ANat (length ips), AStrs ips]))"

definition ForAddressesIPs :: "IP list \<Rightarrow> (error, Family) result" where
  "ForAddressesIPs ips = ForAddresses (map IPString ips)"

definition ForCIDRString :: "string \<Rightarrow> Family" where
  "ForCIDRString cidr =
     (case ParseCIDR cidr of
        None \<Rightarrow> Unknown
      | Some (ip, _) \<Rightarrow> if To4 ip = None then IPv6 else IPv4)"

definition ForCIDR :: "IPNet \<Rightarrow> Family" where
  "ForCIDR cidr = (if To4 (net_IP cidr) = None then IPv6 else IPv4)"

text \<open>\<open>ForService\<close> reads the two address fields of a service.\<close>

record ServiceSpec =
  svc_ClusterIPs :: "string list"
  svc_ClusterIP :: string

definition ForService :: "ServiceSpec \<Rightarrow> (error, Family) result" where
  "ForService svc =
     (if length (svc_ClusterIPs svc) > 0 then ForAddresses (svc_ClusterIPs svc)
      else ForAddresses [svc_ClusterIP svc])"

definition FilterPrefixes :: "string list \<Rightarrow> Family \<Rightarrow> string list" where
  "FilterPrefixes prefixes familyToFilter =
     (if familyToFilter = DualStack then prefixes
      else filter (\<lambda>p. ForCIDRString p = familyToFilter) prefixes)"

definition MatchesPrefix :: "Family \<Rightarrow> string \<Rightarrow> bool" where
  "MatchesPrefix toMatch prefix =
     (if toMatch = DualStack then True else ForCIDRString prefix = toMatch)"

text \<open>
  The conversion for a 64-bit \<open>int\<close> (\<^verbatim>\<open>convertuint32.go\<close>) and for the 32-bit \<open>int\<close> of \<^verbatim>\<open>arm\<close>
  (\<^verbatim>\<open>convertuint32_arm.go\<close>), which needs no upper bound.
\<close>

definition IntToUInt32 :: "int \<Rightarrow> (error, uint32) result" where
  "IntToUInt32 n =
     (if n < 0 then Inl (Errorf ''trying to convert negative value to uint32: %d'' [AInt n])
      else if n > 4294967295 then Inl (Errorf ''trying to convert value to uint32: %d, would overflow'' [AInt n])
      else Inr (of_int n))"

definition IntToUInt32_arm :: "int \<Rightarrow> (error, uint32) result" where
  "IntToUInt32_arm n = (if n < 0 then Inl (Errorf ''trying to convert negative value to uint32: %d'' [AInt n]) else Inr (of_int n))"

section \<open>Facts\<close>

lemma ForAddress_cases: "ForAddress ip = IPv4 \<or> ForAddress ip = IPv6"
  by (simp add: ForAddress_def)

lemma ForCIDRString_not_dual [simp]: "ForCIDRString p \<noteq> DualStack"
  by (auto simp: ForCIDRString_def split: option.splits)

lemma ForCIDRString_Unknown_iff: "ForCIDRString p = Unknown \<longleftrightarrow> ParseCIDR p = None"
  by (auto simp: ForCIDRString_def split: option.splits)

lemma mem_FilterPrefixes_iff:
  "f \<noteq> DualStack \<Longrightarrow> p \<in> set (FilterPrefixes ps f) \<longleftrightarrow> p \<in> set ps \<and> ForCIDRString p = f"
  by (simp add: FilterPrefixes_def)

lemma FilterPrefixes_subset: "set (FilterPrefixes ps f) \<subseteq> set ps"
  by (simp add: FilterPrefixes_def)

lemma ForAddresses_single:
  "ForAddresses [s] = Inr f \<Longrightarrow> f = IPv4 \<or> f = IPv6"
  by (auto simp: ForAddresses_def ForAddress_def split: option.splits if_splits)

lemma IntToUInt32_exact: "IntToUInt32 n = Inr w \<Longrightarrow> int (unat w) = n"
  by (auto simp: IntToUInt32_def unsigned_of_int take_bit_int_eq_self split: if_splits)

lemma IntToUInt32_total: "0 \<le> n \<Longrightarrow> n \<le> 4294967295 \<Longrightarrow> IntToUInt32 n = Inr (of_int n)"
  by (simp add: IntToUInt32_def)

text \<open>On the range of a 32-bit \<open>int\<close> the two builds agree.\<close>

lemma IntToUInt32_arm_eq: "n < 2 ^ 31 \<Longrightarrow> IntToUInt32_arm n = IntToUInt32 n"
  by (simp add: IntToUInt32_def IntToUInt32_arm_def)

end
