(* ===== verification/Api_Types.thy ===== *)
theory Api_Types
  imports Errors
begin

text \<open>
  The API of \<^verbatim>\<open>api/v1beta1/frrconfiguration_types.go\<close>, one record per struct with the struct's fields in
  order; pointers that may be nil are options, \<open>nil\<close> and empty slices are both the empty list. A
  \<^verbatim>\<open>metav1.Duration\<close> is its number of nanoseconds. The string types \<open>AllowMode\<close>,
  \<open>DynamicASNMode\<close>, \<open>AddressFamily\<close>, \<open>AdvertisePrefixType\<close>, \<open>VNIAdvertisement\<close> and the route
  targets are strings, as in the source: the conversion checks them itself.
\<close>

section \<open>String types\<close>

type_synonym AllowMode = string
type_synonym DynamicASNMode = string
type_synonym AddressFamily = string
type_synonym AdvertisePrefixType = string
type_synonym VNIAdvertisement = string
type_synonym Duration = int

definition AllowAll :: AllowMode where
  "AllowAll = ''all''"

definition AllowRestricted :: AllowMode where
  "AllowRestricted = ''filtered''"

definition InternalASNMode :: DynamicASNMode where
  "InternalASNMode = ''internal''"

definition ExternalASNMode :: DynamicASNMode where
  "ExternalASNMode = ''external''"

definition AddressFamilyUnicast :: AddressFamily where
  "AddressFamilyUnicast = ''unicast''"

definition AddressFamilyEVPN :: AddressFamily where
  "AddressFamilyEVPN = ''evpn''"

definition AdvertisePrefixUnicast :: AdvertisePrefixType where
  "AdvertisePrefixUnicast = ''unicast''"

definition VNIAdvertisementDisabled :: VNIAdvertisement where
  "VNIAdvertisementDisabled = ''Disabled''"

definition VNIAdvertisementAll :: VNIAdvertisement where
  "VNIAdvertisementAll = ''All''"

lemmas api_constants = AllowAll_def AllowRestricted_def InternalASNMode_def ExternalASNMode_def
  AddressFamilyUnicast_def AddressFamilyEVPN_def AdvertisePrefixUnicast_def
  VNIAdvertisementDisabled_def VNIAdvertisementAll_def

section \<open>Neighbors\<close>

record SecretReference =
  sr_Name :: string
  sr_Namespace :: string

record NextHop =
  nh_IPv4 :: string
  nh_IPv6 :: string

record AllowedOutPrefixes =
  aop_Prefixes :: "string list"
  aop_Mode :: AllowMode

record LocalPrefPrefixes =
  lpp_Prefixes :: "string list"
  lpp_LocalPref :: uint32

record CommunityPrefixes =
  cp_Prefixes :: "string list"
  cp_Community :: string

record Advertise =
  ad_Allowed :: AllowedOutPrefixes
  ad_NextHop :: NextHop
  ad_PrefixesWithLocalPref :: "LocalPrefPrefixes list"
  ad_PrefixesWithCommunity :: "CommunityPrefixes list"

record PrefixSelector =
  ps_Prefix :: string
  ps_LE :: uint32
  ps_GE :: uint32

record AllowedInPrefixes =
  aip_Prefixes :: "PrefixSelector list"
  aip_Mode :: AllowMode

record Receive =
  rcv_Allowed :: AllowedInPrefixes

record Neighbor =
  nb_ASN :: uint32
  nb_DynamicASN :: DynamicASNMode
  nb_SourceAddress :: string
  nb_Address :: string
  nb_Interface :: string
  nb_Port :: "uint16 option"
  nb_Password :: string
  nb_PasswordSecret :: SecretReference
  nb_HoldTime :: "Duration option"
  nb_KeepaliveTime :: "Duration option"
  nb_ConnectTime :: "Duration option"
  nb_EBGPMultiHop :: bool
  nb_BFDProfile :: string
  nb_EnableGracefulRestart :: bool
  nb_ToAdvertise :: Advertise
  nb_ToReceive :: Receive
  nb_DisableMP :: bool
  nb_DualStackAddressFamily :: bool
  nb_LocalASN :: uint32
  nb_AddressFamilies :: "AddressFamily list"

section \<open>EVPN\<close>

record VNIProperties =
  vp_RD :: string
  vp_ImportRTs :: "string list"
  vp_ExportRTs :: "string list"

record L2VNI =
  l2_VNI :: uint32
  l2_VNIProperties :: VNIProperties

record L3VNI =
  l3_VNI :: uint32
  l3_VNIProperties :: VNIProperties
  l3_AdvertisePrefixes :: "AdvertisePrefixType list"

record EVPNConfig =
  ev_AdvertiseVNIs :: "VNIAdvertisement option"
  ev_AdvertiseSVI :: bool
  ev_L2VNIs :: "L2VNI list"
  ev_L3VNI :: "L3VNI option"

section \<open>Routers and configurations\<close>

record Import =
  im_VRF :: string

record Router =
  rt_ASN :: uint32
  rt_ID :: string
  rt_VRF :: string
  rt_Neighbors :: "Neighbor list"
  rt_Prefixes :: "string list"
  rt_Imports :: "Import list"
  rt_EVPN :: "EVPNConfig option"

record BFDProfile =
  bp_Name :: string
  bp_ReceiveInterval :: "uint32 option"
  bp_TransmitInterval :: "uint32 option"
  bp_DetectMultiplier :: "uint32 option"
  bp_EchoInterval :: "uint32 option"
  bp_EchoMode :: "bool option"
  bp_PassiveMode :: "bool option"
  bp_MinimumTTL :: "uint32 option"

record BGPConfig =
  bgp_Routers :: "Router list"
  bgp_BFDProfiles :: "BFDProfile list"

record RawConfig =
  raw_Priority :: int
  raw_Config :: string

text \<open>The selector type of Kubernetes; matching it against labels is the library's.\<close>

record LabelSelectorRequirement =
  lsr_Key :: string
  lsr_Operator :: string
  lsr_Values :: "string list"

record LabelSelector =
  ls_MatchLabels :: "(string, string) gomap"
  ls_MatchExpressions :: "LabelSelectorRequirement list"

record FRRConfigurationSpec =
  spec_BGP :: BGPConfig
  spec_Raw :: RawConfig
  spec_NodeSelector :: LabelSelector

record FRRConfiguration =
  cfg_Name :: string
  cfg_Namespace :: string
  cfg_Annotations :: "(string, string) gomap"
  cfg_Spec :: FRRConfigurationSpec

text \<open>The fields of a Kubernetes secret the program reads.\<close>

record Secret =
  sec_Name :: string
  sec_Namespace :: string
  sec_Type :: string
  sec_Data :: "(string, string) gomap"

definition SecretTypeBasicAuth :: string where
  "SecretTypeBasicAuth = ''kubernetes.io/basic-auth''"

end
