(* ===== verification/Frr_Config.thy ===== *)
theory Frr_Config
  imports Community Ip_Family Api_Types
begin

text \<open>
  The configuration model of \<^verbatim>\<open>internal/frr/config.go\<close> and \<^verbatim>\<open>internal/frr/level.go\<close>: the structs the
  controllers build and the templates read, their methods, and the functions of the template's
  function map. A struct that embeds \<open>PrefixList\<close> extends its record; a \<^verbatim>\<open>sets.Set[string]\<close> is a set of
  strings; types with the name of an API type carry the prefix \<open>frr\<close>.
\<close>

section \<open>Prefix lists\<close>

record PrefixList =
  pl_Name :: string
  pl_IPFamily :: string
  pl_Prefixes :: "string set"

definition PrefixListName :: "'a PrefixList_scheme \<Rightarrow> string" where
  "PrefixListName pl = pl_Name pl"

definition SortedPrefixes :: "'a PrefixList_scheme \<Rightarrow> string list" where
  "SortedPrefixes pl = sorted_list_of_set (pl_Prefixes pl)"

record CommunityPrefixList = PrefixList +
  cpl_Community :: BGPCommunity

definition CommunitySetStatement :: "CommunityPrefixList \<Rightarrow> string" where
  "CommunitySetStatement pl =
     (if IsLarge (cpl_Community pl)
      then ''set large-community '' @ commString (cpl_Community pl) @ '' additive''
      else ''set community '' @ commString (cpl_Community pl) @ '' additive'')"

record LocalPrefPrefixList = PrefixList +
  lpl_LocalPref :: uint32

definition LocalPrefSetStatement :: "LocalPrefPrefixList \<Rightarrow> string" where
  "LocalPrefSetStatement pl = ''set local-preference '' @ itoa (unat (lpl_LocalPref pl))"

text \<open>The interface \<open>PropertyPrefixList\<close> and its two implementations.\<close>

datatype PropertyPrefixList =
    LocalPrefPL LocalPrefPrefixList
  | CommunityPL CommunityPrefixList

fun ppl_SetStatement :: "PropertyPrefixList \<Rightarrow> string" where
  "ppl_SetStatement (LocalPrefPL pl) = LocalPrefSetStatement pl"
| "ppl_SetStatement (CommunityPL pl) = CommunitySetStatement pl"

fun ppl_PrefixListName :: "PropertyPrefixList \<Rightarrow> string" where
  "ppl_PrefixListName (LocalPrefPL pl) = PrefixListName pl"
| "ppl_PrefixListName (CommunityPL pl) = PrefixListName pl"

fun ppl_SortedPrefixes :: "PropertyPrefixList \<Rightarrow> string list" where
  "ppl_SortedPrefixes (LocalPrefPL pl) = SortedPrefixes pl"
| "ppl_SortedPrefixes (CommunityPL pl) = SortedPrefixes pl"

section \<open>Incoming filters\<close>

record IncomingFilter =
  if_IPFamily :: Family
  if_Prefix :: string
  if_LE :: uint32
  if_GE :: uint32

definition LessThan :: "IncomingFilter \<Rightarrow> IncomingFilter \<Rightarrow> bool" where
  "LessThan i i1 =
     (if if_IPFamily i \<noteq> if_IPFamily i1 then familyString (if_IPFamily i) < familyString (if_IPFamily i1)
      else if if_Prefix i \<noteq> if_Prefix i1 then if_Prefix i < if_Prefix i1
      else if if_LE i \<noteq> if_LE i1 then if_LE i < if_LE i1
      else if_GE i < if_GE i1)"

definition Matcher :: "IncomingFilter \<Rightarrow> string" where
  "Matcher i =
     (if if_LE i \<noteq> 0 then '' le '' @ itoa (unat (if_LE i)) else []) @
     (if if_GE i \<noteq> 0 then '' ge '' @ itoa (unat (if_GE i)) else [])"

record AllowedIn =
  ai_All :: bool
  ai_PrefixesV4 :: "IncomingFilter list"
  ai_PrefixesV6 :: "IncomingFilter list"

definition AllPrefixes :: "AllowedIn \<Rightarrow> IncomingFilter list" where
  "AllPrefixes a = ai_PrefixesV4 a @ ai_PrefixesV6 a"

section \<open>Outgoing prefixes\<close>

record AllowedOut =
  ao_PrefixesV4 :: "string list"
  ao_PrefixesV6 :: "string list"
  ao_NextHopV4 :: string
  ao_NextHopV6 :: string
  ao_LocalPrefPrefixesModifiers :: "LocalPrefPrefixList list"
  ao_CommunityPrefixesModifiers :: "CommunityPrefixList list"

definition PrefixLists :: "AllowedOut \<Rightarrow> PropertyPrefixList list" where
  "PrefixLists a =
     sortSlice (\<lambda>x y. ppl_PrefixListName x < ppl_PrefixListName y)
       (map LocalPrefPL (ao_LocalPrefPrefixesModifiers a) @
        map CommunityPL (ao_CommunityPrefixesModifiers a))"

section \<open>Neighbors, routers and the whole configuration\<close>

record NeighborConfig =
  nc_IPFamily :: Family
  nc_Name :: string
  nc_ASN :: string
  nc_SrcAddr :: string
  nc_Addr :: string
  nc_Iface :: string
  nc_Port :: "uint16 option"
  nc_HoldTime :: "int option"
  nc_KeepaliveTime :: "int option"
  nc_ConnectTime :: "int option"
  nc_Password :: string
  nc_BFDProfile :: string
  nc_GracefulRestart :: bool
  nc_EBGPMultiHop :: bool
  nc_LocalASN :: uint32
  nc_VRFName :: string
  nc_Incoming :: AllowedIn
  nc_Outgoing :: AllowedOut
  nc_AlwaysBlock :: "IncomingFilter list"
  nc_AddressFamilies :: "string list"

definition ID :: "NeighborConfig \<Rightarrow> string" where
  "ID n =
     (let ident = (if nc_Iface n \<noteq> '''' then nc_Iface n else nc_Addr n);
          vrf = (if nc_VRFName n \<noteq> '''' then ''-'' @ nc_VRFName n else '''')
      in ident @ vrf)"

definition ToAdvertisePrefixListV4 :: "NeighborConfig \<Rightarrow> string" where
  "ToAdvertisePrefixListV4 n = ID n @ ''-allowed-ipv4''"

definition ToAdvertisePrefixListV6 :: "NeighborConfig \<Rightarrow> string" where
  "ToAdvertisePrefixListV6 n = ID n @ ''-allowed-ipv6''"

record frrVNIProperties =
  fvp_RD :: string
  fvp_ImportRTs :: "string list"
  fvp_ExportRTs :: "string list"

record frrL2VNI =
  fl2_VNI :: uint32
  fl2_VNIProperties :: frrVNIProperties

record frrL3VNI =
  fl3_VNI :: uint32
  fl3_VNIProperties :: frrVNIProperties
  fl3_AdvertisePrefixes :: "string list"

record frrEVPNConfig =
  fev_AdvertiseVNIs :: "string option"
  fev_AdvertiseSVI :: bool
  fev_L2VNIs :: "frrL2VNI list"
  fev_L3VNI :: "frrL3VNI option"

record RouterConfig =
  rc_MyASN :: uint32
  rc_RouterID :: string
  rc_Neighbors :: "NeighborConfig list"
  rc_VRF :: string
  rc_IPV4Prefixes :: "string list"
  rc_IPV6Prefixes :: "string list"
  rc_ImportVRFs :: "string list"
  rc_EVPN :: "frrEVPNConfig option"

record frrBFDProfile =
  fbp_Name :: string
  fbp_ReceiveInterval :: "uint32 option"
  fbp_TransmitInterval :: "uint32 option"
  fbp_DetectMultiplier :: "uint32 option"
  fbp_EchoInterval :: "uint32 option"
  fbp_EchoMode :: bool
  fbp_PassiveMode :: bool
  fbp_MinimumTTL :: "uint32 option"

record Config =
  cf_Loglevel :: string
  cf_Hostname :: string
  cf_Routers :: "RouterConfig list"
  cf_BFDProfiles :: "frrBFDProfile list"
  cf_ExtraConfig :: string

section \<open>Functions of the templates\<close>

definition counter :: "(string, nat) gomap \<Rightarrow> string \<Rightarrow> nat \<times> (string, nat) gomap" where
  "counter counterMap counterName =
     (let c = (case mapGet counterMap counterName of None \<Rightarrow> 0 | Some n \<Rightarrow> n) + 1
      in (c, mapSet counterMap counterName c))"

definition tmpl_frrIPFamily :: "Family \<Rightarrow> string" where
  "tmpl_frrIPFamily ipFamily = (if ipFamily = IPv6 then ''ipv6'' else ''ip'')"

definition hasAddressFamilyEVPN :: "string list \<Rightarrow> bool" where
  "hasAddressFamilyEVPN addressFamilies \<longleftrightarrow> AddressFamilyEVPN \<in> set addressFamilies"

definition hasAdvertiseVNIsAll :: "string option \<Rightarrow> bool" where
  "hasAdvertiseVNIsAll advertiseVNIs \<longleftrightarrow> advertiseVNIs = Some VNIAdvertisementAll"

definition hasAdvertisesEVPNPrefixUnicast :: "string \<Rightarrow> bool" where
  "hasAdvertisesEVPNPrefixUnicast prefixType \<longleftrightarrow> prefixType = AdvertisePrefixUnicast"

definition activateNeighborFor :: "string \<Rightarrow> Family \<Rightarrow> string list \<Rightarrow> bool" where
  "activateNeighborFor family neighbourFamily addressFamilies \<longleftrightarrow>
     (let hasUnicast = (addressFamilies = [] \<or> AddressFamilyUnicast \<in> set addressFamilies)
      in hasUnicast \<and> (familyString neighbourFamily = family \<or> neighbourFamily = DualStack))"

definition allowedIncomingList :: "NeighborConfig \<Rightarrow> string" where
  "allowedIncomingList n = ID n @ ''-inpl-'' @ familyString (nc_IPFamily n)"

definition deniedIncomingList :: "NeighborConfig \<Rightarrow> string" where
  "deniedIncomingList n = ID n @ ''-denied-inpl-'' @ familyString (nc_IPFamily n)"

definition mustDisableConnectedCheck :: "Family \<Rightarrow> uint32 \<Rightarrow> string \<Rightarrow> string \<Rightarrow> bool \<Rightarrow> bool" where
  "mustDisableConnectedCheck ipFamily myASN asn iface eBGPMultiHop =
     (if ipFamily \<noteq> IPv6 then False
      else if eBGPMultiHop then False
      else if iface \<noteq> '''' then True
      else if asn = ''internal'' then False
      else if asn = ''external'' then True
      else if itoa (unat myASN) \<noteq> asn then True
      else False)"

section \<open>Log levels\<close>

text \<open>\<^verbatim>\<open>LevelFrom\<close>: from the controller's level to the one FRR's daemons expect.\<close>

definition LevelFrom :: "string \<Rightarrow> string" where
  "LevelFrom l =
     (if l = ''all'' \<or> l = ''debug'' then ''debugging''
      else if l = ''info'' then ''informational''
      else if l = ''warn'' then ''warnings''
      else if l = ''error'' then ''errors''
      else if l = ''none'' then ''emergencies''
      else ''informational'')"

end
