(* ===== verification/Prefix_Names.thy ===== *)
theory Prefix_Names
  imports Frr_Config
begin

text \<open>
  Names and map keys of the prefix lists of a neighbor (\<^verbatim>\<open>internal/controller/api_to_config.go\<close>). Both are
  built with \<^verbatim>\<open>fmt.Sprintf\<close>; the lemmas show that no two property lists of a neighbor share a key or a name.
\<close>

definition frrIPFamily :: "Family \<Rightarrow> string" where
  "frrIPFamily ipFamily = (if ipFamily = IPv6 then ''ipv6'' else ''ip'')"

definition localPrefPrefixListName :: "string \<Rightarrow> uint32 \<Rightarrow> string \<Rightarrow> string" where
  "localPrefPrefixListName neighborID localPreference ipFamily =
     neighborID @ ''-'' @ itoa (unat localPreference) @ ''-'' @ ipFamily @ ''-localpref-prefixes''"

definition communityPrefixListName :: "string \<Rightarrow> BGPCommunity \<Rightarrow> string \<Rightarrow> string" where
  "communityPrefixListName neighborID comm ipFamily =
     (if IsLarge comm
      then neighborID @ ''-large:'' @ commString comm @ ''-'' @ ipFamily @ ''-community-prefixes''
      else neighborID @ ''-'' @ commString comm @ ''-'' @ ipFamily @ ''-community-prefixes'')"

definition communityPrefixListKey :: "BGPCommunity \<Rightarrow> string \<Rightarrow> string" where
  "communityPrefixListKey comm frrAddressFamily = commString comm @ ''-'' @ frrAddressFamily"

definition localPrefPrefixListKey :: "uint32 \<Rightarrow> string \<Rightarrow> string" where
  "localPrefPrefixListKey localPref frrAddressFamily = itoa (unat localPref) @ ''-'' @ frrAddressFamily"

section \<open>Keys and names tell the lists apart\<close>

lemma frrIPFamily_no_dash [simp]: "CHR ''-'' \<notin> set (frrIPFamily f)"
  by (simp add: frrIPFamily_def)

lemma commString_no_dash [simp]: "CHR ''-'' \<notin> set (commString c)"
  by (cases c) simp_all

lemma dash_inject:
  "CHR ''-'' \<notin> set a \<Longrightarrow> CHR ''-'' \<notin> set b \<Longrightarrow>
   a @ CHR ''-'' # x = b @ CHR ''-'' # y \<longleftrightarrow> a = b \<and> x = y"
proof (induction a arbitrary: b)
  case Nil
  then show ?case by (cases b) auto
next
  case (Cons c a)
  then show ?case by (cases b) auto
qed

lemma dash_inject_last:
  assumes "CHR ''-'' \<notin> set a" "CHR ''-'' \<notin> set b"
  shows "x @ CHR ''-'' # a = y @ CHR ''-'' # b \<longleftrightarrow> x = y \<and> a = b"
proof -
  have "x @ CHR ''-'' # a = y @ CHR ''-'' # b \<longleftrightarrow>
      rev (x @ CHR ''-'' # a) = rev (y @ CHR ''-'' # b)"
    by (metis rev_rev_ident)
  also have "\<dots> \<longleftrightarrow> rev a = rev b \<and> rev x = rev y"
    using assms dash_inject [of "rev a" "rev b" "rev x" "rev y"] by simp
  finally show ?thesis by auto
qed

lemma dash_inject_two:
  assumes "CHR ''-'' \<notin> set a" "CHR ''-'' \<notin> set b" "CHR ''-'' \<notin> set c" "CHR ''-'' \<notin> set d"
  shows "x @ CHR ''-'' # a @ CHR ''-'' # c = y @ CHR ''-'' # b @ CHR ''-'' # d \<longleftrightarrow>
    x = y \<and> a = b \<and> c = d"
  using assms dash_inject_last [of c d "x @ CHR ''-'' # a" "y @ CHR ''-'' # b"]
    dash_inject_last [of a b x y]
  by auto

lemma localPrefPrefixListKey_inject [simp]:
  "localPrefPrefixListKey p f = localPrefPrefixListKey q g \<longleftrightarrow> p = q \<and> f = g"
  by (auto simp: localPrefPrefixListKey_def intro: unsigned_word_eqI)

lemma communityPrefixListKey_inject [simp]:
  "communityPrefixListKey c f = communityPrefixListKey d g \<longleftrightarrow> c = d \<and> f = g"
  by (simp add: communityPrefixListKey_def dash_inject)

lemma localPrefPrefixListName_inject:
  "CHR ''-'' \<notin> set f \<Longrightarrow> CHR ''-'' \<notin> set g \<Longrightarrow>
   localPrefPrefixListName i p f = localPrefPrefixListName j q g \<longleftrightarrow> i = j \<and> p = q \<and> f = g"
  using dash_inject_two [of "itoa (unat p)" "itoa (unat q)" f g i j]
  by (auto simp: localPrefPrefixListName_def intro: unsigned_word_eqI)

definition commLabel :: "BGPCommunity \<Rightarrow> string" where
  "commLabel c = (if IsLarge c then ''large:'' @ commString c else commString c)"

lemma commLabel_no_dash [simp]: "CHR ''-'' \<notin> set (commLabel c)"
  by (simp add: commLabel_def)

lemma digits_not_large: "''large:'' @ s \<noteq> itoa n @ t"
  using itoa_nonempty [of n] itoa_digits [of "CHR ''l''" n]
  by (cases "itoa n") (auto simp: isDigit_def byteVal_def)

lemma commLabel_inject [simp]: "commLabel c = commLabel d \<longleftrightarrow> c = d"
proof (cases c; cases d)
  fix u l g a b
  assume "c = BGPCommunityLegacy u l" "d = BGPCommunityLarge g a b"
  then show ?thesis
    using digits_not_large [of "commString d" "unat u" "CHR '':'' # itoa (unat l)"]
    by (auto simp: commLabel_def IsLarge_def dest: sym)
next
  fix u l g a b
  assume "d = BGPCommunityLegacy u l" "c = BGPCommunityLarge g a b"
  then show ?thesis
    using digits_not_large [of "commString c" "unat u" "CHR '':'' # itoa (unat l)"]
    by (auto simp: commLabel_def IsLarge_def)
qed (auto simp: commLabel_def IsLarge_def simp del: commString.simps)

lemma communityPrefixListName_label:
  "communityPrefixListName i c f =
     i @ CHR ''-'' # commLabel c @ CHR ''-'' # f @ ''-community-prefixes''"
  by (simp add: communityPrefixListName_def commLabel_def)

lemma communityPrefixListName_inject:
  "CHR ''-'' \<notin> set f \<Longrightarrow> CHR ''-'' \<notin> set g \<Longrightarrow>
   communityPrefixListName i c f = communityPrefixListName j d g \<longleftrightarrow> i = j \<and> c = d \<and> f = g"
  using dash_inject_two [of "commLabel c" "commLabel d" f g i j]
  by (auto simp: communityPrefixListName_label)

lemma localPref_community_names: "localPrefPrefixListName i p f \<noteq> communityPrefixListName j c g"
proof
  assume eq: "localPrefPrefixListName i p f = communityPrefixListName j c g"
  have "take 12 (rev (communityPrefixListName j c g)) = rev ''ity-prefixes''"
    by (simp add: communityPrefixListName_label)
  moreover have "take 12 (rev (localPrefPrefixListName i p f)) = rev ''ref-prefixes''"
    by (simp add: localPrefPrefixListName_def)
  ultimately show False using eq by simp
qed

end
