(* ===== verification/Keyed_Merge.thy ===== *)
theory Keyed_Merge
  imports Prelude
begin

text \<open>
  The pattern every merge of \<^verbatim>\<open>internal/controller/merge.go\<close> follows: elements of two lists are
  gathered in a map under a key, elements with the same key are combined (which may fail), and
  the map is listed by sorted keys. \<open>mergeKeyed\<close> is the loop; the locale \<open>keyed_merge\<close> is its
  contract with the function that combines two elements, and its lemmas say when a
  merge does not depend on order or repetition.
\<close>

definition mergeStep ::
  "('v \<Rightarrow> 'k) \<Rightarrow> ('v \<Rightarrow> 'v \<Rightarrow> ('e, 'v) result) \<Rightarrow> ('k, 'v) gomap \<Rightarrow> 'v \<Rightarrow> ('e, ('k, 'v) gomap) result"
where
  "mergeStep key comb m v =
     (case mapGet m (key v) of
        None \<Rightarrow> Inr (mapSet m (key v) v)
      | Some a \<Rightarrow> bindE (comb a v) (\<lambda>c. Inr (mapSet m (key v) c)))"

definition mergeKeyed ::
  "('v \<Rightarrow> 'k::linorder) \<Rightarrow> ('v \<Rightarrow> 'v \<Rightarrow> ('e, 'v) result) \<Rightarrow> ('k, 'v) gomap \<Rightarrow> 'v list \<Rightarrow> ('e, 'v list) result"
where
  "mergeKeyed key comb m vs = bindE (foldE (mergeStep key comb) m vs) (\<lambda>m'. Inr (sortMap m'))"

text \<open>What the loop does to one key.\<close>

definition optStep :: "('v \<Rightarrow> 'v \<Rightarrow> ('e, 'v) result) \<Rightarrow> 'v option \<Rightarrow> 'v \<Rightarrow> ('e, 'v option) result" where
  "optStep comb a v = (case a of None \<Rightarrow> Inr (Some v) | Some x \<Rightarrow> bindE (comb x v) (\<lambda>c. Inr (Some c)))"

lemma optStep_simps [simp]:
  "optStep comb None v = Inr (Some v)"
  "optStep comb (Some x) v = bindE (comb x v) (\<lambda>c. Inr (Some c))"
  by (simp_all add: optStep_def)

text \<open>What two elements under one key become.\<close>

definition optMerge :: "('v \<Rightarrow> 'v \<Rightarrow> ('e, 'v) result) \<Rightarrow> 'v option \<Rightarrow> 'v option \<Rightarrow> ('e, 'v option) result" where
  "optMerge comb a b =
     (case b of
        None \<Rightarrow> Inr a
      | Some y \<Rightarrow> optStep comb a y)"

text \<open>A map filled from a list: a later element replaces an earlier one with its key.\<close>

definition fillMap :: "('v \<Rightarrow> 'k) \<Rightarrow> 'v list \<Rightarrow> ('k, 'v) gomap" where
  "fillMap key vs = foldl (\<lambda>m v. mapSet m (key v) v) [] vs"

lemma mapGet_fillMap: "mapGet (fillMap key vs) k = lookupKey key (rev vs) k"
  using gomap.get_fill [of key "\<lambda>v. v" "[]" vs k]
  by (simp add: fillMap_def lookupKey_def split: option.splits)

lemma keyedBy_fillMap [simp]: "keyedBy key (fillMap key vs)"
  by (auto simp: keyedBy_def mapGet_fillMap dest: lookupKey_Some)

lemma lookupKey_rev:
  assumes "distinct (map key vs)"
  shows "lookupKey key (rev vs) k = lookupKey key vs k"
proof (cases "lookupKey key vs k")
  case None
  then show ?thesis using lookupKey_None [of key "rev vs" k] lookupKey_None [of key vs k] by simp
next
  case (Some v)
  then have v: "v \<in> set (rev vs)" "key v = k" using lookupKey_Some by fastforce+
  moreover have "distinct (map key (rev vs))" using assms by (simp flip: rev_map)
  ultimately show ?thesis using lookupKey_mem [of key "rev vs" v] Some by simp
qed

lemma mapGet_fillMap_distinct:
  "distinct (map key vs) \<Longrightarrow> mapGet (fillMap key vs) k = lookupKey key vs k"
  by (simp add: mapGet_fillMap lookupKey_rev)

definition sameOutcome :: "('e, 'a) result \<Rightarrow> ('e, 'a) result \<Rightarrow> bool" where
  "sameOutcome x y \<longleftrightarrow> (\<forall>v. x = Inr v \<longleftrightarrow> y = Inr v)"

lemma sameOutcome_refl [simp]: "sameOutcome x x"
  by (simp add: sameOutcome_def)

lemma sameOutcome_sym: "sameOutcome x y \<Longrightarrow> sameOutcome y x"
  by (simp add: sameOutcome_def)

lemma sameOutcome_isOk: "sameOutcome x y \<Longrightarrow> isOk x = isOk y"
  by (auto simp: sameOutcome_def isOk_iff)

lemma mergeStep_get:
  assumes "mergeStep key comb m v = Inr m'"
  shows "optStep comb (mapGet m (key v)) v = Inr (mapGet m' (key v))"
    and "k \<noteq> key v \<Longrightarrow> mapGet m' k = mapGet m k"
  using assms by (auto simp: mergeStep_def result_simps split: option.splits)

lemma mergeStep_ok: "isOk (mergeStep key comb m v) \<longleftrightarrow> isOk (optStep comb (mapGet m (key v)) v)"
  by (auto simp: mergeStep_def isOk_bindE split: option.splits)

lemma foldE_mergeStep_get:
  assumes "foldE (mergeStep key comb) m vs = Inr m'"
  shows "foldE (optStep comb) (mapGet m k) (filter (\<lambda>v. key v = k) vs) = Inr (mapGet m' k)"
  using assms
proof (induction vs arbitrary: m)
  case (Cons v vs)
  then obtain m1 where m1: "mergeStep key comb m v = Inr m1"
    and rest: "foldE (mergeStep key comb) m1 vs = Inr m'"
    by (auto simp: result_simps)
  from mergeStep_get [OF m1] Cons.IH [OF rest] show ?case by auto
qed simp

lemma foldE_mergeStep_ok:
  "isOk (foldE (mergeStep key comb) m vs) \<longleftrightarrow>
     (\<forall>k. isOk (foldE (optStep comb) (mapGet m k) (filter (\<lambda>v. key v = k) vs)))"
proof (induction vs arbitrary: m)
  case (Cons v vs)
  show ?case
  proof (cases "mergeStep key comb m v")
    case (Inl e)
    then have "\<not> isOk (optStep comb (mapGet m (key v)) v)"
      using mergeStep_ok [of key comb m v] by simp
    then have "\<not> isOk (foldE (optStep comb) (mapGet m (key v)) (filter (\<lambda>x. key x = key v) (v # vs)))"
      by (auto simp: isOk_bindE)
    with Inl show ?thesis by auto
  next
    case (Inr m1)
    have "foldE (optStep comb) (mapGet m k) (filter (\<lambda>x. key x = k) (v # vs)) =
        foldE (optStep comb) (mapGet m1 k) (filter (\<lambda>x. key x = k) vs)" for k
      using mergeStep_get [OF Inr] by auto
    with Inr Cons.IH [of m1] show ?thesis by simp
  qed
qed simp

lemma filter_key_distinct:
  "distinct (map key vs) \<Longrightarrow>
   filter (\<lambda>v. key v = k) vs = (case lookupKey key vs k of None \<Rightarrow> [] | Some v \<Rightarrow> [v])"
proof (induction vs)
  case (Cons v vs)
  then show ?case
    by (auto split: option.splits simp: lookupKey_None filter_empty_conv dest!: lookupKey_Some)
qed simp

locale keyed_merge =
  fixes key :: "'v \<Rightarrow> 'k::linorder"
    and comb :: "'v \<Rightarrow> 'v \<Rightarrow> ('e, 'v) result"
  assumes comb_key: "comb a b = Inr c \<Longrightarrow> key a = key b \<Longrightarrow> key c = key a"
begin

lemma mergeStep_keyedBy:
  "keyedBy key m \<Longrightarrow> mergeStep key comb m v = Inr m' \<Longrightarrow> keyedBy key m'"
  by (auto simp: mergeStep_def result_simps split: option.splits
      intro!: keyedBy_mapSet dest!: comb_key) (auto simp: keyedBy_def)

lemma fold_keyedBy:
  "foldE (mergeStep key comb) m vs = Inr m' \<Longrightarrow> keyedBy key m \<Longrightarrow> keyedBy key m'"
  by (erule foldE_invariant [where P = "keyedBy key"]) (auto intro: mergeStep_keyedBy)

text \<open>The result is strictly sorted by key, and each key holds what combining its elements gives.\<close>

lemma merge_sorted:
  assumes "mergeKeyed key comb m vs = Inr zs" "keyedBy key m"
  shows "sortedByKey key zs"
  using assms fold_keyedBy
  by (auto simp: mergeKeyed_def result_simps intro: sortedByKey_sortMap)

lemma merge_lookup:
  assumes "mergeKeyed key comb m vs = Inr zs" "keyedBy key m"
  shows "foldE (optStep comb) (mapGet m k) (filter (\<lambda>v. key v = k) vs) = Inr (lookupKey key zs k)"
proof -
  obtain m' where m': "foldE (mergeStep key comb) m vs = Inr m'" "zs = sortMap m'"
    using assms(1) by (auto simp: mergeKeyed_def result_simps)
  show ?thesis
    using foldE_mergeStep_get [OF m'(1)] lookupKey_sortMap [OF fold_keyedBy [OF m'(1) assms(2)]] m'(2)
    by simp
qed

lemma merge_ok:
  "isOk (mergeKeyed key comb m vs) \<longleftrightarrow>
     (\<forall>k. isOk (foldE (optStep comb) (mapGet m k) (filter (\<lambda>v. key v = k) vs)))"
  using foldE_mergeStep_ok [of key comb m vs]
  by (simp add: mergeKeyed_def isOk_bindE isOk_iff [of "foldE (mergeStep key comb) m vs"])

text \<open>Merging is determined by what it does to each key.\<close>

lemma merge_eqI:
  assumes "keyedBy key m" "sortedByKey key zs"
    and "\<And>k. foldE (optStep comb) (mapGet m k) (filter (\<lambda>v. key v = k) vs) = Inr (lookupKey key zs k)"
  shows "mergeKeyed key comb m vs = Inr zs"
proof -
  have "isOk (mergeKeyed key comb m vs)"
    using assms(3) by (simp add: merge_ok)
  then obtain ws where ws: "mergeKeyed key comb m vs = Inr ws"
    by (auto simp: isOk_iff)
  have "ws = zs"
    using merge_sorted [OF ws assms(1)] assms(2)
  proof (rule sortedByKey_ext)
    show "lookupKey key ws k = lookupKey key zs k" for k
      using merge_lookup [OF ws assms(1), of k] assms(3) [of k] by simp
  qed
  with ws show ?thesis by simp
qed

lemma merge_cong:
  assumes "keyedBy key m" "keyedBy key m'"
    and "\<And>k. sameOutcome (foldE (optStep comb) (mapGet m k) (filter (\<lambda>v. key v = k) vs))
                (foldE (optStep comb) (mapGet m' k) (filter (\<lambda>v. key v = k) ws))"
  shows "sameOutcome (mergeKeyed key comb m vs) (mergeKeyed key comb m' ws)"
  unfolding sameOutcome_def
proof (intro allI iffI)
  fix zs
  show "mergeKeyed key comb m' ws = Inr zs" if eq: "mergeKeyed key comb m vs = Inr zs"
    using assms(2) merge_sorted [OF eq assms(1)]
    by (rule merge_eqI) (use merge_lookup [OF eq assms(1)] assms(3) in \<open>metis sameOutcome_def\<close>)
  show "mergeKeyed key comb m vs = Inr zs" if eq: "mergeKeyed key comb m' ws = Inr zs"
    using assms(1) merge_sorted [OF eq assms(2)]
    by (rule merge_eqI) (use merge_lookup [OF eq assms(2)] assms(3) in \<open>metis sameOutcome_def\<close>)
qed

text \<open>Membership: an element of the result is an input or a combination of inputs.\<close>

lemma merge_invariant:
  assumes "mergeKeyed key comb m vs = Inr zs" "keyedBy key m"
    and "\<And>k v. mapGet m k = Some v \<Longrightarrow> P v"
    and "\<And>v. v \<in> set vs \<Longrightarrow> P v"
    and "\<And>a b c. comb a b = Inr c \<Longrightarrow> key a = key b \<Longrightarrow> P a \<Longrightarrow> P b \<Longrightarrow> P c"
    and "z \<in> set zs"
  shows "P z"
proof -
  let ?I = "\<lambda>m. keyedBy key m \<and> (\<forall>k v. mapGet m k = Some v \<longrightarrow> P v)"
  obtain m' where m': "foldE (mergeStep key comb) m vs = Inr m'" "zs = sortMap m'"
    using assms(1) by (auto simp: mergeKeyed_def result_simps)
  have "?I m'"
  proof (rule foldE_invariant [OF m'(1), where P = ?I])
    show "?I m" using assms(2,3) by blast
  next
    fix s x s'
    assume x: "x \<in> set vs" "?I s" "mergeStep key comb s x = Inr s'"
    then have "P c" if "mapGet s (key x) = Some a" "comb a x = Inr c" for a c
      using that assms(4,5) by (metis keyedBy_def)
    with x show "?I s'"
      using assms(4) mergeStep_keyedBy [of s x s']
      by (auto simp: mergeStep_def result_simps split: option.splits if_splits)
  qed
  with m'(2) assms(6) show ?thesis by (auto simp: set_sortMap)
qed

text \<open>Where the map already holds every key, each element of the result was combined.\<close>

lemma merge_combined:
  assumes "mergeKeyed key comb m vs = Inr zs" "keyedBy key m"
    and keys: "\<And>k a. mapGet m k = Some a \<Longrightarrow> k \<in> key ` set vs" "\<And>v. v \<in> set vs \<Longrightarrow> mapGet m (key v) \<noteq> None"
    and comb: "\<And>a b c. comb a b = Inr c \<Longrightarrow> Q c" and z: "z \<in> set zs"
  shows "Q z"
proof -
  let ?fs = "filter (\<lambda>v. key v = key z) vs"
  have run: "foldE (optStep comb) (mapGet m (key z)) ?fs = Inr (Some z)"
    using merge_lookup [OF assms(1,2), of "key z"]
      lookupKey_mem [OF sortedByKey_distinct [OF merge_sorted [OF assms(1,2)]] z] by simp
  have "?fs \<noteq> []"
  proof
    assume "?fs = []"
    with run have "mapGet m (key z) = Some z" by simp
    then show False using keys(1) \<open>?fs = []\<close> by (force simp: filter_empty_conv)
  qed
  then obtain v fs where fs: "?fs = fs @ [v]" by (metis rev_exhaust)
  then have "v \<in> set ?fs" by simp
  then have v: "v \<in> set vs" "key v = key z" by auto
  have some: "x \<noteq> None" if "foldE (optStep comb) a us = Inr x" "a \<noteq> None" for a us x
    using that by (rule foldE_invariant [where P = "\<lambda>x. x \<noteq> None"])
      (auto simp: optStep_def result_simps split: option.splits)
  obtain a where "foldE (optStep comb) (mapGet m (key z)) fs = Inr (Some a)" "optStep comb (Some a) v = Inr (Some z)"
    using run some keys(2) [OF v(1)] v(2) by (fastforce simp: fs foldE_append result_simps)
  then show ?thesis using comb by (auto simp: result_simps)
qed

text \<open>A list without duplicate keys merged into a map.\<close>

lemma merge_fill_lookup:
  assumes "mergeKeyed key comb m ys = Inr zs" "keyedBy key m" "distinct (map key ys)"
  shows "optMerge comb (mapGet m k) (lookupKey key ys k) = Inr (lookupKey key zs k)"
  using merge_lookup [OF assms(1,2), of k] assms(3)
  by (auto simp: filter_key_distinct optMerge_def split: option.splits)

lemma merge_fill_eqI:
  assumes "keyedBy key m" "distinct (map key ys)" "sortedByKey key zs"
    and "\<And>k. optMerge comb (mapGet m k) (lookupKey key ys k) = Inr (lookupKey key zs k)"
  shows "mergeKeyed key comb m ys = Inr zs"
proof (rule merge_eqI)
  show "foldE (optStep comb) (mapGet m k) (filter (\<lambda>v. key v = k) ys) = Inr (lookupKey key zs k)" for k
    using assms(4) [of k] assms(2)
    by (auto simp: filter_key_distinct optMerge_def split: option.splits)
qed (simp_all add: assms)

lemma merge_fill_self:
  assumes "sortedByKey key xs" "\<And>x. x \<in> set xs \<Longrightarrow> comb x x = Inr x"
  shows "mergeKeyed key comb (fillMap key xs) xs = Inr xs"
proof (rule merge_fill_eqI)
  show "optMerge comb (mapGet (fillMap key xs) k) (lookupKey key xs k) = Inr (lookupKey key xs k)" for k
    using assms(2) lookupKey_Some [of key xs k] sortedByKey_distinct [OF assms(1)]
    by (auto simp: optMerge_def mapGet_fillMap_distinct split: option.splits)
qed (simp_all add: assms(1) sortedByKey_distinct)

text \<open>Two lists without duplicate keys, merged one after the other.\<close>

lemma merge_two_lookup:
  assumes "mergeKeyed key comb [] (xs @ ys) = Inr zs"
    and "distinct (map key xs)" "distinct (map key ys)"
  shows "optMerge comb (lookupKey key xs k) (lookupKey key ys k) = Inr (lookupKey key zs k)"
  using merge_lookup [OF assms(1), of k] assms(2,3)
  by (auto simp: filter_key_distinct optMerge_def split: option.splits)

lemma merge_two_eqI:
  assumes "distinct (map key xs)" "distinct (map key ys)" "sortedByKey key zs"
    and "\<And>k. optMerge comb (lookupKey key xs k) (lookupKey key ys k) = Inr (lookupKey key zs k)"
  shows "mergeKeyed key comb [] (xs @ ys) = Inr zs"
proof (rule merge_eqI)
  show "foldE (optStep comb) (mapGet [] k) (filter (\<lambda>v. key v = k) (xs @ ys)) =
      Inr (lookupKey key zs k)" for k
    using assms(4) [of k] assms(1,2)
    by (auto simp: filter_key_distinct optMerge_def split: option.splits)
qed (simp_all add: assms(3))

text \<open>A sorted list of elements that combine with themselves to themselves is a fixed point.\<close>

lemma merge_self:
  assumes "sortedByKey key xs" "\<And>x. x \<in> set xs \<Longrightarrow> comb x x = Inr x"
  shows "mergeKeyed key comb [] (xs @ xs) = Inr xs"
  using assms
  by (intro merge_two_eqI)
    (auto simp: sortedByKey_distinct optMerge_def dest!: lookupKey_Some split: option.splits)

text \<open>Where combining two elements does not depend on their order, nor does merging two lists.\<close>

lemma merge_commute:
  assumes "distinct (map key xs)" "distinct (map key ys)"
    and "\<And>x y. x \<in> set xs \<Longrightarrow> y \<in> set ys \<Longrightarrow> key x = key y \<Longrightarrow> sameOutcome (comb x y) (comb y x)"
  shows "sameOutcome (mergeKeyed key comb [] (xs @ ys)) (mergeKeyed key comb [] (ys @ xs))"
proof (rule merge_cong)
  fix k
  show "sameOutcome
     (foldE (optStep comb) (mapGet [] k) (filter (\<lambda>v. key v = k) (xs @ ys)))
     (foldE (optStep comb) (mapGet [] k) (filter (\<lambda>v. key v = k) (ys @ xs)))"
    using assms
    by (auto simp: filter_key_distinct sameOutcome_def result_simps
        dest!: lookupKey_Some split: option.splits)
qed simp_all

lemma merge_fill_commute:
  assumes "distinct (map key xs)" "distinct (map key ys)"
    and "\<And>x y. x \<in> set xs \<Longrightarrow> y \<in> set ys \<Longrightarrow> key x = key y \<Longrightarrow> sameOutcome (comb x y) (comb y x)"
  shows "sameOutcome (mergeKeyed key comb (fillMap key xs) ys) (mergeKeyed key comb (fillMap key ys) xs)"
proof (rule merge_cong)
  fix k
  show "sameOutcome
     (foldE (optStep comb) (mapGet (fillMap key xs) k) (filter (\<lambda>v. key v = k) ys))
     (foldE (optStep comb) (mapGet (fillMap key ys) k) (filter (\<lambda>v. key v = k) xs))"
    using assms
    by (auto simp: filter_key_distinct mapGet_fillMap_distinct sameOutcome_def result_simps
        dest!: lookupKey_Some split: option.splits)
qed simp_all

end

text \<open>A merge whose combination cannot fail, written as a plain fold.\<close>

lemma mergeKeyed_total:
  "mergeKeyed key (\<lambda>a b. Inr (f a b)) m vs =
     (Inr (sortMap (foldl (\<lambda>m v. let k = key v in
       case mapGet m k of None \<Rightarrow> mapSet m k v | Some a \<Rightarrow> mapSet m k (f a v)) m vs)) :: ('e, 'v list) result)"
proof -
  have "foldE (mergeStep key (\<lambda>a b. Inr (f a b))) m vs =
     (Inr (foldl (\<lambda>m v. let k = key v in
       case mapGet m k of None \<Rightarrow> mapSet m k v | Some a \<Rightarrow> mapSet m k (f a v)) m vs) :: ('e, _) result)"
    by (induction vs arbitrary: m) (auto simp: mergeStep_def Let_def split: option.splits)
  then show ?thesis by (simp add: mergeKeyed_def)
qed

end
