(* ===== verification/Merge.thy ===== *)
theory Merge
  imports Prefix_Names Keyed_Merge
begin

text \<open>
  \<^verbatim>\<open>internal/controller/merge.go\<close>: merging two router configurations for the same VRF. Neighbors are
  reached through pointers and updated in place, and \<open>validateRouterConfig\<close> merges a router with
  itself, so the neighbor lists hold positions in a store of neighbors (\<open>heap\<close>); everything else is
  passed by value. The loop over a Go set visits its elements in no particular order: where it
  fails, the error here names the least of the elements it may name.
\<close>

type_synonym heap = "NeighborConfig list"

section \<open>Comparisons\<close>

definition defaultBGPPort :: uint16 where "defaultBGPPort = 179"

definition defaultHoldTime :: int where "defaultHoldTime = 180"

definition defaultKeepaliveTime :: int where "defaultKeepaliveTime = 60"

definition defaultConnectTime :: int where "defaultConnectTime = 60"

lemmas merge_defaults = defaultBGPPort_def defaultHoldTime_def defaultKeepaliveTime_def
  defaultConnectTime_def

definition ptrsEqual :: "'a option \<Rightarrow> 'a option \<Rightarrow> 'a \<Rightarrow> bool" where
  "ptrsEqual p1 p2 dflt =
     (case (p1, p2) of
        (None, None) \<Rightarrow> True
      | (None, Some b) \<Rightarrow> b = dflt
      | (Some a, None) \<Rightarrow> a = dflt
      | (Some a, Some b) \<Rightarrow> a = b)"

definition routersAreCompatible :: "RouterConfig \<Rightarrow> RouterConfig \<Rightarrow> (error, unit) result" where
  "routersAreCompatible r toMerge =
     (if rc_VRF r \<noteq> rc_VRF toMerge then
        Inl (Errorf ''different VRFs specified (%s != %s)'' [AStr (rc_VRF r), AStr (rc_VRF toMerge)])
      else if rc_MyASN r \<noteq> rc_MyASN toMerge then
        Inl (Errorf ''different asns (%d != %d) specified for same vrf: %s''
               [AU32 (rc_MyASN r), AU32 (rc_MyASN toMerge), AStr (rc_VRF r)])
      else
        (let bothRouterIDsNonEmpty = (rc_RouterID r \<noteq> '''' \<and> rc_RouterID toMerge \<noteq> '''');
             routerIDsDifferent = (rc_RouterID r \<noteq> rc_RouterID toMerge)
         in if bothRouterIDsNonEmpty \<and> routerIDsDifferent then
              Inl (Errorf ''different router ids (%s != %s) specified for same vrf: %s''
                     [AStr (rc_RouterID r), AStr (rc_RouterID toMerge), AStr (rc_VRF r)])
            else Inr ()))"

definition neighborsAreCompatible :: "NeighborConfig \<Rightarrow> NeighborConfig \<Rightarrow> (error, unit) result" where
  "neighborsAreCompatible n1 n2 =
     (if ID n1 \<noteq> ID n2 then
        Inl (Errorf ''only neighbors with same ID (%s, %s) are compatible for merging''
               [AStr (ID n1), AStr (ID n2)])
      else let neighborKey = [AStr (ID n1)] in
      if nc_ASN n1 \<noteq> nc_ASN n2 then Inl (Errorf ''multiple asns specified for %s'' neighborKey)
      else if \<not> ptrsEqual (nc_Port n1) (nc_Port n2) defaultBGPPort then
        Inl (Errorf ''multiple ports specified for %s'' neighborKey)
      else if nc_SrcAddr n1 \<noteq> nc_SrcAddr n2 then
        Inl (Errorf ''multiple source addresses specified for %s'' neighborKey)
      else if nc_Password n1 \<noteq> nc_Password n2 then
        Inl (Errorf ''multiple passwords specified for %s'' neighborKey)
      else if nc_BFDProfile n1 \<noteq> '''' \<and> nc_BFDProfile n2 \<noteq> '''' \<and> nc_BFDProfile n1 \<noteq> nc_BFDProfile n2 then
        Inl (Errorf ''multiple bfd profiles specified for %s'' neighborKey)
      else if nc_EBGPMultiHop n1 \<noteq> nc_EBGPMultiHop n2 then
        Inl (Errorf ''conflicting ebgp-multihop specified for %s'' neighborKey)
      else if nc_IPFamily n1 \<noteq> nc_IPFamily n2 then
        Inl (Errorf ''conflicting advertiseDualStack specified for %s'' neighborKey)
      else if \<not> ptrsEqual (nc_HoldTime n1) (nc_HoldTime n2) defaultHoldTime then
        Inl (Errorf ''multiple hold times specified for %s'' neighborKey)
      else if \<not> ptrsEqual (nc_KeepaliveTime n1) (nc_KeepaliveTime n2) defaultKeepaliveTime then
        Inl (Errorf ''multiple keepalive times specified for %s'' neighborKey)
      else if \<not> ptrsEqual (nc_ConnectTime n1) (nc_ConnectTime n2) defaultConnectTime then
        Inl (Errorf ''multiple connect times specified for %s'' neighborKey)
      else if nc_LocalASN n1 \<noteq> nc_LocalASN n2 then
        Inl (Errorf ''multiple localASNs specified for %s'' neighborKey)
      else Inr ())"

section \<open>Incoming and outgoing prefixes\<close>

definition incomingFilterKey :: "IncomingFilter \<Rightarrow> string" where
  "incomingFilterKey f = if_Prefix f @ itoa (unat (if_LE f)) @ itoa (unat (if_GE f))"

definition mergeIncomingFilters :: "IncomingFilter list \<Rightarrow> IncomingFilter list \<Rightarrow> IncomingFilter list" where
  "mergeIncomingFilters cur toMerge =
     (let all = cur @ toMerge in
      if all = [] then [] else sortMapPtr (fillMap incomingFilterKey all))"

definition mergeAllowedIn :: "AllowedIn \<Rightarrow> AllowedIn \<Rightarrow> AllowedIn" where
  "mergeAllowedIn r toMerge =
     (if ai_All r \<or> ai_All toMerge then \<lparr>ai_All = True, ai_PrefixesV4 = [], ai_PrefixesV6 = []\<rparr>
      else \<lparr>ai_All = False,
            ai_PrefixesV4 = mergeIncomingFilters (ai_PrefixesV4 r) (ai_PrefixesV4 toMerge),
            ai_PrefixesV6 = mergeIncomingFilters (ai_PrefixesV6 r) (ai_PrefixesV6 toMerge)\<rparr>)"

definition lpKey :: "LocalPrefPrefixList \<Rightarrow> string" where
  "lpKey pl = localPrefPrefixListKey (lpl_LocalPref pl) (pl_IPFamily pl)"

definition commKey :: "CommunityPrefixList \<Rightarrow> string" where
  "commKey pl = communityPrefixListKey (cpl_Community pl) (pl_IPFamily pl)"

definition addPrefixes :: "'a PrefixList_scheme \<Rightarrow> 'a PrefixList_scheme \<Rightarrow> 'a PrefixList_scheme" where
  "addPrefixes addTo prefixList = addTo\<lparr>pl_Prefixes := pl_Prefixes addTo \<union> pl_Prefixes prefixList\<rparr>"

definition mergeLocalPrefPrefixLists ::
  "LocalPrefPrefixList list \<Rightarrow> LocalPrefPrefixList list \<Rightarrow> LocalPrefPrefixList list"
where
  "mergeLocalPrefPrefixLists cur toMerge =
     sortMap (foldl (\<lambda>allMap prefixList.
         let k = lpKey prefixList in
         case mapGet allMap k of
           None \<Rightarrow> mapSet allMap k prefixList
         | Some addTo \<Rightarrow> mapSet allMap k (addPrefixes addTo prefixList))
       (fillMap lpKey cur) toMerge)"

definition mergeCommunityPrefixLists ::
  "CommunityPrefixList list \<Rightarrow> CommunityPrefixList list \<Rightarrow> CommunityPrefixList list"
where
  "mergeCommunityPrefixLists cur toMerge =
     sortMap (foldl (\<lambda>allMap prefixList.
         let k = commKey prefixList in
         case mapGet allMap k of
           None \<Rightarrow> mapSet allMap k prefixList
         | Some addTo \<Rightarrow> mapSet allMap k (addPrefixes addTo prefixList))
       (fillMap commKey cur) toMerge)"

definition mergeNextHop :: "string \<Rightarrow> string \<Rightarrow> (error, string) result" where
  "mergeNextHop cur toMerge =
     (if cur = '''' then Inr toMerge
      else if toMerge = '''' \<or> cur = toMerge then Inr cur
      else Inl (Errorf ''multiple next hops (%s != %s) specified'' [AStr cur, AStr toMerge]))"

text \<open>The map \<open>localPrefForPrefix\<close>: the preference of the last list that holds the prefix.\<close>

definition localPrefForPrefix :: "LocalPrefPrefixList list \<Rightarrow> string \<Rightarrow> uint32 option" where
  "localPrefForPrefix ls =
     foldl (\<lambda>m p x. if x \<in> pl_Prefixes p then Some (lpl_LocalPref p) else m x) (\<lambda>_. None) ls"

definition checkLocalPrefs :: "(string \<Rightarrow> uint32 option) \<Rightarrow> LocalPrefPrefixList \<Rightarrow> (error, unit) result" where
  "checkLocalPrefs m p =
     (let conflicts = {x \<in> pl_Prefixes p. m x \<noteq> None \<and> m x \<noteq> Some (lpl_LocalPref p)} in
      if conflicts = {} then Inr ()
      else let x = Min conflicts in
        Inl (Errorf ''multiple local prefs (%d != %d) specified for prefix %s''
               [AU32 (the (m x)), AU32 (lpl_LocalPref p), AStr x]))"

definition mergeAllowedOut :: "AllowedOut \<Rightarrow> AllowedOut \<Rightarrow> (error, AllowedOut) result" where
  "mergeAllowedOut r toMerge =
     bindE (mapErr (\<lambda>e. Errorf ''ipv4 next hop: %w'' [AErr e])
              (mergeNextHop (ao_NextHopV4 r) (ao_NextHopV4 toMerge))) (\<lambda>nextHopV4.
     bindE (mapErr (\<lambda>e. Errorf ''ipv6 next hop: %w'' [AErr e])
              (mergeNextHop (ao_NextHopV6 r) (ao_NextHopV6 toMerge))) (\<lambda>nextHopV6.
     bindE (forE (checkLocalPrefs (localPrefForPrefix (ao_LocalPrefPrefixesModifiers r)))
              (ao_LocalPrefPrefixesModifiers toMerge)) (\<lambda>_.
     Inr \<lparr>ao_PrefixesV4 = setsList (ao_PrefixesV4 r @ ao_PrefixesV4 toMerge),
          ao_PrefixesV6 = setsList (ao_PrefixesV6 r @ ao_PrefixesV6 toMerge),
          ao_NextHopV4 = nextHopV4,
          ao_NextHopV6 = nextHopV6,
          ao_LocalPrefPrefixesModifiers =
            mergeLocalPrefPrefixLists (ao_LocalPrefPrefixesModifiers r) (ao_LocalPrefPrefixesModifiers toMerge),
          ao_CommunityPrefixesModifiers =
            mergeCommunityPrefixLists (ao_CommunityPrefixesModifiers r)
              (ao_CommunityPrefixesModifiers toMerge)\<rparr>)))"

section \<open>Neighbors\<close>

definition cleanNeighborDefaults :: "NeighborConfig \<Rightarrow> NeighborConfig" where
  "cleanNeighborDefaults neigh =
     neigh\<lparr>nc_Port := (if nc_Port neigh = Some defaultBGPPort then None else nc_Port neigh),
           nc_HoldTime := (if nc_HoldTime neigh = Some defaultHoldTime then None else nc_HoldTime neigh),
           nc_KeepaliveTime :=
             (if nc_KeepaliveTime neigh = Some defaultKeepaliveTime then None else nc_KeepaliveTime neigh),
           nc_ConnectTime :=
             (if nc_ConnectTime neigh = Some defaultConnectTime then None else nc_ConnectTime neigh)\<rparr>"

definition mergeIntoNeighbor :: "NeighborConfig \<Rightarrow> NeighborConfig \<Rightarrow> (error, NeighborConfig) result" where
  "mergeIntoNeighbor dest src =
     bindE (neighborsAreCompatible dest src) (\<lambda>_.
     let bfdProfile = (if nc_BFDProfile dest = '''' then nc_BFDProfile src else nc_BFDProfile dest) in
     bindE (mapErr (\<lambda>e. Errorf ''could not merge outgoing for neighbor %s vrf %s, err: %w''
                          [AStr (nc_Addr src), AStr (nc_VRFName src), AErr e])
              (mergeAllowedOut (nc_Outgoing dest) (nc_Outgoing src))) (\<lambda>outgoing.
     Inr (cleanNeighborDefaults
       (dest\<lparr>nc_BFDProfile := bfdProfile,
             nc_Outgoing := outgoing,
             nc_Incoming := mergeAllowedIn (nc_Incoming dest) (nc_Incoming src),
             nc_AddressFamilies := setsList (nc_AddressFamilies dest @ nc_AddressFamilies src)\<rparr>))))"

text \<open>One iteration of the loop of \<open>mergeNeighborsLists\<close>: the map holds pointers into the store.\<close>

definition neighborStep ::
  "heap \<times> (string, nat) gomap \<Rightarrow> nat \<Rightarrow> (error, heap \<times> (string, nat) gomap) result"
where
  "neighborStep = (\<lambda>(h, mergedNeighbors) n.
     let ident = ID (h ! n) in
     case mapGet mergedNeighbors ident of
       None \<Rightarrow> Inr (h, mapSet mergedNeighbors ident n)
     | Some d \<Rightarrow> bindE (mergeIntoNeighbor (h ! d) (h ! n)) (\<lambda>dest. Inr (h[d := dest], mergedNeighbors)))"

definition mergeNeighborsLists ::
  "heap \<Rightarrow> nat list \<Rightarrow> nat list \<Rightarrow> (error, heap \<times> nat list) result"
where
  "mergeNeighborsLists h first toMerge =
     (let all = first @ toMerge in
      if all = [] then Inr (h, [])
      else bindE (foldE neighborStep (h, []) all) (\<lambda>(h', mergedNeighbors). Inr (h', sortMap mergedNeighbors)))"

section \<open>EVPN\<close>

definition mergeRTs :: "string list \<Rightarrow> string list \<Rightarrow> string list" where
  "mergeRTs a b =
     (if a = [] \<and> b = [] then []
      else if a = [] then b
      else if b = [] then a
      else setsList (a @ b))"

definition mergeVNIProperties :: "frrVNIProperties \<Rightarrow> frrVNIProperties \<Rightarrow> (error, frrVNIProperties) result" where
  "mergeVNIProperties a b =
     (if fvp_RD a \<noteq> '''' \<and> fvp_RD b \<noteq> '''' \<and> fvp_RD a \<noteq> fvp_RD b then
        Inl (Errorf ''different RD values (%s != %s)'' [AStr (fvp_RD a), AStr (fvp_RD b)])
      else if (fvp_ImportRTs a = []) \<noteq> (fvp_ImportRTs b = []) then
        Inl (Errorf ''conflicting import route targets: mixing implicit and explicit route targets'' [])
      else if (fvp_ExportRTs a = []) \<noteq> (fvp_ExportRTs b = []) then
        Inl (Errorf ''conflicting export route targets: mixing implicit and explicit route targets'' [])
      else
        Inr \<lparr>fvp_RD = (if fvp_RD a = '''' then fvp_RD b else fvp_RD a),
             fvp_ImportRTs = mergeRTs (fvp_ImportRTs a) (fvp_ImportRTs b),
             fvp_ExportRTs = mergeRTs (fvp_ExportRTs a) (fvp_ExportRTs b)\<rparr>)"

definition mergeL3VNIs :: "frrL3VNI option \<Rightarrow> frrL3VNI option \<Rightarrow> (error, frrL3VNI option) result" where
  "mergeL3VNIs a b =
     (case a of
        None \<Rightarrow> Inr b
      | Some a' \<Rightarrow>
          (case b of
             None \<Rightarrow> Inr a
           | Some b' \<Rightarrow>
               if fl3_VNI a' \<noteq> fl3_VNI b' then
                 Inl (Errorf ''different l3vni numbers (%d != %d)'' [AU32 (fl3_VNI a'), AU32 (fl3_VNI b')])
               else
                 bindE (mergeVNIProperties (fl3_VNIProperties a') (fl3_VNIProperties b')) (\<lambda>merged.
                 Inr (Some \<lparr>fl3_VNI = fl3_VNI a', fl3_VNIProperties = merged,
                   fl3_AdvertisePrefixes =
                     setsList (fl3_AdvertisePrefixes a' @ fl3_AdvertisePrefixes b')\<rparr>))))"

definition mergeL2VNI :: "frrL2VNI \<Rightarrow> frrL2VNI \<Rightarrow> (error, frrL2VNI) result" where
  "mergeL2VNI existing v =
     bindE (mapErr (\<lambda>e. Errorf ''could not merge l2vni %d, err: %w'' [AU32 (fl2_VNI existing), AErr e])
              (mergeVNIProperties (fl2_VNIProperties existing) (fl2_VNIProperties v))) (\<lambda>merged.
     Inr \<lparr>fl2_VNI = fl2_VNI existing, fl2_VNIProperties = merged\<rparr>)"

definition mergeL2VNIs :: "frrL2VNI list \<Rightarrow> frrL2VNI list \<Rightarrow> (error, frrL2VNI list) result" where
  "mergeL2VNIs a b =
     (if a = [] \<and> b = [] then Inr []
      else if a = [] then Inr b
      else if b = [] then Inr a
      else mergeKeyed fl2_VNI mergeL2VNI (fillMap fl2_VNI a) b)"

definition ptrDeref :: "'a option \<Rightarrow> 'a \<Rightarrow> 'a" where
  "ptrDeref p dflt = (case p of None \<Rightarrow> dflt | Some v \<Rightarrow> v)"

definition mergeEVPNConfigs ::
  "frrEVPNConfig option \<Rightarrow> frrEVPNConfig option \<Rightarrow> (error, frrEVPNConfig option) result"
where
  "mergeEVPNConfigs a b =
     (case (a, b) of
        (None, None) \<Rightarrow> Inr None
      | (None, Some _) \<Rightarrow> Inr b
      | (Some _, None) \<Rightarrow> Inr a
      | (Some a', Some b') \<Rightarrow>
          if \<not> ptrsEqual (fev_AdvertiseVNIs a') (fev_AdvertiseVNIs b') VNIAdvertisementDisabled then
            Inl (Errorf ''different advertiseVNIs (%q != %q)''
                   [AStr (ptrDeref (fev_AdvertiseVNIs a') VNIAdvertisementDisabled),
                    AStr (ptrDeref (fev_AdvertiseVNIs b') VNIAdvertisementDisabled)])
          else if fev_AdvertiseSVI a' \<noteq> fev_AdvertiseSVI b' then
            Inl (Errorf ''different advertiseSVI (%t != %t)''
                   [ABool (fev_AdvertiseSVI a'), ABool (fev_AdvertiseSVI b')])
          else
            bindE (mergeL2VNIs (fev_L2VNIs a') (fev_L2VNIs b')) (\<lambda>mergedL2VNIs.
            bindE (mergeL3VNIs (fev_L3VNI a') (fev_L3VNI b')) (\<lambda>mergedL3VNI.
            Inr (Some \<lparr>fev_AdvertiseVNIs =
                         (if fev_AdvertiseVNIs a' = None then fev_AdvertiseVNIs b'
                          else fev_AdvertiseVNIs a'),
                       fev_AdvertiseSVI = fev_AdvertiseSVI a',
                       fev_L2VNIs = mergedL2VNIs,
                       fev_L3VNI = mergedL3VNI\<rparr>))))"

section \<open>Routers\<close>

text \<open>
  The body of \<open>mergeRouterConfigs\<close>, for routers whose neighbor lists point into the store \<open>h\<close> at
  \<open>ns\<close> and \<open>ms\<close>. Two different routers have their own neighbors; a router merged with itself
  (\<open>validateRouterConfig\<close>) has the same pointers on both sides.
\<close>

definition mergeRouterConfigsAt ::
  "heap \<Rightarrow> nat list \<Rightarrow> nat list \<Rightarrow> RouterConfig \<Rightarrow> RouterConfig \<Rightarrow> (error, RouterConfig) result"
where
  "mergeRouterConfigsAt h ns ms r toMerge =
     bindE (routersAreCompatible r toMerge) (\<lambda>_.
     let routerID = (if rc_RouterID r = '''' then rc_RouterID toMerge else rc_RouterID r) in
     bindE (mergeNeighborsLists h ns ms) (\<lambda>(h', mergedNeighbors).
     bindE (mapErr (\<lambda>e. Errorf ''could not merge EVPN configuration for vrf %q, err: %w''
                          [AStr (rc_VRF r), AErr e])
              (mergeEVPNConfigs (rc_EVPN r) (rc_EVPN toMerge))) (\<lambda>mergedEVPN.
     Inr (r\<lparr>rc_RouterID := routerID,
            rc_IPV4Prefixes := setsList (rc_IPV4Prefixes r @ rc_IPV4Prefixes toMerge),
            rc_IPV6Prefixes := setsList (rc_IPV6Prefixes r @ rc_IPV6Prefixes toMerge),
            rc_ImportVRFs := setsList (rc_ImportVRFs r @ rc_ImportVRFs toMerge),
            rc_Neighbors := map (nth h') mergedNeighbors,
            rc_EVPN := mergedEVPN\<rparr>))))"

definition mergeRouterConfigs :: "RouterConfig \<Rightarrow> RouterConfig \<Rightarrow> (error, RouterConfig) result" where
  "mergeRouterConfigs r toMerge =
     mergeRouterConfigsAt (rc_Neighbors r @ rc_Neighbors toMerge)
       [0..<length (rc_Neighbors r)]
       [length (rc_Neighbors r)..<length (rc_Neighbors r) + length (rc_Neighbors toMerge)] r toMerge"

text \<open>\<open>validateRouterConfig\<close> (\<^verbatim>\<open>api_to_config.go\<close>): the router as the merge with itself leaves it.\<close>

definition validateRouterConfig :: "RouterConfig \<Rightarrow> (error, RouterConfig) result" where
  "validateRouterConfig r =
     mergeRouterConfigsAt (rc_Neighbors r) [0..<length (rc_Neighbors r)] [0..<length (rc_Neighbors r)] r r"

end
