(* ===== verification/Api_To_Config.thy ===== *)
theory Api_To_Config
  imports Merge
begin

text \<open>
  \<^verbatim>\<open>internal/controller/api_to_config.go\<close>: the conversion of all \<open>FRRConfiguration\<close> resources of a node into one
  FRR configuration. Loops with an early error return are \<open>foldE\<close>, \<open>forE\<close> and \<open>mapE\<close>; a \<^verbatim>\<open>range\<close> over
  a Go map runs in the order of its association list, and what depends on that order is the error
  reported, not whether there is one.
\<close>

record ClusterResources =
  cr_FRRConfigs :: "FRRConfiguration list"
  cr_PasswordSecrets :: "(string, Secret) gomap"

record namedRawConfig = RawConfig +
  nrc_configName :: string

section \<open>Names and families\<close>

definition asnFor :: "Neighbor \<Rightarrow> string" where
  "asnFor n = (if nb_DynamicASN n \<noteq> '''' then nb_DynamicASN n else itoa (unat (nb_ASN n)))"

definition neighborName :: "Neighbor \<Rightarrow> string" where
  "neighborName n =
     (if nb_Address n = '''' then asnFor n @ ''@'' @ nb_Interface n else asnFor n @ ''@'' @ nb_Address n)"

definition addressFamilyForNeighbor :: "Neighbor \<Rightarrow> (error, Family) result" where
  "addressFamilyForNeighbor n =
     bindE (if nb_Address n \<noteq> ''''
            then mapErr (\<lambda>e. Errorf ''failed to find ipfamily for %s, %w'' [AStr (nb_Address n), AErr e])
                   (ForAddresses [nb_Address n])
            else Inr Unknown) (\<lambda>neighborFamily.
     Inr (if nb_Interface n \<noteq> '''' \<or> nb_DualStackAddressFamily n then DualStack else neighborFamily))"

definition neighborHasIPFamily :: "NeighborConfig \<Rightarrow> Family \<Rightarrow> bool" where
  "neighborHasIPFamily neighbor ipFamily =
     (if nc_IPFamily neighbor = DualStack then True else nc_IPFamily neighbor = ipFamily)"

section \<open>Passwords, timers and BFD profiles\<close>

definition passwordForNeighbor :: "Neighbor \<Rightarrow> (string, Secret) gomap \<Rightarrow> (error, string) result" where
  "passwordForNeighbor n passwordSecrets =
     (if nb_Password n \<noteq> '''' \<and> sr_Name (nb_PasswordSecret n) \<noteq> '''' then
        Inl (Errorf ''neighbor %s specifies both cleartext password and secret ref'' [AStr (neighborName n)])
      else if nb_Password n \<noteq> '''' then Inr (nb_Password n)
      else if sr_Name (nb_PasswordSecret n) = '''' then Inr ''''
      else
        (case mapGet passwordSecrets (sr_Name (nb_PasswordSecret n)) of
           None \<Rightarrow> Inl (TransientError ''secret %s not found for neighbor %s''
                          [AStr (sr_Name (nb_PasswordSecret n)), AStr (neighborName n)])
         | Some secret \<Rightarrow>
             if sec_Type secret \<noteq> SecretTypeBasicAuth then
               Inl (Errorf ''secret type mismatch on %q/%q, type %q is expected ''
                      [AStr (sec_Namespace secret), AStr (sec_Name secret), AStr SecretTypeBasicAuth])
             else
               (case mapGet (sec_Data secret) ''password'' of
                  None \<Rightarrow> Inl (Errorf ''password field not specified in the secret %q/%q''
                                 [AStr (sec_Namespace secret), AStr (sec_Name secret)])
                | Some srcPass \<Rightarrow> Inr srcPass)))"

text \<open>
  Durations are in nanoseconds and \<open>/\<close> truncates towards zero. \<open>rounded\<close> goes through \<^verbatim>\<open>float64\<close> seconds
  in the source, which is exact where the comparison with three seconds is decided.
\<close>

definition truncDiv :: "int \<Rightarrow> int \<Rightarrow> int" where
  "truncDiv a b = (if a \<ge> 0 then a div b else - ((- a) div b))"

definition timeSecond :: int where "timeSecond = 1000000000"

definition parseTimers ::
  "Duration option \<Rightarrow> Duration option \<Rightarrow> (error, int option \<times> int option) result"
where
  "parseTimers ht ka =
     (case (ht, ka) of
        (None, Some _) \<Rightarrow>
          Inl (Errorf ''one of KeepaliveTime/HoldTime specified, both must be set or none'' [])
      | (Some _, None) \<Rightarrow>
          Inl (Errorf ''one of KeepaliveTime/HoldTime specified, both must be set or none'' [])
      | (None, None) \<Rightarrow> Inr (None, None)
      | (Some holdTime, Some keepaliveTime) \<Rightarrow>
          (let rounded = truncDiv holdTime timeSecond * timeSecond in
           if rounded \<noteq> 0 \<and> rounded < 3 * timeSecond then
             Inl (Errorf ''invalid hold time %q: must be 0 or >=3s'' [AInt holdTime])
           else if keepaliveTime > holdTime then
             Inl (Errorf ''invalid keepaliveTime %q, must be lower than holdTime %q''
                    [AInt keepaliveTime, AInt holdTime])
           else Inr (Some (truncDiv holdTime timeSecond), Some (truncDiv keepaliveTime timeSecond))))"

definition bfdProfileToFRR :: "BFDProfile \<Rightarrow> frrBFDProfile" where
  "bfdProfileToFRR b =
     \<lparr>fbp_Name = bp_Name b,
      fbp_ReceiveInterval = bp_ReceiveInterval b,
      fbp_TransmitInterval = bp_TransmitInterval b,
      fbp_DetectMultiplier = bp_DetectMultiplier b,
      fbp_EchoInterval = bp_EchoInterval b,
      fbp_EchoMode = (case bp_EchoMode b of None \<Rightarrow> False | Some v \<Rightarrow> v),
      fbp_PassiveMode = (case bp_PassiveMode b of None \<Rightarrow> False | Some v \<Rightarrow> v),
      fbp_MinimumTTL = bp_MinimumTTL b\<rparr>"

section \<open>What a neighbor is advertised\<close>

definition prefixesToAdvertiseForFamily :: "Advertise \<Rightarrow> string list \<Rightarrow> Family \<Rightarrow> string set" where
  "prefixesToAdvertiseForFamily toAdvertise prefixesInRouter ipFamily =
     (if aop_Mode (ad_Allowed toAdvertise) = AllowAll then set (FilterPrefixes prefixesInRouter ipFamily)
      else set (filter (\<lambda>p. ForCIDRString p = ipFamily) (aop_Prefixes (ad_Allowed toAdvertise))))"

definition nextHopToFRR :: "NeighborConfig \<Rightarrow> NextHop \<Rightarrow> (error, string \<times> string) result" where
  "nextHopToFRR neighbor nextHop =
     bindE (if nh_IPv4 nextHop \<noteq> '''' then
              (case ParseIP (nh_IPv4 nextHop) of
                 None \<Rightarrow> Inl (Errorf ''invalid ipv4 next hop %q for neighbor %s''
                                [AStr (nh_IPv4 nextHop), AStr (nc_Name neighbor)])
               | Some ip \<Rightarrow>
                   if To4 ip = None then
                     Inl (Errorf ''invalid ipv4 next hop %q for neighbor %s''
                            [AStr (nh_IPv4 nextHop), AStr (nc_Name neighbor)])
                   else if \<not> neighborHasIPFamily neighbor IPv4 then
                     Inl (Errorf ''ipv4 next hop %q set for neighbor %s without an ipv4 address family''
                            [AStr (nh_IPv4 nextHop), AStr (nc_Name neighbor)])
                   else Inr ())
            else Inr ()) (\<lambda>_.
     bindE (if nh_IPv6 nextHop \<noteq> '''' then
              (case ParseIP (nh_IPv6 nextHop) of
                 None \<Rightarrow> Inl (Errorf ''invalid ipv6 next hop %q for neighbor %s''
                                [AStr (nh_IPv6 nextHop), AStr (nc_Name neighbor)])
               | Some ip \<Rightarrow>
                   if To4 ip \<noteq> None then
                     Inl (Errorf ''invalid ipv6 next hop %q for neighbor %s''
                            [AStr (nh_IPv6 nextHop), AStr (nc_Name neighbor)])
                   else if \<not> neighborHasIPFamily neighbor IPv6 then
                     Inl (Errorf ''ipv6 next hop %q set for neighbor %s without an ipv6 address family''
                            [AStr (nh_IPv6 nextHop), AStr (nc_Name neighbor)])
                   else Inr ())
            else Inr ()) (\<lambda>_.
     Inr (nh_IPv4 nextHop, nh_IPv6 nextHop)))"

text \<open>The inner loops: a prefix list grows by the prefixes of one entry.\<close>

definition addLocalPrefPrefix ::
  "string set \<Rightarrow> LocalPrefPrefixList \<Rightarrow> string \<Rightarrow> (error, LocalPrefPrefixList) result"
where
  "addLocalPrefPrefix routerPrefixes pl prefix =
     (if prefix \<notin> routerPrefixes then
        Inl (Errorf ''localPref %d associated to non existing prefix %s''
               [AU32 (lpl_LocalPref pl), AStr prefix])
      else if prefix \<in> pl_Prefixes pl then
        Inl (Errorf ''prefix %s is already defined for local preference %d''
               [AStr prefix, AU32 (lpl_LocalPref pl)])
      else Inr (pl\<lparr>pl_Prefixes := insert prefix (pl_Prefixes pl)\<rparr>))"

definition addCommunityPrefix ::
  "string set \<Rightarrow> CommunityPrefixList \<Rightarrow> string \<Rightarrow> (error, CommunityPrefixList) result"
where
  "addCommunityPrefix routerPrefixes pl prefix =
     (if prefix \<notin> routerPrefixes then
        Inl (Errorf ''prefix %s is advertised for community %s but it's not in the advertisement list of the neighbor''
               [AStr prefix, AStr (commString (cpl_Community pl))])
      else if prefix \<in> pl_Prefixes pl then
        Inl (Errorf ''prefix %s is already defined for community %s''
               [AStr prefix, AStr (commString (cpl_Community pl))])
      else Inr (pl\<lparr>pl_Prefixes := insert prefix (pl_Prefixes pl)\<rparr>))"

text \<open>One iteration of the outer loops: an entry of the API becomes a prefix list of its own.\<close>

definition localPrefStep ::
  "NeighborConfig \<Rightarrow> Family \<Rightarrow> string set \<Rightarrow> (string, LocalPrefPrefixList) gomap \<Rightarrow> LocalPrefPrefixes \<Rightarrow>
   (error, (string, LocalPrefPrefixList) gomap) result"
where
  "localPrefStep neighbor ipFamily routerPrefixes toAdd prefixes =
     (let frrFamily = frrIPFamily ipFamily;
          key = localPrefPrefixListKey (lpp_LocalPref prefixes) frrFamily in
      if mapGet toAdd key \<noteq> None then
        Inl (Errorf ''local preference %d is already defined'' [AU32 (lpp_LocalPref prefixes)])
      else
        (let localPrefPrefixList =
               \<lparr>pl_Name = localPrefPrefixListName (ID neighbor) (lpp_LocalPref prefixes) frrFamily,
                pl_IPFamily = frrFamily, pl_Prefixes = {}, lpl_LocalPref = lpp_LocalPref prefixes\<rparr>;
             ipfamilyPrefixes = FilterPrefixes (lpp_Prefixes prefixes) ipFamily
         in if ipfamilyPrefixes = [] then Inr toAdd
            else bindE (foldE (addLocalPrefPrefix routerPrefixes) localPrefPrefixList ipfamilyPrefixes)
                   (\<lambda>pl. Inr (mapSet toAdd key pl))))"

definition prefixesWithLocalPrefToFRR ::
  "(string, LocalPrefPrefixList) gomap \<Rightarrow> NeighborConfig \<Rightarrow> Advertise \<Rightarrow> Family \<Rightarrow> string set \<Rightarrow>
   (error, (string, LocalPrefPrefixList) gomap) result"
where
  "prefixesWithLocalPrefToFRR toAdd neighbor toAdvertise ipFamily routerPrefixes =
     foldE (localPrefStep neighbor ipFamily routerPrefixes) toAdd (ad_PrefixesWithLocalPref toAdvertise)"

definition communityStep ::
  "NeighborConfig \<Rightarrow> Family \<Rightarrow> string set \<Rightarrow> (string, CommunityPrefixList) gomap \<Rightarrow> CommunityPrefixes \<Rightarrow>
   (error, (string, CommunityPrefixList) gomap) result"
where
  "communityStep neighbor ipFamily routerPrefixes toAdd prefixes =
     bindE (mapErr (\<lambda>e. Errorf ''invalid community %s, err: %w'' [AStr (cp_Community prefixes), AErr e])
              (New (cp_Community prefixes))) (\<lambda>c.
     let frrFamily = frrIPFamily ipFamily;
         key = communityPrefixListKey c frrFamily in
     if mapGet toAdd key \<noteq> None then
       Inl (Errorf ''community %s is already defined'' [AStr (cp_Community prefixes)])
     else
       (let communityPrefixList =
              \<lparr>pl_Name = communityPrefixListName (ID neighbor) c frrFamily,
               pl_IPFamily = frrFamily, pl_Prefixes = {}, cpl_Community = c\<rparr>;
            ipfamilyPrefixes = FilterPrefixes (cp_Prefixes prefixes) ipFamily
        in if ipfamilyPrefixes = [] then Inr toAdd
           else bindE (foldE (addCommunityPrefix routerPrefixes) communityPrefixList ipfamilyPrefixes)
                  (\<lambda>pl. Inr (mapSet toAdd key pl))))"

definition prefixesWithCommunityToFRR ::
  "(string, CommunityPrefixList) gomap \<Rightarrow> NeighborConfig \<Rightarrow> Advertise \<Rightarrow> Family \<Rightarrow> string set \<Rightarrow>
   (error, (string, CommunityPrefixList) gomap) result"
where
  "prefixesWithCommunityToFRR toAdd neighbor toAdvertise ipFamily routerPrefixes =
     foldE (communityStep neighbor ipFamily routerPrefixes) toAdd (ad_PrefixesWithCommunity toAdvertise)"

definition familyStep ::
  "NeighborConfig \<Rightarrow> Advertise \<Rightarrow> (Family \<Rightarrow> string set) \<Rightarrow>
   (string, LocalPrefPrefixList) gomap \<times> (string, CommunityPrefixList) gomap \<Rightarrow> Family \<Rightarrow>
   (error, (string, LocalPrefPrefixList) gomap \<times> (string, CommunityPrefixList) gomap) result"
where
  "familyStep neighbor toAdvertise prefixesForFamily = (\<lambda>(localPrefs, communities) ipFamily.
     bindE (mapErr (\<lambda>e. Errorf ''failed to process local pref for neighbor %s, err: %w''
                          [AStr (nc_Name neighbor), AErr e])
              (prefixesWithLocalPrefToFRR localPrefs neighbor toAdvertise ipFamily
                 (prefixesForFamily ipFamily))) (\<lambda>localPrefs.
     bindE (mapErr (\<lambda>e. Errorf ''failed to process local pref for neighbor %s, err: %w''
                          [AStr (nc_Name neighbor), AErr e])
              (prefixesWithCommunityToFRR communities neighbor toAdvertise ipFamily
                 (prefixesForFamily ipFamily))) (\<lambda>communities.
     Inr (localPrefs, communities))))"

text \<open>The map \<open>prefixesForFamily\<close> of the source has the two families as keys; another family reads the nil set.\<close>

definition toAdvertiseToFRR ::
  "NeighborConfig \<Rightarrow> Advertise \<Rightarrow> string list \<Rightarrow> (error, AllowedOut) result"
where
  "toAdvertiseToFRR neighbor toAdvertise prefixesInRouter =
     (let neighborIPFamilies = (if nc_IPFamily neighbor = DualStack then [IPv4, IPv6] else [nc_IPFamily neighbor]);
          prefixesForFamily = (\<lambda>f. if f = IPv4 \<or> f = IPv6
                                   then prefixesToAdvertiseForFamily toAdvertise prefixesInRouter f else {}) in
      bindE (nextHopToFRR neighbor (ad_NextHop toAdvertise)) (\<lambda>(nextHopV4, nextHopV6).
      bindE (foldE (familyStep neighbor toAdvertise prefixesForFamily) ([], []) neighborIPFamilies)
        (\<lambda>(localPreferencePrefixLists, communityPrefixLists).
      Inr \<lparr>ao_PrefixesV4 =
             (if neighborHasIPFamily neighbor IPv4 then sorted_list_of_set (prefixesForFamily IPv4) else []),
           ao_PrefixesV6 =
             (if neighborHasIPFamily neighbor IPv6 then sorted_list_of_set (prefixesForFamily IPv6) else []),
           ao_NextHopV4 = nextHopV4,
           ao_NextHopV6 = nextHopV6,
           ao_LocalPrefPrefixesModifiers = sortMap localPreferencePrefixLists,
           ao_CommunityPrefixesModifiers = sortMap communityPrefixLists\<rparr>)))"

section \<open>What is received from a neighbor\<close>

definition validateSelectorLengths :: "uint32 \<Rightarrow> uint32 \<Rightarrow> uint32 \<Rightarrow> (error, unit) result" where
  "validateSelectorLengths maskLen le ge =
     (if ge = 0 \<and> le = 0 then Inr ()
      else if le > 0 \<and> ge > le then
        Inl (Errorf ''invalid selector lengths: ge %d is bigger than le %d'' [AU32 ge, AU32 le])
      else if le > 0 \<and> maskLen > le then
        Inl (Errorf ''invalid selector lengths: cidr mask %d is bigger than le %d'' [AU32 maskLen, AU32 le])
      else if ge > 0 \<and> maskLen > ge then
        Inl (Errorf ''invalid selector lengths: cidr mask %d is bigger than ge %d'' [AU32 maskLen, AU32 ge])
      else Inr ())"

definition filterForSelector :: "PrefixSelector \<Rightarrow> (error, IncomingFilter) result" where
  "filterForSelector selector =
     (case ParseCIDR (ps_Prefix selector) of
        None \<Rightarrow> Inl (Errorf ''failed to parse prefix %s: %w''
                       [AStr (ps_Prefix selector),
                        AErr (Errorf ''invalid CIDR address: %s'' [AStr (ps_Prefix selector)])])
      | Some (_, cidr) \<Rightarrow>
          bindE (mapErr (\<lambda>e. Errorf ''failed to convert maskLen from CIDR %s to uint32: %w''
                               [AStr (IPNetString cidr), AErr e])
                   (IntToUInt32 (int (maskSize (net_Mask cidr))))) (\<lambda>maskLenUint.
          bindE (validateSelectorLengths maskLenUint (ps_LE selector) (ps_GE selector)) (\<lambda>_.
          Inr \<lparr>if_IPFamily = ForCIDRString (ps_Prefix selector), if_Prefix = ps_Prefix selector,
               if_LE = ps_LE selector, if_GE = ps_GE selector\<rparr>)))"

definition toReceiveToFRR :: "Receive \<Rightarrow> (error, AllowedIn) result" where
  "toReceiveToFRR toReceive =
     (if aip_Mode (rcv_Allowed toReceive) = AllowAll then
        Inr \<lparr>ai_All = True, ai_PrefixesV4 = [], ai_PrefixesV6 = []\<rparr>
      else
        bindE (mapE filterForSelector (aip_Prefixes (rcv_Allowed toReceive))) (\<lambda>filters.
        Inr \<lparr>ai_All = False,
             ai_PrefixesV4 = sortSlice LessThan (filter (\<lambda>f. if_IPFamily f = IPv4) filters),
             ai_PrefixesV6 = sortSlice LessThan (filter (\<lambda>f. if_IPFamily f \<noteq> IPv4) filters)\<rparr>))"

definition alwaysBlockToFRR :: "IPNet list \<Rightarrow> IncomingFilter list" where
  "alwaysBlockToFRR cidrs =
     map (\<lambda>c. \<lparr>if_IPFamily = ForCIDR c, if_Prefix = IPNetString c,
               if_LE = (if ForCIDR c = IPv6 then 128 else 32), if_GE = 0\<rparr>) cidrs"

section \<open>Neighbors\<close>

definition neighborChecks :: "Neighbor \<Rightarrow> (string, frrBFDProfile) gomap \<Rightarrow> (error, unit) result" where
  "neighborChecks n bfdProfiles =
     (if nb_Address n = '''' \<and> nb_Interface n = '''' then
        Inl (Errorf ''neighbor with ASN %s has no address and no interface'' [AStr (asnFor n)])
      else if nb_Address n \<noteq> '''' \<and> nb_Interface n \<noteq> '''' then
        Inl (Errorf ''neighbor %s has both Address and Interface specified'' [AStr (neighborName n)])
      else if nb_BFDProfile n \<noteq> '''' \<and> mapGet bfdProfiles (nb_BFDProfile n) = None then
        Inl (Errorf ''neighbor %s referencing non existing BFDProfile %s''
               [AStr (neighborName n), AStr (nb_BFDProfile n)])
      else if nb_ASN n = 0 \<and> nb_DynamicASN n = '''' then
        Inl (Errorf ''neighbor %s has no ASN or DynamicASN specified'' [AStr (neighborName n)])
      else if nb_ASN n \<noteq> 0 \<and> nb_DynamicASN n \<noteq> '''' then
        Inl (Errorf ''neighbor %s has both ASN and DynamicASN specified'' [AStr (neighborName n)])
      else if nb_DynamicASN n \<noteq> '''' \<and> nb_DynamicASN n \<noteq> InternalASNMode \<and> nb_DynamicASN n \<noteq> ExternalASNMode then
        Inl (Errorf ''neighbor %s has invalid DynamicASN %s specified, must be one of %s,%s''
               [AStr (neighborName n), AStr (nb_DynamicASN n), AStr InternalASNMode, AStr ExternalASNMode])
      else Inr ())"

definition newNeighbor ::
  "Neighbor \<Rightarrow> Family \<Rightarrow> int option \<Rightarrow> int option \<Rightarrow> string \<Rightarrow> string \<Rightarrow> IncomingFilter list \<Rightarrow> NeighborConfig"
where
  "newNeighbor n neighborFamily holdTime keepaliveTime password routerVRF alwaysBlock =
     \<lparr>nc_IPFamily = neighborFamily, nc_Name = neighborName n, nc_ASN = asnFor n,
      nc_SrcAddr = nb_SourceAddress n, nc_Addr = nb_Address n, nc_Iface = nb_Interface n,
      nc_Port = nb_Port n, nc_HoldTime = holdTime, nc_KeepaliveTime = keepaliveTime,
      nc_ConnectTime = map_option (\<lambda>t. truncDiv t timeSecond) (nb_ConnectTime n),
      nc_Password = password, nc_BFDProfile = nb_BFDProfile n,
      nc_GracefulRestart = nb_EnableGracefulRestart n, nc_EBGPMultiHop = nb_EBGPMultiHop n,
      nc_LocalASN = nb_LocalASN n, nc_VRFName = routerVRF,
      nc_Incoming = \<lparr>ai_All = False, ai_PrefixesV4 = [], ai_PrefixesV6 = []\<rparr>,
      nc_Outgoing = \<lparr>ao_PrefixesV4 = [], ao_PrefixesV6 = [], ao_NextHopV4 = '''', ao_NextHopV6 = '''',
        ao_LocalPrefPrefixesModifiers = [], ao_CommunityPrefixesModifiers = []\<rparr>,
      nc_AlwaysBlock = alwaysBlock, nc_AddressFamilies = nb_AddressFamilies n\<rparr>"

definition neighborToFRR ::
  "Neighbor \<Rightarrow> string list \<Rightarrow> IncomingFilter list \<Rightarrow> string \<Rightarrow> (string, Secret) gomap \<Rightarrow>
   (string, frrBFDProfile) gomap \<Rightarrow> (error, NeighborConfig) result"
where
  "neighborToFRR n prefixesInRouter alwaysBlock routerVRF passwordSecrets bfdProfiles =
     bindE (neighborChecks n bfdProfiles) (\<lambda>_.
     bindE (mapErr (\<lambda>e. Errorf ''failed to find ipfamily for neighbor %s, err: %w''
                          [AStr (neighborName n), AErr e])
              (addressFamilyForNeighbor n)) (\<lambda>neighborFamily.
     bindE (mapErr (\<lambda>e. Errorf ''invalid timers for neighbor %s, err: %w'' [AStr (neighborName n), AErr e])
              (parseTimers (nb_HoldTime n) (nb_KeepaliveTime n))) (\<lambda>(holdTime, keepaliveTime).
     bindE (passwordForNeighbor n passwordSecrets) (\<lambda>password.
     let res = newNeighbor n neighborFamily holdTime keepaliveTime password routerVRF alwaysBlock in
     bindE (toAdvertiseToFRR res (nb_ToAdvertise n) prefixesInRouter) (\<lambda>outgoing.
     bindE (toReceiveToFRR (nb_ToReceive n)) (\<lambda>incoming.
     Inr (res\<lparr>nc_Outgoing := outgoing, nc_Incoming := incoming\<rparr>)))))))"

section \<open>EVPN\<close>

definition vniPropertiesToFRR :: "VNIProperties \<Rightarrow> frrVNIProperties" where
  "vniPropertiesToFRR v = \<lparr>fvp_RD = vp_RD v, fvp_ImportRTs = vp_ImportRTs v, fvp_ExportRTs = vp_ExportRTs v\<rparr>"

definition evpnToFRR :: "EVPNConfig option \<Rightarrow> frrEVPNConfig option" where
  "evpnToFRR e =
     map_option (\<lambda>e.
       \<lparr>fev_AdvertiseVNIs = ev_AdvertiseVNIs e,
        fev_AdvertiseSVI = ev_AdvertiseSVI e,
        fev_L2VNIs = map (\<lambda>l2. \<lparr>fl2_VNI = l2_VNI l2,
                               fl2_VNIProperties = vniPropertiesToFRR (l2_VNIProperties l2)\<rparr>) (ev_L2VNIs e),
        fev_L3VNI = map_option (\<lambda>l3. \<lparr>fl3_VNI = l3_VNI l3,
                               fl3_VNIProperties = vniPropertiesToFRR (l3_VNIProperties l3),
                               fl3_AdvertisePrefixes = l3_AdvertisePrefixes l3\<rparr>) (ev_L3VNI e)\<rparr>) e"

definition evpnNeedsNeighbor :: "frrEVPNConfig \<Rightarrow> bool" where
  "evpnNeedsNeighbor evpn \<longleftrightarrow>
     fev_AdvertiseVNIs evpn = Some VNIAdvertisementAll \<or> fev_AdvertiseSVI evpn \<or> length (fev_L2VNIs evpn) > 0"

definition validateEVPNConfig :: "RouterConfig \<Rightarrow> (error, unit) result" where
  "validateEVPNConfig r =
     (case rc_EVPN r of
        None \<Rightarrow> Inr ()
      | Some evpn \<Rightarrow>
          (let hasEVPNNeighbor = list_ex (\<lambda>n. AddressFamilyEVPN \<in> set (nc_AddressFamilies n)) (rc_Neighbors r) in
           if evpnNeedsNeighbor evpn \<and> \<not> hasEVPNNeighbor then
             Inl (Errorf ''advertiseVNIs=All, advertiseSVI and l2vnis require at least one neighbor with evpn address family'' [])
           else if fev_L3VNI evpn \<noteq> None \<and> length (rc_Neighbors r) > 0 then
             Inl (Errorf ''l3vni can only be configured on routers with no neighbors'' [])
           else Inr ()))"

record vniLocation =
  loc_vrf :: string
  loc_vniType :: string

definition seeVNI ::
  "string \<Rightarrow> string \<Rightarrow> string \<Rightarrow> (uint32, vniLocation) gomap \<Rightarrow> uint32 \<Rightarrow> (error, (uint32, vniLocation) gomap) result"
where
  "seeVNI message vniType vrf seen vni =
     (case mapGet seen vni of
        Some existing \<Rightarrow>
          Inl (Errorf message [AU32 vni, AStr (loc_vniType existing), AStr (loc_vrf existing), AStr vrf])
      | None \<Rightarrow> Inr (mapSet seen vni \<lparr>loc_vrf = vrf, loc_vniType = vniType\<rparr>))"

definition uniqueVNIsStep ::
  "(uint32, vniLocation) gomap \<Rightarrow> string \<times> RouterConfig \<Rightarrow> (error, (uint32, vniLocation) gomap) result"
where
  "uniqueVNIsStep seen = (\<lambda>(vrf, r).
     case rc_EVPN r of
       None \<Rightarrow> Inr seen
     | Some evpn \<Rightarrow>
         bindE (foldE (seeVNI ''duplicate VNI %d: configured as %s in vrf %q and as l2vni in vrf %q'' ''l2vni'' vrf)
                  seen (map fl2_VNI (fev_L2VNIs evpn))) (\<lambda>seen.
         case fev_L3VNI evpn of
           None \<Rightarrow> Inr seen
         | Some l3 \<Rightarrow>
             seeVNI ''duplicate VNI %d: configured as %s in vrf %q and as l3vni in vrf %q'' ''l3vni'' vrf
               seen (fl3_VNI l3)))"

definition validateUniqueVNIs :: "(string, RouterConfig) gomap \<Rightarrow> (error, unit) result" where
  "validateUniqueVNIs routersForVRF = bindE (foldE uniqueVNIsStep [] routersForVRF) (\<lambda>_. Inr ())"

definition validateEVPN :: "(string, RouterConfig) gomap \<Rightarrow> (error, unit) result" where
  "validateEVPN routersForVRF =
     bindE (forE (\<lambda>(vrf, r). mapErr (\<lambda>e. Errorf ''invalid EVPN configuration for vrf %q: %w'' [AStr vrf, AErr e])
                               (validateEVPNConfig r)) routersForVRF) (\<lambda>_.
     validateUniqueVNIs routersForVRF)"

section \<open>Checks on the prefixes of a router\<close>

definition validatePrefixes :: "string list \<Rightarrow> (error, unit) result" where
  "validatePrefixes prefixes =
     forE (\<lambda>p. if ForCIDRString p = Unknown then Inl (Errorf ''unknown ipfamily for %s'' [AStr p]) else Inr ())
       prefixes"

definition validatePrefixesForNeighborFamily :: "string list \<Rightarrow> Family \<Rightarrow> (error, unit) result" where
  "validatePrefixesForNeighborFamily prefixes family =
     forE (\<lambda>p.
         if ForCIDRString p = Unknown then Inl (Errorf ''unknown ipfamily for %s'' [AStr p])
         else if \<not> MatchesPrefix family p then
           Inl (Errorf ''prefix %s is not compatible with the ipfamily %s'' [AStr p, AStr (familyString family)])
         else Inr ())
       prefixes"

definition prefixesForVRFs :: "Router list \<Rightarrow> (string, string list) gomap" where
  "prefixesForVRFs routers = foldl (\<lambda>res r. mapSet res (rt_VRF r) (rt_Prefixes r)) [] routers"

definition validateImportVRFs :: "Router \<Rightarrow> (string, string list) gomap \<Rightarrow> (error, unit) result" where
  "validateImportVRFs r allVRFs =
     forE (\<lambda>i.
         if im_VRF i = ''default'' then Inr ()
         else if mapGet allVRFs (im_VRF i) = None then
           Inl (Errorf ''router %d-%s imports vrf %s which is not defined''
                  [AU32 (rt_ASN r), AStr (rt_VRF r), AStr (im_VRF i)])
         else Inr ())
       (rt_Imports r)"

definition importVRF :: "Import \<Rightarrow> string" where
  "importVRF i = (if im_VRF i = ''default'' then '''' else im_VRF i)"

definition importedPrefixes :: "Router \<Rightarrow> (string, string list) gomap \<Rightarrow> (error, string list) result" where
  "importedPrefixes r prefixesInRouter =
     foldE (\<lambda>res i.
         let vrf = importVRF i in
         case mapGet prefixesInRouter vrf of
           None \<Rightarrow> Inl (Errorf ''vrf %s not found in prefixes in router'' [AStr vrf])
         | Some imported \<Rightarrow> Inr (res @ imported))
       [] (rt_Imports r)"

text \<open>The local preferences of one neighbor: a prefix may not have two.\<close>

definition recordLocalPref ::
  "LocalPrefPrefixes \<Rightarrow> (string, uint32) gomap \<Rightarrow> string \<Rightarrow> (error, (string, uint32) gomap) result"
where
  "recordLocalPref prefixes seen p =
     (case mapGet seen p of
        Some existing \<Rightarrow>
          if existing \<noteq> lpp_LocalPref prefixes then
            Inl (Errorf ''prefix %s is configured with both local preference %d and %d''
                   [AStrs (lpp_Prefixes prefixes), AU32 existing, AU32 (lpp_LocalPref prefixes)])
          else Inr (mapSet seen p (lpp_LocalPref prefixes))
      | None \<Rightarrow> Inr (mapSet seen p (lpp_LocalPref prefixes)))"

definition outgoingStep ::
  "Neighbor \<Rightarrow> Family \<Rightarrow> (string, uint32) gomap \<Rightarrow> LocalPrefPrefixes \<Rightarrow> (error, (string, uint32) gomap) result"
where
  "outgoingStep n neighborFamily seen prefixes =
     bindE (mapErr (\<lambda>e. Errorf ''invalid prefixes %s for localpref %d for neighbor %s, err: %w''
                          [AStrs (lpp_Prefixes prefixes), AU32 (lpp_LocalPref prefixes),
                           AStr (neighborName n), AErr e])
              (validatePrefixesForNeighborFamily (lpp_Prefixes prefixes) neighborFamily)) (\<lambda>_.
     foldE (recordLocalPref prefixes) seen (lpp_Prefixes prefixes))"

definition validateOutgoingForNeighbor :: "string list \<Rightarrow> Router \<Rightarrow> Neighbor \<Rightarrow> (error, unit) result" where
  "validateOutgoingForNeighbor prefixesInRouter routerConfig n =
     bindE (mapErr (\<lambda>e. Errorf ''failed to find ipfamily for neighbor %s, err: %w''
                          [AStr (neighborName n), AErr e])
              (addressFamilyForNeighbor n)) (\<lambda>neighborFamily.
     bindE (foldE (outgoingStep n neighborFamily) [] (ad_PrefixesWithLocalPref (nb_ToAdvertise n))) (\<lambda>_.
     bindE (forE (\<lambda>prefixes.
              mapErr (\<lambda>e. Errorf ''invalid prefixes %s for community %s for neighbor %s, err: %w''
                            [AStrs (cp_Prefixes prefixes), AStr (cp_Community prefixes),
                             AStr (neighborName n), AErr e])
                (validatePrefixesForNeighborFamily (cp_Prefixes prefixes) neighborFamily))
            (ad_PrefixesWithCommunity (nb_ToAdvertise n))) (\<lambda>_.
     if aop_Mode (ad_Allowed (nb_ToAdvertise n)) = AllowAll then Inr ()
     else
       bindE (mapErr (\<lambda>e. Errorf ''invalid allowed prefixes %s for neighbor %s, err: %w''
                            [AStrs (aop_Prefixes (ad_Allowed (nb_ToAdvertise n))), AStr (neighborName n), AErr e])
                (validatePrefixesForNeighborFamily (aop_Prefixes (ad_Allowed (nb_ToAdvertise n))) neighborFamily)) (\<lambda>_.
       forE (\<lambda>p.
           if p \<notin> set prefixesInRouter then
             Inl (Errorf ''trying to advertise non configured prefix %s to neighbor %s, vrf %s''
                    [AStr p, AStr (neighborName n), AStr (rt_VRF routerConfig)])
           else Inr ())
         (aop_Prefixes (ad_Allowed (nb_ToAdvertise n)))))))"

definition validateOutgoingPrefixes :: "string list \<Rightarrow> Router \<Rightarrow> (error, unit) result" where
  "validateOutgoingPrefixes prefixesInRouter routerConfig =
     forE (validateOutgoingForNeighbor prefixesInRouter routerConfig) (rt_Neighbors routerConfig)"

section \<open>Routers and the whole configuration\<close>

definition routerToFRRConfig ::
  "Router \<Rightarrow> IncomingFilter list \<Rightarrow> (string, Secret) gomap \<Rightarrow> (string, frrBFDProfile) gomap \<Rightarrow> string list \<Rightarrow>
   (error, RouterConfig) result"
where
  "routerToFRRConfig r alwaysBlock secrets bfdProfiles routerPrefixes =
     bindE (mapE (\<lambda>n.
         if nb_LocalASN n \<noteq> 0 \<and> nb_ASN n \<noteq> 0 \<and> nb_ASN n = rt_ASN r then
           Inl (Errorf ''neighbor %s: localASN is not supported for iBGP sessions (neighbor ASN %d equals router ASN)''
                  [AStr (neighborName n), AU32 (nb_ASN n)])
         else
           mapErr (\<lambda>e. Errorf ''failed to process neighbor %s for router %d-%s: %w''
                         [AStr (neighborName n), AU32 (rt_ASN r), AStr (rt_VRF r), AErr e])
             (neighborToFRR n routerPrefixes alwaysBlock (rt_VRF r) secrets bfdProfiles))
       (rt_Neighbors r)) (\<lambda>neighbors.
     Inr \<lparr>rc_MyASN = rt_ASN r,
          rc_RouterID = rt_ID r,
          rc_Neighbors = neighbors,
          rc_VRF = rt_VRF r,
          rc_IPV4Prefixes = FilterPrefixes (rt_Prefixes r) IPv4,
          rc_IPV6Prefixes = FilterPrefixes (rt_Prefixes r) IPv6,
          rc_ImportVRFs = map im_VRF (rt_Imports r),
          rc_EVPN = evpnToFRR (rt_EVPN r)\<rparr>)"

definition rawLess :: "namedRawConfig \<Rightarrow> namedRawConfig \<Rightarrow> bool" where
  "rawLess a b =
     (if raw_Priority a = raw_Priority b then nrc_configName a < nrc_configName b
      else raw_Priority a < raw_Priority b)"

definition joinRawConfigs :: "namedRawConfig list \<Rightarrow> string" where
  "joinRawConfigs raw = concat (map (\<lambda>r. raw_Config r @ [CHR 0x0A]) (sortSlice rawLess raw))"

text \<open>The state of the outer loop of \<open>apiToFRR\<close>.\<close>

record convState =
  cs_rawConfigs :: "namedRawConfig list"
  cs_routersForVRF :: "(string, RouterConfig) gomap"
  cs_bfdProfilesAllConfigs :: "(string, frrBFDProfile) gomap"

definition addBFDProfile ::
  "string \<Rightarrow> (string, frrBFDProfile) gomap \<times> (string, frrBFDProfile) gomap \<Rightarrow> BFDProfile \<Rightarrow>
   (error, (string, frrBFDProfile) gomap \<times> (string, frrBFDProfile) gomap) result"
where
  "addBFDProfile cfgName = (\<lambda>(bfdProfiles, allProfiles) b.
     let p = bfdProfileToFRR b in
     if mapGet bfdProfiles (fbp_Name p) \<noteq> None then
       Inl (Errorf ''duplicate bfd profile name %s in config %s'' [AStr (fbp_Name p), AStr cfgName])
     else
       (case mapGet allProfiles (fbp_Name p) of
          Some old \<Rightarrow>
            if old \<noteq> p then
              Inl (Errorf ''duplicate bfd profile name %s with different values for config %s''
                     [AStr (fbp_Name p), AStr cfgName])
            else Inr (mapSet bfdProfiles (fbp_Name p) p, allProfiles)
        | None \<Rightarrow> Inr (mapSet bfdProfiles (fbp_Name p) p, mapSet allProfiles (fbp_Name p) p)))"

definition addRouter ::
  "IncomingFilter list \<Rightarrow> (string, Secret) gomap \<Rightarrow> (string, frrBFDProfile) gomap \<Rightarrow>
   (string, string list) gomap \<Rightarrow> (string, RouterConfig) gomap \<Rightarrow> Router \<Rightarrow>
   (error, (string, RouterConfig) gomap) result"
where
  "addRouter alwaysBlockFRR secrets bfdProfiles routersPrefixes routersForVRF r =
     bindE (validatePrefixes (rt_Prefixes r)) (\<lambda>_.
     bindE (validateImportVRFs r routersPrefixes) (\<lambda>_.
     bindE (importedPrefixes r routersPrefixes) (\<lambda>imported.
     let allPrefixes = rt_Prefixes r @ imported in
     bindE (validateOutgoingPrefixes allPrefixes r) (\<lambda>_.
     bindE (routerToFRRConfig r alwaysBlockFRR secrets bfdProfiles allPrefixes) (\<lambda>routerCfg.
     bindE (validateRouterConfig routerCfg) (\<lambda>routerCfg.
     case mapGet routersForVRF (rt_VRF r) of
       None \<Rightarrow> Inr (mapSet routersForVRF (rt_VRF r) routerCfg)
     | Some cur \<Rightarrow>
         bindE (mergeRouterConfigs cur routerCfg) (\<lambda>cur. Inr (mapSet routersForVRF (rt_VRF r) cur))))))))"

definition addConfig ::
  "IPNet list \<Rightarrow> (string, Secret) gomap \<Rightarrow> convState \<Rightarrow> FRRConfiguration \<Rightarrow> (error, convState) result"
where
  "addConfig alwaysBlock secrets s cfg =
     (let raw = spec_Raw (cfg_Spec cfg); bgp = spec_BGP (cfg_Spec cfg);
          rawConfigs = (if raw_Config raw \<noteq> ''''
                        then cs_rawConfigs s @ [\<lparr>raw_Priority = raw_Priority raw, raw_Config = raw_Config raw,
                                                 nrc_configName = cfg_Name cfg\<rparr>]
                        else cs_rawConfigs s) in
      bindE (foldE (addBFDProfile (cfg_Name cfg)) ([], cs_bfdProfilesAllConfigs s) (bgp_BFDProfiles bgp))
        (\<lambda>(bfdProfiles, allProfiles).
      bindE (foldE (addRouter (alwaysBlockToFRR alwaysBlock) secrets bfdProfiles
                      (prefixesForVRFs (bgp_Routers bgp)))
               (cs_routersForVRF s) (bgp_Routers bgp)) (\<lambda>routersForVRF.
      Inr \<lparr>cs_rawConfigs = rawConfigs, cs_routersForVRF = routersForVRF,
           cs_bfdProfilesAllConfigs = allProfiles\<rparr>)))"

definition apiToFRR :: "ClusterResources \<Rightarrow> IPNet list \<Rightarrow> (error, Config) result" where
  "apiToFRR resources alwaysBlock =
     bindE (foldE (addConfig alwaysBlock (cr_PasswordSecrets resources))
              \<lparr>cs_rawConfigs = [], cs_routersForVRF = [], cs_bfdProfilesAllConfigs = []\<rparr>
              (cr_FRRConfigs resources)) (\<lambda>s.
     bindE (validateEVPN (cs_routersForVRF s)) (\<lambda>_.
     Inr \<lparr>cf_Loglevel = '''', cf_Hostname = '''',
          cf_Routers = sortMap (cs_routersForVRF s),
          cf_BFDProfiles = sortMapPtr (cs_bfdProfilesAllConfigs s),
          cf_ExtraConfig = joinRawConfigs (cs_rawConfigs s)\<rparr>))"

end
