(* ===== verification/Merge_Neighbors.thy ===== *)
theory Merge_Neighbors
  imports Merge
begin

text \<open>
  Merging neighbors: the interpretations of \<open>keyed_merge\<close> for the prefix lists and the incoming filters,
  the normal form merging leaves (sorted, without duplicates, defaults unset, one local preference
  per prefix), and when two neighbors merge to the same result in both orders.
\<close>

section \<open>Prefix lists\<close>

interpretation lpm: keyed_merge lpKey "\<lambda>a b. Inr (addPrefixes a b) :: (error, LocalPrefPrefixList) result"
  by unfold_locales (auto simp: lpKey_def addPrefixes_def)

interpretation cpm: keyed_merge commKey "\<lambda>a b. Inr (addPrefixes a b) :: (error, CommunityPrefixList) result"
  by unfold_locales (auto simp: commKey_def addPrefixes_def)

interpretation ifm: keyed_merge incomingFilterKey "\<lambda>a b. Inr b :: (error, IncomingFilter) result"
  by unfold_locales auto

lemma mergeLocalPref_keyed:
  "mergeKeyed lpKey (\<lambda>a b. Inr (addPrefixes a b)) (fillMap lpKey xs) ys =
     (Inr (mergeLocalPrefPrefixLists xs ys) :: (error, LocalPrefPrefixList list) result)"
  by (simp add: mergeKeyed_total mergeLocalPrefPrefixLists_def)

lemma mergeCommunity_keyed:
  "mergeKeyed commKey (\<lambda>a b. Inr (addPrefixes a b)) (fillMap commKey xs) ys =
     (Inr (mergeCommunityPrefixLists xs ys) :: (error, CommunityPrefixList list) result)"
  by (simp add: mergeKeyed_total mergeCommunityPrefixLists_def)

lemma addPrefixes_self [simp]: "addPrefixes a a = a"
  by (simp add: addPrefixes_def)

lemma addPrefixes_commute: "a\<lparr>pl_Prefixes := {}\<rparr> = b\<lparr>pl_Prefixes := {}\<rparr> \<Longrightarrow> addPrefixes a b = addPrefixes b a"
  for a :: "'z PrefixList_scheme"
  by (cases a; cases b) (simp add: addPrefixes_def Un_commute)

lemma mergeLocalPref_sorted [simp]: "sortedByKey lpKey (mergeLocalPrefPrefixLists xs ys)"
  by (rule lpm.merge_sorted [OF mergeLocalPref_keyed]) simp

lemma mergeCommunity_sorted [simp]: "sortedByKey commKey (mergeCommunityPrefixLists xs ys)"
  by (rule cpm.merge_sorted [OF mergeCommunity_keyed]) simp

lemma mergeLocalPref_self: "sortedByKey lpKey xs \<Longrightarrow> mergeLocalPrefPrefixLists xs xs = xs"
  using lpm.merge_fill_self [of xs] by (simp add: mergeLocalPref_keyed)

lemma mergeCommunity_self: "sortedByKey commKey xs \<Longrightarrow> mergeCommunityPrefixLists xs xs = xs"
  using cpm.merge_fill_self [of xs] by (simp add: mergeCommunity_keyed)

text \<open>Two lists with one key and the same name differ at most in their prefixes.\<close>

definition namesAgree :: "('v \<Rightarrow> string) \<Rightarrow> ('v \<Rightarrow> 'a PrefixList_scheme) \<Rightarrow> 'v list \<Rightarrow> 'v list \<Rightarrow> bool" where
  "namesAgree key pl xs ys \<longleftrightarrow>
     (\<forall>x\<in>set xs. \<forall>y\<in>set ys. key x = key y \<longrightarrow> pl_Name (pl x) = pl_Name (pl y))"

lemma lpKey_eq_addPrefixes:
  "lpKey x = lpKey y \<Longrightarrow> pl_Name x = pl_Name y \<Longrightarrow> addPrefixes x y = addPrefixes y x"
  by (rule addPrefixes_commute) (simp add: lpKey_def)

lemma commKey_eq_addPrefixes:
  "commKey x = commKey y \<Longrightarrow> pl_Name x = pl_Name y \<Longrightarrow> addPrefixes x y = addPrefixes y x"
  by (rule addPrefixes_commute) (simp add: commKey_def)

lemma mergeLocalPref_commute:
  assumes "distinct (map lpKey xs)" "distinct (map lpKey ys)" "namesAgree lpKey (\<lambda>p. p) xs ys"
  shows "mergeLocalPrefPrefixLists xs ys = mergeLocalPrefPrefixLists ys xs"
  using lpm.merge_fill_commute [OF assms(1,2)] lpKey_eq_addPrefixes assms(3)
  by (force simp: mergeLocalPref_keyed sameOutcome_def namesAgree_def)

lemma mergeCommunity_commute:
  assumes "distinct (map commKey xs)" "distinct (map commKey ys)" "namesAgree commKey (\<lambda>p. p) xs ys"
  shows "mergeCommunityPrefixLists xs ys = mergeCommunityPrefixLists ys xs"
  using cpm.merge_fill_commute [OF assms(1,2)] commKey_eq_addPrefixes assms(3)
  by (force simp: mergeCommunity_keyed sameOutcome_def namesAgree_def)

section \<open>Incoming filters\<close>

lemma mergeIncomingFilters_sortMap:
  "mergeIncomingFilters xs ys = sortMap (fillMap incomingFilterKey (xs @ ys))"
  by (auto simp: mergeIncomingFilters_def sortMapPtr_eq fillMap_def sortMap_def mapKeys_def)

lemma mergeIncomingFilters_sorted [simp]:
  "sortedByKey incomingFilterKey (mergeIncomingFilters xs ys)"
  by (simp add: mergeIncomingFilters_sortMap sortedByKey_sortMap)

lemma lookup_mergeIncomingFilters:
  "lookupKey incomingFilterKey (mergeIncomingFilters xs ys) k =
     lookupKey incomingFilterKey (rev (xs @ ys)) k"
  by (simp add: mergeIncomingFilters_sortMap lookupKey_sortMap mapGet_fillMap del: rev_append)

lemma mergeIncomingFilters_self:
  assumes "sortedByKey incomingFilterKey xs"
  shows "mergeIncomingFilters xs xs = xs"
proof (rule sortedByKey_ext [OF mergeIncomingFilters_sorted assms])
  fix k
  have *: "lookupKey incomingFilterKey (ys @ zs) k = (case lookupKey incomingFilterKey ys k of
      None \<Rightarrow> lookupKey incomingFilterKey zs k | Some v \<Rightarrow> Some v)" for ys zs
    by (induction ys) auto
  show "lookupKey incomingFilterKey (mergeIncomingFilters xs xs) k = lookupKey incomingFilterKey xs k"
    using lookupKey_rev [OF sortedByKey_distinct [OF assms], of k]
    by (simp add: lookup_mergeIncomingFilters * split: option.splits)
qed

text \<open>
  Every merged filter was given. A given filter is only dropped for another one whose key, the
  prefix and the two lengths printed without separators, is the same string.
\<close>

lemma mergeIncomingFilters_subset: "set (mergeIncomingFilters xs ys) \<subseteq> set xs \<union> set ys"
  by (auto simp: mergeIncomingFilters_sortMap set_sortMap mapGet_fillMap dest!: lookupKey_Some)

lemma mergeIncomingFilters_keys:
  "incomingFilterKey ` set (mergeIncomingFilters xs ys) = incomingFilterKey ` (set xs \<union> set ys)"
proof -
  have "k \<in> incomingFilterKey ` set (mergeIncomingFilters xs ys) \<longleftrightarrow>
      k \<in> incomingFilterKey ` (set xs \<union> set ys)" for k
    using lookupKey_None [of incomingFilterKey "mergeIncomingFilters xs ys" k]
      lookupKey_None [of incomingFilterKey "rev (xs @ ys)" k]
    by (auto simp: lookup_mergeIncomingFilters)
  then show ?thesis by blast
qed

lemma set_mergeIncomingFilters:
  assumes "inj_on incomingFilterKey (set xs \<union> set ys)"
  shows "set (mergeIncomingFilters xs ys) = set xs \<union> set ys"
  using assms mergeIncomingFilters_subset [of xs ys] mergeIncomingFilters_keys [of xs ys]
  by (metis inj_on_image_eq_iff order_refl)

lemma mergeIncomingFilters_commute:
  assumes "inj_on incomingFilterKey (set xs \<union> set ys)"
  shows "mergeIncomingFilters xs ys = mergeIncomingFilters ys xs"
proof (rule sortedByKey_ext)
  have eq: "set (mergeIncomingFilters xs ys) = set (mergeIncomingFilters ys xs)"
    using assms by (simp add: set_mergeIncomingFilters Un_commute)
  show "lookupKey incomingFilterKey (mergeIncomingFilters xs ys) k =
      lookupKey incomingFilterKey (mergeIncomingFilters ys xs) k" for k
  proof (cases "lookupKey incomingFilterKey (mergeIncomingFilters xs ys) k")
    case None
    then show ?thesis using eq by (metis lookupKey_None)
  next
    case (Some v)
    then have "v \<in> set (mergeIncomingFilters ys xs)" "incomingFilterKey v = k"
      using eq lookupKey_Some by fastforce+
    then show ?thesis
      using Some lookupKey_mem sortedByKey_distinct mergeIncomingFilters_sorted by metis
  qed
qed simp_all

definition inNormal :: "AllowedIn \<Rightarrow> bool" where
  "inNormal a \<longleftrightarrow>
     (ai_All a \<longrightarrow> ai_PrefixesV4 a = [] \<and> ai_PrefixesV6 a = []) \<and>
     sortedByKey incomingFilterKey (ai_PrefixesV4 a) \<and> sortedByKey incomingFilterKey (ai_PrefixesV6 a)"

lemma mergeAllowedIn_normal [simp]: "inNormal (mergeAllowedIn a b)"
  by (simp add: inNormal_def mergeAllowedIn_def sortedByKey_def [of _ "[]"])

lemma mergeAllowedIn_self: "inNormal a \<Longrightarrow> mergeAllowedIn a a = a"
  by (cases a) (simp add: inNormal_def mergeAllowedIn_def mergeIncomingFilters_self)

section \<open>One local preference per prefix\<close>

definition lpPairs :: "LocalPrefPrefixList list \<Rightarrow> (string \<times> uint32) set" where
  "lpPairs ls = {(x, lpl_LocalPref p) | x p. p \<in> set ls \<and> x \<in> pl_Prefixes p}"

definition lpConsistent :: "LocalPrefPrefixList list \<Rightarrow> bool" where
  "lpConsistent ls \<longleftrightarrow> (\<forall>p\<in>set ls. checkLocalPrefs (localPrefForPrefix ls) p = Inr ())"

lemma localPrefForPrefix_snoc:
  "localPrefForPrefix (ls @ [p]) x =
     (if x \<in> pl_Prefixes p then Some (lpl_LocalPref p) else localPrefForPrefix ls x)"
  by (simp add: localPrefForPrefix_def)

lemma localPrefForPrefix_pairs:
  "localPrefForPrefix ls x = Some v \<Longrightarrow> (x, v) \<in> lpPairs ls"
  by (induction ls rule: rev_induct)
    (auto simp: localPrefForPrefix_snoc lpPairs_def localPrefForPrefix_def split: if_splits)

lemma localPrefForPrefix_None: "localPrefForPrefix ls x = None \<longleftrightarrow> x \<notin> fst ` lpPairs ls"
  by (induction ls rule: rev_induct)
    (auto simp: localPrefForPrefix_snoc lpPairs_def localPrefForPrefix_def image_iff split: if_splits)

lemma checkLocalPrefs_ok:
  "checkLocalPrefs m p = Inr () \<longleftrightarrow>
     (\<forall>x\<in>pl_Prefixes p. \<forall>w. m x = Some w \<longrightarrow> w = lpl_LocalPref p)"
  by (auto simp: checkLocalPrefs_def Let_def split: if_splits)

lemma forE_checkLocalPrefs:
  "forE (checkLocalPrefs (localPrefForPrefix xs)) ys = Inr u \<longleftrightarrow>
     (\<forall>(x, v)\<in>lpPairs ys. \<forall>w. localPrefForPrefix xs x = Some w \<longrightarrow> w = v)"
  by (auto simp: result_simps checkLocalPrefs_ok lpPairs_def)

text \<open>A list passes the check against itself just when no prefix has two preferences.\<close>

lemma lpConsistent_iff: "lpConsistent ls \<longleftrightarrow> single_valued (lpPairs ls)"
proof -
  have "lpConsistent ls \<longleftrightarrow> forE (checkLocalPrefs (localPrefForPrefix ls)) ls = Inr ()"
    by (simp add: lpConsistent_def result_simps)
  also have "\<dots> \<longleftrightarrow> (\<forall>(x, v)\<in>lpPairs ls. \<forall>w. localPrefForPrefix ls x = Some w \<longrightarrow> w = v)"
    by (rule forE_checkLocalPrefs)
  also have "\<dots> \<longleftrightarrow> single_valued (lpPairs ls)"
  proof
    assume *: "\<forall>(x, v)\<in>lpPairs ls. \<forall>w. localPrefForPrefix ls x = Some w \<longrightarrow> w = v"
    show "single_valued (lpPairs ls)"
    proof (rule single_valuedI)
      fix x v w
      assume vw: "(x, v) \<in> lpPairs ls" "(x, w) \<in> lpPairs ls"
      then obtain u where "localPrefForPrefix ls x = Some u"
        by (metis fst_conv image_eqI localPrefForPrefix_None option.exhaust)
      with vw have "u = v" "u = w" using * by auto
      then show "v = w" by simp
    qed
  next
    assume "single_valued (lpPairs ls)"
    then show "\<forall>(x, v)\<in>lpPairs ls. \<forall>w. localPrefForPrefix ls x = Some w \<longrightarrow> w = v"
      by (auto dest!: localPrefForPrefix_pairs dest: single_valuedD)
  qed
  finally show ?thesis .
qed

lemma lpConsistent_forE: "lpConsistent ls \<Longrightarrow> forE (checkLocalPrefs (localPrefForPrefix ls)) ls = Inr ()"
  by (simp add: lpConsistent_def result_simps)

lemma checks_cross:
  assumes "lpConsistent xs" "lpConsistent ys"
  shows "isOk (forE (checkLocalPrefs (localPrefForPrefix xs)) ys) \<longleftrightarrow>
    single_valued (lpPairs xs \<union> lpPairs ys)" (is "?ok \<longleftrightarrow> ?sv")
proof -
  have sv: "single_valued (lpPairs xs)" "single_valued (lpPairs ys)"
    using assms by (simp_all add: lpConsistent_iff)
  have ok: "?ok \<longleftrightarrow> (\<forall>(x, v)\<in>lpPairs ys. \<forall>w. localPrefForPrefix xs x = Some w \<longrightarrow> w = v)"
    by (simp add: isOk_iff forE_checkLocalPrefs)
  have "localPrefForPrefix xs x = Some w \<longleftrightarrow> (x, w) \<in> lpPairs xs" for x w
    using sv(1) localPrefForPrefix_pairs localPrefForPrefix_None
    by (metis fst_conv image_eqI option.exhaust single_valuedD)
  then have "?ok \<longleftrightarrow> (\<forall>x v w. (x, v) \<in> lpPairs ys \<longrightarrow> (x, w) \<in> lpPairs xs \<longrightarrow> w = v)"
    unfolding ok by auto
  with sv show ?thesis unfolding single_valued_def by blast
qed

lemma lpPairs_merge: "lpPairs (mergeLocalPrefPrefixLists xs ys) \<subseteq> lpPairs xs \<union> lpPairs ys"
proof -
  have "\<forall>x\<in>pl_Prefixes p. (x, lpl_LocalPref p) \<in> lpPairs xs \<union> lpPairs ys"
    if p: "p \<in> set (mergeLocalPrefPrefixLists xs ys)" for p
  proof (rule lpm.merge_invariant [OF mergeLocalPref_keyed keyedBy_fillMap _ _ _ p,
        where P = "\<lambda>p. (\<forall>x\<in>pl_Prefixes p. (x, lpl_LocalPref p) \<in> lpPairs xs \<union> lpPairs ys)"])
    show "\<forall>x\<in>pl_Prefixes v. (x, lpl_LocalPref v) \<in> lpPairs xs \<union> lpPairs ys"
      if "mapGet (fillMap lpKey xs) k = Some v" for k v
      using that by (auto simp: mapGet_fillMap lpPairs_def dest!: lookupKey_Some)
    show "\<forall>x\<in>pl_Prefixes v. (x, lpl_LocalPref v) \<in> lpPairs xs \<union> lpPairs ys"
      if "v \<in> set ys" for v
      using that by (auto simp: lpPairs_def)
  qed (auto simp: addPrefixes_def lpKey_def)
  then show ?thesis by (auto simp: lpPairs_def [of "mergeLocalPrefPrefixLists xs ys"])
qed

section \<open>Outgoing prefixes\<close>

definition outNormal :: "AllowedOut \<Rightarrow> bool" where
  "outNormal a \<longleftrightarrow>
     sorted_wrt (<) (ao_PrefixesV4 a) \<and> sorted_wrt (<) (ao_PrefixesV6 a) \<and>
     sortedByKey lpKey (ao_LocalPrefPrefixesModifiers a) \<and>
     sortedByKey commKey (ao_CommunityPrefixesModifiers a) \<and>
     lpConsistent (ao_LocalPrefPrefixesModifiers a)"

lemma mergeAllowedOut_Inr_iff:
  "mergeAllowedOut a b = Inr c \<longleftrightarrow>
     isOk (forE (checkLocalPrefs (localPrefForPrefix (ao_LocalPrefPrefixesModifiers a)))
       (ao_LocalPrefPrefixesModifiers b)) \<and>
     (\<exists>v4 v6. mergeNextHop (ao_NextHopV4 a) (ao_NextHopV4 b) = Inr v4 \<and>
       mergeNextHop (ao_NextHopV6 a) (ao_NextHopV6 b) = Inr v6 \<and>
       c = \<lparr>ao_PrefixesV4 = setsList (ao_PrefixesV4 a @ ao_PrefixesV4 b),
            ao_PrefixesV6 = setsList (ao_PrefixesV6 a @ ao_PrefixesV6 b),
            ao_NextHopV4 = v4, ao_NextHopV6 = v6,
            ao_LocalPrefPrefixesModifiers =
              mergeLocalPrefPrefixLists (ao_LocalPrefPrefixesModifiers a) (ao_LocalPrefPrefixesModifiers b),
            ao_CommunityPrefixesModifiers =
              mergeCommunityPrefixLists (ao_CommunityPrefixesModifiers a)
                (ao_CommunityPrefixesModifiers b)\<rparr>)"
  by (auto simp: mergeAllowedOut_def bindE_Inr_iff mapErr_Inr_iff isOk_iff)

lemma mergeAllowedOut_normal:
  assumes "mergeAllowedOut a b = Inr c"
    and "lpConsistent (ao_LocalPrefPrefixesModifiers a)" "lpConsistent (ao_LocalPrefPrefixesModifiers b)"
  shows "outNormal c"
proof -
  have "single_valued (lpPairs (ao_LocalPrefPrefixesModifiers a) \<union> lpPairs (ao_LocalPrefPrefixesModifiers b))"
    using assms(1) checks_cross [OF assms(2,3)] unfolding mergeAllowedOut_Inr_iff by blast
  then have "lpConsistent (mergeLocalPrefPrefixLists (ao_LocalPrefPrefixesModifiers a)
      (ao_LocalPrefPrefixesModifiers b))"
    unfolding lpConsistent_iff by (rule single_valued_subset [OF lpPairs_merge])
  with assms(1) show ?thesis
    by (auto simp: mergeAllowedOut_Inr_iff outNormal_def)
qed

lemma setsList_self: "sorted_wrt (<) xs \<Longrightarrow> setsList (xs @ xs) = xs"
  using setsList_eq_iff [of "xs @ xs" xs] by (simp add: setsList_sorted)

lemma setsList_commute: "setsList (xs @ ys) = setsList (ys @ xs)"
  by (simp add: setsList_eq_iff Un_commute)

lemma mergeNextHop_self: "mergeNextHop h h = Inr h"
  by (simp add: mergeNextHop_def)

lemma mergeNextHop_commute: "sameOutcome (mergeNextHop g h) (mergeNextHop h g)"
  by (simp add: mergeNextHop_def sameOutcome_def)

lemma mergeAllowedOut_self: "outNormal a \<Longrightarrow> mergeAllowedOut a a = Inr a"
  by (cases a)
    (simp add: mergeAllowedOut_Inr_iff outNormal_def mergeNextHop_self setsList_self
      mergeLocalPref_self mergeCommunity_self lpConsistent_forE)

lemma mergeAllowedOut_commute:
  assumes "outNormal a" "outNormal b"
    and "namesAgree lpKey (\<lambda>p. p) (ao_LocalPrefPrefixesModifiers a) (ao_LocalPrefPrefixesModifiers b)"
    and "namesAgree commKey (\<lambda>p. p) (ao_CommunityPrefixesModifiers a) (ao_CommunityPrefixesModifiers b)"
  shows "sameOutcome (mergeAllowedOut a b) (mergeAllowedOut b a)"
proof -
  have lp: "mergeLocalPrefPrefixLists (ao_LocalPrefPrefixesModifiers a) (ao_LocalPrefPrefixesModifiers b) =
      mergeLocalPrefPrefixLists (ao_LocalPrefPrefixesModifiers b) (ao_LocalPrefPrefixesModifiers a)"
    and cp: "mergeCommunityPrefixLists (ao_CommunityPrefixesModifiers a) (ao_CommunityPrefixesModifiers b) =
      mergeCommunityPrefixLists (ao_CommunityPrefixesModifiers b) (ao_CommunityPrefixesModifiers a)"
    by (rule mergeLocalPref_commute mergeCommunity_commute;
        use assms in \<open>simp add: outNormal_def sortedByKey_distinct\<close>)+
  have chk: "isOk (forE (checkLocalPrefs (localPrefForPrefix (ao_LocalPrefPrefixesModifiers a)))
        (ao_LocalPrefPrefixesModifiers b)) =
      isOk (forE (checkLocalPrefs (localPrefForPrefix (ao_LocalPrefPrefixesModifiers b)))
        (ao_LocalPrefPrefixesModifiers a))"
    using assms by (simp add: checks_cross outNormal_def Un_commute)
  show ?thesis
    unfolding sameOutcome_def mergeAllowedOut_Inr_iff lp cp chk
      setsList_commute [of "ao_PrefixesV4 a"] setsList_commute [of "ao_PrefixesV6 a"]
    using mergeNextHop_commute [of "ao_NextHopV4 a" "ao_NextHopV4 b", unfolded sameOutcome_def]
      mergeNextHop_commute [of "ao_NextHopV6 a" "ao_NextHopV6 b", unfolded sameOutcome_def]
    by simp
qed

section \<open>Neighbors\<close>

definition nbNormal :: "NeighborConfig \<Rightarrow> bool" where
  "nbNormal n \<longleftrightarrow>
     outNormal (nc_Outgoing n) \<and> inNormal (nc_Incoming n) \<and> sorted_wrt (<) (nc_AddressFamilies n) \<and>
     nc_Port n \<noteq> Some defaultBGPPort \<and> nc_HoldTime n \<noteq> Some defaultHoldTime \<and>
     nc_KeepaliveTime n \<noteq> Some defaultKeepaliveTime \<and> nc_ConnectTime n \<noteq> Some defaultConnectTime"

definition nbConsistent :: "NeighborConfig \<Rightarrow> bool" where
  "nbConsistent n \<longleftrightarrow> lpConsistent (ao_LocalPrefPrefixesModifiers (nc_Outgoing n))"

lemma ptrsEqual_self [simp]: "ptrsEqual p p d"
  by (simp add: ptrsEqual_def split: option.splits)

lemma ptrsEqual_sym: "ptrsEqual p q d = ptrsEqual q p d"
  by (auto simp: ptrsEqual_def split: option.splits)

lemma ptrsEqual_normal: "p \<noteq> Some d \<Longrightarrow> q \<noteq> Some d \<Longrightarrow> ptrsEqual p q d \<longleftrightarrow> p = q"
  by (auto simp: ptrsEqual_def split: option.splits)

lemma ID_cleanNeighborDefaults [simp]: "ID (cleanNeighborDefaults n) = ID n"
  by (simp add: ID_def cleanNeighborDefaults_def)

lemma neighborsAreCompatible_ok:
  "neighborsAreCompatible n1 n2 = Inr u \<longleftrightarrow>
     ID n1 = ID n2 \<and> nc_ASN n1 = nc_ASN n2 \<and> ptrsEqual (nc_Port n1) (nc_Port n2) defaultBGPPort \<and>
     nc_SrcAddr n1 = nc_SrcAddr n2 \<and> nc_Password n1 = nc_Password n2 \<and>
     (nc_BFDProfile n1 = '''' \<or> nc_BFDProfile n2 = '''' \<or> nc_BFDProfile n1 = nc_BFDProfile n2) \<and>
     nc_EBGPMultiHop n1 = nc_EBGPMultiHop n2 \<and> nc_IPFamily n1 = nc_IPFamily n2 \<and>
     ptrsEqual (nc_HoldTime n1) (nc_HoldTime n2) defaultHoldTime \<and>
     ptrsEqual (nc_KeepaliveTime n1) (nc_KeepaliveTime n2) defaultKeepaliveTime \<and>
     ptrsEqual (nc_ConnectTime n1) (nc_ConnectTime n2) defaultConnectTime \<and>
     nc_LocalASN n1 = nc_LocalASN n2"
  by (simp add: neighborsAreCompatible_def Let_def)

lemma mergeIntoNeighbor_Inr_iff:
  "mergeIntoNeighbor a b = Inr c \<longleftrightarrow>
     neighborsAreCompatible a b = Inr () \<and>
     (\<exists>out. mergeAllowedOut (nc_Outgoing a) (nc_Outgoing b) = Inr out \<and>
       c = cleanNeighborDefaults (a\<lparr>
         nc_BFDProfile := (if nc_BFDProfile a = '''' then nc_BFDProfile b else nc_BFDProfile a),
         nc_Outgoing := out,
         nc_Incoming := mergeAllowedIn (nc_Incoming a) (nc_Incoming b),
         nc_AddressFamilies := setsList (nc_AddressFamilies a @ nc_AddressFamilies b)\<rparr>))"
  by (auto simp: mergeIntoNeighbor_def Let_def bindE_Inr_iff mapErr_Inr_iff)

lemma mergeIntoNeighbor_ID: "mergeIntoNeighbor a b = Inr c \<Longrightarrow> ID c = ID a"
  by (auto simp: mergeIntoNeighbor_Inr_iff ID_def cleanNeighborDefaults_def)

lemma mergeIntoNeighbor_normal:
  assumes "mergeIntoNeighbor a b = Inr c" "nbConsistent a" "nbConsistent b"
  shows "nbNormal c"
proof -
  obtain out where out: "mergeAllowedOut (nc_Outgoing a) (nc_Outgoing b) = Inr out"
    and c: "c = cleanNeighborDefaults (a\<lparr>
         nc_BFDProfile := (if nc_BFDProfile a = [] then nc_BFDProfile b else nc_BFDProfile a),
         nc_Outgoing := out,
         nc_Incoming := mergeAllowedIn (nc_Incoming a) (nc_Incoming b),
         nc_AddressFamilies := setsList (nc_AddressFamilies a @ nc_AddressFamilies b)\<rparr>)"
    using assms(1) unfolding mergeIntoNeighbor_Inr_iff by blast
  have "outNormal out"
    using mergeAllowedOut_normal [OF out] assms(2,3) by (simp add: nbConsistent_def)
  then show ?thesis by (simp add: c nbNormal_def cleanNeighborDefaults_def)
qed

lemma nbNormal_consistent: "nbNormal n \<Longrightarrow> nbConsistent n"
  by (simp add: nbNormal_def nbConsistent_def outNormal_def)

lemma mergeIntoNeighbor_self: "nbNormal n \<Longrightarrow> mergeIntoNeighbor n n = Inr n"
  by (cases n)
    (simp add: mergeIntoNeighbor_Inr_iff neighborsAreCompatible_ok nbNormal_def mergeAllowedOut_self
      mergeAllowedIn_self setsList_self cleanNeighborDefaults_def)

text \<open>
  What merging does not compare: neighbors under one identifier agree on it when they come from the
  same session. Incoming filters must not clash in their keys.
\<close>

definition inAgree :: "AllowedIn \<Rightarrow> AllowedIn \<Rightarrow> bool" where
  "inAgree a b \<longleftrightarrow>
     inj_on incomingFilterKey (set (ai_PrefixesV4 a) \<union> set (ai_PrefixesV4 b)) \<and>
     inj_on incomingFilterKey (set (ai_PrefixesV6 a) \<union> set (ai_PrefixesV6 b))"

definition nbAgree :: "NeighborConfig \<Rightarrow> NeighborConfig \<Rightarrow> bool" where
  "nbAgree a b \<longleftrightarrow>
     nc_Name a = nc_Name b \<and> nc_Addr a = nc_Addr b \<and> nc_Iface a = nc_Iface b \<and>
     nc_VRFName a = nc_VRFName b \<and> nc_GracefulRestart a = nc_GracefulRestart b \<and>
     nc_AlwaysBlock a = nc_AlwaysBlock b \<and> inAgree (nc_Incoming a) (nc_Incoming b) \<and>
     namesAgree lpKey (\<lambda>p. p) (ao_LocalPrefPrefixesModifiers (nc_Outgoing a))
       (ao_LocalPrefPrefixesModifiers (nc_Outgoing b)) \<and>
     namesAgree commKey (\<lambda>p. p) (ao_CommunityPrefixesModifiers (nc_Outgoing a))
       (ao_CommunityPrefixesModifiers (nc_Outgoing b))"

lemma mergeAllowedIn_commute: "inAgree a b \<Longrightarrow> mergeAllowedIn a b = mergeAllowedIn b a"
  using mergeIncomingFilters_commute [of "ai_PrefixesV4 a" "ai_PrefixesV4 b"]
    mergeIncomingFilters_commute [of "ai_PrefixesV6 a" "ai_PrefixesV6 b"]
  by (simp add: mergeAllowedIn_def inAgree_def disj_commute)

lemma mergeIntoNeighbor_swap:
  assumes "nbNormal a" "nbNormal b" "nbAgree a b" "mergeIntoNeighbor a b = Inr c"
  shows "mergeIntoNeighbor b a = Inr c"
proof -
  obtain out where out: "mergeAllowedOut (nc_Outgoing a) (nc_Outgoing b) = Inr out"
    and compat: "neighborsAreCompatible a b = Inr ()"
    and c: "c = cleanNeighborDefaults (a\<lparr>
         nc_BFDProfile := (if nc_BFDProfile a = [] then nc_BFDProfile b else nc_BFDProfile a),
         nc_Outgoing := out,
         nc_Incoming := mergeAllowedIn (nc_Incoming a) (nc_Incoming b),
         nc_AddressFamilies := setsList (nc_AddressFamilies a @ nc_AddressFamilies b)\<rparr>)"
    using assms(4) unfolding mergeIntoNeighbor_Inr_iff by blast
  have "sameOutcome (mergeAllowedOut (nc_Outgoing a) (nc_Outgoing b))
      (mergeAllowedOut (nc_Outgoing b) (nc_Outgoing a))"
    by (rule mergeAllowedOut_commute; use assms(1-3) in \<open>simp add: nbNormal_def nbAgree_def\<close>)
  with out have out': "mergeAllowedOut (nc_Outgoing b) (nc_Outgoing a) = Inr out"
    unfolding sameOutcome_def by blast
  have inc: "mergeAllowedIn (nc_Incoming a) (nc_Incoming b) = mergeAllowedIn (nc_Incoming b) (nc_Incoming a)"
    by (rule mergeAllowedIn_commute) (use assms(3) in \<open>simp add: nbAgree_def\<close>)
  have compat': "neighborsAreCompatible b a = Inr ()"
    using compat unfolding neighborsAreCompatible_ok by (auto simp: ptrsEqual_sym)
  have eq: "nc_Port a = nc_Port b" "nc_HoldTime a = nc_HoldTime b"
      "nc_KeepaliveTime a = nc_KeepaliveTime b" "nc_ConnectTime a = nc_ConnectTime b"
    using compat assms(1,2) unfolding neighborsAreCompatible_ok nbNormal_def
    by (simp_all add: ptrsEqual_normal)
  have "c = cleanNeighborDefaults (b\<lparr>
         nc_BFDProfile := (if nc_BFDProfile b = [] then nc_BFDProfile a else nc_BFDProfile b),
         nc_Outgoing := out,
         nc_Incoming := mergeAllowedIn (nc_Incoming b) (nc_Incoming a),
         nc_AddressFamilies := setsList (nc_AddressFamilies b @ nc_AddressFamilies a)\<rparr>)"
    unfolding c inc setsList_commute [of "nc_AddressFamilies a"]
    using compat eq assms(3) unfolding neighborsAreCompatible_ok nbAgree_def
    by (intro NeighborConfig.equality) (auto simp: cleanNeighborDefaults_def)
  with out' compat' show ?thesis unfolding mergeIntoNeighbor_Inr_iff by blast
qed

lemma nbAgree_sym: "nbAgree a b \<Longrightarrow> nbAgree b a"
  by (auto simp: nbAgree_def inAgree_def namesAgree_def Un_commute)

lemma mergeIntoNeighbor_commute:
  "nbNormal a \<Longrightarrow> nbNormal b \<Longrightarrow> nbAgree a b \<Longrightarrow>
   sameOutcome (mergeIntoNeighbor a b) (mergeIntoNeighbor b a)"
  unfolding sameOutcome_def using mergeIntoNeighbor_swap nbAgree_sym by blast

end
