(* ===== verification/Merge_Routers.thy ===== *)
theory Merge_Routers
  imports Merge_Neighbors
begin

text \<open>
  Merging routers. The loop over neighbor pointers is shown to refine the keyed merge of the
  neighbors themselves when the pointers are distinct; merging a router with itself, where the two
  lists share their neighbors, normalises it. The result of every merge is in normal form.
\<close>

section \<open>The neighbor store\<close>

interpretation nbm: keyed_merge ID mergeIntoNeighbor
  by unfold_locales (rule mergeIntoNeighbor_ID)

definition valMap :: "heap \<Rightarrow> (string, nat) gomap \<Rightarrow> (string, NeighborConfig) gomap" where
  "valMap h m = map (\<lambda>(k, p). (k, h ! p)) m"

lemma mapGet_valMap: "mapGet (valMap h m) k = map_option (nth h) (mapGet m k)"
  by (induction m) (auto simp: valMap_def mapGet_def)

lemma mapKeys_valMap: "mapKeys (valMap h m) = mapKeys m"
  by (auto simp: valMap_def mapKeys_def)

lemma sortMap_valMap: "sortMap (valMap h m) = map (nth h) (sortMap m)"
proof -
  have "the (mapGet (valMap h m) k) = h ! the (mapGet m k)" if "k \<in> set (mapKeys m)" for k
    using that by (auto simp: mapGet_valMap gomap.mem_keys_iff)
  then show ?thesis by (auto simp: sortMap_def mapKeys_valMap)
qed

text \<open>Identifiers in the store never change, and the map holds each pointer under its identifier.\<close>

definition storeInv :: "string list \<Rightarrow> heap \<times> (string, nat) gomap \<Rightarrow> bool" where
  "storeInv ids = (\<lambda>(h, m). map ID h = ids \<and> (\<forall>k p. mapGet m k = Some p \<longrightarrow> p < length ids \<and> ids ! p = k))"

lemma storeInv_nth: "storeInv ids (h, m) \<Longrightarrow> p < length ids \<Longrightarrow> ID (h ! p) = ids ! p"
  by (auto simp: storeInv_def)

lemma neighborStep_cases:
  assumes "neighborStep (h, m) n = Inr (h', m')"
  obtains (new) "mapGet m (ID (h ! n)) = None" "h' = h" "m' = mapSet m (ID (h ! n)) n"
  | (merged) d dest where "mapGet m (ID (h ! n)) = Some d" "mergeIntoNeighbor (h ! d) (h ! n) = Inr dest"
      "h' = h[d := dest]" "m' = m"
  using assms by (auto simp: neighborStep_def Let_def result_simps split: option.splits)

lemma neighborStep_storeInv:
  assumes "storeInv ids (h, m)" "n < length ids" "neighborStep (h, m) n = Inr (h', m')"
  shows "storeInv ids (h', m')"
  using assms(3)
proof (cases rule: neighborStep_cases)
  case new
  then show ?thesis using assms(1,2) by (auto simp: storeInv_def split: if_splits)
next
  case (merged d dest)
  then have "ID dest = ID (h ! d)" by (simp add: mergeIntoNeighbor_ID)
  then have "map ID h' = map ID h"
    using merged(3) by (metis list_update_id map_update)
  then show ?thesis using assms(1) merged(4) by (auto simp: storeInv_def)
qed

lemma fold_storeInv:
  assumes "foldE neighborStep s ps = Inr t" "storeInv ids s" "set ps \<subseteq> {..<length ids}"
  shows "storeInv ids t"
proof (rule foldE_invariant [OF assms(1), where P = "storeInv ids"])
  show "storeInv ids s'" if "x \<in> set ps" "storeInv ids u" "neighborStep u x = Inr s'" for u x s'
    using that assms(3) neighborStep_storeInv [of ids "fst u" "snd u" x "fst s'" "snd s'"] by auto
qed (rule assms(2))

lemma storeInv_init: "storeInv (map ID h) (h, [])"
  by (simp add: storeInv_def)

lemma storeInv_sorted:
  assumes "storeInv ids (h, m)"
  shows "sortedByKey ID (map (nth h) (sortMap m))"
proof -
  have "keyedBy ID (valMap h m)"
    using assms storeInv_nth [OF assms] by (auto simp: keyedBy_def mapGet_valMap storeInv_def)
  then show ?thesis using sortedByKey_sortMap sortMap_valMap by metis
qed

lemma fold_store_length: "foldE neighborStep (h, m) ps = Inr (h', m') \<Longrightarrow> length h' = length h"
  by (rule foldE_invariant [where P = "\<lambda>s. length (fst s) = length h", of _ _ _ "(h', m')", simplified])
    (auto simp: neighborStep_def Let_def result_simps split: option.splits)

text \<open>What merging keeps of every neighbor holds of the whole store.\<close>

lemma fold_store_all:
  assumes "foldE neighborStep (h, m) ps = Inr (h', m')"
    and "\<forall>n\<in>set h. P n" "set ps \<subseteq> {..<length h}" "\<forall>k d. mapGet m k = Some d \<longrightarrow> d < length h"
    and comb: "\<And>a b c. mergeIntoNeighbor a b = Inr c \<Longrightarrow> P a \<Longrightarrow> P b \<Longrightarrow> P c"
  shows "\<forall>n\<in>set h'. P n"
proof -
  let ?I = "\<lambda>(g, m). length g = length h \<and> (\<forall>n\<in>set g. P n) \<and> (\<forall>k d. mapGet m k = Some d \<longrightarrow> d < length h)"
  have "?I (h', m')"
  proof (rule foldE_invariant [OF assms(1), where P = ?I])
    show "?I (h, m)" using assms(2,4) by auto
  next
    fix s x t
    assume x: "x \<in> set ps" and I: "?I s" and step: "neighborStep s x = Inr t"
    obtain g q g' q' where st: "s = (g, q)" "t = (g', q')" by (cases s; cases t) auto
    from step [unfolded st] show "?I t"
    proof (cases rule: neighborStep_cases)
      case new
      then show ?thesis using I x assms(3) st by auto
    next
      case (merged d dest)
      have "P dest"
        using merged(1,2) I x assms(3) st comb [OF merged(2)] by (auto simp: subset_iff)
      then show ?thesis
        using merged I st by (auto dest!: set_update_subset_insert [THEN subsetD])
    qed
  qed
  then show ?thesis by auto
qed

text \<open>The map only grows, and holds exactly the identifiers that were visited.\<close>

lemma fold_store_dom:
  assumes "foldE neighborStep (h, m) ps = Inr (h', m')" "storeInv ids (h, m)" "set ps \<subseteq> {..<length ids}"
  shows "dom (mapGet m') = dom (mapGet m) \<union> nth ids ` set ps"
  using assms
proof (induction ps arbitrary: h m)
  case (Cons p ps)
  obtain h1 m1 where step: "neighborStep (h, m) p = Inr (h1, m1)"
    and rest: "foldE neighborStep (h1, m1) ps = Inr (h', m')"
    using Cons.prems(1) by (auto simp: result_simps)
  have p: "p < length ids" using Cons.prems(3) by simp
  have "dom (mapGet m1) = insert (ids ! p) (dom (mapGet m))"
    using step storeInv_nth [OF Cons.prems(2) p] by (cases rule: neighborStep_cases) (auto simp: dom_def)
  then show ?case
    using Cons.IH [OF rest neighborStep_storeInv [OF Cons.prems(2) p step]] Cons.prems(3) by auto
qed simp

lemma fold_store_revisit:
  assumes "foldE neighborStep (h, m) qs = Inr (h', m')" "storeInv ids (h, m)" "set qs \<subseteq> {..<length ids}"
    and "\<forall>q\<in>set qs. mapGet m (ids ! q) \<noteq> None" "\<forall>n\<in>set h. nbConsistent n"
  shows "m' = m \<and> (\<forall>q\<in>set qs. \<forall>d. mapGet m (ids ! q) = Some d \<longrightarrow> nbNormal (h' ! d))"
  using assms(1,3,4)
proof (induction qs arbitrary: h' m' rule: rev_induct)
  case (snoc q qs)
  obtain h1 m1 where init: "foldE neighborStep (h, m) qs = Inr (h1, m1)"
    and step: "neighborStep (h1, m1) q = Inr (h', m')"
    using snoc.prems(1) by (auto simp: foldE_append result_simps)
  have IH: "m1 = m" "\<And>p d. p \<in> set qs \<Longrightarrow> mapGet m (ids ! p) = Some d \<Longrightarrow> nbNormal (h1 ! d)"
    using snoc.IH [OF init] snoc.prems(2,3) by auto
  have inv: "storeInv ids (h1, m)"
    using fold_storeInv [OF init assms(2)] snoc.prems(2) IH(1) by auto
  have bound: "\<forall>k d. mapGet m k = Some d \<longrightarrow> d < length h"
    using assms(2) by (auto simp: storeInv_def)
  have len: "length h = length ids" "length h1 = length ids"
    using assms(2) inv by (simp_all add: storeInv_def) (metis length_map)+
  have cons: "\<forall>n\<in>set h1. nbConsistent n"
    using fold_store_all [OF init assms(5) _ bound] snoc.prems(2) len(1)
      mergeIntoNeighbor_normal nbNormal_consistent by auto
  have q: "q < length ids" "ID (h1 ! q) = ids ! q"
    using snoc.prems(2) storeInv_nth [OF inv] by auto
  from step show ?case
  proof (cases rule: neighborStep_cases)
    case new
    then show ?thesis using snoc.prems(3) q IH(1) by auto
  next
    case (merged d dest)
    have "d < length h1" using merged(1) bound IH(1) len by auto
    then have "nbNormal dest"
      using mergeIntoNeighbor_normal [OF merged(2)] cons q len by auto
    then show ?thesis
      using merged IH q \<open>d < length h1\<close> by (auto simp: nth_list_update)
  qed
qed simp

lemma mergeNeighborsLists_Inr:
  "mergeNeighborsLists h ps qs = Inr (h', ns) \<longleftrightarrow>
     (\<exists>m. foldE neighborStep (h, []) (ps @ qs) = Inr (h', m) \<and> ns = sortMap m)"
  by (auto simp: mergeNeighborsLists_def Let_def result_simps split: if_splits)
    (simp_all add: sortMap_def mapKeys_def)

lemma mergeNeighborsLists_sorted:
  assumes "mergeNeighborsLists h ps qs = Inr (h', ns)" "set (ps @ qs) \<subseteq> {..<length h}"
  shows "sortedByKey ID (map (nth h') ns)"
proof -
  obtain m where m: "foldE neighborStep (h, []) (ps @ qs) = Inr (h', m)" "ns = sortMap m"
    using assms(1) by (auto simp: mergeNeighborsLists_Inr)
  show ?thesis
    using storeInv_sorted [OF fold_storeInv [OF m(1) storeInv_init]] assms(2) m(2) by simp
qed

text \<open>A list merged with itself: every neighbor of the result was merged at least once.\<close>

lemma mergeNeighborsLists_self_normal:
  assumes "mergeNeighborsLists h ps ps = Inr (h', ns)" "set ps \<subseteq> {..<length h}"
    and "\<forall>n\<in>set h. nbConsistent n" "n \<in> set (map (nth h') ns)"
  shows "nbNormal n"
proof -
  obtain h1 m1 m where p1: "foldE neighborStep (h, []) ps = Inr (h1, m1)"
    and p2: "foldE neighborStep (h1, m1) ps = Inr (h', m)" and ns: "ns = sortMap m"
    using assms(1) by (auto simp: mergeNeighborsLists_Inr foldE_append result_simps)
  have inv: "storeInv (map ID h) (h1, m1)"
    using fold_storeInv [OF p1 storeInv_init] assms(2) by simp
  have dm: "dom (mapGet m1) = nth (map ID h) ` set ps"
    using fold_store_dom [OF p1 storeInv_init] assms(2) by (simp add: dom_def)
  have cons: "\<forall>n\<in>set h1. nbConsistent n"
    using fold_store_all [OF p1 assms(3)] assms(2) mergeIntoNeighbor_normal nbNormal_consistent by auto
  have "\<forall>q\<in>set ps. mapGet m1 (map ID h ! q) \<noteq> None" using dm by auto
  then have "m = m1" and norm: "\<And>q d. q \<in> set ps \<Longrightarrow> mapGet m1 (map ID h ! q) = Some d \<Longrightarrow> nbNormal (h' ! d)"
    using fold_store_revisit [OF p2 inv _ _ cons] assms(2) by auto
  obtain k d where "mapGet m1 k = Some d" "n = h' ! d"
    using assms(4) ns \<open>m = m1\<close> by (auto simp: set_sortMap)
  moreover from this obtain q where "q \<in> set ps" "k = map ID h ! q"
    using dm by (metis domI imageE)
  ultimately show ?thesis using norm by blast
qed

section \<open>Distinct neighbors: refinement of the keyed merge\<close>

lemma neighborStep_sim:
  assumes "foldE neighborStep (h, m) ps = x" "storeInv ids (h, m)"
    and "distinct ps" "set ps \<subseteq> {..<length ids}" "\<forall>k d. mapGet m k = Some d \<longrightarrow> d \<notin> set ps"
    and "mapGet mv = mapGet (valMap h m)"
  shows "(case x of
      Inl e \<Rightarrow> foldE (mergeStep ID mergeIntoNeighbor) mv (map (nth h) ps) = Inl e
    | Inr (h', m') \<Rightarrow> \<exists>mv'. foldE (mergeStep ID mergeIntoNeighbor) mv (map (nth h) ps) = Inr mv' \<and>
        mapGet mv' = mapGet (valMap h' m'))"
  using assms
proof (induction ps arbitrary: h m mv)
  case (Cons p ps)
  let ?id = "ID (h ! p)"
  have p: "p < length ids" "length h = length ids"
    using Cons.prems(2,4) by (auto simp: storeInv_def)
  have mv: "mapGet mv ?id = map_option (nth h) (mapGet m ?id)"
    using Cons.prems(6) by (simp add: mapGet_valMap)
  show ?case
  proof (cases "mapGet m ?id")
    case None
    then have step: "neighborStep (h, m) p = Inr (h, mapSet m ?id p)"
      and vstep: "mergeStep ID mergeIntoNeighbor mv (h ! p) = Inr (mapSet mv ?id (h ! p))"
      using mv by (simp_all add: neighborStep_def mergeStep_def)
    have "mapGet (mapSet mv ?id (h ! p)) = mapGet (valMap h (mapSet m ?id p))"
      using Cons.prems(6) by (auto simp: mapGet_valMap fun_eq_iff)
    moreover have "\<forall>k d. mapGet (mapSet m ?id p) k = Some d \<longrightarrow> d \<notin> set ps"
      using Cons.prems(3,5) by auto
    moreover have eq: "foldE (mergeStep ID mergeIntoNeighbor) mv (map (nth h) (p # ps)) =
        foldE (mergeStep ID mergeIntoNeighbor) (mapSet mv ?id (h ! p)) (map (nth h) ps)"
      using vstep by simp
    ultimately show ?thesis
      using Cons.IH [OF _ neighborStep_storeInv [OF Cons.prems(2) p(1) step], of "mapSet mv ?id (h ! p)"]
        Cons.prems(1,3,4) step unfolding eq by auto
  next
    case (Some d)
    show ?thesis
    proof (cases "mergeIntoNeighbor (h ! d) (h ! p)")
      case (Inl e)
      then show ?thesis
        using Some mv Cons.prems(1) by (auto simp: neighborStep_def mergeStep_def Let_def)
    next
      case (Inr dest)
      then have step: "neighborStep (h, m) p = Inr (h[d := dest], m)"
        and vstep: "mergeStep ID mergeIntoNeighbor mv (h ! p) = Inr (mapSet mv ?id dest)"
        using mv Some by (simp_all add: neighborStep_def mergeStep_def Let_def)
      have d: "d < length ids" "ids ! d = ?id" "d \<notin> set (p # ps)"
        using Some Cons.prems(2,5) by (auto simp: storeInv_def)
      have "ids ! c = k" if "mapGet m k = Some c" for k c
        using that Cons.prems(2) by (auto simp: storeInv_def)
      then have "mapGet (mapSet mv ?id dest) k = mapGet (valMap (h[d := dest]) m) k" for k
        using Cons.prems(6) d Some p(2)
        by (cases "mapGet m k") (auto simp: mapGet_valMap nth_list_update)
      moreover have same: "map (nth (h[d := dest])) ps = map (nth h) ps"
        using d(3) by (metis (no_types, lifting) list.set_intros(2) map_eq_conv nth_list_update_neq)
      moreover have eq: "foldE (mergeStep ID mergeIntoNeighbor) mv (map (nth h) (p # ps)) =
          foldE (mergeStep ID mergeIntoNeighbor) (mapSet mv ?id dest) (map (nth (h[d := dest])) ps)"
        using vstep by (simp add: same)
      ultimately show ?thesis
        using Cons.IH [OF _ neighborStep_storeInv [OF Cons.prems(2) p(1) step], of "mapSet mv ?id dest"]
          Cons.prems(1,3-5) step unfolding eq by (auto simp: fun_eq_iff)
    qed
  qed
qed auto

text \<open>
  The loop over pointers merges like a loop over the neighbors themselves, with the same error when
  it fails, as long as no neighbor is visited twice.
\<close>

lemma mergeNeighborsLists_refines:
  assumes "distinct (ps @ qs)" "set (ps @ qs) \<subseteq> {..<length h}"
  shows "bindE (mergeNeighborsLists h ps qs) (\<lambda>(h', ns). Inr (map (nth h') ns)) =
    mergeKeyed ID mergeIntoNeighbor [] (map (nth h) (ps @ qs))"
proof -
  have sim: "case foldE neighborStep (h, []) (ps @ qs) of
      Inl e \<Rightarrow> foldE (mergeStep ID mergeIntoNeighbor) [] (map (nth h) (ps @ qs)) = Inl e
    | Inr (h', m') \<Rightarrow> \<exists>mv'. foldE (mergeStep ID mergeIntoNeighbor) [] (map (nth h) (ps @ qs)) = Inr mv' \<and>
        mapGet mv' = mapGet (valMap h' m')"
    by (rule neighborStep_sim [OF refl storeInv_init]) (use assms in \<open>auto simp: valMap_def\<close>)
  show ?thesis
  proof (cases "foldE neighborStep (h, []) (ps @ qs)")
    case (Inl e)
    then have "ps @ qs \<noteq> []" by auto
    with Inl sim show ?thesis by (simp add: mergeNeighborsLists_def mergeKeyed_def)
  next
    case (Inr s)
    obtain h' m' where s: "s = (h', m')" by (cases s)
    then obtain mv where mv: "foldE (mergeStep ID mergeIntoNeighbor) [] (map (nth h) (ps @ qs)) = Inr mv"
      "mapGet mv = mapGet (valMap h' m')"
      using sim Inr by auto
    have "mergeNeighborsLists h ps qs = Inr (h', sortMap m')"
      using Inr s by (auto simp: mergeNeighborsLists_Inr)
    moreover have "sortMap mv = map (nth h') (sortMap m')"
      using sortMap_cong [OF mv(2)] by (simp add: sortMap_valMap)
    ultimately show ?thesis using mv(1) by (simp add: mergeKeyed_def)
  qed
qed

section \<open>Self merge of a normal list\<close>

lemma visit_distinct:
  assumes "distinct (map ID h)" "distinct ps" "set ps \<subseteq> {..<length h}"
  shows "\<exists>m. foldE neighborStep (h, []) ps = Inr (h, m) \<and>
    (\<forall>k p. mapGet m k = Some p \<longleftrightarrow> p \<in> set ps \<and> ID (h ! p) = k)"
  using assms(2,3)
proof (induction ps rule: rev_induct)
  case (snoc p ps)
  then obtain m where m: "foldE neighborStep (h, []) ps = Inr (h, m)"
    "\<And>k q. mapGet m k = Some q \<longleftrightarrow> q \<in> set ps \<and> ID (h ! q) = k" by auto
  have fresh: "q = p" if "q < length h" "ID (h ! q) = ID (h ! p)" for q
    using that snoc.prems(2) assms(1) by (auto simp: distinct_conv_nth)
  then have "mapGet m (ID (h ! p)) = None"
    using m(2) [of "ID (h ! p)"] snoc.prems by (cases "mapGet m (ID (h ! p))") auto
  then have "foldE neighborStep (h, []) (ps @ [p]) = Inr (h, mapSet m (ID (h ! p)) p)"
    using m(1) by (simp add: foldE_append neighborStep_def)
  moreover have "mapGet (mapSet m (ID (h ! p)) p) k = Some q \<longleftrightarrow> q \<in> set (ps @ [p]) \<and> ID (h ! q) = k" for k q
    using m(2) fresh snoc.prems(2) by auto
  ultimately show ?case by blast
qed simp

lemma mergeNeighborsLists_self_fixed:
  assumes "sortedByKey ID h" "\<forall>n\<in>set h. nbNormal n"
  obtains ns where "mergeNeighborsLists h [0..<length h] [0..<length h] = Inr (h, ns)" "map (nth h) ns = h"
proof -
  obtain m where m: "foldE neighborStep (h, []) [0..<length h] = Inr (h, m)"
    "\<And>k p. mapGet m k = Some p \<longleftrightarrow> p < length h \<and> ID (h ! p) = k"
    using visit_distinct [OF sortedByKey_distinct [OF assms(1)], of "[0..<length h]"]
    by (auto simp: atLeast0LessThan)
  have again: "foldE neighborStep (h, m) ps = Inr (h, m)" if "set ps \<subseteq> {..<length h}" for ps
    using that
  proof (induction ps)
    case (Cons p ps)
    then have "mapGet m (ID (h ! p)) = Some p" "mergeIntoNeighbor (h ! p) (h ! p) = Inr (h ! p)"
      using m(2) assms(2) mergeIntoNeighbor_self by auto
    then show ?case using Cons by (simp add: neighborStep_def)
  qed simp
  have run: "mergeNeighborsLists h [0..<length h] [0..<length h] = Inr (h, sortMap m)"
    using m(1) again [of "[0..<length h]"]
    by (auto simp: mergeNeighborsLists_Inr foldE_append atLeast0LessThan)
  have inv: "storeInv (map ID h) (h, m)" using m(2) by (auto simp: storeInv_def)
  have "map (nth h) (sortMap m) = h"
  proof (rule sortedByKey_ext [OF storeInv_sorted [OF inv] assms(1)])
    fix k
    have "keyedBy ID (valMap h m)" using m(2) by (auto simp: keyedBy_def mapGet_valMap)
    then have l: "lookupKey ID (map (nth h) (sortMap m)) k = map_option (nth h) (mapGet m k)"
      using lookupKey_sortMap sortMap_valMap mapGet_valMap by metis
    show "lookupKey ID (map (nth h) (sortMap m)) k = lookupKey ID h k"
    proof (cases "mapGet m k")
      case None
      then have "k \<notin> ID ` set h" using m(2) by (metis imageE in_set_conv_nth option.distinct(1))
      then have "lookupKey ID h k = None" by (simp add: lookupKey_None)
      then show ?thesis using None l by simp
    next
      case (Some p)
      then have "lookupKey ID h k = Some (h ! p)"
        using m(2) lookupKey_mem [OF sortedByKey_distinct [OF assms(1)], of "h ! p"] by simp
      then show ?thesis using Some l by simp
    qed
  qed
  with run show ?thesis using that by blast
qed

section \<open>EVPN\<close>

definition vniNormal :: "frrVNIProperties \<Rightarrow> bool" where
  "vniNormal p \<longleftrightarrow> sorted_wrt (<) (fvp_ImportRTs p) \<and> sorted_wrt (<) (fvp_ExportRTs p)"

definition l2Normal :: "frrL2VNI list \<Rightarrow> bool" where
  "l2Normal ls \<longleftrightarrow> sortedByKey fl2_VNI ls \<and> (\<forall>l\<in>set ls. vniNormal (fl2_VNIProperties l))"

definition l3Normal :: "frrL3VNI option \<Rightarrow> bool" where
  "l3Normal l3 =
     (case l3 of
        None \<Rightarrow> True
      | Some v \<Rightarrow> vniNormal (fl3_VNIProperties v) \<and> sorted_wrt (<) (fl3_AdvertisePrefixes v))"

definition evNormal :: "frrEVPNConfig option \<Rightarrow> bool" where
  "evNormal e =
     (case e of
        None \<Rightarrow> True
      | Some c \<Rightarrow> l2Normal (fev_L2VNIs c) \<and> l3Normal (fev_L3VNI c))"

lemma mergeVNIProperties_normal: "mergeVNIProperties a b = Inr c \<Longrightarrow> vniNormal c"
  by (auto simp: mergeVNIProperties_def vniNormal_def mergeRTs_def split: if_splits)

lemma mergeVNIProperties_self: "vniNormal p \<Longrightarrow> mergeVNIProperties p p = Inr p"
  by (cases p) (simp add: mergeVNIProperties_def vniNormal_def mergeRTs_def setsList_self)

lemma mergeVNIProperties_swap: "mergeVNIProperties a b = Inr c \<Longrightarrow> mergeVNIProperties b a = Inr c"
  using setsList_commute [of "fvp_ImportRTs a" "fvp_ImportRTs b"]
    setsList_commute [of "fvp_ExportRTs a" "fvp_ExportRTs b"]
  by (auto simp: mergeVNIProperties_def mergeRTs_def split: if_splits)

interpretation l2m: keyed_merge fl2_VNI mergeL2VNI
  by unfold_locales (auto simp: mergeL2VNI_def result_simps)

lemma mergeL2VNI_Inr:
  "mergeL2VNI a b = Inr c \<longleftrightarrow>
     (\<exists>p. mergeVNIProperties (fl2_VNIProperties a) (fl2_VNIProperties b) = Inr p \<and>
        c = \<lparr>fl2_VNI = fl2_VNI a, fl2_VNIProperties = p\<rparr>)"
  by (auto simp: mergeL2VNI_def result_simps)

lemma mergeL2VNI_normal: "mergeL2VNI a b = Inr c \<Longrightarrow> vniNormal (fl2_VNIProperties c)"
  by (auto simp: mergeL2VNI_Inr mergeVNIProperties_normal)

lemma mergeL2VNI_commute: "fl2_VNI a = fl2_VNI b \<Longrightarrow> sameOutcome (mergeL2VNI a b) (mergeL2VNI b a)"
  by (auto simp: sameOutcome_def mergeL2VNI_Inr dest: mergeVNIProperties_swap)

lemma mergeL2VNIs_merge_self: "mergeL2VNIs ls ls = Inr cs \<Longrightarrow> l2Normal cs"
proof (cases "ls = []")
  case False
  assume "mergeL2VNIs ls ls = Inr cs"
  with False have run: "mergeKeyed fl2_VNI mergeL2VNI (fillMap fl2_VNI ls) ls = Inr cs"
    by (simp add: mergeL2VNIs_def)
  have "vniNormal (fl2_VNIProperties c)" if "c \<in> set cs" for c
  proof (rule l2m.merge_combined [OF run keyedBy_fillMap _ _ _ that,
        where Q = "\<lambda>c. vniNormal (fl2_VNIProperties c)"])
    show "k \<in> fl2_VNI ` set ls" if "mapGet (fillMap fl2_VNI ls) k = Some a" for k a
      using that by (auto simp: mapGet_fillMap dest!: lookupKey_Some)
    show "mapGet (fillMap fl2_VNI ls) (fl2_VNI v) \<noteq> None" if "v \<in> set ls" for v
      using that by (auto simp: mapGet_fillMap lookupKey_None)
  qed (rule mergeL2VNI_normal)
  then show ?thesis using l2m.merge_sorted [OF run] by (simp add: l2Normal_def)
qed (auto simp: mergeL2VNIs_def l2Normal_def sortedByKey_def)

lemma mergeL2VNIs_normal:
  assumes "mergeL2VNIs as bs = Inr cs" "l2Normal as" "l2Normal bs"
  shows "l2Normal cs"
proof (cases "as = [] \<or> bs = []")
  case False
  with assms(1) have run: "mergeKeyed fl2_VNI mergeL2VNI (fillMap fl2_VNI as) bs = Inr cs"
    by (simp add: mergeL2VNIs_def)
  have "vniNormal (fl2_VNIProperties c)" if "c \<in> set cs" for c
  proof (rule l2m.merge_invariant [OF run keyedBy_fillMap _ _ _ that,
        where P = "\<lambda>c. vniNormal (fl2_VNIProperties c)"])
    show "vniNormal (fl2_VNIProperties v)" if "mapGet (fillMap fl2_VNI as) k = Some v" for k v
      using that assms(2) by (auto simp: mapGet_fillMap l2Normal_def dest!: lookupKey_Some)
  qed (use assms(3) in \<open>auto simp: l2Normal_def dest: mergeL2VNI_normal\<close>)
  then show ?thesis using l2m.merge_sorted [OF run] by (simp add: l2Normal_def)
qed (use assms in \<open>auto simp: mergeL2VNIs_def split: if_splits\<close>)

lemma mergeL2VNIs_self: "l2Normal ls \<Longrightarrow> mergeL2VNIs ls ls = Inr ls"
  using l2m.merge_fill_self [of ls]
  by (auto simp: mergeL2VNIs_def l2Normal_def mergeL2VNI_Inr mergeVNIProperties_self)

lemma mergeL2VNIs_commute: "l2Normal as \<Longrightarrow> l2Normal bs \<Longrightarrow> sameOutcome (mergeL2VNIs as bs) (mergeL2VNIs bs as)"
  using l2m.merge_fill_commute [of as bs] mergeL2VNI_commute
  by (auto simp: mergeL2VNIs_def l2Normal_def sortedByKey_distinct)

lemma mergeL3VNIs_merge_self: "mergeL3VNIs a a = Inr c \<Longrightarrow> l3Normal c"
  by (auto simp: mergeL3VNIs_def l3Normal_def result_simps mergeVNIProperties_normal split: option.splits)

lemma mergeL3VNIs_normal: "mergeL3VNIs a b = Inr c \<Longrightarrow> l3Normal a \<Longrightarrow> l3Normal b \<Longrightarrow> l3Normal c"
  by (auto simp: mergeL3VNIs_def l3Normal_def result_simps mergeVNIProperties_normal
      split: option.splits if_splits)

lemma mergeL3VNIs_self: "l3Normal a \<Longrightarrow> mergeL3VNIs a a = Inr a"
  by (auto simp: mergeL3VNIs_def l3Normal_def mergeVNIProperties_self setsList_self split: option.splits)

lemma mergeL3VNIs_swap: "mergeL3VNIs a b = Inr c \<Longrightarrow> mergeL3VNIs b a = Inr c"
  by (auto simp: mergeL3VNIs_def result_simps setsList_eq_iff Un_commute
      split: option.splits if_splits dest: mergeVNIProperties_swap)

lemma mergeEVPNConfigs_Inr:
  "mergeEVPNConfigs (Some a) (Some b) = Inr c \<longleftrightarrow>
     ptrsEqual (fev_AdvertiseVNIs a) (fev_AdvertiseVNIs b) VNIAdvertisementDisabled \<and>
     fev_AdvertiseSVI a = fev_AdvertiseSVI b \<and>
     (\<exists>l2 l3. mergeL2VNIs (fev_L2VNIs a) (fev_L2VNIs b) = Inr l2 \<and>
        mergeL3VNIs (fev_L3VNI a) (fev_L3VNI b) = Inr l3 \<and>
        c = Some \<lparr>fev_AdvertiseVNIs =
                    (if fev_AdvertiseVNIs a = None then fev_AdvertiseVNIs b else fev_AdvertiseVNIs a),
                  fev_AdvertiseSVI = fev_AdvertiseSVI a, fev_L2VNIs = l2, fev_L3VNI = l3\<rparr>)"
  by (auto simp: mergeEVPNConfigs_def result_simps)

lemma mergeEVPNConfigs_None [simp]:
  "mergeEVPNConfigs None b = Inr b" "mergeEVPNConfigs a None = Inr a"
  by (cases b; simp add: mergeEVPNConfigs_def) (cases a; simp add: mergeEVPNConfigs_def)

lemma mergeEVPNConfigs_merge_self: "mergeEVPNConfigs e e = Inr c \<Longrightarrow> evNormal c"
  by (cases e) (auto simp: evNormal_def mergeEVPNConfigs_Inr mergeL2VNIs_merge_self mergeL3VNIs_merge_self)

lemma mergeEVPNConfigs_normal:
  "mergeEVPNConfigs a b = Inr c \<Longrightarrow> evNormal a \<Longrightarrow> evNormal b \<Longrightarrow> evNormal c"
  by (cases a; cases b)
    (auto simp: evNormal_def mergeEVPNConfigs_Inr intro: mergeL2VNIs_normal mergeL3VNIs_normal)

lemma mergeEVPNConfigs_self: "evNormal e \<Longrightarrow> mergeEVPNConfigs e e = Inr e"
  by (cases e) (auto simp: evNormal_def mergeEVPNConfigs_Inr mergeL2VNIs_self mergeL3VNIs_self)

lemma mergeEVPNConfigs_swap:
  assumes "evNormal a" "evNormal b" "mergeEVPNConfigs a b = Inr c"
  shows "mergeEVPNConfigs b a = Inr c"
proof (cases a; cases b)
  fix x y
  assume ab: "a = Some x" "b = Some y"
  have l2: "mergeL2VNIs (fev_L2VNIs y) (fev_L2VNIs x) = Inr l \<longleftrightarrow>
      mergeL2VNIs (fev_L2VNIs x) (fev_L2VNIs y) = Inr l" for l
    using mergeL2VNIs_commute [of "fev_L2VNIs x" "fev_L2VNIs y"] assms(1,2) ab
    by (simp add: evNormal_def sameOutcome_def)
  show ?thesis
    using assms(3) unfolding ab mergeEVPNConfigs_Inr l2
    by (auto simp: ptrsEqual_def dest: mergeL3VNIs_swap split: option.splits if_splits)
qed (use assms in auto)

section \<open>Routers\<close>

definition rNormal :: "RouterConfig \<Rightarrow> bool" where
  "rNormal r \<longleftrightarrow>
     sorted_wrt (<) (rc_IPV4Prefixes r) \<and> sorted_wrt (<) (rc_IPV6Prefixes r) \<and>
     sorted_wrt (<) (rc_ImportVRFs r) \<and>
     sortedByKey ID (rc_Neighbors r) \<and> (\<forall>n\<in>set (rc_Neighbors r). nbNormal n) \<and>
     evNormal (rc_EVPN r)"

lemma routersAreCompatible_ok:
  "routersAreCompatible r t = Inr u \<longleftrightarrow>
     rc_VRF r = rc_VRF t \<and> rc_MyASN r = rc_MyASN t \<and>
     (rc_RouterID r = '''' \<or> rc_RouterID t = '''' \<or> rc_RouterID r = rc_RouterID t)"
  by (auto simp: routersAreCompatible_def Let_def)

text \<open>The router a merge returns, with the merged neighbors and EVPN configuration.\<close>

definition mergedRouter ::
  "RouterConfig \<Rightarrow> RouterConfig \<Rightarrow> NeighborConfig list \<Rightarrow> frrEVPNConfig option \<Rightarrow> RouterConfig"
where
  "mergedRouter r t ns ev =
     r\<lparr>rc_RouterID := (if rc_RouterID r = '''' then rc_RouterID t else rc_RouterID r),
       rc_IPV4Prefixes := setsList (rc_IPV4Prefixes r @ rc_IPV4Prefixes t),
       rc_IPV6Prefixes := setsList (rc_IPV6Prefixes r @ rc_IPV6Prefixes t),
       rc_ImportVRFs := setsList (rc_ImportVRFs r @ rc_ImportVRFs t),
       rc_Neighbors := ns, rc_EVPN := ev\<rparr>"

lemma mergeRouterConfigsAt_Inr:
  "mergeRouterConfigsAt h ps qs r t = Inr c \<longleftrightarrow>
     routersAreCompatible r t = Inr () \<and>
     (\<exists>h' ns ev. mergeNeighborsLists h ps qs = Inr (h', ns) \<and>
        mergeEVPNConfigs (rc_EVPN r) (rc_EVPN t) = Inr ev \<and>
        c = mergedRouter r t (map (nth h') ns) ev)"
  by (auto simp: mergeRouterConfigsAt_def mergedRouter_def Let_def result_simps)

lemma mergeRouterConfigs_Inr:
  "mergeRouterConfigs r t = Inr c \<longleftrightarrow>
     routersAreCompatible r t = Inr () \<and>
     (\<exists>ns ev. mergeKeyed ID mergeIntoNeighbor [] (rc_Neighbors r @ rc_Neighbors t) = Inr ns \<and>
        mergeEVPNConfigs (rc_EVPN r) (rc_EVPN t) = Inr ev \<and> c = mergedRouter r t ns ev)"
proof -
  let ?h = "rc_Neighbors r @ rc_Neighbors t"
  let ?ps = "[0..<length (rc_Neighbors r)]"
  let ?qs = "[length (rc_Neighbors r)..<length (rc_Neighbors r) + length (rc_Neighbors t)]"
  have all: "?ps @ ?qs = [0..<length ?h]"
    by (simp add: upt_add_eq_append [symmetric])
  have "bindE (mergeNeighborsLists ?h ?ps ?qs) (\<lambda>(h', ns). Inr (map (nth h') ns)) =
      mergeKeyed ID mergeIntoNeighbor [] (map (nth ?h) [0..<length ?h])"
    using mergeNeighborsLists_refines [of ?ps ?qs ?h] unfolding all by (simp add: atLeast0LessThan)
  then have "mergeKeyed ID mergeIntoNeighbor [] ?h = Inr ns \<longleftrightarrow>
      (\<exists>h' ps. mergeNeighborsLists ?h ?ps ?qs = Inr (h', ps) \<and> ns = map (nth h') ps)" for ns
    unfolding map_nth by (auto simp: bindE_Inr_iff dest: sym)
  then show ?thesis
    unfolding mergeRouterConfigs_def mergeRouterConfigsAt_Inr by metis
qed

lemma validateRouterConfig_normal:
  assumes "validateRouterConfig r = Inr c" "\<forall>n\<in>set (rc_Neighbors r). nbConsistent n"
  shows "rNormal c"
proof -
  let ?ps = "[0..<length (rc_Neighbors r)]"
  obtain h ns ev where run: "mergeNeighborsLists (rc_Neighbors r) ?ps ?ps = Inr (h, ns)"
    and ev: "mergeEVPNConfigs (rc_EVPN r) (rc_EVPN r) = Inr ev"
    and c: "c = mergedRouter r r (map (nth h) ns) ev"
    using assms(1) unfolding validateRouterConfig_def mergeRouterConfigsAt_Inr by blast
  have "sortedByKey ID (map (nth h) ns)"
    using mergeNeighborsLists_sorted [OF run] by (simp add: atLeast0LessThan)
  moreover have "nbNormal n" if "n \<in> set (map (nth h) ns)" for n
    using mergeNeighborsLists_self_normal [OF run _ assms(2) that] by (simp add: atLeast0LessThan)
  moreover have "evNormal ev" using ev by (rule mergeEVPNConfigs_merge_self)
  ultimately show ?thesis by (simp add: c mergedRouter_def rNormal_def)
qed

lemma mergedRouter_self:
  "rNormal r \<Longrightarrow> mergedRouter r r (rc_Neighbors r) (rc_EVPN r) = r"
  by (cases r) (simp add: mergedRouter_def rNormal_def setsList_self)

lemma validateRouterConfig_fixed: "rNormal r \<Longrightarrow> validateRouterConfig r = Inr r"
proof -
  assume r: "rNormal r"
  obtain ns where ns: "mergeNeighborsLists (rc_Neighbors r) [0..<length (rc_Neighbors r)]
      [0..<length (rc_Neighbors r)] = Inr (rc_Neighbors r, ns)" "map (nth (rc_Neighbors r)) ns = rc_Neighbors r"
    using mergeNeighborsLists_self_fixed r by (auto simp: rNormal_def)
  have "mergeEVPNConfigs (rc_EVPN r) (rc_EVPN r) = Inr (rc_EVPN r)"
    using r by (simp add: rNormal_def mergeEVPNConfigs_self)
  then show ?thesis
    using ns mergedRouter_self [OF r]
    unfolding validateRouterConfig_def mergeRouterConfigsAt_Inr routersAreCompatible_ok by metis
qed

lemma mergeRouterConfigs_normal:
  assumes "mergeRouterConfigs r t = Inr c" "rNormal r" "rNormal t"
  shows "rNormal c"
proof -
  obtain ns ev where run: "mergeKeyed ID mergeIntoNeighbor [] (rc_Neighbors r @ rc_Neighbors t) = Inr ns"
    and ev: "mergeEVPNConfigs (rc_EVPN r) (rc_EVPN t) = Inr ev" and c: "c = mergedRouter r t ns ev"
    using assms(1) unfolding mergeRouterConfigs_Inr by blast
  have "nbNormal n" if "n \<in> set ns" for n
    by (rule nbm.merge_invariant [OF run keyedBy_Nil _ _ _ that, where P = nbNormal])
      (use assms(2,3) in \<open>auto simp: rNormal_def intro: mergeIntoNeighbor_normal nbNormal_consistent\<close>)
  moreover have "sortedByKey ID ns" using nbm.merge_sorted [OF run] by simp
  moreover have "evNormal ev" using mergeEVPNConfigs_normal [OF ev] assms(2,3) by (simp add: rNormal_def)
  ultimately show ?thesis by (simp add: c mergedRouter_def rNormal_def)
qed

text \<open>Routers whose neighbors with one identifier agree on what merging does not compare.\<close>

definition routersAgree :: "RouterConfig \<Rightarrow> RouterConfig \<Rightarrow> bool" where
  "routersAgree r t \<longleftrightarrow>
     (\<forall>a\<in>set (rc_Neighbors r). \<forall>b\<in>set (rc_Neighbors t). ID a = ID b \<longrightarrow> nbAgree a b)"

lemma routersAgree_sym: "routersAgree r t \<Longrightarrow> routersAgree t r"
  by (metis nbAgree_sym routersAgree_def)

lemma mergeRouterConfigs_swap:
  assumes "rNormal r" "rNormal t" "routersAgree r t" "mergeRouterConfigs r t = Inr c"
  shows "mergeRouterConfigs t r = Inr c"
proof -
  obtain ns ev where run: "mergeKeyed ID mergeIntoNeighbor [] (rc_Neighbors r @ rc_Neighbors t) = Inr ns"
    and ev: "mergeEVPNConfigs (rc_EVPN r) (rc_EVPN t) = Inr ev" and c: "c = mergedRouter r t ns ev"
    and compat: "routersAreCompatible r t = Inr ()"
    using assms(4) unfolding mergeRouterConfigs_Inr by blast
  have "sameOutcome (mergeKeyed ID mergeIntoNeighbor [] (rc_Neighbors r @ rc_Neighbors t))
      (mergeKeyed ID mergeIntoNeighbor [] (rc_Neighbors t @ rc_Neighbors r))"
    using assms(1-3) by (intro nbm.merge_commute)
      (auto simp: rNormal_def routersAgree_def sortedByKey_distinct intro: mergeIntoNeighbor_commute)
  with run have "mergeKeyed ID mergeIntoNeighbor [] (rc_Neighbors t @ rc_Neighbors r) = Inr ns"
    unfolding sameOutcome_def by blast
  moreover have "mergeEVPNConfigs (rc_EVPN t) (rc_EVPN r) = Inr ev"
    using mergeEVPNConfigs_swap [OF _ _ ev] assms(1,2) by (simp add: rNormal_def)
  moreover have "routersAreCompatible t r = Inr ()"
    using compat by (auto simp: routersAreCompatible_ok)
  moreover have "c = mergedRouter t r ns ev"
    unfolding c using compat
    by (intro RouterConfig.equality)
      (auto simp: mergedRouter_def routersAreCompatible_ok setsList_eq_iff Un_commute)
  ultimately show ?thesis unfolding mergeRouterConfigs_Inr by blast
qed

end
