(* ===== verification/Conversion.thy ===== *)
theory Conversion
  imports Api_To_Config Merge_Routers
begin

text \<open>
  What the conversion guarantees. The first section carries invariants of routers and neighbors through
  the loops of \<open>apiToFRR\<close>: what holds of every converted router and is kept by merging holds of every
  router of the result. The other sections establish such invariants.
\<close>

section \<open>Invariants through the conversion\<close>

text \<open>The routers the conversion builds before it merges them by VRF.\<close>

definition convertedRouter ::
  "ClusterResources \<Rightarrow> IPNet list \<Rightarrow> FRRConfiguration \<Rightarrow> Router \<Rightarrow> RouterConfig \<Rightarrow> bool"
where
  "convertedRouter resources alwaysBlock cfg r rc \<longleftrightarrow>
     cfg \<in> set (cr_FRRConfigs resources) \<and> r \<in> set (bgp_Routers (spec_BGP (cfg_Spec cfg))) \<and>
     (\<exists>imported bfdProfiles allProfiles allProfiles'.
        foldE (addBFDProfile (cfg_Name cfg)) ([], allProfiles) (bgp_BFDProfiles (spec_BGP (cfg_Spec cfg))) =
          Inr (bfdProfiles, allProfiles') \<and>
        validatePrefixes (rt_Prefixes r) = Inr () \<and>
        importedPrefixes r (prefixesForVRFs (bgp_Routers (spec_BGP (cfg_Spec cfg)))) = Inr imported \<and>
        validateOutgoingPrefixes (rt_Prefixes r @ imported) r = Inr () \<and>
        routerToFRRConfig r (alwaysBlockToFRR alwaysBlock) (cr_PasswordSecrets resources) bfdProfiles
          (rt_Prefixes r @ imported) = Inr rc)"

lemma addRouter_Inr:
  "addRouter ab secrets bfd prefixes m r = Inr m' \<longleftrightarrow>
     validatePrefixes (rt_Prefixes r) = Inr () \<and> validateImportVRFs r prefixes = Inr () \<and>
     (\<exists>imported rc rc'. importedPrefixes r prefixes = Inr imported \<and>
        validateOutgoingPrefixes (rt_Prefixes r @ imported) r = Inr () \<and>
        routerToFRRConfig r ab secrets bfd (rt_Prefixes r @ imported) = Inr rc \<and>
        validateRouterConfig rc = Inr rc' \<and>
        (case mapGet m (rt_VRF r) of
           None \<Rightarrow> m' = mapSet m (rt_VRF r) rc'
         | Some cur \<Rightarrow> \<exists>c. mergeRouterConfigs cur rc' = Inr c \<and> m' = mapSet m (rt_VRF r) c))"
  by (cases "mapGet m (rt_VRF r)") (auto simp: addRouter_def Let_def bindE_Inr_iff)

lemma routerToFRRConfig_Inr:
  "routerToFRRConfig r ab secrets bfd prefixes = Inr rc \<longleftrightarrow>
     (\<exists>ns. mapE (\<lambda>n.
         if nb_LocalASN n \<noteq> 0 \<and> nb_ASN n \<noteq> 0 \<and> nb_ASN n = rt_ASN r then
           Inl (Errorf ''neighbor %s: localASN is not supported for iBGP sessions (neighbor ASN %d equals router ASN)''
                  [AStr (neighborName n), AU32 (nb_ASN n)])
         else
           mapErr (\<lambda>e. Errorf ''failed to process neighbor %s for router %d-%s: %w''
                         [AStr (neighborName n), AU32 (rt_ASN r), AStr (rt_VRF r), AErr e])
             (neighborToFRR n prefixes ab (rt_VRF r) secrets bfd))
       (rt_Neighbors r) = Inr ns \<and>
     rc = \<lparr>rc_MyASN = rt_ASN r, rc_RouterID = rt_ID r, rc_Neighbors = ns, rc_VRF = rt_VRF r,
          rc_IPV4Prefixes = FilterPrefixes (rt_Prefixes r) IPv4,
          rc_IPV6Prefixes = FilterPrefixes (rt_Prefixes r) IPv6,
          rc_ImportVRFs = map im_VRF (rt_Imports r), rc_EVPN = evpnToFRR (rt_EVPN r)\<rparr>)"
  by (auto simp: routerToFRRConfig_def bindE_Inr_iff)

lemma routerToFRRConfig_neighbors:
  assumes "routerToFRRConfig r ab secrets bfd prefixes = Inr rc" "nc \<in> set (rc_Neighbors rc)"
  obtains n where "n \<in> set (rt_Neighbors r)"
    "neighborToFRR n prefixes ab (rt_VRF r) secrets bfd = Inr nc"
    "\<not> (nb_LocalASN n \<noteq> 0 \<and> nb_ASN n \<noteq> 0 \<and> nb_ASN n = rt_ASN r)"
proof -
  from assms obtain n where "n \<in> set (rt_Neighbors r)"
    "(if nb_LocalASN n \<noteq> 0 \<and> nb_ASN n \<noteq> 0 \<and> nb_ASN n = rt_ASN r then
           Inl (Errorf ''neighbor %s: localASN is not supported for iBGP sessions (neighbor ASN %d equals router ASN)''
                  [AStr (neighborName n), AU32 (nb_ASN n)])
         else
           mapErr (\<lambda>e. Errorf ''failed to process neighbor %s for router %d-%s: %w''
                         [AStr (neighborName n), AU32 (rt_ASN r), AStr (rt_VRF r), AErr e])
             (neighborToFRR n prefixes ab (rt_VRF r) secrets bfd)) = Inr nc"
    unfolding routerToFRRConfig_Inr by (auto elim: mapE_mem)
  then show ?thesis using that by (auto simp: mapErr_Inr_iff split: if_splits)
qed

lemma mergedRouter_VRF [simp]: "rc_VRF (mergedRouter r t ns ev) = rc_VRF r"
  by (simp add: mergedRouter_def)

lemma validateRouterConfig_VRF: "validateRouterConfig r = Inr c \<Longrightarrow> rc_VRF c = rc_VRF r"
  by (auto simp: validateRouterConfig_def mergeRouterConfigsAt_Inr)

lemma mergeRouterConfigs_VRF: "mergeRouterConfigs r t = Inr c \<Longrightarrow> rc_VRF c = rc_VRF r"
  by (auto simp: mergeRouterConfigs_Inr)

definition routersInv :: "(RouterConfig \<Rightarrow> bool) \<Rightarrow> (string, RouterConfig) gomap \<Rightarrow> bool" where
  "routersInv P m \<longleftrightarrow> distinct (mapKeys m) \<and> keyedBy rc_VRF m \<and> (\<forall>k r. mapGet m k = Some r \<longrightarrow> P r)"

lemma addRouter_inv:
  assumes "addRouter ab secrets bfd prefixes m r = Inr m'" "routersInv P m"
    and base: "\<And>imported rc rc'. importedPrefixes r prefixes = Inr imported \<Longrightarrow>
        validatePrefixes (rt_Prefixes r) = Inr () \<Longrightarrow>
        validateOutgoingPrefixes (rt_Prefixes r @ imported) r = Inr () \<Longrightarrow>
        routerToFRRConfig r ab secrets bfd (rt_Prefixes r @ imported) = Inr rc \<Longrightarrow>
        validateRouterConfig rc = Inr rc' \<Longrightarrow> P rc'"
    and merge: "\<And>a b c. mergeRouterConfigs a b = Inr c \<Longrightarrow> P a \<Longrightarrow> P b \<Longrightarrow> P c"
  shows "routersInv P m'"
proof -
  obtain imported rc rc' where *: "validatePrefixes (rt_Prefixes r) = Inr ()"
    "importedPrefixes r prefixes = Inr imported"
    "validateOutgoingPrefixes (rt_Prefixes r @ imported) r = Inr ()"
    "routerToFRRConfig r ab secrets bfd (rt_Prefixes r @ imported) = Inr rc"
    "validateRouterConfig rc = Inr rc'"
    and m': "case mapGet m (rt_VRF r) of
           None \<Rightarrow> m' = mapSet m (rt_VRF r) rc'
         | Some cur \<Rightarrow> \<exists>c. mergeRouterConfigs cur rc' = Inr c \<and> m' = mapSet m (rt_VRF r) c"
    using assms(1) unfolding addRouter_Inr by blast
  have P: "P rc'" using base * by blast
  have vrf: "rc_VRF rc' = rt_VRF r"
    using validateRouterConfig_VRF [OF *(5)] *(4) by (auto simp: routerToFRRConfig_Inr)
  show ?thesis
  proof (cases "mapGet m (rt_VRF r)")
    case None
    then show ?thesis using m' P vrf assms(2) by (auto simp: routersInv_def keyedBy_mapSet)
  next
    case (Some cur)
    then obtain c where c: "mergeRouterConfigs cur rc' = Inr c" "m' = mapSet m (rt_VRF r) c"
      using m' by auto
    have "P cur" "rc_VRF cur = rt_VRF r"
      using Some assms(2) by (auto simp: routersInv_def keyedBy_def)
    then have "P c" "rc_VRF c = rt_VRF r"
      using merge [OF c(1)] P mergeRouterConfigs_VRF [OF c(1)] by auto
    then show ?thesis using c(2) assms(2) by (auto simp: routersInv_def keyedBy_mapSet)
  qed
qed

lemma addConfig_Inr:
  assumes "addConfig ab secrets s cfg = Inr s'"
  obtains bfd allP where
    "foldE (addBFDProfile (cfg_Name cfg)) ([], cs_bfdProfilesAllConfigs s)
       (bgp_BFDProfiles (spec_BGP (cfg_Spec cfg))) = Inr (bfd, allP)"
    "foldE (addRouter (alwaysBlockToFRR ab) secrets bfd (prefixesForVRFs (bgp_Routers (spec_BGP (cfg_Spec cfg)))))
       (cs_routersForVRF s) (bgp_Routers (spec_BGP (cfg_Spec cfg))) = Inr (cs_routersForVRF s')"
    "cs_bfdProfilesAllConfigs s' = allP"
    "cs_rawConfigs s' =
       (if raw_Config (spec_Raw (cfg_Spec cfg)) \<noteq> ''''
        then cs_rawConfigs s @ [\<lparr>raw_Priority = raw_Priority (spec_Raw (cfg_Spec cfg)),
          raw_Config = raw_Config (spec_Raw (cfg_Spec cfg)), nrc_configName = cfg_Name cfg\<rparr>]
        else cs_rawConfigs s)"
  using assms by (auto simp: addConfig_def Let_def bindE_Inr_iff)

lemma addConfig_routersInv:
  assumes "addConfig ab (cr_PasswordSecrets resources) s cfg = Inr s'"
    and "cfg \<in> set (cr_FRRConfigs resources)" "routersInv P (cs_routersForVRF s)"
    and base: "\<And>cfg r rc rc'. convertedRouter resources ab cfg r rc \<Longrightarrow> validateRouterConfig rc = Inr rc' \<Longrightarrow> P rc'"
    and merge: "\<And>a b c. mergeRouterConfigs a b = Inr c \<Longrightarrow> P a \<Longrightarrow> P b \<Longrightarrow> P c"
  shows "routersInv P (cs_routersForVRF s')"
proof -
  let ?rs = "bgp_Routers (spec_BGP (cfg_Spec cfg))"
  obtain bfd allP where bfd: "foldE (addBFDProfile (cfg_Name cfg)) ([], cs_bfdProfilesAllConfigs s)
       (bgp_BFDProfiles (spec_BGP (cfg_Spec cfg))) = Inr (bfd, allP)"
    and run: "foldE (addRouter (alwaysBlockToFRR ab) (cr_PasswordSecrets resources) bfd (prefixesForVRFs ?rs))
       (cs_routersForVRF s) ?rs = Inr (cs_routersForVRF s')"
    using addConfig_Inr [OF assms(1)] by metis
  show ?thesis
  proof (rule foldE_invariant [OF run, where P = "routersInv P"])
    fix m r m'
    assume r: "r \<in> set ?rs" and inv: "routersInv P m"
      and step: "addRouter (alwaysBlockToFRR ab) (cr_PasswordSecrets resources) bfd (prefixesForVRFs ?rs) m r = Inr m'"
    show "routersInv P m'"
    proof (rule addRouter_inv [OF step inv])
      fix imported rc rc'
      assume h: "importedPrefixes r (prefixesForVRFs ?rs) = Inr imported"
        "validatePrefixes (rt_Prefixes r) = Inr ()" "validateOutgoingPrefixes (rt_Prefixes r @ imported) r = Inr ()"
        "routerToFRRConfig r (alwaysBlockToFRR ab) (cr_PasswordSecrets resources) bfd
           (rt_Prefixes r @ imported) = Inr rc"
        "validateRouterConfig rc = Inr rc'"
      have "convertedRouter resources ab cfg r rc"
        unfolding convertedRouter_def using assms(2) r h bfd by blast
      then show "P rc'" using base h(5) by blast
    qed (rule merge)
  qed (rule assms(3))
qed

lemma apiToFRR_Inr:
  assumes "apiToFRR resources ab = Inr cfg"
  obtains s where
    "foldE (addConfig ab (cr_PasswordSecrets resources))
       \<lparr>cs_rawConfigs = [], cs_routersForVRF = [], cs_bfdProfilesAllConfigs = []\<rparr> (cr_FRRConfigs resources) = Inr s"
    "validateEVPN (cs_routersForVRF s) = Inr ()" "cf_Routers cfg = sortMap (cs_routersForVRF s)"
    "cf_BFDProfiles cfg = sortMap (cs_bfdProfilesAllConfigs s)"
    "cf_ExtraConfig cfg = joinRawConfigs (cs_rawConfigs s)"
  using assms by (auto simp: apiToFRR_def bindE_Inr_iff sortMapPtr_eq)

lemma apiToFRR_routersInv:
  assumes run: "foldE (addConfig ab (cr_PasswordSecrets resources))
       \<lparr>cs_rawConfigs = [], cs_routersForVRF = [], cs_bfdProfilesAllConfigs = []\<rparr> (cr_FRRConfigs resources) = Inr s"
    and base: "\<And>cfg r rc rc'. convertedRouter resources ab cfg r rc \<Longrightarrow> validateRouterConfig rc = Inr rc' \<Longrightarrow> P rc'"
    and merge: "\<And>a b c. mergeRouterConfigs a b = Inr c \<Longrightarrow> P a \<Longrightarrow> P b \<Longrightarrow> P c"
  shows "routersInv P (cs_routersForVRF s)"
proof (rule foldE_invariant [OF run, where P = "\<lambda>s. routersInv P (cs_routersForVRF s)"])
  show "routersInv P (cs_routersForVRF s')" if "cfg \<in> set (cr_FRRConfigs resources)"
    "routersInv P (cs_routersForVRF t)" "addConfig ab (cr_PasswordSecrets resources) t cfg = Inr s'" for t cfg s'
    using addConfig_routersInv [OF that(3,1,2) base merge] .
qed (simp add: routersInv_def)

text \<open>A router invariant established by conversion and validation and kept by merging holds of the result.\<close>

lemma apiToFRR_router_induct:
  assumes "apiToFRR resources ab = Inr cfg" "r \<in> set (cf_Routers cfg)"
    and "\<And>cfg r rc rc'. convertedRouter resources ab cfg r rc \<Longrightarrow> validateRouterConfig rc = Inr rc' \<Longrightarrow> P rc'"
    and "\<And>a b c. mergeRouterConfigs a b = Inr c \<Longrightarrow> P a \<Longrightarrow> P b \<Longrightarrow> P c"
  shows "P r"
proof -
  obtain s where s: "foldE (addConfig ab (cr_PasswordSecrets resources))
       \<lparr>cs_rawConfigs = [], cs_routersForVRF = [], cs_bfdProfilesAllConfigs = []\<rparr> (cr_FRRConfigs resources) = Inr s"
    "cf_Routers cfg = sortMap (cs_routersForVRF s)"
    using apiToFRR_Inr [OF assms(1)] by metis
  have "routersInv P (cs_routersForVRF s)"
    by (rule apiToFRR_routersInv [OF s(1)]) (fact assms(3), fact assms(4))
  then show ?thesis using s(2) assms(2) by (auto simp: routersInv_def set_sortMap)
qed

text \<open>The same for neighbors: merging two neighbors must keep the invariant.\<close>

definition convertedNeighbor ::
  "ClusterResources \<Rightarrow> IPNet list \<Rightarrow> FRRConfiguration \<Rightarrow> Router \<Rightarrow> Neighbor \<Rightarrow> NeighborConfig \<Rightarrow> bool"
where
  "convertedNeighbor resources alwaysBlock cfg r n nc \<longleftrightarrow>
     cfg \<in> set (cr_FRRConfigs resources) \<and> r \<in> set (bgp_Routers (spec_BGP (cfg_Spec cfg))) \<and>
     n \<in> set (rt_Neighbors r) \<and> \<not> (nb_LocalASN n \<noteq> 0 \<and> nb_ASN n \<noteq> 0 \<and> nb_ASN n = rt_ASN r) \<and>
     (\<exists>imported bfdProfiles allProfiles allProfiles'.
        foldE (addBFDProfile (cfg_Name cfg)) ([], allProfiles) (bgp_BFDProfiles (spec_BGP (cfg_Spec cfg))) =
          Inr (bfdProfiles, allProfiles') \<and>
        validatePrefixes (rt_Prefixes r) = Inr () \<and>
        importedPrefixes r (prefixesForVRFs (bgp_Routers (spec_BGP (cfg_Spec cfg)))) = Inr imported \<and>
        validateOutgoingForNeighbor (rt_Prefixes r @ imported) r n = Inr () \<and>
        neighborToFRR n (rt_Prefixes r @ imported) (alwaysBlockToFRR alwaysBlock) (rt_VRF r)
          (cr_PasswordSecrets resources) bfdProfiles = Inr nc)"

lemma convertedRouter_VRF: "convertedRouter resources ab cfg r rc \<Longrightarrow> rc_VRF rc = rt_VRF r"
  by (auto simp: convertedRouter_def routerToFRRConfig_Inr)

lemma convertedRouter_neighbors:
  assumes "convertedRouter resources ab cfg r rc" "nc \<in> set (rc_Neighbors rc)"
  obtains n where "convertedNeighbor resources ab cfg r n nc"
proof -
  obtain imported bfdProfiles allProfiles allProfiles' where *:
    "foldE (addBFDProfile (cfg_Name cfg)) ([], allProfiles) (bgp_BFDProfiles (spec_BGP (cfg_Spec cfg))) =
       Inr (bfdProfiles, allProfiles')"
    "validatePrefixes (rt_Prefixes r) = Inr ()"
    "importedPrefixes r (prefixesForVRFs (bgp_Routers (spec_BGP (cfg_Spec cfg)))) = Inr imported"
    "validateOutgoingPrefixes (rt_Prefixes r @ imported) r = Inr ()"
    "routerToFRRConfig r (alwaysBlockToFRR ab) (cr_PasswordSecrets resources) bfdProfiles
       (rt_Prefixes r @ imported) = Inr rc"
    "cfg \<in> set (cr_FRRConfigs resources)" "r \<in> set (bgp_Routers (spec_BGP (cfg_Spec cfg)))"
    using assms(1) unfolding convertedRouter_def by blast
  from *(5) assms(2) obtain n where n: "n \<in> set (rt_Neighbors r)"
    "neighborToFRR n (rt_Prefixes r @ imported) (alwaysBlockToFRR ab) (rt_VRF r) (cr_PasswordSecrets resources)
       bfdProfiles = Inr nc" "\<not> (nb_LocalASN n \<noteq> 0 \<and> nb_ASN n \<noteq> 0 \<and> nb_ASN n = rt_ASN r)"
    by (rule routerToFRRConfig_neighbors)
  have "validateOutgoingForNeighbor (rt_Prefixes r @ imported) r n = Inr ()"
    using *(4) n(1) unfolding validateOutgoingPrefixes_def forE_Inr_iff by blast
  then have "convertedNeighbor resources ab cfg r n nc"
    unfolding convertedNeighbor_def using * n by blast
  then show ?thesis by (rule that)
qed

lemma validateRouterConfig_neighbors:
  assumes "validateRouterConfig r = Inr c" "\<forall>n\<in>set (rc_Neighbors r). P n"
    and comb: "\<And>a b c. mergeIntoNeighbor a b = Inr c \<Longrightarrow> P a \<Longrightarrow> P b \<Longrightarrow> P c"
  shows "\<forall>n\<in>set (rc_Neighbors c). P n"
proof -
  let ?ps = "[0..<length (rc_Neighbors r)]"
  obtain h ns ev where run: "mergeNeighborsLists (rc_Neighbors r) ?ps ?ps = Inr (h, ns)"
    and c: "c = mergedRouter r r (map (nth h) ns) ev"
    using assms(1) unfolding validateRouterConfig_def mergeRouterConfigsAt_Inr by blast
  obtain m where m: "foldE neighborStep (rc_Neighbors r, []) (?ps @ ?ps) = Inr (h, m)" "ns = sortMap m"
    using run by (auto simp: mergeNeighborsLists_Inr)
  have all: "\<forall>n\<in>set h. P n"
    by (rule fold_store_all [OF m(1) assms(2)]) (auto simp: atLeast0LessThan intro: comb)
  have "storeInv (map ID (rc_Neighbors r)) (h, m)"
    using fold_storeInv [OF m(1) storeInv_init] by (simp add: atLeast0LessThan)
  then have "d < length h" if "d \<in> set ns" for d
    using that m(2) by (auto simp: set_sortMap storeInv_def) (metis length_map)
  then show ?thesis using all by (auto simp: c mergedRouter_def)
qed

lemma mergeRouterConfigs_neighbors:
  assumes "mergeRouterConfigs r t = Inr c"
    and "\<forall>n\<in>set (rc_Neighbors r). P n" "\<forall>n\<in>set (rc_Neighbors t). P n"
    and comb: "\<And>a b c. mergeIntoNeighbor a b = Inr c \<Longrightarrow> P a \<Longrightarrow> P b \<Longrightarrow> P c"
  shows "\<forall>n\<in>set (rc_Neighbors c). P n"
proof -
  obtain ns ev where run: "mergeKeyed ID mergeIntoNeighbor [] (rc_Neighbors r @ rc_Neighbors t) = Inr ns"
    and c: "c = mergedRouter r t ns ev"
    using assms(1) unfolding mergeRouterConfigs_Inr by blast
  have "P n" if "n \<in> set ns" for n
    by (rule nbm.merge_invariant [OF run keyedBy_Nil _ _ _ that, where P = P])
      (use assms(2,3) comb in auto)
  then show ?thesis by (simp add: c mergedRouter_def)
qed

lemma apiToFRR_neighbor_induct:
  assumes "apiToFRR resources ab = Inr cfg" "r \<in> set (cf_Routers cfg)" "n \<in> set (rc_Neighbors r)"
    and base: "\<And>cfg r n nc. convertedNeighbor resources ab cfg r n nc \<Longrightarrow> P (rt_VRF r) nc"
    and comb: "\<And>v a b c. mergeIntoNeighbor a b = Inr c \<Longrightarrow> P v a \<Longrightarrow> P v b \<Longrightarrow> P v c"
  shows "P (rc_VRF r) n"
proof -
  have "\<forall>n\<in>set (rc_Neighbors r). P (rc_VRF r) n"
  proof (rule apiToFRR_router_induct [OF assms(1,2)])
    fix cfg r rc rc'
    assume r: "convertedRouter resources ab cfg r rc" "validateRouterConfig rc = Inr rc'"
    have "\<forall>n\<in>set (rc_Neighbors rc). P (rt_VRF r) n"
      using r(1) base by (auto elim: convertedRouter_neighbors)
    then have "\<forall>n\<in>set (rc_Neighbors rc'). P (rt_VRF r) n"
      using validateRouterConfig_neighbors [OF r(2), where P = "P (rt_VRF r)"] comb [of _ _ _ "rt_VRF r"]
      by blast
    then show "\<forall>n\<in>set (rc_Neighbors rc'). P (rc_VRF rc') n"
      using validateRouterConfig_VRF [OF r(2)] convertedRouter_VRF [OF r(1)] by simp
  next
    fix a b c
    assume m: "mergeRouterConfigs a b = Inr c" "\<forall>n\<in>set (rc_Neighbors a). P (rc_VRF a) n"
      "\<forall>n\<in>set (rc_Neighbors b). P (rc_VRF b) n"
    have "rc_VRF b = rc_VRF a"
      using m(1) by (auto simp: mergeRouterConfigs_Inr routersAreCompatible_ok)
    with m(3) have "\<forall>n\<in>set (rc_Neighbors c). P (rc_VRF a) n"
      by (intro mergeRouterConfigs_neighbors [OF m(1,2)]) (simp_all add: comb)
    then show "\<forall>n\<in>set (rc_Neighbors c). P (rc_VRF c) n"
      by (simp add: mergeRouterConfigs_VRF [OF m(1)])
  qed
  then show ?thesis using assms(3) by blast
qed

end
