(* ===== verification/Outgoing.thy ===== *)
theory Outgoing
  imports Conversion
begin

text \<open>
  What a neighbor is advertised. \<open>toAdvertiseToFRR\<close> is characterised exactly: the prefixes it allows, and
  one local preference list and one community list per entry of the API and family with prefixes of
  that family. The checks before it make the local preferences consistent.
\<close>

section \<open>The lists of one family\<close>

definition localPrefList :: "NeighborConfig \<Rightarrow> Family \<Rightarrow> LocalPrefPrefixes \<Rightarrow> LocalPrefPrefixList" where
  "localPrefList nb f e =
     \<lparr>pl_Name = localPrefPrefixListName (ID nb) (lpp_LocalPref e) (frrIPFamily f),
      pl_IPFamily = frrIPFamily f, pl_Prefixes = set (FilterPrefixes (lpp_Prefixes e) f),
      lpl_LocalPref = lpp_LocalPref e\<rparr>"

definition communityList :: "NeighborConfig \<Rightarrow> Family \<Rightarrow> CommunityPrefixes \<Rightarrow> BGPCommunity \<Rightarrow> CommunityPrefixList" where
  "communityList nb f e c =
     \<lparr>pl_Name = communityPrefixListName (ID nb) c (frrIPFamily f),
      pl_IPFamily = frrIPFamily f, pl_Prefixes = set (FilterPrefixes (cp_Prefixes e) f),
      cpl_Community = c\<rparr>"

lemma lpKey_localPrefList [simp]:
  "lpKey (localPrefList nb f e) = localPrefPrefixListKey (lpp_LocalPref e) (frrIPFamily f)"
  by (simp add: lpKey_def localPrefList_def)

lemma commKey_communityList [simp]:
  "commKey (communityList nb f e c) = communityPrefixListKey c (frrIPFamily f)"
  by (simp add: commKey_def communityList_def)

lemma addLocalPrefPrefix_Inr:
  "addLocalPrefPrefix rp pl p = Inr pl' \<longleftrightarrow>
     p \<in> rp \<and> p \<notin> pl_Prefixes pl \<and> pl' = pl\<lparr>pl_Prefixes := insert p (pl_Prefixes pl)\<rparr>"
  by (auto simp: addLocalPrefPrefix_def)

lemma addCommunityPrefix_Inr:
  "addCommunityPrefix rp pl p = Inr pl' \<longleftrightarrow>
     p \<in> rp \<and> p \<notin> pl_Prefixes pl \<and> pl' = pl\<lparr>pl_Prefixes := insert p (pl_Prefixes pl)\<rparr>"
  by (auto simp: addCommunityPrefix_def)

text \<open>A prefix list grows by allowed prefixes that it does not hold yet.\<close>

lemma addLocalPrefPrefix_loop:
  "foldE (addLocalPrefPrefix rp) pl ps = Inr pl' \<longleftrightarrow>
     set ps \<subseteq> rp \<and> distinct ps \<and> set ps \<inter> pl_Prefixes pl = {} \<and>
     pl' = pl\<lparr>pl_Prefixes := pl_Prefixes pl \<union> set ps\<rparr>"
  by (induction ps arbitrary: pl) (auto simp: bindE_Inr_iff addLocalPrefPrefix_Inr)

lemma addCommunityPrefix_loop:
  "foldE (addCommunityPrefix rp) pl ps = Inr pl' \<longleftrightarrow>
     set ps \<subseteq> rp \<and> distinct ps \<and> set ps \<inter> pl_Prefixes pl = {} \<and>
     pl' = pl\<lparr>pl_Prefixes := pl_Prefixes pl \<union> set ps\<rparr>"
  by (induction ps arbitrary: pl) (auto simp: bindE_Inr_iff addCommunityPrefix_Inr)

text \<open>The entries accepted for one family: their prefixes are allowed and none is repeated.\<close>

definition lpEntryOk :: "string set \<Rightarrow> Family \<Rightarrow> LocalPrefPrefixes \<Rightarrow> bool" where
  "lpEntryOk rp f e \<longleftrightarrow>
     set (FilterPrefixes (lpp_Prefixes e) f) \<subseteq> rp \<and> distinct (FilterPrefixes (lpp_Prefixes e) f)"

definition commEntryOk :: "string set \<Rightarrow> Family \<Rightarrow> CommunityPrefixes \<Rightarrow> bool" where
  "commEntryOk rp f e \<longleftrightarrow>
     set (FilterPrefixes (cp_Prefixes e) f) \<subseteq> rp \<and> distinct (FilterPrefixes (cp_Prefixes e) f)"

lemma localPrefStep_Inr:
  "localPrefStep nb f rp m e = Inr m' \<longleftrightarrow>
     mapGet m (localPrefPrefixListKey (lpp_LocalPref e) (frrIPFamily f)) = None \<and> lpEntryOk rp f e \<and>
     m' = (if FilterPrefixes (lpp_Prefixes e) f = [] then m
           else mapSet m (localPrefPrefixListKey (lpp_LocalPref e) (frrIPFamily f)) (localPrefList nb f e))"
  by (auto simp: localPrefStep_def Let_def bindE_Inr_iff addLocalPrefPrefix_loop lpEntryOk_def
      localPrefList_def)

lemma communityStep_Inr:
  "communityStep nb f rp m e = Inr m' \<longleftrightarrow>
     (\<exists>c. New (cp_Community e) = Inr c \<and>
        mapGet m (communityPrefixListKey c (frrIPFamily f)) = None \<and> commEntryOk rp f e \<and>
        m' = (if FilterPrefixes (cp_Prefixes e) f = [] then m
              else mapSet m (communityPrefixListKey c (frrIPFamily f)) (communityList nb f e c)))"
  by (auto simp: communityStep_def Let_def bindE_Inr_iff mapErr_Inr_iff addCommunityPrefix_loop
      commEntryOk_def communityList_def)

text \<open>The maps after a family: what they held, and one list for each entry with prefixes of that family.\<close>

lemma localPref_loop:
  "foldE (localPrefStep nb f rp) m es = Inr m' \<Longrightarrow>
   (\<forall>k pl. mapGet m' k = Some pl \<longleftrightarrow> mapGet m k = Some pl \<or>
      (k = lpKey pl \<and> (\<exists>e\<in>set es. FilterPrefixes (lpp_Prefixes e) f \<noteq> [] \<and> pl = localPrefList nb f e))) \<and>
   (\<forall>e\<in>set es. lpEntryOk rp f e)"
proof (induction es arbitrary: m)
  case (Cons e es)
  let ?k = "localPrefPrefixListKey (lpp_LocalPref e) (frrIPFamily f)"
  let ?m = "if FilterPrefixes (lpp_Prefixes e) f = [] then m else mapSet m ?k (localPrefList nb f e)"
  have e: "mapGet m ?k = None" "lpEntryOk rp f e" and rest: "foldE (localPrefStep nb f rp) ?m es = Inr m'"
    using Cons.prems by (auto simp: bindE_Inr_iff localPrefStep_Inr)
  have "mapGet ?m k = Some pl \<longleftrightarrow> mapGet m k = Some pl \<or>
      (k = lpKey pl \<and> FilterPrefixes (lpp_Prefixes e) f \<noteq> [] \<and> pl = localPrefList nb f e)" for k pl
    using e(1) by auto
  with Cons.IH [OF rest] e(2) show ?case by auto
qed simp

lemma community_loop:
  "foldE (communityStep nb f rp) m es = Inr m' \<Longrightarrow>
   (\<forall>k pl. mapGet m' k = Some pl \<longleftrightarrow> mapGet m k = Some pl \<or>
      (k = commKey pl \<and> (\<exists>e\<in>set es. \<exists>c. New (cp_Community e) = Inr c \<and>
         FilterPrefixes (cp_Prefixes e) f \<noteq> [] \<and> pl = communityList nb f e c))) \<and>
   (\<forall>e\<in>set es. commEntryOk rp f e \<and> isOk (New (cp_Community e)))"
proof (induction es arbitrary: m)
  case (Cons e es)
  obtain c where c: "New (cp_Community e) = Inr c" and
    e: "mapGet m (communityPrefixListKey c (frrIPFamily f)) = None" "commEntryOk rp f e" and
    rest: "foldE (communityStep nb f rp) (if FilterPrefixes (cp_Prefixes e) f = [] then m
       else mapSet m (communityPrefixListKey c (frrIPFamily f)) (communityList nb f e c)) es = Inr m'"
    using Cons.prems by (auto simp: bindE_Inr_iff communityStep_Inr)
  have "mapGet (if FilterPrefixes (cp_Prefixes e) f = [] then m
       else mapSet m (communityPrefixListKey c (frrIPFamily f)) (communityList nb f e c)) k = Some pl \<longleftrightarrow>
      mapGet m k = Some pl \<or>
      (k = commKey pl \<and> FilterPrefixes (cp_Prefixes e) f \<noteq> [] \<and> pl = communityList nb f e c)" for k pl
    using e(1) by auto
  with Cons.IH [OF rest] e(2) c show ?case by auto
qed simp

section \<open>All families of a neighbor\<close>

definition neighborFamilies :: "NeighborConfig \<Rightarrow> Family list" where
  "neighborFamilies nb = (if nc_IPFamily nb = DualStack then [IPv4, IPv6] else [nc_IPFamily nb])"

definition familyPrefixes :: "Advertise \<Rightarrow> string list \<Rightarrow> Family \<Rightarrow> string set" where
  "familyPrefixes adv ps f = (if f = IPv4 \<or> f = IPv6 then prefixesToAdvertiseForFamily adv ps f else {})"

definition localPrefListsFor :: "NeighborConfig \<Rightarrow> Advertise \<Rightarrow> LocalPrefPrefixList set" where
  "localPrefListsFor nb adv =
     {localPrefList nb f e | f e. f \<in> set (neighborFamilies nb) \<and> e \<in> set (ad_PrefixesWithLocalPref adv) \<and>
        FilterPrefixes (lpp_Prefixes e) f \<noteq> []}"

definition communityListsFor :: "NeighborConfig \<Rightarrow> Advertise \<Rightarrow> CommunityPrefixList set" where
  "communityListsFor nb adv =
     {communityList nb f e c | f e c. f \<in> set (neighborFamilies nb) \<and> e \<in> set (ad_PrefixesWithCommunity adv) \<and>
        New (cp_Community e) = Inr c \<and> FilterPrefixes (cp_Prefixes e) f \<noteq> []}"

lemma familyStep_loop:
  "foldE (familyStep nb adv pf) (lm, cm) fs = Inr (lm', cm') \<Longrightarrow>
   (\<forall>k pl. mapGet lm' k = Some pl \<longleftrightarrow> mapGet lm k = Some pl \<or>
      (k = lpKey pl \<and> (\<exists>f\<in>set fs. \<exists>e\<in>set (ad_PrefixesWithLocalPref adv).
         FilterPrefixes (lpp_Prefixes e) f \<noteq> [] \<and> pl = localPrefList nb f e))) \<and>
   (\<forall>k pl. mapGet cm' k = Some pl \<longleftrightarrow> mapGet cm k = Some pl \<or>
      (k = commKey pl \<and> (\<exists>f\<in>set fs. \<exists>e\<in>set (ad_PrefixesWithCommunity adv). \<exists>c. New (cp_Community e) = Inr c \<and>
         FilterPrefixes (cp_Prefixes e) f \<noteq> [] \<and> pl = communityList nb f e c))) \<and>
   (\<forall>f\<in>set fs. (\<forall>e\<in>set (ad_PrefixesWithLocalPref adv). lpEntryOk (pf f) f e) \<and>
      (\<forall>e\<in>set (ad_PrefixesWithCommunity adv). commEntryOk (pf f) f e))"
proof (induction fs arbitrary: lm cm)
  case (Cons f fs)
  obtain lm1 cm1 where lp: "foldE (localPrefStep nb f (pf f)) lm (ad_PrefixesWithLocalPref adv) = Inr lm1"
    and cp: "foldE (communityStep nb f (pf f)) cm (ad_PrefixesWithCommunity adv) = Inr cm1"
    and rest: "foldE (familyStep nb adv pf) (lm1, cm1) fs = Inr (lm', cm')"
    using Cons.prems by (auto simp: familyStep_def bindE_Inr_iff mapErr_Inr_iff
        prefixesWithLocalPrefToFRR_def prefixesWithCommunityToFRR_def)
  note lm1 = localPref_loop [OF lp, THEN conjunct1] and le = localPref_loop [OF lp, THEN conjunct2]
  note cm1 = community_loop [OF cp, THEN conjunct1] and ce = community_loop [OF cp, THEN conjunct2]
  note IH = Cons.IH [OF rest]
  show ?case
  proof (intro conjI)
    show "\<forall>k pl. mapGet lm' k = Some pl \<longleftrightarrow> mapGet lm k = Some pl \<or>
      (k = lpKey pl \<and> (\<exists>f\<in>set (f # fs). \<exists>e\<in>set (ad_PrefixesWithLocalPref adv).
         FilterPrefixes (lpp_Prefixes e) f \<noteq> [] \<and> pl = localPrefList nb f e))"
      using IH [THEN conjunct1] lm1 by simp blast
    show "\<forall>k pl. mapGet cm' k = Some pl \<longleftrightarrow> mapGet cm k = Some pl \<or>
      (k = commKey pl \<and> (\<exists>f\<in>set (f # fs). \<exists>e\<in>set (ad_PrefixesWithCommunity adv). \<exists>c. New (cp_Community e) = Inr c \<and>
         FilterPrefixes (cp_Prefixes e) f \<noteq> [] \<and> pl = communityList nb f e c))"
      using IH [THEN conjunct2, THEN conjunct1] cm1 by simp blast
    show "\<forall>f\<in>set (f # fs). (\<forall>e\<in>set (ad_PrefixesWithLocalPref adv). lpEntryOk (pf f) f e) \<and>
      (\<forall>e\<in>set (ad_PrefixesWithCommunity adv). commEntryOk (pf f) f e)"
      using IH le ce by auto
  qed
qed simp

lemma toAdvertiseToFRR_Inr:
  "toAdvertiseToFRR nb adv ps = Inr out \<longleftrightarrow>
     (\<exists>h4 h6 lm cm. nextHopToFRR nb (ad_NextHop adv) = Inr (h4, h6) \<and>
        foldE (familyStep nb adv (familyPrefixes adv ps)) ([], []) (neighborFamilies nb) = Inr (lm, cm) \<and>
        out = \<lparr>ao_PrefixesV4 = (if neighborHasIPFamily nb IPv4
                  then sorted_list_of_set (familyPrefixes adv ps IPv4) else []),
               ao_PrefixesV6 = (if neighborHasIPFamily nb IPv6
                  then sorted_list_of_set (familyPrefixes adv ps IPv6) else []),
               ao_NextHopV4 = h4, ao_NextHopV6 = h6,
               ao_LocalPrefPrefixesModifiers = sortMap lm, ao_CommunityPrefixesModifiers = sortMap cm\<rparr>)"
proof -
  have "familyPrefixes adv ps = (\<lambda>f. if f = IPv4 \<or> f = IPv6 then prefixesToAdvertiseForFamily adv ps f else {})"
    by (simp add: familyPrefixes_def fun_eq_iff)
  then show ?thesis
    by (auto simp: toAdvertiseToFRR_def neighborFamilies_def bindE_Inr_iff Let_def)
qed

lemma toAdvertiseToFRR_lists:
  assumes "toAdvertiseToFRR nb adv ps = Inr out"
  shows "set (ao_LocalPrefPrefixesModifiers out) = localPrefListsFor nb adv"
    and "sortedByKey lpKey (ao_LocalPrefPrefixesModifiers out)"
    and "set (ao_CommunityPrefixesModifiers out) = communityListsFor nb adv"
    and "sortedByKey commKey (ao_CommunityPrefixesModifiers out)"
    and "\<And>f e. f \<in> set (neighborFamilies nb) \<Longrightarrow> e \<in> set (ad_PrefixesWithLocalPref adv) \<Longrightarrow>
      lpEntryOk (familyPrefixes adv ps f) f e"
    and "\<And>f e. f \<in> set (neighborFamilies nb) \<Longrightarrow> e \<in> set (ad_PrefixesWithCommunity adv) \<Longrightarrow>
      commEntryOk (familyPrefixes adv ps f) f e"
proof -
  obtain lm cm where run: "foldE (familyStep nb adv (familyPrefixes adv ps)) ([], []) (neighborFamilies nb) = Inr (lm, cm)"
    and out: "ao_LocalPrefPrefixesModifiers out = sortMap lm" "ao_CommunityPrefixesModifiers out = sortMap cm"
    using assms by (auto simp: toAdvertiseToFRR_Inr)
  note l = familyStep_loop [OF run]
  have lm: "mapGet lm k = Some pl \<longleftrightarrow> k = lpKey pl \<and> pl \<in> localPrefListsFor nb adv" for k pl
    using l [THEN conjunct1, rule_format, of k pl] unfolding localPrefListsFor_def by auto
  have cm: "mapGet cm k = Some pl \<longleftrightarrow> k = commKey pl \<and> pl \<in> communityListsFor nb adv" for k pl
    using l [THEN conjunct2, THEN conjunct1, rule_format, of k pl] unfolding communityListsFor_def by auto
  show "set (ao_LocalPrefPrefixesModifiers out) = localPrefListsFor nb adv"
    and "set (ao_CommunityPrefixesModifiers out) = communityListsFor nb adv"
    by (auto simp: out set_sortMap lm cm)
  show "sortedByKey lpKey (ao_LocalPrefPrefixesModifiers out)"
    "sortedByKey commKey (ao_CommunityPrefixesModifiers out)"
    unfolding out by (rule sortedByKey_sortMap; simp add: keyedBy_def lm cm)+
  show "lpEntryOk (familyPrefixes adv ps f) f e" if "f \<in> set (neighborFamilies nb)"
    "e \<in> set (ad_PrefixesWithLocalPref adv)" for f e
    using l that by auto
  show "commEntryOk (familyPrefixes adv ps f) f e" if "f \<in> set (neighborFamilies nb)"
    "e \<in> set (ad_PrefixesWithCommunity adv)" for f e
    using l that by auto
qed

section \<open>Prefixes of the lists are advertised\<close>

lemma finite_familyPrefixes [simp]: "finite (familyPrefixes adv ps f)"
  by (simp add: familyPrefixes_def prefixesToAdvertiseForFamily_def)

lemma familyPrefixes_family: "p \<in> familyPrefixes adv ps f \<Longrightarrow> ForCIDRString p = f"
  by (auto simp: familyPrefixes_def prefixesToAdvertiseForFamily_def mem_FilterPrefixes_iff split: if_splits)

lemma set_ao_PrefixesV4:
  "toAdvertiseToFRR nb adv ps = Inr out \<Longrightarrow>
   set (ao_PrefixesV4 out) = (if neighborHasIPFamily nb IPv4 then familyPrefixes adv ps IPv4 else {})"
  by (auto simp: toAdvertiseToFRR_Inr)

lemma set_ao_PrefixesV6:
  "toAdvertiseToFRR nb adv ps = Inr out \<Longrightarrow>
   set (ao_PrefixesV6 out) = (if neighborHasIPFamily nb IPv6 then familyPrefixes adv ps IPv6 else {})"
  by (auto simp: toAdvertiseToFRR_Inr)

text \<open>What is advertised to a neighbor, whatever the family.\<close>

definition advertised :: "AllowedOut \<Rightarrow> string set" where
  "advertised out = set (ao_PrefixesV4 out) \<union> set (ao_PrefixesV6 out)"

lemma familyPrefixes_advertised:
  assumes "toAdvertiseToFRR nb adv ps = Inr out" "f \<in> set (neighborFamilies nb)"
  shows "familyPrefixes adv ps f \<subseteq> advertised out"
  using assms(2) set_ao_PrefixesV4 [OF assms(1)] set_ao_PrefixesV6 [OF assms(1)]
  by (cases f) (auto simp: advertised_def neighborFamilies_def neighborHasIPFamily_def
      familyPrefixes_def split: if_splits)

definition modifiersAdvertised :: "AllowedOut \<Rightarrow> bool" where
  "modifiersAdvertised out \<longleftrightarrow>
     (\<forall>pl\<in>set (ao_LocalPrefPrefixesModifiers out). pl_Prefixes pl \<subseteq> advertised out) \<and>
     (\<forall>pl\<in>set (ao_CommunityPrefixesModifiers out). pl_Prefixes pl \<subseteq> advertised out)"

lemma toAdvertiseToFRR_modifiers:
  assumes "toAdvertiseToFRR nb adv ps = Inr out"
  shows "modifiersAdvertised out"
proof -
  note l = toAdvertiseToFRR_lists [OF assms] and a = familyPrefixes_advertised [OF assms]
  have "pl_Prefixes pl \<subseteq> advertised out" if pl: "pl \<in> set (ao_LocalPrefPrefixesModifiers out)" for pl
  proof -
    obtain f e where "f \<in> set (neighborFamilies nb)" "e \<in> set (ad_PrefixesWithLocalPref adv)"
      "pl = localPrefList nb f e"
      using pl by (auto simp: l(1) localPrefListsFor_def)
    then show ?thesis using l(5) [of f e] a [of f] by (auto simp: lpEntryOk_def localPrefList_def)
  qed
  moreover have "pl_Prefixes pl \<subseteq> advertised out" if pl: "pl \<in> set (ao_CommunityPrefixesModifiers out)" for pl
  proof -
    obtain f e c where "f \<in> set (neighborFamilies nb)" "e \<in> set (ad_PrefixesWithCommunity adv)"
      "pl = communityList nb f e c"
      using pl by (auto simp: l(3) communityListsFor_def)
    then show ?thesis using l(6) [of f e] a [of f] by (auto simp: commEntryOk_def communityList_def)
  qed
  ultimately show ?thesis by (simp add: modifiersAdvertised_def)
qed

section \<open>One local preference per prefix\<close>

lemma recordLocalPref_Inr:
  "recordLocalPref e m p = Inr m' \<longleftrightarrow>
     (mapGet m p = None \<or> mapGet m p = Some (lpp_LocalPref e)) \<and> m' = mapSet m p (lpp_LocalPref e)"
  by (auto simp: recordLocalPref_def split: option.splits)

text \<open>The map of preferences only grows, and ends with the preference of every prefix.\<close>

lemma recordLocalPref_loop:
  "foldE (recordLocalPref e) m ps = Inr m' \<Longrightarrow>
   (\<forall>p v. mapGet m p = Some v \<longrightarrow> mapGet m' p = Some v) \<and> (\<forall>p\<in>set ps. mapGet m' p = Some (lpp_LocalPref e))"
proof (induction ps arbitrary: m)
  case (Cons p ps)
  then have p: "mapGet m p = None \<or> mapGet m p = Some (lpp_LocalPref e)"
    and rest: "foldE (recordLocalPref e) (mapSet m p (lpp_LocalPref e)) ps = Inr m'"
    by (auto simp: bindE_Inr_iff recordLocalPref_Inr)
  have "mapGet m' q = Some v" if "mapGet m q = Some v \<or> q = p \<and> v = lpp_LocalPref e" for q v
    using Cons.IH [OF rest, THEN conjunct1, rule_format, of q v] p that by (cases "q = p") auto
  then show ?case using Cons.IH [OF rest] by auto
qed simp

definition apiLocalPrefs :: "Advertise \<Rightarrow> (string \<times> uint32) set" where
  "apiLocalPrefs adv = {(p, lpp_LocalPref e) | p e. e \<in> set (ad_PrefixesWithLocalPref adv) \<and> p \<in> set (lpp_Prefixes e)}"

lemma outgoingStep_Inr:
  "outgoingStep n fam m e = Inr m' \<longleftrightarrow>
     validatePrefixesForNeighborFamily (lpp_Prefixes e) fam = Inr () \<and>
     foldE (recordLocalPref e) m (lpp_Prefixes e) = Inr m'"
  by (simp add: outgoingStep_def bindE_Inr_iff mapErr_Inr_iff)

lemma outgoingStep_loop:
  "foldE (outgoingStep n fam) m es = Inr m' \<Longrightarrow>
   (\<forall>p v. mapGet m p = Some v \<longrightarrow> mapGet m' p = Some v) \<and>
   (\<forall>e\<in>set es. \<forall>p\<in>set (lpp_Prefixes e). mapGet m' p = Some (lpp_LocalPref e))"
proof (induction es arbitrary: m)
  case (Cons e es)
  then obtain m1 where m1: "foldE (recordLocalPref e) m (lpp_Prefixes e) = Inr m1"
    and rest: "foldE (outgoingStep n fam) m1 es = Inr m'"
    by (auto simp: bindE_Inr_iff outgoingStep_Inr)
  show ?case using recordLocalPref_loop [OF m1] Cons.IH [OF rest] by auto
qed simp

lemma validateOutgoingForNeighbor_Inr:
  "validateOutgoingForNeighbor ps r n = Inr u \<longleftrightarrow>
     (\<exists>fam seen. addressFamilyForNeighbor n = Inr fam \<and>
        foldE (outgoingStep n fam) [] (ad_PrefixesWithLocalPref (nb_ToAdvertise n)) = Inr seen \<and>
        (\<forall>e\<in>set (ad_PrefixesWithCommunity (nb_ToAdvertise n)).
           validatePrefixesForNeighborFamily (cp_Prefixes e) fam = Inr ()) \<and>
        (aop_Mode (ad_Allowed (nb_ToAdvertise n)) \<noteq> AllowAll \<longrightarrow>
           validatePrefixesForNeighborFamily (aop_Prefixes (ad_Allowed (nb_ToAdvertise n))) fam = Inr () \<and>
           set (aop_Prefixes (ad_Allowed (nb_ToAdvertise n))) \<subseteq> set ps))"
  unfolding validateOutgoingForNeighbor_def
  by (auto simp: bindE_Inr_iff mapErr_Inr_iff forE_Inr_iff split: if_splits)

lemma validateOutgoing_localPrefs:
  assumes "validateOutgoingForNeighbor ps r n = Inr u"
  shows "single_valued (apiLocalPrefs (nb_ToAdvertise n))"
proof -
  obtain fam seen where "foldE (outgoingStep n fam) [] (ad_PrefixesWithLocalPref (nb_ToAdvertise n)) = Inr seen"
    using assms by (auto simp: validateOutgoingForNeighbor_Inr)
  then have "mapGet seen p = Some v" if "(p, v) \<in> apiLocalPrefs (nb_ToAdvertise n)" for p v
    using that outgoingStep_loop by (fastforce simp: apiLocalPrefs_def)
  then show ?thesis by (metis option.inject single_valuedI)
qed

text \<open>Only prefixes of the router, its own or imported, are advertised.\<close>

lemma validateOutgoing_advertised:
  assumes "validateOutgoingForNeighbor ps r n = Inr u" "toAdvertiseToFRR nb (nb_ToAdvertise n) ps = Inr out"
  shows "advertised out \<subseteq> set ps"
proof -
  have "familyPrefixes (nb_ToAdvertise n) ps f \<subseteq> set ps" for f
    using assms(1) FilterPrefixes_subset [of ps f]
    by (auto simp: familyPrefixes_def prefixesToAdvertiseForFamily_def validateOutgoingForNeighbor_Inr)
  then show ?thesis
    using set_ao_PrefixesV4 [OF assms(2)] set_ao_PrefixesV6 [OF assms(2)]
    by (auto simp: advertised_def split: if_splits)
qed

lemma toAdvertiseToFRR_consistent:
  assumes "single_valued (apiLocalPrefs adv)" "toAdvertiseToFRR nb adv ps = Inr out"
  shows "lpConsistent (ao_LocalPrefPrefixesModifiers out)"
proof -
  have "lpPairs (ao_LocalPrefPrefixesModifiers out) \<subseteq> apiLocalPrefs adv"
    using FilterPrefixes_subset
    by (fastforce simp: lpPairs_def toAdvertiseToFRR_lists(1) [OF assms(2)] localPrefListsFor_def
        localPrefList_def apiLocalPrefs_def)
  then show ?thesis unfolding lpConsistent_iff using assms(1) by (rule single_valued_subset)
qed

section \<open>Converted neighbors\<close>

lemma neighborToFRR_Inr:
  "neighborToFRR n ps ab vrf secrets bfd = Inr nc \<longleftrightarrow>
     neighborChecks n bfd = Inr () \<and>
     (\<exists>fam ht ka pw out inc. addressFamilyForNeighbor n = Inr fam \<and>
        parseTimers (nb_HoldTime n) (nb_KeepaliveTime n) = Inr (ht, ka) \<and>
        passwordForNeighbor n secrets = Inr pw \<and>
        toAdvertiseToFRR (newNeighbor n fam ht ka pw vrf ab) (nb_ToAdvertise n) ps = Inr out \<and>
        toReceiveToFRR (nb_ToReceive n) = Inr inc \<and>
        nc = (newNeighbor n fam ht ka pw vrf ab)\<lparr>nc_Outgoing := out, nc_Incoming := inc\<rparr>)"
  by (auto simp: neighborToFRR_def bindE_Inr_iff mapErr_Inr_iff Let_def)

lemma neighborChecks_Inr:
  "neighborChecks n bfd = Inr u \<longleftrightarrow>
     (nb_Address n = []) \<noteq> (nb_Interface n = []) \<and>
     (nb_BFDProfile n = [] \<or> mapGet bfd (nb_BFDProfile n) \<noteq> None) \<and>
     (nb_ASN n = 0) \<noteq> (nb_DynamicASN n = []) \<and>
     (nb_DynamicASN n = [] \<or> nb_DynamicASN n = InternalASNMode \<or> nb_DynamicASN n = ExternalASNMode)"
  by (auto simp: neighborChecks_def)

lemmas newNeighbor_simps [simp] = newNeighbor_def [THEN arg_cong [where f = nc_IPFamily], simplified]
  newNeighbor_def [THEN arg_cong [where f = nc_Name], simplified]
  newNeighbor_def [THEN arg_cong [where f = nc_ASN], simplified]
  newNeighbor_def [THEN arg_cong [where f = nc_Addr], simplified]
  newNeighbor_def [THEN arg_cong [where f = nc_Iface], simplified]
  newNeighbor_def [THEN arg_cong [where f = nc_VRFName], simplified]
  newNeighbor_def [THEN arg_cong [where f = nc_AlwaysBlock], simplified]
  newNeighbor_def [THEN arg_cong [where f = nc_AddressFamilies], simplified]
  newNeighbor_def [THEN arg_cong [where f = nc_BFDProfile], simplified]
  newNeighbor_def [THEN arg_cong [where f = nc_LocalASN], simplified]
  newNeighbor_def [THEN arg_cong [where f = nc_HoldTime], simplified]
  newNeighbor_def [THEN arg_cong [where f = nc_KeepaliveTime], simplified]
  newNeighbor_def [THEN arg_cong [where f = nc_Password], simplified]

text \<open>Every converted neighbor advertises prefixes of its router only, with consistent local preferences.\<close>

lemma convertedNeighbor_outgoing:
  assumes "convertedNeighbor resources ab cfg r n nc"
  obtains ps nb where
    "importedPrefixes r (prefixesForVRFs (bgp_Routers (spec_BGP (cfg_Spec cfg)))) = Inr ps"
    "toAdvertiseToFRR nb (nb_ToAdvertise n) (rt_Prefixes r @ ps) = Inr (nc_Outgoing nc)"
    "ID nb = ID nc" "nc_IPFamily nb = nc_IPFamily nc"
    "advertised (nc_Outgoing nc) \<subseteq> set (rt_Prefixes r @ ps)" "nbConsistent nc"
proof -
  obtain ps bfd where ps: "importedPrefixes r (prefixesForVRFs (bgp_Routers (spec_BGP (cfg_Spec cfg)))) = Inr ps"
    and val: "validateOutgoingForNeighbor (rt_Prefixes r @ ps) r n = Inr ()"
    and run: "neighborToFRR n (rt_Prefixes r @ ps) (alwaysBlockToFRR ab) (rt_VRF r)
          (cr_PasswordSecrets resources) bfd = Inr nc"
    using assms unfolding convertedNeighbor_def by blast
  obtain fam ht ka pw out inc where
    out: "toAdvertiseToFRR (newNeighbor n fam ht ka pw (rt_VRF r) (alwaysBlockToFRR ab))
      (nb_ToAdvertise n) (rt_Prefixes r @ ps) = Inr out"
    and nc: "nc = (newNeighbor n fam ht ka pw (rt_VRF r) (alwaysBlockToFRR ab))
      \<lparr>nc_Outgoing := out, nc_Incoming := inc\<rparr>"
    using run unfolding neighborToFRR_Inr by blast
  have "nbConsistent nc"
    using toAdvertiseToFRR_consistent [OF validateOutgoing_localPrefs [OF val] out]
    by (simp add: nbConsistent_def nc)
  moreover have "advertised (nc_Outgoing nc) \<subseteq> set (rt_Prefixes r @ ps)"
    using validateOutgoing_advertised [OF val out] by (simp add: nc)
  moreover have "toAdvertiseToFRR (newNeighbor n fam ht ka pw (rt_VRF r) (alwaysBlockToFRR ab))
      (nb_ToAdvertise n) (rt_Prefixes r @ ps) = Inr (nc_Outgoing nc)"
    using out by (simp add: nc)
  ultimately show ?thesis
    using that [OF ps] by (simp add: nc ID_def)
qed

end
