(* ===== verification/Samples.thy ===== *)
theory Samples
  imports Api_To_Config
begin

text \<open>
  Concrete resources: two configurations for the default VRF and one for a VRF with EVPN, with local
  preferences, communities, selectors, timers, a password from a secret, a BFD profile and raw
  configuration. The theorems of the other theories are applied to them.
\<close>

definition noSecret :: SecretReference where
  "noSecret = \<lparr>sr_Name = '''', sr_Namespace = ''''\<rparr>"

definition sampleAdvertise :: Advertise where
  "sampleAdvertise =
     \<lparr>ad_Allowed = \<lparr>aop_Prefixes = [''192.168.2.0/24'', ''192.168.1.0/24'', ''2001:db8::/64''], aop_Mode = AllowRestricted\<rparr>,
      ad_NextHop = \<lparr>nh_IPv4 = ''10.1.1.1'', nh_IPv6 = ''''\<rparr>,
      ad_PrefixesWithLocalPref = [\<lparr>lpp_Prefixes = [''192.168.1.0/24'', ''2001:db8::/64''], lpp_LocalPref = 100\<rparr>],
      ad_PrefixesWithCommunity = [\<lparr>cp_Prefixes = [''192.168.2.0/24''], cp_Community = ''65000:10''\<rparr>]\<rparr>"

definition sampleNeighbor :: Neighbor where
  "sampleNeighbor =
     \<lparr>nb_ASN = 65001, nb_DynamicASN = '''', nb_SourceAddress = '''', nb_Address = ''192.168.10.2'',
      nb_Interface = '''', nb_Port = Some 179, nb_Password = '''',
      nb_PasswordSecret = \<lparr>sr_Name = ''peer'', sr_Namespace = ''frr''\<rparr>,
      nb_HoldTime = Some 90000000000, nb_KeepaliveTime = Some 30000000000, nb_ConnectTime = None,
      nb_EBGPMultiHop = False, nb_BFDProfile = ''fast'', nb_EnableGracefulRestart = False,
      nb_ToAdvertise = sampleAdvertise,
      nb_ToReceive = \<lparr>rcv_Allowed = \<lparr>aip_Prefixes = [\<lparr>ps_Prefix = ''10.0.0.0/8'', ps_LE = 24, ps_GE = 16\<rparr>],
        aip_Mode = AllowRestricted\<rparr>\<rparr>,
      nb_DisableMP = False, nb_DualStackAddressFamily = True, nb_LocalASN = 0, nb_AddressFamilies = [''unicast'', ''evpn'']\<rparr>"

definition unnumberedNeighbor :: Neighbor where
  "unnumberedNeighbor =
     \<lparr>nb_ASN = 0, nb_DynamicASN = ExternalASNMode, nb_SourceAddress = '''', nb_Address = '''',
      nb_Interface = ''eth0'', nb_Port = None, nb_Password = ''secret'', nb_PasswordSecret = noSecret,
      nb_HoldTime = None, nb_KeepaliveTime = None, nb_ConnectTime = Some 10000000000,
      nb_EBGPMultiHop = False, nb_BFDProfile = '''', nb_EnableGracefulRestart = True,
      nb_ToAdvertise = \<lparr>ad_Allowed = \<lparr>aop_Prefixes = [], aop_Mode = AllowAll\<rparr>,
        ad_NextHop = \<lparr>nh_IPv4 = '''', nh_IPv6 = ''''\<rparr>, ad_PrefixesWithLocalPref = [], ad_PrefixesWithCommunity = []\<rparr>,
      nb_ToReceive = \<lparr>rcv_Allowed = \<lparr>aip_Prefixes = [], aip_Mode = AllowAll\<rparr>\<rparr>,
      nb_DisableMP = False, nb_DualStackAddressFamily = False, nb_LocalASN = 0, nb_AddressFamilies = []\<rparr>"

definition sampleBFD :: BFDProfile where
  "sampleBFD =
     \<lparr>bp_Name = ''fast'', bp_ReceiveInterval = Some 50, bp_TransmitInterval = None, bp_DetectMultiplier = Some 3,
      bp_EchoInterval = None, bp_EchoMode = Some True, bp_PassiveMode = None, bp_MinimumTTL = None\<rparr>"

definition noProperties :: VNIProperties where
  "noProperties = \<lparr>vp_RD = '''', vp_ImportRTs = [], vp_ExportRTs = []\<rparr>"

definition sampleEVPN :: EVPNConfig where
  "sampleEVPN =
     \<lparr>ev_AdvertiseVNIs = Some VNIAdvertisementAll, ev_AdvertiseSVI = False,
      ev_L2VNIs = [\<lparr>l2_VNI = 100, l2_VNIProperties = \<lparr>vp_RD = ''65000:1'', vp_ImportRTs = [''65000:2'', ''65000:1''],
        vp_ExportRTs = []\<rparr>\<rparr>],
      ev_L3VNI = None\<rparr>"

definition sampleRouter :: Router where
  "sampleRouter =
     \<lparr>rt_ASN = 65000, rt_ID = '''', rt_VRF = '''', rt_Neighbors = [sampleNeighbor],
      rt_Prefixes = [''192.168.2.0/24'', ''2001:db8::/64''], rt_Imports = [\<lparr>im_VRF = ''red''\<rparr>],
      rt_EVPN = Some sampleEVPN\<rparr>"

definition secondRouter :: Router where
  "secondRouter =
     \<lparr>rt_ASN = 65000, rt_ID = ''10.0.0.1'', rt_VRF = '''', rt_Neighbors = [unnumberedNeighbor],
      rt_Prefixes = [''192.168.3.0/24''], rt_Imports = [], rt_EVPN = None\<rparr>"

definition redRouter :: Router where
  "redRouter =
     \<lparr>rt_ASN = 65000, rt_ID = '''', rt_VRF = ''red'', rt_Neighbors = [],
      rt_Prefixes = [''192.168.1.0/24''], rt_Imports = [],
      rt_EVPN = Some \<lparr>ev_AdvertiseVNIs = None, ev_AdvertiseSVI = False, ev_L2VNIs = [],
        ev_L3VNI = Some \<lparr>l3_VNI = 200, l3_VNIProperties = noProperties, l3_AdvertisePrefixes = [''unicast'']\<rparr>\<rparr>\<rparr>"

definition sampleSelector :: LabelSelector where
  "sampleSelector = \<lparr>ls_MatchLabels = [], ls_MatchExpressions = []\<rparr>"

definition mkConfig :: "string \<Rightarrow> Router list \<Rightarrow> BFDProfile list \<Rightarrow> int \<Rightarrow> string \<Rightarrow> FRRConfiguration" where
  "mkConfig name rs bs prio raw =
     \<lparr>cfg_Name = name, cfg_Namespace = ''frr'', cfg_Annotations = [],
      cfg_Spec = \<lparr>spec_BGP = \<lparr>bgp_Routers = rs, bgp_BFDProfiles = bs\<rparr>,
        spec_Raw = \<lparr>raw_Priority = prio, raw_Config = raw\<rparr>, spec_NodeSelector = sampleSelector\<rparr>\<rparr>"

definition sampleResources :: ClusterResources where
  "sampleResources =
     \<lparr>cr_FRRConfigs = [mkConfig ''one'' [sampleRouter, redRouter] [sampleBFD] 10 ''log one'',
        mkConfig ''two'' [secondRouter] [sampleBFD] 5 ''log two''],
      cr_PasswordSecrets = [(''peer'', \<lparr>sec_Name = ''peer'', sec_Namespace = ''frr'', sec_Type = SecretTypeBasicAuth,
        sec_Data = [(''password'', ''pw'')]\<rparr>)]\<rparr>"

definition sampleBlock :: "IPNet list" where
  "sampleBlock = [snd (the (ParseCIDR ''172.16.0.0/12''))]"

text \<open>What the conversion makes of them.\<close>

definition sampleNeighborOut :: NeighborConfig where
  "sampleNeighborOut =
     \<lparr>nc_IPFamily = DualStack, nc_Name = ''65001@192.168.10.2'',
      nc_ASN = ''65001'', nc_SrcAddr = [],
      nc_Addr = ''192.168.10.2'', nc_Iface = [],
      nc_Port = None, nc_HoldTime = Some 90,
      nc_KeepaliveTime = Some 30, nc_ConnectTime = None,
      nc_Password = ''pw'', nc_BFDProfile = ''fast'',
      nc_GracefulRestart = False, nc_EBGPMultiHop = False,
      nc_LocalASN = 0, nc_VRFName = [],
      nc_Incoming =
        \<lparr>ai_All = False,
           ai_PrefixesV4 =
             [\<lparr>if_IPFamily = IPv4, if_Prefix = ''10.0.0.0/8'',
                 if_LE = 24, if_GE = 16\<rparr>],
           ai_PrefixesV6 = []\<rparr>,
      nc_Outgoing =
        \<lparr>ao_PrefixesV4 =
           [''192.168.1.0/24'', ''192.168.2.0/24''],
           ao_PrefixesV6 = [''2001:db8::/64''],
           ao_NextHopV4 = ''10.1.1.1'', ao_NextHopV6 = [],
           ao_LocalPrefPrefixesModifiers =
             [\<lparr>pl_Name =
                 ''192.168.10.2-100-ip-localpref-prefixes'',
                 pl_IPFamily = ''ip'',
                 pl_Prefixes = {''192.168.1.0/24''},
                 lpl_LocalPref = 100\<rparr>,
              \<lparr>pl_Name =
                 ''192.168.10.2-100-ipv6-localpref-prefixes'',
                 pl_IPFamily = ''ipv6'',
                 pl_Prefixes = {''2001:db8::/64''},
                 lpl_LocalPref = 100\<rparr>],
           ao_CommunityPrefixesModifiers =
             [\<lparr>pl_Name =
                 ''192.168.10.2-65000:10-ip-community-prefixes'',
                 pl_IPFamily = ''ip'',
                 pl_Prefixes = {''192.168.2.0/24''},
                 cpl_Community =
                   BGPCommunityLegacy 65000 10\<rparr>]\<rparr>,
      nc_AlwaysBlock =
        [\<lparr>if_IPFamily = IPv4, if_Prefix = ''172.16.0.0/12'',
            if_LE = 32, if_GE = 0\<rparr>],
      nc_AddressFamilies = [''evpn'', ''unicast'']\<rparr>"

definition unnumberedOut :: NeighborConfig where
  "unnumberedOut =
     \<lparr>nc_IPFamily = DualStack, nc_Name = ''external@eth0'',
      nc_ASN = ''external'', nc_SrcAddr = [], nc_Addr = [],
      nc_Iface = ''eth0'', nc_Port = None, nc_HoldTime = None,
      nc_KeepaliveTime = None, nc_ConnectTime = Some 10,
      nc_Password = ''secret'', nc_BFDProfile = [],
      nc_GracefulRestart = True, nc_EBGPMultiHop = False,
      nc_LocalASN = 0, nc_VRFName = [],
      nc_Incoming =
        \<lparr>ai_All = True, ai_PrefixesV4 = [],
           ai_PrefixesV6 = []\<rparr>,
      nc_Outgoing =
        \<lparr>ao_PrefixesV4 = [''192.168.3.0/24''],
           ao_PrefixesV6 = [], ao_NextHopV4 = [],
           ao_NextHopV6 = [],
           ao_LocalPrefPrefixesModifiers = [],
           ao_CommunityPrefixesModifiers = []\<rparr>,
      nc_AlwaysBlock =
        [\<lparr>if_IPFamily = IPv4, if_Prefix = ''172.16.0.0/12'',
            if_LE = 32, if_GE = 0\<rparr>],
      nc_AddressFamilies = []\<rparr>"

definition defaultRouterOut :: RouterConfig where
  "defaultRouterOut =
     \<lparr>rc_MyASN = 65000, rc_RouterID = ''10.0.0.1'',
      rc_Neighbors =
        [sampleNeighborOut,
         unnumberedOut],
      rc_VRF = [],
      rc_IPV4Prefixes = [''192.168.2.0/24'', ''192.168.3.0/24''],
      rc_IPV6Prefixes = [''2001:db8::/64''],
      rc_ImportVRFs = [''red''],
      rc_EVPN =
        Some
         \<lparr>fev_AdvertiseVNIs = Some ''All'',
            fev_AdvertiseSVI = False,
            fev_L2VNIs =
              [\<lparr>fl2_VNI = 100,
                  fl2_VNIProperties =
                    \<lparr>fvp_RD = ''65000:1'',
                       fvp_ImportRTs = [''65000:1'', ''65000:2''],
                       fvp_ExportRTs = []\<rparr>\<rparr>],
            fev_L3VNI = None\<rparr>\<rparr>"

definition redRouterOut :: RouterConfig where
  "redRouterOut =
     \<lparr>rc_MyASN = 65000, rc_RouterID = [], rc_Neighbors = [],
      rc_VRF = ''red'', rc_IPV4Prefixes = [''192.168.1.0/24''],
      rc_IPV6Prefixes = [], rc_ImportVRFs = [],
      rc_EVPN =
        Some
         \<lparr>fev_AdvertiseVNIs = None, fev_AdvertiseSVI = False,
            fev_L2VNIs = [],
            fev_L3VNI =
              Some
               \<lparr>fl3_VNI = 200,
                  fl3_VNIProperties =
                    \<lparr>fvp_RD = [], fvp_ImportRTs = [],
                       fvp_ExportRTs = []\<rparr>,
                  fl3_AdvertisePrefixes = [''unicast'']\<rparr>\<rparr>\<rparr>"

definition sampleConfig :: Config where
  "sampleConfig =
     \<lparr>cf_Loglevel = [], cf_Hostname = [],
      cf_Routers =
        [defaultRouterOut,
         redRouterOut],
      cf_BFDProfiles =
        [\<lparr>fbp_Name = ''fast'', fbp_ReceiveInterval = Some 50,
            fbp_TransmitInterval = None, fbp_DetectMultiplier = Some 3,
            fbp_EchoInterval = None, fbp_EchoMode = True,
            fbp_PassiveMode = False, fbp_MinimumTTL = None\<rparr>],
      cf_ExtraConfig = ''log two'' @ [CHR 0x0A] @ ''log one'' @ [CHR 0x0A]\<rparr>"

lemma sample_value: "apiToFRR sampleResources sampleBlock = Inr sampleConfig"
  by code_simp

lemma sample_Routers: "set (cf_Routers sampleConfig) = {defaultRouterOut, redRouterOut}"
  by (simp add: sampleConfig_def)

lemma sample_Neighbors: "set (rc_Neighbors defaultRouterOut) = {sampleNeighborOut, unnumberedOut}"
  by (simp add: defaultRouterOut_def)

end
