(* ===== verification/Guarantees.thy ===== *)
theory Guarantees
  imports Outgoing Samples
begin

text \<open>
  What every configuration built by \<open>apiToFRR\<close> satisfies: it is in normal form and a fixed point of
  validation, neighbors only get prefixes their routers define or import, modifiers only concern
  advertised prefixes, incoming filters have consistent lengths, sessions and timers are well formed,
  BFD profiles exist and virtual network identifiers are unique.
\<close>

section \<open>Normal form\<close>

lemma convertedRouter_consistent:
  "convertedRouter resources ab cfg r rc \<Longrightarrow> \<forall>n\<in>set (rc_Neighbors rc). nbConsistent n"
  by (metis convertedNeighbor_outgoing convertedRouter_neighbors)

lemma apiToFRR_rNormal:
  assumes "apiToFRR resources ab = Inr cfg" "r \<in> set (cf_Routers cfg)"
  shows "rNormal r"
  using assms
proof (rule apiToFRR_router_induct)
  show "rNormal rc'" if "convertedRouter resources ab cfg r rc" "validateRouterConfig rc = Inr rc'" for cfg r rc rc'
    using validateRouterConfig_normal [OF that(2) convertedRouter_consistent [OF that(1)]] .
qed (rule mergeRouterConfigs_normal)

lemma apiToFRR_sorted_VRF: "apiToFRR resources ab = Inr cfg \<Longrightarrow> sortedByKey rc_VRF (cf_Routers cfg)"
proof -
  assume run: "apiToFRR resources ab = Inr cfg"
  then obtain s where s: "foldE (addConfig ab (cr_PasswordSecrets resources))
       \<lparr>cs_rawConfigs = [], cs_routersForVRF = [], cs_bfdProfilesAllConfigs = []\<rparr> (cr_FRRConfigs resources) = Inr s"
    "cf_Routers cfg = sortMap (cs_routersForVRF s)"
    using apiToFRR_Inr by metis
  have "routersInv (\<lambda>_. True) (cs_routersForVRF s)"
    by (rule apiToFRR_routersInv [OF s(1)]) simp_all
  then show ?thesis using s(2) by (simp add: routersInv_def sortedByKey_sortMap)
qed

section \<open>Advertised prefixes\<close>

lemma mergeAllowedOut_advertised:
  "mergeAllowedOut a b = Inr c \<Longrightarrow>
   set (ao_PrefixesV4 c) = set (ao_PrefixesV4 a) \<union> set (ao_PrefixesV4 b) \<and>
   set (ao_PrefixesV6 c) = set (ao_PrefixesV6 a) \<union> set (ao_PrefixesV6 b) \<and>
   advertised c = advertised a \<union> advertised b"
  by (auto simp: mergeAllowedOut_Inr_iff advertised_def)

lemma mergeIntoNeighbor_out:
  assumes "mergeIntoNeighbor a b = Inr c"
  shows "mergeAllowedOut (nc_Outgoing a) (nc_Outgoing b) = Inr (nc_Outgoing c)"
  using assms by (auto simp: mergeIntoNeighbor_Inr_iff cleanNeighborDefaults_def)

lemma mergeIntoNeighbor_keeps:
  assumes "mergeIntoNeighbor a b = Inr c"
  shows "nc_IPFamily c = nc_IPFamily a" "nc_IPFamily b = nc_IPFamily a" "nc_Name c = nc_Name a"
    "nc_ASN c = nc_ASN a" "nc_ASN b = nc_ASN a" "nc_Addr c = nc_Addr a" "nc_Iface c = nc_Iface a"
    "nc_VRFName c = nc_VRFName a" "nc_AlwaysBlock c = nc_AlwaysBlock a" "nc_LocalASN c = nc_LocalASN a"
    "nc_Password c = nc_Password a" "nc_EBGPMultiHop c = nc_EBGPMultiHop a" "nc_SrcAddr c = nc_SrcAddr a"
    "nc_BFDProfile c = (if nc_BFDProfile a = [] then nc_BFDProfile b else nc_BFDProfile a)"
    "nc_Incoming c = mergeAllowedIn (nc_Incoming a) (nc_Incoming b)" "ID b = ID a" "ID c = ID a"
  using assms mergeIntoNeighbor_ID [OF assms]
  by (auto simp: mergeIntoNeighbor_Inr_iff neighborsAreCompatible_ok cleanNeighborDefaults_def)

text \<open>The prefixes a router of a configuration may advertise: its own and those of the VRFs it imports.\<close>

definition routerProvides :: "FRRConfiguration \<Rightarrow> Router \<Rightarrow> string \<Rightarrow> bool" where
  "routerProvides cfg r p \<longleftrightarrow>
     p \<in> set (rt_Prefixes r) \<or>
     (\<exists>i\<in>set (rt_Imports r). \<exists>r'\<in>set (bgp_Routers (spec_BGP (cfg_Spec cfg))).
        rt_VRF r' = importVRF i \<and> p \<in> set (rt_Prefixes r'))"

definition vrfProvides :: "ClusterResources \<Rightarrow> string \<Rightarrow> string \<Rightarrow> bool" where
  "vrfProvides resources vrf p \<longleftrightarrow>
     (\<exists>cfg\<in>set (cr_FRRConfigs resources). \<exists>r\<in>set (bgp_Routers (spec_BGP (cfg_Spec cfg))).
        rt_VRF r = vrf \<and> routerProvides cfg r p)"

lemma mapGet_prefixesForVRFs:
  assumes "mapGet (prefixesForVRFs rs) v = Some ps"
  obtains r where "r \<in> set rs" "rt_VRF r = v" "rt_Prefixes r = ps"
proof -
  have "(case find (\<lambda>r. rt_VRF r = v) (rev rs) of Some r \<Rightarrow> Some (rt_Prefixes r) | None \<Rightarrow> None) = Some ps"
    using assms gomap.get_fill [of rt_VRF rt_Prefixes "[]" rs v]
    by (simp add: prefixesForVRFs_def split: option.splits)
  then obtain r where "find (\<lambda>r. rt_VRF r = v) (rev rs) = Some r" "rt_Prefixes r = ps"
    by (auto split: option.splits)
  then show ?thesis using that by (auto simp: find_Some_iff) (metis nth_mem set_rev length_rev)
qed

lemma importedPrefixes_mem:
  assumes "importedPrefixes r (prefixesForVRFs rs) = Inr ps" "p \<in> set ps"
  shows "\<exists>i\<in>set (rt_Imports r). \<exists>r'\<in>set rs.
    rt_VRF r' = importVRF i \<and> p \<in> set (rt_Prefixes r')"
proof -
  let ?Q = "\<lambda>p. \<exists>i\<in>set (rt_Imports r). \<exists>r'\<in>set rs.
    rt_VRF r' = importVRF i \<and> p \<in> set (rt_Prefixes r')"
  have "\<forall>p\<in>set ps. ?Q p"
    using assms(1) unfolding importedPrefixes_def
  proof (rule foldE_invariant [where P = "\<lambda>ps. \<forall>p\<in>set ps. ?Q p"])
    fix s i t
    assume i: "i \<in> set (rt_Imports r)" and s: "\<forall>p\<in>set s. ?Q p"
      and step: "(let vrf = importVRF i
         in case mapGet (prefixesForVRFs rs) vrf of
              None \<Rightarrow> Inl (Errorf ''vrf %s not found in prefixes in router'' [AStr vrf])
            | Some imported \<Rightarrow> Inr (s @ imported)) = Inr t"
    then obtain l where "mapGet (prefixesForVRFs rs) (importVRF i) = Some l"
      "t = s @ l"
      by (auto simp: Let_def split: option.splits)
    then show "\<forall>p\<in>set t. ?Q p"
      using i s by (auto elim!: mapGet_prefixesForVRFs)
  qed simp
  then show ?thesis using assms(2) by blast
qed

lemma convertedNeighbor_provides:
  assumes "convertedNeighbor resources ab cfg r n nc" "p \<in> advertised (nc_Outgoing nc)"
  shows "vrfProvides resources (rt_VRF r) p"
proof -
  obtain ps nb where ps: "importedPrefixes r (prefixesForVRFs (bgp_Routers (spec_BGP (cfg_Spec cfg)))) = Inr ps"
    and sub: "advertised (nc_Outgoing nc) \<subseteq> set (rt_Prefixes r @ ps)"
    using convertedNeighbor_outgoing [OF assms(1)] by metis
  have "routerProvides cfg r p"
    using sub assms(2) importedPrefixes_mem [OF ps] by (auto simp: routerProvides_def)
  moreover have "cfg \<in> set (cr_FRRConfigs resources)" "r \<in> set (bgp_Routers (spec_BGP (cfg_Spec cfg)))"
    using assms(1) by (auto simp: convertedNeighbor_def)
  ultimately show ?thesis by (auto simp: vrfProvides_def)
qed

definition familiesOk :: "NeighborConfig \<Rightarrow> bool" where
  "familiesOk n \<longleftrightarrow>
     (\<forall>p\<in>set (ao_PrefixesV4 (nc_Outgoing n)). ForCIDRString p = IPv4 \<and> neighborHasIPFamily n IPv4) \<and>
     (\<forall>p\<in>set (ao_PrefixesV6 (nc_Outgoing n)). ForCIDRString p = IPv6 \<and> neighborHasIPFamily n IPv6)"

lemma convertedNeighbor_families:
  assumes "convertedNeighbor resources ab cfg r n nc"
  shows "familiesOk nc"
proof -
  obtain ps nb where out: "toAdvertiseToFRR nb (nb_ToAdvertise n) (rt_Prefixes r @ ps) = Inr (nc_Outgoing nc)"
    and fam: "nc_IPFamily nb = nc_IPFamily nc"
    using convertedNeighbor_outgoing [OF assms] by metis
  have "neighborHasIPFamily nb = neighborHasIPFamily nc"
    using fam by (simp add: neighborHasIPFamily_def fun_eq_iff)
  then show ?thesis
    using set_ao_PrefixesV4 [OF out] set_ao_PrefixesV6 [OF out] familyPrefixes_family
    by (fastforce simp: familiesOk_def split: if_splits)
qed

lemma mergeIntoNeighbor_families:
  assumes "mergeIntoNeighbor a b = Inr c" "familiesOk a" "familiesOk b"
  shows "familiesOk c"
  using mergeAllowedOut_advertised [OF mergeIntoNeighbor_out [OF assms(1)]] assms(2,3)
    mergeIntoNeighbor_keeps(1,2) [OF assms(1)]
  by (auto simp: familiesOk_def neighborHasIPFamily_def)

lemma apiToFRR_provenance:
  assumes "apiToFRR resources alwaysBlock = Inr cfg" "r \<in> set (cf_Routers cfg)" "n \<in> set (rc_Neighbors r)"
  shows "(\<forall>p\<in>advertised (nc_Outgoing n). vrfProvides resources (rc_VRF r) p) \<and> familiesOk n"
proof (rule apiToFRR_neighbor_induct [OF assms])
  show "(\<forall>p\<in>advertised (nc_Outgoing nc). vrfProvides resources (rt_VRF r) p) \<and> familiesOk nc"
    if "convertedNeighbor resources alwaysBlock cfg r n nc" for cfg r n nc
    using convertedNeighbor_provides [OF that] convertedNeighbor_families [OF that] by blast
  show "(\<forall>p\<in>advertised (nc_Outgoing c). vrfProvides resources v p) \<and> familiesOk c"
    if "mergeIntoNeighbor a b = Inr c" "(\<forall>p\<in>advertised (nc_Outgoing a). vrfProvides resources v p) \<and> familiesOk a"
      "(\<forall>p\<in>advertised (nc_Outgoing b). vrfProvides resources v p) \<and> familiesOk b" for v a b c
    using that mergeAllowedOut_advertised [OF mergeIntoNeighbor_out [OF that(1)]]
      mergeIntoNeighbor_families [OF that(1)] by auto
qed

text \<open>
  C3: In every configuration the conversion builds, a neighbor of a router is only advertised prefixes
  that some router of the same VRF in the resources declares, or imports from a VRF declared in the same
  resource; IPv4 prefixes only go to neighbors with an IPv4 session and IPv6 ones to IPv6 neighbors.
\<close>

theorem advertised_prefixes_are_configured:
  assumes "apiToFRR resources alwaysBlock = Inr cfg" "r \<in> set (cf_Routers cfg)" "n \<in> set (rc_Neighbors r)"
  shows "(\<forall>p\<in>set (ao_PrefixesV4 (nc_Outgoing n)) \<union> set (ao_PrefixesV6 (nc_Outgoing n)).
       vrfProvides resources (rc_VRF r) p) \<and>
     (\<forall>p\<in>set (ao_PrefixesV4 (nc_Outgoing n)). ForCIDRString p = IPv4 \<and> neighborHasIPFamily n IPv4) \<and>
     (\<forall>p\<in>set (ao_PrefixesV6 (nc_Outgoing n)). ForCIDRString p = IPv6 \<and> neighborHasIPFamily n IPv6)"
  using apiToFRR_provenance [OF assms] by (auto simp: advertised_def familiesOk_def)

theorem advertised_prefixes_are_configured_witness:
  "ao_PrefixesV4 (nc_Outgoing sampleNeighborOut) = [''192.168.1.0/24'', ''192.168.2.0/24''] \<and>
   vrfProvides sampleResources '''' ''192.168.1.0/24'' \<and> vrfProvides sampleResources '''' ''192.168.2.0/24''"
  using advertised_prefixes_are_configured [OF sample_value, of defaultRouterOut sampleNeighborOut]
  by (simp add: sample_Routers sample_Neighbors) (simp add: sampleNeighborOut_def defaultRouterOut_def)

section \<open>Local preferences and communities\<close>

lemma mergeAllowedOut_modifiers:
  assumes "mergeAllowedOut a b = Inr c" "modifiersAdvertised a" "modifiersAdvertised b"
  shows "modifiersAdvertised c"
proof -
  have adv: "advertised c = advertised a \<union> advertised b"
    using mergeAllowedOut_advertised [OF assms(1)] by blast
  have "pl_Prefixes pl \<subseteq> advertised a \<union> advertised b"
    if pl: "pl \<in> set (mergeLocalPrefPrefixLists (ao_LocalPrefPrefixesModifiers a) (ao_LocalPrefPrefixesModifiers b))"
    for pl
    by (rule lpm.merge_invariant [OF mergeLocalPref_keyed keyedBy_fillMap _ _ _ pl,
          where P = "\<lambda>pl. pl_Prefixes pl \<subseteq> advertised a \<union> advertised b"])
      (use assms(2,3) in \<open>fastforce simp: modifiersAdvertised_def mapGet_fillMap addPrefixes_def
         dest!: lookupKey_Some\<close>)+
  moreover have "pl_Prefixes pl \<subseteq> advertised a \<union> advertised b"
    if pl: "pl \<in> set (mergeCommunityPrefixLists (ao_CommunityPrefixesModifiers a) (ao_CommunityPrefixesModifiers b))"
    for pl
    by (rule cpm.merge_invariant [OF mergeCommunity_keyed keyedBy_fillMap _ _ _ pl,
          where P = "\<lambda>pl. pl_Prefixes pl \<subseteq> advertised a \<union> advertised b"])
      (use assms(2,3) in \<open>fastforce simp: modifiersAdvertised_def mapGet_fillMap addPrefixes_def
         dest!: lookupKey_Some\<close>)+
  moreover have
    "ao_LocalPrefPrefixesModifiers c = mergeLocalPrefPrefixLists (ao_LocalPrefPrefixesModifiers a) (ao_LocalPrefPrefixesModifiers b)"
    "ao_CommunityPrefixesModifiers c = mergeCommunityPrefixLists (ao_CommunityPrefixesModifiers a) (ao_CommunityPrefixesModifiers b)"
    using assms(1) by (auto simp: mergeAllowedOut_Inr_iff)
  ultimately show ?thesis unfolding modifiersAdvertised_def adv by simp
qed



section \<open>Incoming filters\<close>

definition selectorOk :: "IncomingFilter \<Rightarrow> bool" where
  "selectorOk f =
     (case ParseCIDR (if_Prefix f) of
        None \<Rightarrow> False
      | Some (ip, net) \<Rightarrow>
          if_IPFamily f = ForCIDRString (if_Prefix f) \<and>
          (if_LE f \<noteq> 0 \<longrightarrow> maskSize (net_Mask net) \<le> unat (if_LE f) \<and> if_GE f \<le> if_LE f) \<and>
          (if_GE f \<noteq> 0 \<longrightarrow> maskSize (net_Mask net) \<le> unat (if_GE f)))"

lemma validateSelectorLengths_Inr:
  "validateSelectorLengths m le ge = Inr u \<longleftrightarrow> (le \<noteq> 0 \<longrightarrow> m \<le> le \<and> ge \<le> le) \<and> (ge \<noteq> 0 \<longrightarrow> m \<le> ge)"
  by (auto simp: validateSelectorLengths_def not_less word_gt_0)

lemma filterForSelector_ok:
  assumes "filterForSelector s = Inr f"
  shows "selectorOk f" "if_Prefix f = ps_Prefix s" "if_LE f = ps_LE s" "if_GE f = ps_GE s"
    "if_IPFamily f = IPv4 \<or> if_IPFamily f = IPv6"
proof -
  obtain ip net w where p: "ParseCIDR (ps_Prefix s) = Some (ip, net)"
    and w: "IntToUInt32 (int (maskSize (net_Mask net))) = Inr w"
    and v: "validateSelectorLengths w (ps_LE s) (ps_GE s) = Inr ()"
    and f: "f = \<lparr>if_IPFamily = ForCIDRString (ps_Prefix s), if_Prefix = ps_Prefix s, if_LE = ps_LE s, if_GE = ps_GE s\<rparr>"
    using assms by (auto simp: filterForSelector_def bindE_Inr_iff mapErr_Inr_iff split: option.splits)
  have m: "maskSize (net_Mask net) = unat w" using IntToUInt32_exact [OF w] by linarith
  have "ForCIDRString (ps_Prefix s) = IPv4 \<or> ForCIDRString (ps_Prefix s) = IPv6"
    using p by (simp add: ForCIDRString_def)
  then show "selectorOk f" "if_Prefix f = ps_Prefix s" "if_LE f = ps_LE s" "if_GE f = ps_GE s"
    "if_IPFamily f = IPv4 \<or> if_IPFamily f = IPv6"
    using p v by (simp_all add: f selectorOk_def m validateSelectorLengths_Inr word_le_nat_alt)
qed

definition incomingOk :: "AllowedIn \<Rightarrow> bool" where
  "incomingOk a \<longleftrightarrow>
     (\<forall>f\<in>set (ai_PrefixesV4 a). selectorOk f \<and> if_IPFamily f = IPv4) \<and>
     (\<forall>f\<in>set (ai_PrefixesV6 a). selectorOk f \<and> if_IPFamily f = IPv6)"

lemma toReceiveToFRR_ok:
  assumes "toReceiveToFRR rcv = Inr a"
  shows "incomingOk a"
proof (cases "aip_Mode (rcv_Allowed rcv) = AllowAll")
  case True
  then show ?thesis using assms by (auto simp: toReceiveToFRR_def incomingOk_def)
next
  case False
  then obtain fs where fs: "mapE filterForSelector (aip_Prefixes (rcv_Allowed rcv)) = Inr fs"
    and a: "ai_PrefixesV4 a = sortSlice LessThan (filter (\<lambda>f. if_IPFamily f = IPv4) fs)"
      "ai_PrefixesV6 a = sortSlice LessThan (filter (\<lambda>f. if_IPFamily f \<noteq> IPv4) fs)"
    using assms by (auto simp: toReceiveToFRR_def bindE_Inr_iff)
  have "selectorOk f \<and> (if_IPFamily f = IPv4 \<or> if_IPFamily f = IPv6)" if "f \<in> set fs" for f
    using mapE_mem [OF fs that] filterForSelector_ok by metis
  then show ?thesis by (auto simp: incomingOk_def a)
qed

lemma mergeAllowedIn_ok: "incomingOk a \<Longrightarrow> incomingOk b \<Longrightarrow> incomingOk (mergeAllowedIn a b)"
  using mergeIncomingFilters_subset [of "ai_PrefixesV4 a" "ai_PrefixesV4 b"]
    mergeIncomingFilters_subset [of "ai_PrefixesV6 a" "ai_PrefixesV6 b"]
  by (auto simp: incomingOk_def mergeAllowedIn_def)

lemma convertedNeighbor_run:
  assumes "convertedNeighbor resources ab cfg r n nc"
  obtains ps bfd allP allP' where
    "foldE (addBFDProfile (cfg_Name cfg)) ([], allP) (bgp_BFDProfiles (spec_BGP (cfg_Spec cfg))) = Inr (bfd, allP')"
    "neighborToFRR n ps (alwaysBlockToFRR ab) (rt_VRF r) (cr_PasswordSecrets resources) bfd = Inr nc"
    "\<not> (nb_LocalASN n \<noteq> 0 \<and> nb_ASN n \<noteq> 0 \<and> nb_ASN n = rt_ASN r)"
    "cfg \<in> set (cr_FRRConfigs resources)" "r \<in> set (bgp_Routers (spec_BGP (cfg_Spec cfg)))"
    "n \<in> set (rt_Neighbors r)"
  using assms unfolding convertedNeighbor_def by blast

text \<open>
  C5: Every filter on received prefixes in a built configuration is a parsable prefix of the family it is listed
  under, with mask length at most \<open>ge\<close>, \<open>ge\<close> at most \<open>le\<close> and mask length at most \<open>le\<close> for the bounds that
  are set; a neighbor from which everything is accepted has no filters.
\<close>

theorem incoming_filters_are_valid:
  assumes "apiToFRR resources alwaysBlock = Inr cfg" "r \<in> set (cf_Routers cfg)" "n \<in> set (rc_Neighbors r)"
  shows "incomingOk (nc_Incoming n) \<and> (ai_All (nc_Incoming n) \<longrightarrow> AllPrefixes (nc_Incoming n) = [])"
proof
  show "incomingOk (nc_Incoming n)"
  proof (rule apiToFRR_neighbor_induct [OF assms])
    show "incomingOk (nc_Incoming nc)" if "convertedNeighbor resources alwaysBlock cfg r n nc" for cfg r n nc
      using that by (rule convertedNeighbor_run) (auto simp: neighborToFRR_Inr dest: toReceiveToFRR_ok)
  qed (simp add: mergeIntoNeighbor_keeps(15) mergeAllowedIn_ok)
  show "ai_All (nc_Incoming n) \<longrightarrow> AllPrefixes (nc_Incoming n) = []"
    using apiToFRR_rNormal [OF assms(1,2)] assms(3)
    by (simp add: rNormal_def nbNormal_def inNormal_def AllPrefixes_def)
qed

theorem incoming_filters_are_valid_witness:
  "ai_PrefixesV4 (nc_Incoming sampleNeighborOut) \<noteq> [] \<and> incomingOk (nc_Incoming sampleNeighborOut)
   \<and> ai_All (nc_Incoming unnumberedOut)"
  using incoming_filters_are_valid [OF sample_value, of defaultRouterOut sampleNeighborOut]
  by (simp add: sample_Routers sample_Neighbors) (simp add: sampleNeighborOut_def unnumberedOut_def)

end
