(* ===== verification/Templates.thy ===== *)
theory Templates
  imports Frr_Config Errors
begin

text \<open>
  The templates of \<^verbatim>\<open>internal/frr/templates\<close> and \<^verbatim>\<open>templateConfig\<close> of \<^verbatim>\<open>internal/frr/config.go\<close>: the text
  of the file FRR loads, character by character. White space follows the trim markers of the templates. A
  template is the list of the pieces it writes: text, and the lines whose number the function \<open>counter\<close>
  gives. Executing the pieces threads the map of counters from left to right.
\<close>

section \<open>Pieces of the output\<close>

text \<open>
  \<open>PrefixListSeq family name action prefix\<close> is \<^verbatim>\<open>... prefix-list name seq {{counter name}} action prefix\<close>,
  \<open>RouteMapSeq id direction action\<close> is \<^verbatim>\<open>route-map id-direction action {{counter id}}\<close>.
\<close>

datatype tmplItem =
    Text string
  | PrefixListSeq string string string string
  | RouteMapSeq string string string

fun counterName :: "tmplItem \<Rightarrow> string option" where
  "counterName (Text _) = None"
| "counterName (PrefixListSeq _ name _ _) = Some name"
| "counterName (RouteMapSeq nid _ _) = Some nid"

fun showItem :: "tmplItem \<Rightarrow> nat \<Rightarrow> string" where
  "showItem (Text s) _ = s"
| "showItem (PrefixListSeq fam name action prefix) k =
     fam @ '' prefix-list '' @ name @ '' seq '' @ itoa k @ '' '' @ action @ '' '' @ prefix"
| "showItem (RouteMapSeq nid direction action) k =
     ''route-map '' @ nid @ ''-'' @ direction @ '' '' @ action @ '' '' @ itoa k"

definition execItem :: "(string, nat) gomap \<Rightarrow> tmplItem \<Rightarrow> string \<times> (string, nat) gomap" where
  "execItem counterMap item =
     (case counterName item of
        None \<Rightarrow> (showItem item 0, counterMap)
      | Some x \<Rightarrow> (case counter counterMap x of (k, counterMap') \<Rightarrow> (showItem item k, counterMap')))"

fun execItems :: "(string, nat) gomap \<Rightarrow> tmplItem list \<Rightarrow> string \<times> (string, nat) gomap" where
  "execItems counterMap [] = ('''', counterMap)"
| "execItems counterMap (item # items) =
     (case execItem counterMap item of (s, counterMap') \<Rightarrow>
        (case execItems counterMap' items of (t, counterMap'') \<Rightarrow> (s @ t, counterMap'')))"

definition onlyIf :: "bool \<Rightarrow> string \<Rightarrow> string" where
  "onlyIf b s = (if b then s else '''')"

definition optText :: "('a \<Rightarrow> string) \<Rightarrow> 'a option \<Rightarrow> string" where
  "optText f p = (case p of None \<Rightarrow> '''' | Some x \<Rightarrow> f x)"

text \<open>The function \<open>dict\<close> packs the arguments of a nested template.\<close>

datatype 'a dictValue = DStr string | DVal 'a

fun dictLoop :: "(string, 'a dictValue) gomap \<Rightarrow> 'a dictValue list \<Rightarrow> (error, (string, 'a dictValue) gomap) result" where
  "dictLoop m (DStr key # v # values) = dictLoop (mapSet m key v) values"
| "dictLoop m (DVal _ # v # values) = Inl (Errorf ''dict keys must be strings'' [])"
| "dictLoop m [_] = Inr m"
| "dictLoop m [] = Inr m"

definition tmpl_dict :: "'a dictValue list \<Rightarrow> (error, (string, 'a dictValue) gomap) result" where
  "tmpl_dict values =
     (if length values mod 2 \<noteq> 0 then Inl (Errorf ''invalid dict call, expecting even number of args'' [])
      else dictLoop [] values)"

lemma tmpl_dict_calls:
  "tmpl_dict [DStr k, v] = Inr [(k, v)]"
  "k \<noteq> l \<Longrightarrow> \<exists>d. tmpl_dict [DStr k, v, DStr l, w] = Inr d \<and> mapGet d k = Some v \<and> mapGet d l = Some w"
  by (simp_all add: tmpl_dict_def mapSet_def mapGet_def)

section \<open>Sessions and address families of a neighbor\<close>

definition tmpl_peer :: "NeighborConfig \<Rightarrow> string" where
  "tmpl_peer n = (if nc_Iface n \<noteq> '''' then nc_Iface n else nc_Addr n)"

definition neighborsession :: "NeighborConfig \<Rightarrow> uint32 \<Rightarrow> string" where
  "neighborsession n routerASN =
     (let peer = tmpl_peer n in
      (if nc_Iface n \<noteq> '''' then ''\<newline>  neighbor '' @ nc_Iface n @ '' interface remote-as '' @ nc_ASN n
       else ''\<newline>  neighbor '' @ nc_Addr n @ '' remote-as '' @ nc_ASN n) @
      onlyIf (nc_EBGPMultiHop n) (''\<newline>  neighbor '' @ peer @ '' ebgp-multihop'') @
      onlyIf (nc_LocalASN n \<noteq> 0)
        (''\<newline>  neighbor '' @ peer @ '' local-as '' @ itoa (unat (nc_LocalASN n)) @ '' no-prepend replace-as'') @
      ''\<newline>  '' @ optText (\<lambda>p. ''neighbor '' @ peer @ '' port '' @ itoa (unat p)) (nc_Port n) @
      ''\<newline>  '' @ optText (\<lambda>k. optText (\<lambda>h. ''\<newline>  neighbor '' @ peer @ '' timers '' @ itoaInt k @ '' '' @ itoaInt h)
                  (nc_HoldTime n)) (nc_KeepaliveTime n) @
      optText (\<lambda>c. ''\<newline>  neighbor '' @ peer @ '' timers connect '' @ itoaInt c) (nc_ConnectTime n) @
      ''\<newline>  '' @ onlyIf (nc_Password n \<noteq> '''') (''neighbor '' @ peer @ '' password '' @ nc_Password n) @
      ''\<newline>  '' @ onlyIf (nc_SrcAddr n \<noteq> '''') (''neighbor '' @ peer @ '' update-source '' @ nc_SrcAddr n) @
      onlyIf (nc_GracefulRestart n) (''\<newline>  neighbor '' @ peer @ '' graceful-restart'') @
      onlyIf (nc_BFDProfile n \<noteq> '''')
        (''\<newline>  neighbor '' @ peer @ '' bfd\<newline>  neighbor '' @ peer @ '' bfd profile '' @ nc_BFDProfile n) @
      onlyIf (mustDisableConnectedCheck (nc_IPFamily n) routerASN (nc_ASN n) (nc_Iface n) (nc_EBGPMultiHop n))
        (''\<newline>  neighbor '' @ nc_Addr n @ '' disable-connected-check''))"

definition activateFamily :: "string \<Rightarrow> NeighborConfig \<Rightarrow> string" where
  "activateFamily family n =
     ''\<newline>  address-family '' @ family @ '' unicast\<newline>    neighbor '' @ tmpl_peer n @ '' activate\<newline>    neighbor '' @
     tmpl_peer n @ '' route-map '' @ ID n @ ''-in in\<newline>    neighbor '' @
     tmpl_peer n @ '' route-map '' @ ID n @ ''-out out\<newline>  exit-address-family''"

definition neighborenableipfamily :: "NeighborConfig \<Rightarrow> string" where
  "neighborenableipfamily n =
     ''\<newline>'' @
     onlyIf (activateNeighborFor ''ipv4'' (nc_IPFamily n) (nc_AddressFamilies n)) (activateFamily ''ipv4'' n) @
     onlyIf (activateNeighborFor ''ipv6'' (nc_IPFamily n) (nc_AddressFamilies n)) (activateFamily ''ipv6'' n)"

section \<open>Prefix lists and route maps of a neighbor\<close>

fun ppl_IPFamily :: "PropertyPrefixList \<Rightarrow> string" where
  "ppl_IPFamily (LocalPrefPL pl) = pl_IPFamily pl"
| "ppl_IPFamily (CommunityPL pl) = pl_IPFamily pl"

definition propertyListItems :: "string \<Rightarrow> PropertyPrefixList \<Rightarrow> tmplItem list" where
  "propertyListItems nid pl =
     concat (map (\<lambda>prefix. [Text ''\<newline>'', PrefixListSeq (ppl_IPFamily pl) (ppl_PrefixListName pl) ''permit'' prefix])
       (ppl_SortedPrefixes pl)) @
     [Text ''\<newline>\<newline>'', RouteMapSeq nid ''out'' ''permit'',
      Text (''\<newline>  match '' @ ppl_IPFamily pl @ '' address prefix-list '' @ ppl_PrefixListName pl @ ''\<newline>  '' @
        ppl_SetStatement pl @ ''\<newline>  on-match next\<newline>'')]"

definition toAdvertiseItems :: "string \<Rightarrow> string \<Rightarrow> string list \<Rightarrow> tmplItem list" where
  "toAdvertiseItems fam prefixListName prefixes =
     (if prefixes = [] then [Text ''\<newline>'', PrefixListSeq fam prefixListName ''deny'' ''any''] else []) @
     concat (map (\<lambda>a. [Text ''\<newline>'', PrefixListSeq fam prefixListName ''permit'' a]) prefixes)"

definition filterItems :: "string \<Rightarrow> IncomingFilter list \<Rightarrow> tmplItem list" where
  "filterItems plistName filters =
     concat (map (\<lambda>i. [Text ''\<newline>'',
       PrefixListSeq (tmpl_frrIPFamily (if_IPFamily i)) plistName ''permit'' (if_Prefix i @ Matcher i)]) filters)"

definition outgoingItems :: "NeighborConfig \<Rightarrow> tmplItem list" where
  "outgoingItems n =
     concat (map (propertyListItems (ID n)) (PrefixLists (nc_Outgoing n))) @
     [Text ''\<newline>\<newline>''] @
     toAdvertiseItems ''ip'' (ToAdvertisePrefixListV4 n) (ao_PrefixesV4 (nc_Outgoing n)) @
     [Text ''\<newline>\<newline>''] @
     toAdvertiseItems ''ipv6'' (ToAdvertisePrefixListV6 n) (ao_PrefixesV6 (nc_Outgoing n)) @
     [Text ''\<newline>\<newline>'', RouteMapSeq (ID n) ''out'' ''permit'',
      Text (''\<newline>  match ip address prefix-list '' @ ToAdvertisePrefixListV4 n @
        onlyIf (ao_NextHopV4 (nc_Outgoing n) \<noteq> '''') (''\<newline>  set ip next-hop '' @ ao_NextHopV4 (nc_Outgoing n))),
      Text ''\<newline>\<newline>'', RouteMapSeq (ID n) ''out'' ''permit'',
      Text (''\<newline>  match ipv6 address prefix-list '' @ ToAdvertisePrefixListV6 n @
        onlyIf (ao_NextHopV6 (nc_Outgoing n) \<noteq> '''') (''\<newline>  set ipv6 next-hop global '' @ ao_NextHopV6 (nc_Outgoing n)))]"

definition allowedItems :: "NeighborConfig \<Rightarrow> tmplItem list" where
  "allowedItems n =
     (let plistName = allowedIncomingList n in
      filterItems plistName (AllPrefixes (nc_Incoming n)) @
      (if ai_All (nc_Incoming n) then
         [Text ''\<newline>'', PrefixListSeq ''ip'' plistName ''permit'' ''any'',
          Text ''\<newline>'', PrefixListSeq ''ipv6'' plistName ''permit'' ''any'', Text ''\<newline>'']
       else
         [Text ''\<newline>''] @
         (if ai_PrefixesV4 (nc_Incoming n) = [] then [Text ''\<newline>'', PrefixListSeq ''ip'' plistName ''deny'' ''any''] else []) @
         [Text ''\<newline>''] @
         (if ai_PrefixesV6 (nc_Incoming n) = [] then [Text ''\<newline>'', PrefixListSeq ''ipv6'' plistName ''deny'' ''any''] else [])))"

definition inRouteMap :: "NeighborConfig \<Rightarrow> string \<Rightarrow> string \<Rightarrow> tmplItem list" where
  "inRouteMap n action plistName =
     [Text ''\<newline>'', RouteMapSeq (ID n) ''in'' action, Text (''\<newline>  match ip address prefix-list '' @ plistName),
      Text ''\<newline>'', RouteMapSeq (ID n) ''in'' action, Text (''\<newline>  match ipv6 address prefix-list '' @ plistName)]"

definition deniedItems :: "NeighborConfig \<Rightarrow> tmplItem list" where
  "deniedItems n =
     (if nc_AlwaysBlock n = [] then []
      else [Text ''\<newline>\<newline>''] @ filterItems (deniedIncomingList n) (nc_AlwaysBlock n) @
        [Text ''\<newline>''] @ inRouteMap n ''deny'' (deniedIncomingList n))"

definition neighborfilters :: "NeighborConfig \<Rightarrow> tmplItem list" where
  "neighborfilters n =
     outgoingItems n @ [Text ''\<newline>\<newline>'', Text ''\<newline>'', Text ''\<newline>''] @ allowedItems n @ deniedItems n @
     inRouteMap n ''permit'' (allowedIncomingList n)"

section \<open>EVPN and BFD\<close>

definition rtLines :: "string \<Rightarrow> frrVNIProperties \<Rightarrow> string" where
  "rtLines indent p =
     onlyIf (fvp_RD p \<noteq> '''') (indent @ ''rd '' @ fvp_RD p) @
     concat (map (\<lambda>rt. indent @ ''route-target import '' @ rt) (fvp_ImportRTs p)) @
     concat (map (\<lambda>rt. indent @ ''route-target export '' @ rt) (fvp_ExportRTs p))"

definition l2vniLines :: "frrL2VNI \<Rightarrow> string" where
  "l2vniLines v =
     (let p = fl2_VNIProperties v in
      onlyIf (fvp_RD p \<noteq> '''' \<or> fvp_ImportRTs p \<noteq> [] \<or> fvp_ExportRTs p \<noteq> [])
        (''\<newline>    vni '' @ itoa (unat (fl2_VNI v)) @ rtLines ''\<newline>      '' p @ ''\<newline>    exit-vni''))"

definition l3vniLines :: "frrL3VNI \<Rightarrow> string" where
  "l3vniLines v =
     concat (map (\<lambda>t. onlyIf (hasAdvertisesEVPNPrefixUnicast t)
       ''\<newline>    advertise ipv4 unicast\<newline>    advertise ipv6 unicast'') (fl3_AdvertisePrefixes v)) @
     rtLines ''\<newline>    '' (fl3_VNIProperties v)"

definition tmpl_evpn :: "RouterConfig \<Rightarrow> string" where
  "tmpl_evpn r =
     optText (\<lambda>ev.
       ''\<newline>  address-family l2vpn evpn'' @
       concat (map (\<lambda>n. onlyIf (hasAddressFamilyEVPN (nc_AddressFamilies n))
         (''\<newline>    neighbor '' @ tmpl_peer n @ '' activate'')) (rc_Neighbors r)) @
       onlyIf (hasAdvertiseVNIsAll (fev_AdvertiseVNIs ev)) ''\<newline>    advertise-all-vni'' @
       onlyIf (fev_AdvertiseSVI ev) ''\<newline>    advertise-svi-ip'' @
       concat (map l2vniLines (fev_L2VNIs ev)) @
       optText l3vniLines (fev_L3VNI ev) @
       ''\<newline>  exit-address-family\<newline>'') (rc_EVPN r)"

definition bfdprofile :: "frrBFDProfile \<Rightarrow> string" where
  "bfdprofile p =
     ''\<newline>  profile '' @ fbp_Name p @ ''\<newline>    '' @
     optText (\<lambda>v. ''receive-interval '' @ itoa (unat v) @ ''\<newline>    '') (fbp_ReceiveInterval p) @
     optText (\<lambda>v. ''transmit-interval '' @ itoa (unat v) @ ''\<newline>    '') (fbp_TransmitInterval p) @
     optText (\<lambda>v. ''detect-multiplier '' @ itoa (unat v) @ ''\<newline>    '') (fbp_DetectMultiplier p) @
     onlyIf (fbp_EchoMode p) ''echo-mode\<newline>    '' @
     optText (\<lambda>v. ''echo transmit-interval '' @ itoa (unat v) @ ''\<newline>    echo receive-interval '' @ itoa (unat v) @ ''\<newline>    '')
       (fbp_EchoInterval p) @
     onlyIf (fbp_PassiveMode p) ''passive-mode\<newline>    '' @
     optText (\<lambda>v. ''minimum-ttl '' @ itoa (unat v) @ ''\<newline>    '') (fbp_MinimumTTL p)"

section \<open>The whole file\<close>

definition debugLines :: string where
  "debugLines =
     ''\<newline>debug zebra events\<newline>debug zebra nht\<newline>debug zebra kernel\<newline>debug zebra rib\<newline>debug zebra nexthop'' @
     ''\<newline>debug bgp neighbor-events\<newline>debug bgp updates\<newline>debug bgp keepalives\<newline>debug bgp nht\<newline>debug bgp zebra'' @
     ''\<newline>debug bfd network\<newline>debug bfd peer\<newline>debug bfd zebra''"

definition globalLines :: "Config \<Rightarrow> string" where
  "globalLines c =
     ''log stdout '' @ cf_Loglevel c @ ''\<newline>log timestamp precision 3'' @
     onlyIf (cf_Loglevel c = ''debugging'') debugLines @
     ''\<newline>hostname '' @ cf_Hostname c @ ''\<newline>ip nht resolve-via-default\<newline>ipv6 nht resolve-via-default''"

definition vrfLines :: "RouterConfig \<Rightarrow> string" where
  "vrfLines r =
     onlyIf (rc_VRF r \<noteq> '''') (optText (\<lambda>ev. optText (\<lambda>l3.
       ''\<newline>\<newline>vrf '' @ rc_VRF r @ ''\<newline>  vni '' @ itoa (unat (fl3_VNI l3)) @ ''\<newline>exit-vrf'') (fev_L3VNI ev)) (rc_EVPN r))"

definition importLines :: "RouterConfig \<Rightarrow> string" where
  "importLines r =
     (let imports = concat (map (\<lambda>v. ''\<newline>    import vrf '' @ v) (rc_ImportVRFs r)) in
      onlyIf (length (rc_ImportVRFs r) > 0)
        (''\<newline>  address-family ipv4 unicast'' @ imports @ ''\<newline>  exit-address-family\<newline>  address-family ipv6 unicast'' @
         imports @ ''\<newline>  exit-address-family''))"

definition networkLines :: "string \<Rightarrow> string list \<Rightarrow> string" where
  "networkLines family prefixes =
     onlyIf (length prefixes > 0)
       (''\<newline>  address-family '' @ family @ '' unicast'' @ concat (map (\<lambda>p. ''\<newline>    network '' @ p) prefixes) @
        ''\<newline>  exit-address-family\<newline>'')"

definition routerLines :: "RouterConfig \<Rightarrow> string" where
  "routerLines r =
     ''router bgp '' @ itoa (unat (rc_MyASN r)) @ onlyIf (rc_VRF r \<noteq> '''') ('' vrf '' @ rc_VRF r) @
     ''\<newline>  no bgp ebgp-requires-policy\<newline>  no bgp network import-check\<newline>  no bgp default ipv4-unicast'' @
     ''\<newline>  bgp graceful-restart preserve-fw-state\<newline>'' @
     onlyIf (rc_RouterID r \<noteq> '''') (''\<newline>  bgp router-id '' @ rc_RouterID r) @
     importLines r @
     concat (map (\<lambda>n. neighborsession n (rc_MyASN r)) (rc_Neighbors r)) @
     concat (map neighborenableipfamily (rc_Neighbors r)) @
     networkLines ''ipv4'' (rc_IPV4Prefixes r) @ networkLines ''ipv6'' (rc_IPV6Prefixes r) @
     tmpl_evpn r @ ''\<newline>''"

definition bfdLines :: "frrBFDProfile list \<Rightarrow> string" where
  "bfdLines ps = onlyIf (length ps > 0) (''\<newline>bfd'' @ concat (map bfdprofile ps))"

definition frr_tmpl :: "Config \<Rightarrow> tmplItem list" where
  "frr_tmpl c =
     [Text (globalLines c)] @
     concat (map (\<lambda>r. concat (map (\<lambda>n. Text ''\<newline>'' # neighborfilters n) (rc_Neighbors r))) (cf_Routers c)) @
     [Text (concat (map vrfLines (cf_Routers c)) @ ''\<newline>\<newline>'' @ concat (map routerLines (cf_Routers c)) @
        bfdLines (cf_BFDProfiles c) @ onlyIf (cf_ExtraConfig c \<noteq> '''') (''\<newline>'' @ cf_ExtraConfig c) @ ''\<newline>'')]"

definition templateConfig :: "Config \<Rightarrow> (error, string) result" where
  "templateConfig config = Inr (fst (execItems [] (frr_tmpl config)))"

section \<open>Numbering\<close>

text \<open>The number of a line: one more than the number of earlier lines of the same counter.\<close>

definition seqNo :: "tmplItem list \<Rightarrow> nat \<Rightarrow> nat" where
  "seqNo items i = Suc (length (filter (\<lambda>t. counterName t = counterName (items ! i)) (take i items)))"

definition counterAt :: "(string, nat) gomap \<Rightarrow> string option \<Rightarrow> nat" where
  "counterAt m x = (case Option.bind x (mapGet m) of None \<Rightarrow> 0 | Some k \<Rightarrow> k)"

lemma execItem_text:
  "execItem m item = (showItem item (Suc (counterAt m (counterName item))), m') \<Longrightarrow>
   counterAt m' x = (if x = counterName item \<and> x \<noteq> None then Suc (counterAt m x) else counterAt m x)"
  by (cases item; cases x) (auto simp: execItem_def counter_def counterAt_def Let_def split: option.splits)

lemma execItem_cases:
  obtains m' where "execItem m item = (showItem item (Suc (counterAt m (counterName item))), m')"
  by (cases item) (auto simp: execItem_def counter_def counterAt_def Let_def split: option.splits)

lemma showItem_Text: "counterName item = None \<Longrightarrow> showItem item j = showItem item k"
  by (cases item) simp_all

lemma execItems_numbers:
  "fst (execItems m items) =
   concat (map (\<lambda>i. showItem (items ! i) (counterAt m (counterName (items ! i)) + seqNo items i)) [0..<length items])"
proof (induction items arbitrary: m)
  case (Cons item items)
  obtain m' where run: "execItem m item = (showItem item (Suc (counterAt m (counterName item))), m')"
    by (rule execItem_cases)
  note m' = execItem_text [OF run]
  have later: "showItem (items ! i) (counterAt m' (counterName (items ! i)) + seqNo items i) =
      showItem (items ! i) (counterAt m (counterName (items ! i)) + seqNo (item # items) (Suc i))" for i
  proof (cases "counterName (items ! i) = None")
    case False
    then show ?thesis by (simp add: m' seqNo_def)
  qed (rule showItem_Text)
  have "seqNo (item # items) 0 = Suc 0" by (simp add: seqNo_def)
  then show ?case
    by (simp add: run case_prod_beta Cons.IH later map_upt_Suc del: upt_Suc)
qed simp

lemma execItems_from_scratch:
  "fst (execItems [] items) = concat (map (\<lambda>i. showItem (items ! i) (seqNo items i)) [0..<length items])"
proof -
  have "counterAt [] x = 0" for x by (cases x) (simp_all add: counterAt_def)
  then show ?thesis by (simp add: execItems_numbers)
qed

lemma seqNo_less:
  assumes "i < j" "j < length items" "counterName (items ! i) = counterName (items ! j)"
  shows "seqNo items i < seqNo items j"
proof -
  let ?P = "\<lambda>t. counterName t = counterName (items ! j)"
  have "take j items = take i items @ drop i (take j items)" by (metis assms(1) append_take_drop_id less_imp_le min.absorb1 take_take)
  moreover have "items ! i \<in> set (drop i (take j items))"
    using assms(1,2) by (auto simp: in_set_conv_nth intro!: exI [of _ 0])
  ultimately have "length (filter ?P (take j items)) = length (filter ?P (take i items)) + length (filter ?P (drop i (take j items)))"
    "filter ?P (drop i (take j items)) \<noteq> []"
    using assms(3) by (metis filter_append length_append, auto simp: filter_empty_conv)
  then show ?thesis by (simp add: seqNo_def assms(3))
qed

text \<open>
  C26: The file is the concatenation of the pieces of the templates in which every line of a prefix list or of the
  route maps of a neighbor carries one more than the number of earlier lines of that list or neighbor; so two
  lines of one list, or of the route maps of one neighbor, never share a sequence number and the later line
  has the higher one.
\<close>

theorem sequence_numbers_increase:
  "templateConfig c = Inr (concat (map (\<lambda>i. showItem (frr_tmpl c ! i) (seqNo (frr_tmpl c) i)) [0..<length (frr_tmpl c)])) \<and>
   (\<forall>i j. i < j \<longrightarrow> j < length (frr_tmpl c) \<longrightarrow> counterName (frr_tmpl c ! i) = counterName (frr_tmpl c ! j) \<longrightarrow>
      seqNo (frr_tmpl c) i < seqNo (frr_tmpl c) j)"
  by (simp add: templateConfig_def execItems_from_scratch seqNo_less)

definition blankNeighbor :: NeighborConfig where
  "blankNeighbor = \<lparr>nc_IPFamily = IPv4, nc_Name = '''', nc_ASN = ''65001'', nc_SrcAddr = '''', nc_Addr = ''192.168.1.2'',
     nc_Iface = '''', nc_Port = None, nc_HoldTime = None, nc_KeepaliveTime = None, nc_ConnectTime = None,
     nc_Password = '''', nc_BFDProfile = '''', nc_GracefulRestart = False, nc_EBGPMultiHop = False, nc_LocalASN = 0,
     nc_VRFName = '''', nc_Incoming = \<lparr>ai_All = False, ai_PrefixesV4 = [], ai_PrefixesV6 = []\<rparr>,
     nc_Outgoing = \<lparr>ao_PrefixesV4 = [''192.169.1.0/24'', ''192.170.1.0/22''], ao_PrefixesV6 = [], ao_NextHopV4 = '''',
       ao_NextHopV6 = '''', ao_LocalPrefPrefixesModifiers = [], ao_CommunityPrefixesModifiers = []\<rparr>,
     nc_AlwaysBlock = [], nc_AddressFamilies = []\<rparr>"

definition bareRouter :: RouterConfig where
  "bareRouter = \<lparr>rc_MyASN = 65000, rc_RouterID = '''', rc_Neighbors = [], rc_VRF = '''', rc_IPV4Prefixes = [],
     rc_IPV6Prefixes = [], rc_ImportVRFs = [], rc_EVPN = None\<rparr>"

definition emptyConfig :: Config where
  "emptyConfig = \<lparr>cf_Loglevel = '''', cf_Hostname = '''', cf_Routers = [], cf_BFDProfiles = [], cf_ExtraConfig = ''''\<rparr>"

definition oneNeighborConfig :: Config where
  "oneNeighborConfig = emptyConfig\<lparr>cf_Routers := [bareRouter\<lparr>rc_Neighbors := [blankNeighbor]\<rparr>]\<rparr>"

lemma oneNeighbor_items:
  obtains items where "frr_tmpl oneNeighborConfig = [Text (globalLines oneNeighborConfig), Text ''\<newline>'', Text ''\<newline>\<newline>'',
    Text ''\<newline>'', PrefixListSeq ''ip'' ''192.168.1.2-allowed-ipv4'' ''permit'' ''192.169.1.0/24'',
    Text ''\<newline>'', PrefixListSeq ''ip'' ''192.168.1.2-allowed-ipv4'' ''permit'' ''192.170.1.0/22''] @ items"
proof -
  have cfg: "cf_Routers oneNeighborConfig = [bareRouter\<lparr>rc_Neighbors := [blankNeighbor]\<rparr>]"
    by (simp add: oneNeighborConfig_def emptyConfig_def)
  have n: "PrefixLists (nc_Outgoing blankNeighbor) = []" "ToAdvertisePrefixListV4 blankNeighbor = ''192.168.1.2-allowed-ipv4''"
    "ao_PrefixesV4 (nc_Outgoing blankNeighbor) = [''192.169.1.0/24'', ''192.170.1.0/22'']"
    by (simp_all add: blankNeighbor_def PrefixLists_def ToAdvertisePrefixListV4_def ID_def)
  show thesis
    by (rule that) (simp add: frr_tmpl_def cfg neighborfilters_def outgoingItems_def n toAdvertiseItems_def)
qed

theorem sequence_numbers_increase_witness:
  "frr_tmpl oneNeighborConfig ! 4 = PrefixListSeq ''ip'' ''192.168.1.2-allowed-ipv4'' ''permit'' ''192.169.1.0/24'' \<and>
   frr_tmpl oneNeighborConfig ! 6 = PrefixListSeq ''ip'' ''192.168.1.2-allowed-ipv4'' ''permit'' ''192.170.1.0/22'' \<and>
   seqNo (frr_tmpl oneNeighborConfig) 4 < seqNo (frr_tmpl oneNeighborConfig) 6"
proof -
  obtain items where items: "frr_tmpl oneNeighborConfig = [Text (globalLines oneNeighborConfig), Text ''\<newline>'', Text ''\<newline>\<newline>'',
    Text ''\<newline>'', PrefixListSeq ''ip'' ''192.168.1.2-allowed-ipv4'' ''permit'' ''192.169.1.0/24'',
    Text ''\<newline>'', PrefixListSeq ''ip'' ''192.168.1.2-allowed-ipv4'' ''permit'' ''192.170.1.0/22''] @ items"
    by (rule oneNeighbor_items)
  have "seqNo (frr_tmpl oneNeighborConfig) 4 < seqNo (frr_tmpl oneNeighborConfig) 6"
    by (rule sequence_numbers_increase [THEN conjunct2, rule_format]) (simp_all add: items)
  then show ?thesis by (simp add: items)
qed

end
