(* ===== verification/Debounce.thy ===== *)
theory Debounce
  imports Prelude
begin

text \<open>
  The debouncer of \<^verbatim>\<open>internal/frr/config.go\<close>: it squashes the configurations it receives within an interval
  into one call of its body and retries a failed call. The two branches of its select loop that change
  state are functions; \<open>debStep\<close> is the loop with its clock, its log of calls and its environment. A timer
  that is due is taken before time goes on.

  The configuration type is a parameter, and so is \<^verbatim>\<open>reflect.DeepEqual\<close>, because it tells a nil slice from an
  empty one and the lists of the model do not: what the loop relies on is that deeply equal
  configurations are equal.
\<close>

section \<open>The two branches of the loop\<close>

record 'c reloadEvent =
  re_config :: "'c option"
  re_useOld :: bool

record 'c debouncer =
  db_config :: "'c option"
  db_timeOut :: "nat option"
  db_timerSet :: bool

definition debouncerInit :: "'c debouncer" where
  "debouncerInit = \<lparr>db_config = None, db_timeOut = None, db_timerSet = False\<rparr>"

definition receiveReload ::
  "('c option \<Rightarrow> 'c option \<Rightarrow> bool) \<Rightarrow> nat \<Rightarrow> nat \<Rightarrow> 'c reloadEvent \<Rightarrow> 'c debouncer \<Rightarrow> 'c debouncer"
where
  "receiveReload deepEqual reloadInterval now newCfg s =
     (if re_useOld newCfg \<and> db_config s = None then s
      else if \<not> re_useOld newCfg \<and> deepEqual (re_config newCfg) (db_config s) then s
      else
        let s = (if \<not> re_useOld newCfg then s\<lparr>db_config := re_config newCfg\<rparr> else s) in
        if \<not> db_timerSet s then s\<lparr>db_timeOut := Some (now + reloadInterval), db_timerSet := True\<rparr> else s)"

definition timerFired :: "nat \<Rightarrow> nat \<Rightarrow> bool \<Rightarrow> 'c debouncer \<Rightarrow> 'c debouncer" where
  "timerFired failureRetryInterval now ok s =
     (if \<not> ok then s\<lparr>db_timeOut := Some (now + failureRetryInterval), db_timerSet := True\<rparr>
      else s\<lparr>db_timeOut := None, db_timerSet := False\<rparr>)"

section \<open>The loop and its environment\<close>

record 'c debWorld =
  dw_now :: nat
  dw_deb :: "'c debouncer"
  dw_latest :: "'c option"
  dw_calls :: "(nat \<times> 'c option \<times> bool) list"
  dw_stopped :: bool

definition debWorldInit :: "'c debWorld" where
  "debWorldInit = \<lparr>dw_now = 0, dw_deb = debouncerInit, dw_latest = None, dw_calls = [], dw_stopped = False\<rparr>"

datatype 'c debLabel = Receive "'c reloadEvent" | Fire bool | Tick | Stop

inductive debStep ::
  "('c option \<Rightarrow> 'c option \<Rightarrow> bool) \<Rightarrow> nat \<Rightarrow> nat \<Rightarrow> 'c debWorld \<Rightarrow> 'c debLabel \<Rightarrow> 'c debWorld \<Rightarrow> bool"
for deepEqual reloadInterval failureRetryInterval where
  receive:
    "\<not> dw_stopped w \<Longrightarrow> re_useOld ev \<or> re_config ev \<noteq> None \<Longrightarrow>
     debStep deepEqual reloadInterval failureRetryInterval w (Receive ev)
       (w\<lparr>dw_deb := receiveReload deepEqual reloadInterval (dw_now w) ev (dw_deb w),
          dw_latest := (if re_useOld ev then dw_latest w else re_config ev)\<rparr>)"
| fire:
    "\<not> dw_stopped w \<Longrightarrow> db_timeOut (dw_deb w) = Some d \<Longrightarrow> d \<le> dw_now w \<Longrightarrow>
     debStep deepEqual reloadInterval failureRetryInterval w (Fire ok)
       (w\<lparr>dw_deb := timerFired failureRetryInterval (dw_now w) ok (dw_deb w),
          dw_calls := dw_calls w @ [(dw_now w, db_config (dw_deb w), ok)]\<rparr>)"
| tick:
    "(\<And>d. db_timeOut (dw_deb w) = Some d \<Longrightarrow> \<not> dw_stopped w \<Longrightarrow> dw_now w < d) \<Longrightarrow>
     debStep deepEqual reloadInterval failureRetryInterval w Tick (w\<lparr>dw_now := Suc (dw_now w)\<rparr>)"
| stop:
    "debStep deepEqual reloadInterval failureRetryInterval w Stop (w\<lparr>dw_stopped := True\<rparr>)"

inductive debRun ::
  "('c option \<Rightarrow> 'c option \<Rightarrow> bool) \<Rightarrow> nat \<Rightarrow> nat \<Rightarrow> 'c debWorld \<Rightarrow> 'c debLabel list \<Rightarrow> 'c debWorld \<Rightarrow> bool"
for deepEqual reloadInterval failureRetryInterval where
  nil: "debRun deepEqual reloadInterval failureRetryInterval w [] w"
| snoc: "debRun deepEqual reloadInterval failureRetryInterval w ls w' \<Longrightarrow>
    debStep deepEqual reloadInterval failureRetryInterval w' l w'' \<Longrightarrow>
    debRun deepEqual reloadInterval failureRetryInterval w (ls @ [l]) w''"

inductive_cases debStep_Receive: "debStep eq r f w (Receive ev) w'"
inductive_cases debStep_Fire: "debStep eq r f w (Fire ok) w'"
inductive_cases debStep_Tick: "debStep eq r f w Tick w'"
inductive_cases debStep_Stop: "debStep eq r f w Stop w'"

inductive_simps debRun_snoc: "debRun eq r f w (ls @ [l]) w'"
inductive_simps debRun_Nil: "debRun eq r f w [] w'"

section \<open>Invariant\<close>

text \<open>
  The timer flag says whether a timer is running; the configuration is the latest one received; the timer is
  never overdue nor further away than the longer interval; without a timer the latest configuration is the
  one of the last call, which succeeded; calls are at least the shorter interval apart.
\<close>

definition callsSpaced :: "nat \<Rightarrow> (nat \<times> 'c option \<times> bool) list \<Rightarrow> bool" where
  "callsSpaced gap cs \<longleftrightarrow> sorted_wrt (\<lambda>a b. fst a + gap \<le> fst b) cs"

definition debInv :: "nat \<Rightarrow> nat \<Rightarrow> 'c debWorld \<Rightarrow> bool" where
  "debInv r f w \<longleftrightarrow>
     db_config (dw_deb w) = dw_latest w \<and>
     (db_timerSet (dw_deb w) \<longleftrightarrow> db_timeOut (dw_deb w) \<noteq> None) \<and>
     (db_timerSet (dw_deb w) \<longrightarrow> dw_latest w \<noteq> None) \<and>
     (\<forall>d. db_timeOut (dw_deb w) = Some d \<longrightarrow> d \<le> dw_now w + max r f \<and> (\<not> dw_stopped w \<longrightarrow> dw_now w \<le> d)) \<and>
     (\<not> db_timerSet (dw_deb w) \<and> dw_latest w \<noteq> None \<longrightarrow>
        dw_calls w \<noteq> [] \<and> snd (last (dw_calls w)) = (dw_latest w, True)) \<and>
     (\<forall>c\<in>set (dw_calls w). fst c \<le> dw_now w \<and> fst (snd c) \<noteq> None) \<and>
     (\<forall>d. db_timeOut (dw_deb w) = Some d \<longrightarrow> (\<forall>c\<in>set (dw_calls w). fst c + min r f \<le> d)) \<and>
     callsSpaced (min r f) (dw_calls w)"

lemma debInv_init: "debInv r f debWorldInit"
  by (simp add: debInv_def debWorldInit_def debouncerInit_def callsSpaced_def)

lemma debInv_receive:
  assumes "\<And>a b. eq a b \<Longrightarrow> a = b" "debInv r f w" "\<not> dw_stopped w" "re_useOld ev \<or> re_config ev \<noteq> None"
  shows "debInv r f (w\<lparr>dw_deb := receiveReload eq r (dw_now w) ev (dw_deb w),
          dw_latest := (if re_useOld ev then dw_latest w else re_config ev)\<rparr>)"
proof -
  consider (old_nil) "re_useOld ev" "dw_latest w = None"
    | (old) "re_useOld ev" "dw_latest w \<noteq> None"
    | (same) "\<not> re_useOld ev" "eq (re_config ev) (db_config (dw_deb w))"
    | (new) "\<not> re_useOld ev" "\<not> eq (re_config ev) (db_config (dw_deb w))"
    by blast
  then show ?thesis
  proof cases
    case same
    then have "re_config ev = dw_latest w" using assms(1,2) by (auto simp: debInv_def)
    then show ?thesis using same assms(2) by (simp add: receiveReload_def)
  qed (use assms(2-4) in \<open>auto simp: debInv_def receiveReload_def Let_def\<close>)
qed

lemma debInv_fire:
  assumes "debInv r f w" "\<not> dw_stopped w" "db_timeOut (dw_deb w) = Some d" "d \<le> dw_now w"
  shows "debInv r f (w\<lparr>dw_deb := timerFired f (dw_now w) ok (dw_deb w),
          dw_calls := dw_calls w @ [(dw_now w, db_config (dw_deb w), ok)]\<rparr>)"
proof -
  have "d = dw_now w" "db_timerSet (dw_deb w)" using assms by (auto simp: debInv_def)
  then show ?thesis
    using assms by (auto simp: debInv_def timerFired_def callsSpaced_def sorted_wrt_append)
qed

lemma debInv_step:
  assumes "debStep eq r f w l w'" "\<And>a b. eq a b \<Longrightarrow> a = b" "debInv r f w"
  shows "debInv r f w'"
  using assms(1)
proof cases
  case (receive ev)
  then show ?thesis using debInv_receive [OF assms(2,3)] by simp
next
  case (fire d ok)
  then show ?thesis using debInv_fire [OF assms(3)] by simp
next
  case tick
  then show ?thesis using assms(3) by (fastforce simp: debInv_def)
next
  case stop
  then show ?thesis using assms(3) by (auto simp: debInv_def)
qed

lemma debInv_run:
  "debRun eq r f w ls w' \<Longrightarrow> (\<And>a b. eq a b \<Longrightarrow> a = b) \<Longrightarrow> debInv r f w \<Longrightarrow> debInv r f w'"
  by (induction rule: debRun.induct) (auto intro: debInv_step)

section \<open>Properties of the debouncer\<close>

text \<open>
  In every run of the debouncer, a call of its body gets the latest configuration received; and when no
  timer is running, the latest configuration received is the one of the last call, and that call succeeded.
\<close>

theorem debouncer_applies_latest:
  assumes "\<And>a b. deepEqual a b \<Longrightarrow> a = b" "debRun deepEqual r f debWorldInit ls w"
    and "debStep deepEqual r f w (Fire ok) w'"
  shows "last (dw_calls w') = (dw_now w, dw_latest w, ok) \<and> dw_latest w \<noteq> None \<and>
    (\<not> db_timerSet (dw_deb w') \<longrightarrow> ok \<and> snd (last (dw_calls w')) = (dw_latest w', True))"
proof -
  have inv: "debInv r f w" "debInv r f w'"
    using debInv_run [OF assms(2,1) debInv_init] debInv_step [OF assms(3,1)] by auto
  show ?thesis
    using assms(3) inv by (elim debStep_Fire) (auto simp: debInv_def timerFired_def)
qed

lemma quiet_run:
  "debRun eq r f w ls w' \<Longrightarrow> \<forall>l\<in>set ls. l = Fire True \<or> l = Tick \<Longrightarrow>
   dw_latest w' = dw_latest w \<and> dw_stopped w' = dw_stopped w \<and>
   (db_timeOut (dw_deb w') = None \<or> db_timeOut (dw_deb w') = db_timeOut (dw_deb w))"
proof (induction rule: debRun.induct)
  case (snoc w ls w' l w'')
  then have IH: "dw_latest w' = dw_latest w" "dw_stopped w' = dw_stopped w"
    "db_timeOut (dw_deb w') = None \<or> db_timeOut (dw_deb w') = db_timeOut (dw_deb w)"
    and l: "l = Fire True \<or> l = Tick" by auto
  from l show ?case
  proof
    assume "l = Fire True"
    then show ?thesis using snoc.hyps(2) IH by (auto elim!: debStep_Fire simp: timerFired_def)
  next
    assume "l = Tick"
    then show ?thesis using snoc.hyps(2) IH by (auto elim!: debStep_Tick)
  qed
qed simp

lemma quiet_converges:
  assumes "\<And>a b. deepEqual a b \<Longrightarrow> a = b" "debInv r f w" "\<not> dw_stopped w" "dw_latest w = Some c"
    and "debRun deepEqual r f w ms w'" "\<forall>l\<in>set ms. l = Fire True \<or> l = Tick" "dw_now w + max r f < dw_now w'"
  shows "\<not> db_timerSet (dw_deb w') \<and> dw_calls w' \<noteq> [] \<and> snd (last (dw_calls w')) = (Some c, True)"
proof -
  have inv: "debInv r f w'" using debInv_run [OF assms(5,1,2)] .
  have q: "dw_latest w' = Some c" "\<not> dw_stopped w'"
    "db_timeOut (dw_deb w') = None \<or> db_timeOut (dw_deb w') = db_timeOut (dw_deb w)"
    using quiet_run [OF assms(5,6)] assms(3,4) by auto
  have "db_timeOut (dw_deb w') = None"
  proof (rule ccontr)
    assume "db_timeOut (dw_deb w') \<noteq> None"
    then obtain d where "db_timeOut (dw_deb w') = Some d" "db_timeOut (dw_deb w) = Some d" using q(3) by auto
    then have "d \<le> dw_now w + max r f" "dw_now w' \<le> d" using inv assms(2) q(2) by (auto simp: debInv_def)
    then show False using assms(7) by simp
  qed
  then show ?thesis using inv q(1) by (auto simp: debInv_def)
qed

text \<open>
  C6: The debouncer converges: from any state it reaches with a configuration received, once the environment
  sends nothing more and calls succeed, as soon as the clock has advanced past the longer of the two
  intervals no timer is running and the last call was a successful one with that configuration.
\<close>

theorem debouncer_converges:
  assumes "\<And>a b. deepEqual a b \<Longrightarrow> a = b" "debRun deepEqual r f debWorldInit ls w"
    and "\<not> dw_stopped w" "dw_latest w = Some c"
    and "debRun deepEqual r f w ms w'" "\<forall>l\<in>set ms. l = Fire True \<or> l = Tick" "dw_now w + max r f < dw_now w'"
  shows "\<not> db_timerSet (dw_deb w') \<and> dw_calls w' \<noteq> [] \<and> snd (last (dw_calls w')) = (Some c, True)"
  by (rule quiet_converges [OF assms(1) debInv_run [OF assms(2,1) debInv_init] assms(3-7)])

text \<open>Waiting for the timer, and how often it can fire when calls succeed.\<close>

lemma tick_run:
  "db_timeOut (dw_deb w) = Some d \<Longrightarrow> dw_now w + k \<le> d \<Longrightarrow>
   debRun eq r f w (replicate k Tick) (w\<lparr>dw_now := dw_now w + k\<rparr>)"
proof (induction k)
  case (Suc k)
  have "debStep eq r f (w\<lparr>dw_now := dw_now w + k\<rparr>) Tick
      ((w\<lparr>dw_now := dw_now w + k\<rparr>)\<lparr>dw_now := Suc (dw_now (w\<lparr>dw_now := dw_now w + k\<rparr>))\<rparr>)"
    by (rule debStep.tick) (use Suc.prems in simp)
  then show ?case
    using debRun.snoc [OF Suc.IH] Suc.prems by (simp add: replicate_append_same [symmetric])
qed (simp add: debRun.nil)

lemma quiet_fires:
  "debRun eq r f w ms w' \<Longrightarrow> \<forall>l\<in>set ms. l = Fire True \<or> l = Tick \<Longrightarrow>
   length (filter (\<lambda>l. l = Fire True) ms) + (if db_timeOut (dw_deb w') = None then 0 else 1) \<le>
     (if db_timeOut (dw_deb w) = None then 0 else 1)"
proof (induction rule: debRun.induct)
  case (snoc w ls w' l w'')
  then have IH: "length (filter (\<lambda>l. l = Fire True) ls) + (if db_timeOut (dw_deb w') = None then 0 else 1) \<le>
     (if db_timeOut (dw_deb w) = None then 0 else 1)" and l: "l = Fire True \<or> l = Tick" by auto
  from l snoc.hyps(2) have "l = Fire True \<and> db_timeOut (dw_deb w') \<noteq> None \<and> db_timeOut (dw_deb w'') = None \<or>
      l = Tick \<and> db_timeOut (dw_deb w'') = db_timeOut (dw_deb w')"
    by (auto elim!: debStep_Fire debStep_Tick simp: timerFired_def)
  then show ?case using IH by (auto split: if_splits)
qed simp

lemma settling_run:
  assumes "debInv r f w" "\<not> dw_stopped w"
  shows "\<exists>ms w'. debRun eq r f w ms w' \<and> (\<forall>l\<in>set ms. l = Fire True \<or> l = Tick) \<and> length ms \<le> max r f + 1 \<and>
    \<not> db_timerSet (dw_deb w')"
proof (cases "db_timeOut (dw_deb w)")
  case None
  then have "\<not> db_timerSet (dw_deb w)" using assms(1) by (simp add: debInv_def)
  then show ?thesis by (intro exI [of _ "[]"] exI [of _ w]) (simp add: debRun.nil)
next
  case (Some d)
  let ?k = "d - dw_now w"
  let ?w = "w\<lparr>dw_now := dw_now w + ?k\<rparr>"
  have d: "dw_now w \<le> d" "d \<le> dw_now w + max r f" using assms Some by (auto simp: debInv_def)
  have "debStep eq r f ?w (Fire True) (?w\<lparr>dw_deb := timerFired f (dw_now ?w) True (dw_deb ?w),
      dw_calls := dw_calls ?w @ [(dw_now ?w, db_config (dw_deb ?w), True)]\<rparr>)"
    by (rule debStep.fire [where d = d]) (use Some d assms(2) in simp_all)
  from debRun.snoc [OF tick_run [OF Some] this] show ?thesis
    using d by (intro exI conjI) (assumption | auto simp: timerFired_def)+
qed

text \<open>
  C7: The debouncer comes to rest: from any state it reaches before it is stopped, waiting and letting the calls
  succeed stops the timer within as many steps as the longer interval has instants and one more, and no
  sequence of such steps calls the body more than once, however long it is.
\<close>

theorem debouncer_settles:
  assumes "\<And>a b. deepEqual a b \<Longrightarrow> a = b" "debRun deepEqual r f debWorldInit ls w" "\<not> dw_stopped w"
  shows "(\<exists>ms w'. debRun deepEqual r f w ms w' \<and> (\<forall>l\<in>set ms. l = Fire True \<or> l = Tick) \<and> length ms \<le> max r f + 1 \<and>
      \<not> db_timerSet (dw_deb w')) \<and>
    (\<forall>ms w'. debRun deepEqual r f w ms w' \<longrightarrow> (\<forall>l\<in>set ms. l = Fire True \<or> l = Tick) \<longrightarrow>
      length (filter (\<lambda>l. l = Fire True) ms) \<le> 1)"
proof -
  have "length (filter (\<lambda>l. l = Fire True) ms) \<le> 1"
    if "debRun deepEqual r f w ms w'" "\<forall>l\<in>set ms. l = Fire True \<or> l = Tick" for ms w'
    using quiet_fires [OF that] by (simp split: if_splits)
  then show ?thesis using settling_run [OF debInv_run [OF assms(2,1) debInv_init] assms(3)] by blast
qed

text \<open>
  C8: Two calls of the body are at least the shorter of the two intervals apart, however many configurations
  arrive, and a running timer is never further away than the longer one.
\<close>

theorem debouncer_rate_limited:
  assumes "\<And>a b. deepEqual a b \<Longrightarrow> a = b" "debRun deepEqual r f debWorldInit ls w"
    and "i < j" "j < length (dw_calls w)"
  shows "fst (dw_calls w ! i) + min r f \<le> fst (dw_calls w ! j) \<and>
    (\<forall>d. db_timeOut (dw_deb w) = Some d \<longrightarrow> d \<le> dw_now w + max r f)"
proof -
  have "debInv r f w" using debInv_run [OF assms(2,1) debInv_init] .
  then show ?thesis using assms(3,4) by (auto simp: debInv_def callsSpaced_def sorted_wrt_iff_nth_less)
qed

text \<open>
  A run: two configurations arrive within the interval, the first call fails and the retry succeeds. The
  relation is followed by the executable function \<open>debExec\<close>.
\<close>

fun debExec :: "nat \<Rightarrow> nat \<Rightarrow> 'c debLabel \<Rightarrow> 'c debWorld \<Rightarrow> 'c debWorld option" where
  "debExec r f (Receive ev) w =
     (if \<not> dw_stopped w \<and> (re_useOld ev \<or> re_config ev \<noteq> None)
      then Some (w\<lparr>dw_deb := receiveReload (=) r (dw_now w) ev (dw_deb w),
             dw_latest := (if re_useOld ev then dw_latest w else re_config ev)\<rparr>) else None)"
| "debExec r f (Fire ok) w =
     (case db_timeOut (dw_deb w) of
        None \<Rightarrow> None
      | Some d \<Rightarrow> if \<not> dw_stopped w \<and> d \<le> dw_now w
          then Some (w\<lparr>dw_deb := timerFired f (dw_now w) ok (dw_deb w),
                 dw_calls := dw_calls w @ [(dw_now w, db_config (dw_deb w), ok)]\<rparr>) else None)"
| "debExec r f Tick w =
     (if dw_stopped w \<or> db_timeOut (dw_deb w) = None \<or> dw_now w < the (db_timeOut (dw_deb w))
      then Some (w\<lparr>dw_now := Suc (dw_now w)\<rparr>) else None)"
| "debExec r f Stop w = Some (w\<lparr>dw_stopped := True\<rparr>)"

lemma if_Some_iff: "(if P then Some x else None) = Some y \<longleftrightarrow> P \<and> y = x"
  by auto

lemma debExec_step:
  assumes "debExec r f l w = Some w'"
  shows "debStep (=) r f w l w'"
proof (cases l)
  case (Receive ev)
  then show ?thesis using assms by (simp only: debExec.simps if_Some_iff) (blast intro: debStep.receive)
qed (use assms in \<open>auto intro!: debStep.intros split: if_splits option.splits\<close>)

lemma debExec_run:
  assumes "foldl (\<lambda>st l. Option.bind st (debExec r f l)) (Some w) ls = Some w'"
  shows "debRun (=) r f w ls w'"
  using assms
proof (induction ls arbitrary: w' rule: rev_induct)
  case (snoc l ls)
  then obtain w1 where "foldl (\<lambda>st l. Option.bind st (debExec r f l)) (Some w) ls = Some w1" "debExec r f l w1 = Some w'"
    by (auto simp: bind_eq_Some_conv)
  then show ?case using snoc.IH debExec_step by (metis debRun.snoc)
qed (simp add: debRun.nil)

definition sampleRun :: "nat debLabel list" where
  "sampleRun = [Receive \<lparr>re_config = Some 1, re_useOld = False\<rparr>, Tick, Receive \<lparr>re_config = Some 2, re_useOld = False\<rparr>,
     Tick, Fire False, Tick, Tick, Tick]"

definition sampleWorld :: "nat debWorld" where
  "sampleWorld = the (foldl (\<lambda>st l. Option.bind st (debExec 2 3 l)) (Some debWorldInit) sampleRun)"

definition sampleQuiet :: "nat debLabel list" where
  "sampleQuiet = Fire True # replicate 4 Tick"

definition sampleFinal :: "nat debWorld" where
  "sampleFinal = the (foldl (\<lambda>st l. Option.bind st (debExec 2 3 l)) (Some sampleWorld) sampleQuiet)"

lemma sample_run: "debRun (=) 2 3 debWorldInit sampleRun sampleWorld"
  by (rule debExec_run) code_simp

lemma sample_quiet: "debRun (=) 2 3 sampleWorld sampleQuiet sampleFinal"
  by (rule debExec_run) code_simp

theorem debouncer_applies_latest_witness:
  "last (dw_calls (the (debExec 2 3 (Fire True) sampleWorld))) = (5, Some 2, True)"
proof -
  have step: "debStep (=) 2 3 sampleWorld (Fire True) (the (debExec 2 3 (Fire True) sampleWorld))"
    by (rule debExec_step) code_simp
  have "dw_now sampleWorld = 5" "dw_latest sampleWorld = Some 2" by code_simp+
  then show ?thesis using debouncer_applies_latest [OF _ sample_run step] by simp
qed

theorem debouncer_converges_witness:
  "dw_calls sampleFinal = [(2, Some 2, False), (5, Some 2, True)] \<and> \<not> db_timerSet (dw_deb sampleFinal)"
proof -
  have "\<not> dw_stopped sampleWorld" "dw_latest sampleWorld = Some 2" "\<forall>l\<in>set sampleQuiet. l = Fire True \<or> l = Tick"
    "dw_now sampleWorld + max 2 3 < dw_now sampleFinal" "dw_calls sampleFinal = [(2, Some 2, False), (5, Some 2, True)]"
    by code_simp+
  then show ?thesis using debouncer_converges [OF _ sample_run _ _ sample_quiet] by blast
qed

theorem debouncer_settles_witness:
  "(\<exists>ms w'. debRun (=) 2 3 sampleWorld ms w' \<and> length ms \<le> 4 \<and> \<not> db_timerSet (dw_deb w')) \<and>
   length (filter (\<lambda>l. l = Fire True) sampleQuiet) \<le> 1"
proof -
  have live: "\<not> dw_stopped sampleWorld" "\<forall>l\<in>set sampleQuiet. l = Fire True \<or> l = Tick" by code_simp+
  show ?thesis
    using debouncer_settles [OF _ sample_run live(1)] sample_quiet live(2) by auto
qed

theorem debouncer_rate_limited_witness:
  "fst (dw_calls sampleFinal ! 0) + min 2 3 \<le> fst (dw_calls sampleFinal ! 1)"
proof -
  have run: "debRun (=) 2 3 debWorldInit (sampleRun @ sampleQuiet) sampleFinal"
    by (rule debExec_run) code_simp
  have "length (dw_calls sampleFinal) = 2" by code_simp
  then show ?thesis using debouncer_rate_limited [OF _ run, of 0 1] by simp
qed

end
