(* ===== verification/Frr_Daemon.thy ===== *)
theory Frr_Daemon
  imports Templates Debounce
begin

text \<open>
  The bridge to the FRR daemon (\<^verbatim>\<open>internal/frr/frr.go\<close> and the end of \<^verbatim>\<open>internal/frr/config.go\<close>):
  \<open>ApplyConfig\<close> completes a configuration and sends it to the debouncer, whose body writes the file and
  signals the reloader; the poller reads the files the reloader leaves and asks for another reload when the
  last one failed. What the operating system answers is an argument: the host name, the interface
  addresses, environment variables, file contents and the outcome of writing and signalling.
\<close>

section \<open>The operating system\<close>

datatype fileError = NotExist | OtherFileError string

definition fileErr :: "fileError \<Rightarrow> error" where
  "fileErr e = (case e of NotExist \<Rightarrow> Errorf ''file does not exist'' [] | OtherFileError m \<Rightarrow> Errorf m [])"

record osState =
  os_lookupEnv :: "string \<Rightarrow> string option"
  os_readFile :: "string \<Rightarrow> (fileError, string) result"
  os_writeFile :: "string \<Rightarrow> string \<Rightarrow> (error, unit) result"
  os_kill :: "int \<Rightarrow> (error, unit) result"

datatype osCall = WriteFile string string | SigHup int

section \<open>Applying a configuration\<close>

record frrStatus =
  st_updateTime :: string
  st_Current :: string
  st_LastReloadResult :: string

record FRR =
  frr_Status :: frrStatus
  frr_fallbackRouterID :: string

definition ReloadSuccess :: string where "ReloadSuccess = ''success''"

definition fillRouterID :: "string \<Rightarrow> RouterConfig \<Rightarrow> RouterConfig" where
  "fillRouterID fallback r = (if rc_RouterID r = '''' then r\<lparr>rc_RouterID := fallback\<rparr> else r)"

definition ApplyConfig :: "(error, string) result \<Rightarrow> FRR \<Rightarrow> Config \<Rightarrow> (error, Config reloadEvent) result" where
  "ApplyConfig osHostname f config =
     bindE osHostname (\<lambda>hostname.
     let config = config\<lparr>cf_Hostname := hostname\<rparr>;
         config = (if frr_fallbackRouterID f \<noteq> ''''
                   then config\<lparr>cf_Routers := map (fillRouterID (frr_fallbackRouterID f)) (cf_Routers config)\<rparr>
                   else config) in
     Inr \<lparr>re_config = Some config, re_useOld = False\<rparr>)"

section \<open>The fallback router identifier\<close>

datatype netAddr = IPNetAddr IPNet | OtherAddr

fun isIPv4Addr :: "netAddr \<Rightarrow> bool" where
  "isIPv4Addr (IPNetAddr n) = (To4 (net_IP n) \<noteq> None)"
| "isIPv4Addr OtherAddr = False"

definition hasIPv4Address :: "(error, netAddr list) result \<Rightarrow> bool" where
  "hasIPv4Address netInterfaceAddrs =
     (case netInterfaceAddrs of Inl _ \<Rightarrow> False | Inr addrs \<Rightarrow> list_ex isIPv4Addr addrs)"

text \<open>\<^verbatim>\<open>hash/crc32\<close> with the IEEE polynomial, one bit at a time.\<close>

definition crcBit :: "uint32 \<Rightarrow> uint32" where
  "crcBit c = (if bit c 0 then drop_bit 1 c XOR 0xEDB88320 else drop_bit 1 c)"

fun crcBits :: "nat \<Rightarrow> uint32 \<Rightarrow> uint32" where
  "crcBits 0 c = c"
| "crcBits (Suc n) c = crcBits n (crcBit c)"

definition crcByte :: "uint32 \<Rightarrow> char \<Rightarrow> uint32" where
  "crcByte c b = crcBits 8 (c XOR of_nat (byteVal b))"

definition ChecksumIEEE :: "string \<Rightarrow> uint32" where
  "ChecksumIEEE s = NOT (foldl crcByte (NOT 0) s)"

definition putUint32LE :: "uint32 \<Rightarrow> uint8 list" where
  "putUint32LE w = map (\<lambda>i. ucast (drop_bit (8 * i) w)) [0, 1, 2, 3]"

definition hashRouterID :: "(error, string) result \<Rightarrow> (error, string) result" where
  "hashRouterID osHostname = bindE osHostname (\<lambda>hostname. Inr (string4 (putUint32LE (ChecksumIEEE hostname))))"

definition NewFRR :: "(error, netAddr list) result \<Rightarrow> (error, string) result \<Rightarrow> (error, FRR) result" where
  "NewFRR netInterfaceAddrs osHostname =
     (let res = \<lparr>frr_Status = \<lparr>st_updateTime = '''', st_Current = '''', st_LastReloadResult = ''''\<rparr>,
                 frr_fallbackRouterID = ''''\<rparr> in
      if \<not> hasIPv4Address netInterfaceAddrs then
        bindE (mapErr (\<lambda>e. Errorf ''failed to generate fallback router-id: %w'' [AErr e]) (hashRouterID osHostname))
          (\<lambda>routerID. Inr (res\<lparr>frr_fallbackRouterID := routerID\<rparr>))
      else Inr res)"

section \<open>Writing the file and signalling the reloader\<close>

definition writeConfig :: "osState \<Rightarrow> string \<Rightarrow> string \<Rightarrow> (error, unit) result \<times> osCall list" where
  "writeConfig sys config filename = (os_writeFile sys filename config, [WriteFile filename config])"

text \<open>\<^verbatim>\<open>strconv.Atoi\<close> on a 64-bit platform: an optional sign and digits, within the range of \<^verbatim>\<open>int\<close>.\<close>

definition Atoi :: "string \<Rightarrow> (error, int) result" where
  "Atoi s =
     (let neg = (hasPrefix s ''-''); d = (if hasPrefix s ''-'' \<or> hasPrefix s ''+'' then tl s else s) in
      if d = '''' \<or> \<not> list_all isDigit d then Inl (Errorf ''strconv.Atoi: parsing %q: invalid syntax'' [AStr s])
      else if \<not> neg \<and> decVal d \<ge> 2 ^ 63 \<or> neg \<and> decVal d > 2 ^ 63 then
        Inl (Errorf ''strconv.Atoi: parsing %q: value out of range'' [AStr s])
      else Inr (if neg then - int (decVal d) else int (decVal d)))"

definition reloadConfig :: "osState \<Rightarrow> string \<Rightarrow> (error, unit) result \<times> osCall list" where
  "reloadConfig sys reloaderPidFileName =
     (let fileName = (case os_lookupEnv sys ''FRR_RELOADER_PID_FILE'' of None \<Rightarrow> reloaderPidFileName | Some v \<Rightarrow> v) in
      case os_readFile sys fileName of
        Inl e \<Rightarrow> (Inl (fileErr e), [])
      | Inr pid \<Rightarrow>
          (case Atoi pid of
             Inl e \<Rightarrow> (Inl e, [])
           | Inr pidInt \<Rightarrow> (os_kill sys pidInt, [SigHup pidInt])))"

definition generateAndReloadConfigFile ::
  "osState \<Rightarrow> string \<Rightarrow> string \<Rightarrow> Config \<Rightarrow> (error, unit) result \<times> osCall list"
where
  "generateAndReloadConfigFile sys configFileName reloaderPidFileName config =
     (let filename = (case os_lookupEnv sys ''FRR_CONFIG_FILE'' of None \<Rightarrow> configFileName | Some v \<Rightarrow> v) in
      case templateConfig config of
        Inl e \<Rightarrow> (Inl e, [])
      | Inr rendered \<Rightarrow>
          (case writeConfig sys rendered filename of
             (Inl e, calls) \<Rightarrow> (Inl e, calls)
           | (Inr _, calls) \<Rightarrow>
               (case reloadConfig sys reloaderPidFileName of (res, calls') \<Rightarrow> (res, calls @ calls'))))"

section \<open>The status of the last reload\<close>

definition isSpace :: "char \<Rightarrow> bool" where
  "isSpace c \<longleftrightarrow> c \<in> {CHR '' '', CHR 0x09, CHR 0x0A, CHR 0x0B, CHR 0x0C, CHR 0x0D}"

text \<open>\<^verbatim>\<open>strings.Fields\<close> for text whose only white space is ASCII.\<close>

function stringsFields :: "string \<Rightarrow> string list" where
  "stringsFields [] = []"
| "stringsFields (c # s) =
     (if isSpace c then stringsFields s
      else (c # takeWhile (\<lambda>c. \<not> isSpace c) s) # stringsFields (dropWhile (\<lambda>c. \<not> isSpace c) s))"
  by pat_completeness auto

termination stringsFields
  by (relation "measure length") (auto simp: le_imp_less_Suc length_dropWhile_le)

definition statusFileName :: string where "statusFileName = ''/etc/frr_reloader/.status''"

definition runningConfig :: string where "runningConfig = ''/etc/frr_reloader/running-config''"

definition lastAppliedResult :: string where "lastAppliedResult = ''/etc/frr_reloader/last-error''"

definition readLastReloadResult :: "osState \<Rightarrow> (error, string \<times> string) result" where
  "readLastReloadResult sys =
     (case os_readFile sys statusFileName of
        Inl e \<Rightarrow> Inl (Errorf ''failed to read status file: %w'' [AErr (fileErr e)])
      | Inr bytes \<Rightarrow>
          (case stringsFields bytes of
             [timeStamp, status] \<Rightarrow> Inr (timeStamp, status)
           | _ \<Rightarrow> Inl (Errorf ''invalid status file format: %s'' [AStr bytes])))"

text \<open>A file that does not exist reads as empty.\<close>

definition readOptional :: "osState \<Rightarrow> string \<Rightarrow> string \<Rightarrow> (error, string) result" where
  "readOptional sys file msg =
     (case os_readFile sys file of
        Inl NotExist \<Rightarrow> Inr ''''
      | Inl e \<Rightarrow> Inl (Errorf msg [AErr (fileErr e)])
      | Inr bytes \<Rightarrow> Inr bytes)"

definition fetchStatus :: "osState \<Rightarrow> (error, frrStatus) result" where
  "fetchStatus sys =
     bindE (mapErr (\<lambda>e. Errorf ''failed to read status file: %w'' [AErr e]) (readLastReloadResult sys))
       (\<lambda>(timeStamp, status).
     bindE (readOptional sys lastAppliedResult ''failed to read last error file: %w'') (\<lambda>lastError.
     bindE (readOptional sys runningConfig ''failed to read running config file: %w'') (\<lambda>running.
     Inr \<lparr>st_updateTime = timeStamp, st_Current = running,
          st_LastReloadResult = (if \<not> containsStr status ''failure'' then ReloadSuccess else lastError)\<rparr>)))"

text \<open>
  One tick of \<^verbatim>\<open>pollStatus\<close>: the events sent to the debouncer, the new status and whether the callback ran.
\<close>

definition pollTick :: "(error, frrStatus) result \<Rightarrow> FRR \<Rightarrow> Config reloadEvent list \<times> FRR \<times> bool" where
  "pollTick fetched f =
     (case fetched of
        Inl _ \<Rightarrow> ([], f, False)
      | Inr status \<Rightarrow>
          if st_updateTime status = st_updateTime (frr_Status f) then ([], f, False)
          else
            ((if st_LastReloadResult status \<noteq> ReloadSuccess then [\<lparr>re_config = None, re_useOld = True\<rparr>] else []),
             f\<lparr>frr_Status := status\<rparr>, True))"

section \<open>Router identifiers\<close>

lemma length_putUint32LE [simp]: "length (putUint32LE w) = 4"
  by (simp add: putUint32LE_def)

text \<open>The check value of the CRC-32 algorithm.\<close>

lemma crcBits_numeral: "crcBits (numeral k) c = crcBits (pred_numeral k) (crcBit c)"
  by (simp add: numeral_eq_Suc)

lemmas crc_eval = ChecksumIEEE_def crcByte_def crcBit_def crcBits_numeral byteVal_def

lemma ChecksumIEEE_check: "ChecksumIEEE ''123456789'' = 0xCBF43926"
  by (simp add: crc_eval)

text \<open>
  C25: A host without an IPv4 address gets a fallback router identifier that parses as the IPv4 address made of
  the bytes of the checksum of its name, and every router of a configuration applied there has an
  identifier: its own when it has one, the fallback otherwise.
\<close>

theorem routers_get_identifiers:
  assumes "NewFRR addrs (Inr host) = Inr f" "\<not> hasIPv4Address addrs" "ApplyConfig (Inr host') f cfg = Inr ev"
  shows "ParseIP (frr_fallbackRouterID f) = Some (v4InV6Prefix @ putUint32LE (ChecksumIEEE host)) \<and>
    (\<exists>cfg'. re_config ev = Some cfg' \<and> cf_Hostname cfg' = host' \<and> length (cf_Routers cfg') = length (cf_Routers cfg) \<and>
       (\<forall>i<length (cf_Routers cfg).
          cf_Routers cfg' ! i = (cf_Routers cfg ! i)\<lparr>rc_RouterID :=
            (if rc_RouterID (cf_Routers cfg ! i) = '''' then frr_fallbackRouterID f
             else rc_RouterID (cf_Routers cfg ! i))\<rparr> \<and>
          rc_RouterID (cf_Routers cfg' ! i) \<noteq> ''''))"
proof -
  let ?b = "putUint32LE (ChecksumIEEE host)"
  have f: "frr_fallbackRouterID f = string4 ?b"
    using assms(1,2) by (auto simp: NewFRR_def Let_def hashRouterID_def)
  have parse: "ParseIP (string4 ?b) = Some (v4InV6Prefix @ ?b)" by (rule ParseIP_string4) simp
  have "string4 ?b \<noteq> []"
  proof
    assume "string4 ?b = []"
    then show False using parse by (simp add: ParseIP_def ParseAddr_def)
  qed
  then show ?thesis
    using assms(3) f parse by (auto simp: ApplyConfig_def Let_def fillRouterID_def)
qed


definition v6OnlyFRR :: FRR where
  "v6OnlyFRR = \<lparr>frr_Status = \<lparr>st_updateTime = [], st_Current = [], st_LastReloadResult = []\<rparr>,
     frr_fallbackRouterID = ''69.232.127.133''\<rparr>"

lemma v6OnlyFRR_value: "NewFRR (Inr []) (Inr ''node'') = Inr v6OnlyFRR"
proof -
  have crc: "ChecksumIEEE ''node'' = 0x857fe845" by (simp add: crc_eval)
  have bytes: "putUint32LE 0x857fe845 = [69, 232, 127, 133]" by (simp add: putUint32LE_def)
  have str: "string4 [69, 232, 127, 133] = ''69.232.127.133''" by code_simp
  show ?thesis unfolding NewFRR_def hashRouterID_def hasIPv4Address_def v6OnlyFRR_def by (simp add: crc bytes str)
qed

theorem routers_get_identifiers_witness:
  "rc_RouterID (cf_Routers (the (re_config (projr
     (ApplyConfig (Inr ''node'') v6OnlyFRR (emptyConfig\<lparr>cf_Routers := [bareRouter]\<rparr>))))) ! 0) = ''69.232.127.133''"
proof -
  let ?ev = "ApplyConfig (Inr ''node'') v6OnlyFRR (emptyConfig\<lparr>cf_Routers := [bareRouter]\<rparr>)"
  have ev: "?ev = Inr (projr ?ev)" "\<not> hasIPv4Address (Inr [])" by (simp_all add: ApplyConfig_def hasIPv4Address_def Let_def)
  from routers_get_identifiers [OF v6OnlyFRR_value ev(2) ev(1)] show ?thesis
    by (auto simp: emptyConfig_def bareRouter_def v6OnlyFRR_def)
qed

section \<open>Writing before signalling\<close>

text \<open>
  C27: The body of the debouncer always renders the configuration and writes the rendering to the configured file.
  The daemon is only told to reload after that write succeeded, once, and the body reports success exactly
  when the signal was delivered; without a signal it reports an error.
\<close>

theorem reload_after_write:
  assumes "generateAndReloadConfigFile sys confFile pidFile cfg = (res, calls)"
  shows "\<exists>text. templateConfig cfg = Inr text \<and>
    (let file = (case os_lookupEnv sys ''FRR_CONFIG_FILE'' of None \<Rightarrow> confFile | Some v \<Rightarrow> v) in
       (calls = [WriteFile file text] \<and> res \<noteq> Inr ()) \<or>
       (\<exists>pid. calls = [WriteFile file text, SigHup pid] \<and> os_writeFile sys file text = Inr () \<and> res = os_kill sys pid))"
  using assms
  by (auto simp: generateAndReloadConfigFile_def templateConfig_def writeConfig_def reloadConfig_def Let_def
      split: sum.splits prod.splits)

definition sampleOS :: osState where
  "sampleOS = \<lparr>os_lookupEnv = (\<lambda>_. None),
     os_readFile = (\<lambda>f. if f = ''/etc/frr_reloader/reloader.pid'' then Inr ''42'' else Inl NotExist),
     os_writeFile = (\<lambda>_ _. Inr ()), os_kill = (\<lambda>_. Inr ())\<rparr>"

definition emptyText :: string where
  "emptyText = ''log stdout \<newline>log timestamp precision 3\<newline>hostname \<newline>ip nht resolve-via-default'' @
     ''\<newline>ipv6 nht resolve-via-default\<newline>\<newline>\<newline>''"

lemma emptyText_value: "templateConfig emptyConfig = Inr emptyText"
  by (simp add: templateConfig_def frr_tmpl_def emptyConfig_def globalLines_def bfdLines_def onlyIf_def execItem_def
      emptyText_def)

theorem reload_after_write_witness:
  "generateAndReloadConfigFile sampleOS ''/etc/frr_reloader/frr.conf'' ''/etc/frr_reloader/reloader.pid'' emptyConfig =
     (Inr (), [WriteFile ''/etc/frr_reloader/frr.conf'' emptyText, SigHup 42]) \<and>
   os_writeFile sampleOS ''/etc/frr_reloader/frr.conf'' emptyText = Inr ()"
proof -
  have pid: "reloadConfig sampleOS ''/etc/frr_reloader/reloader.pid'' = (Inr (), [SigHup 42])" by code_simp
  have run: "generateAndReloadConfigFile sampleOS ''/etc/frr_reloader/frr.conf'' ''/etc/frr_reloader/reloader.pid'' emptyConfig =
     (Inr (), [WriteFile ''/etc/frr_reloader/frr.conf'' emptyText, SigHup 42])"
    using pid by (simp add: generateAndReloadConfigFile_def emptyText_value writeConfig_def sampleOS_def)
  from reload_after_write [OF run] run show ?thesis by (auto simp: emptyText_value sampleOS_def)
qed

section \<open>A failed reload is tried again\<close>

text \<open>
  C28: When the poller sees a new status that reports a failure, it asks the debouncer for a reload of the old
  configuration, and in any state the debouncer reaches with a configuration this leaves a timer running
  that is at most the longer interval away.
\<close>

theorem failed_reload_is_retried:
  assumes "fetchStatus sys = Inr status" "st_updateTime status \<noteq> st_updateTime (frr_Status f)"
    and "st_LastReloadResult status \<noteq> ReloadSuccess"
    and "debRun (=) r q debWorldInit ls w" "\<not> dw_stopped w" "dw_latest w = Some cfg"
  shows "\<exists>ev w'. pollTick (fetchStatus sys) f = ([ev], f\<lparr>frr_Status := status\<rparr>, True) \<and>
    debStep (=) r q w (Receive ev) w' \<and> dw_latest w' = Some cfg \<and>
    (\<exists>d. db_timeOut (dw_deb w') = Some d \<and> d \<le> dw_now w' + max r q)"
proof -
  let ?ev = "\<lparr>re_config = None, re_useOld = True\<rparr> :: Config reloadEvent"
  let ?w = "w\<lparr>dw_deb := receiveReload (=) r (dw_now w) ?ev (dw_deb w),
          dw_latest := (if re_useOld ?ev then dw_latest w else re_config ?ev)\<rparr>"
  have step: "debStep (=) r q w (Receive ?ev) ?w" by (rule debStep.receive) (use assms(5) in simp_all)
  have inv: "debInv r q w" by (rule debInv_run [OF assms(4) _ debInv_init]) simp
  then have inv': "debInv r q ?w" using debInv_step [OF step] by blast
  have "db_timerSet (dw_deb ?w)"
    using inv assms(6) by (auto simp: receiveReload_def Let_def debInv_def)
  then obtain d where "db_timeOut (dw_deb ?w) = Some d" "d \<le> dw_now ?w + max r q"
    using inv' unfolding debInv_def by blast
  moreover have "pollTick (fetchStatus sys) f = ([?ev], f\<lparr>frr_Status := status\<rparr>, True)"
    using assms(1-3) by (simp add: pollTick_def)
  ultimately show ?thesis using step assms(6) by (intro exI [of _ ?ev] exI [of _ ?w]) simp
qed

definition failedOS :: osState where
  "failedOS = sampleOS\<lparr>os_readFile := (\<lambda>f. if f = statusFileName then Inr ''1700000000 failure''
     else if f = lastAppliedResult then Inr ''line 3: unknown command'' else Inl NotExist)\<rparr>"

theorem failed_reload_is_retried_witness:
  "fst (pollTick (fetchStatus failedOS) v6OnlyFRR) = [\<lparr>re_config = None, re_useOld = True\<rparr>] \<and>
   (\<exists>w'. debStep (=) 2 3 (debWorldInit\<lparr>dw_deb := \<lparr>db_config = Some emptyConfig, db_timeOut = Some 2, db_timerSet = True\<rparr>,
        dw_latest := Some emptyConfig\<rparr>) (Receive \<lparr>re_config = None, re_useOld = True\<rparr>) w' \<and> dw_latest w' = Some emptyConfig)"
proof -
  let ?w = "debWorldInit\<lparr>dw_deb := \<lparr>db_config = Some emptyConfig, db_timeOut = Some 2, db_timerSet = True\<rparr>,
        dw_latest := Some emptyConfig\<rparr>"
  have run: "debRun (=) 2 3 debWorldInit [Receive \<lparr>re_config = Some emptyConfig, re_useOld = False\<rparr>] ?w"
    by (rule debExec_run) (simp add: debWorldInit_def debouncerInit_def receiveReload_def)
  have st: "fetchStatus failedOS = Inr \<lparr>st_updateTime = ''1700000000'', st_Current = '''',
      st_LastReloadResult = ''line 3: unknown command''\<rparr>" by code_simp
  have f: "st_updateTime (frr_Status v6OnlyFRR) = ''''" by code_simp
  from failed_reload_is_retried [OF st _ _ run, of v6OnlyFRR emptyConfig] f show ?thesis
    by (auto simp: ReloadSuccess_def debWorldInit_def pollTick_def st)
qed

end
