(* ===== verification/Log_Level.thy ===== *)
theory Log_Level
  imports Errors Go_Strings
begin

text \<open>
  Log levels (\<^verbatim>\<open>internal/logging\<close>): parsing, the filter option of a level, and the level the logger keeps.
  The function that reads the level from the \<open>FRRK8sConfiguration\<close> resource and its controller are in
  \<open>Reconcile\<close>.
\<close>

type_synonym level = string

definition LevelAll :: level where "LevelAll = ''all''"

definition LevelDebug :: level where "LevelDebug = ''debug''"

definition LevelInfo :: level where "LevelInfo = ''info''"

definition LevelWarn :: level where "LevelWarn = ''warn''"

definition LevelError :: level where "LevelError = ''error''"

definition LevelNone :: level where "LevelNone = ''none''"

definition LevelFallback :: level where "LevelFallback = LevelInfo"

definition Levels :: "level list" where
  "Levels = [LevelAll, LevelDebug, LevelInfo, LevelWarn, LevelError, LevelNone]"

lemmas level_defs = LevelAll_def LevelDebug_def LevelInfo_def LevelWarn_def LevelError_def LevelNone_def LevelFallback_def

definition levelsString :: "level list \<Rightarrow> string" where
  "levelsString ls = joinWith '', '' ls"

definition ParseLevel :: "string \<Rightarrow> level \<times> error option" where
  "ParseLevel l =
     (if l = LevelAll \<or> l = LevelDebug then (LevelDebug, None)
      else if l = LevelInfo then (LevelInfo, None)
      else if l = LevelWarn then (LevelWarn, None)
      else if l = LevelError then (LevelError, None)
      else if l = LevelNone then (LevelNone, None)
      else (LevelFallback, Some (Errorf ''invalid log level %q'' [AStr l])))"

definition IsAllOrDebug :: "level \<Rightarrow> bool" where
  "IsAllOrDebug l \<longleftrightarrow> l = LevelAll \<or> l = LevelDebug"

text \<open>The options of \<^verbatim>\<open>go-kit/log/level\<close> by their names.\<close>

datatype levelOption = OptAll | OptDebug | OptInfo | OptWarn | OptError | OptNone

definition optionFallback :: levelOption where "optionFallback = OptInfo"

definition ToOption :: "level \<Rightarrow> levelOption \<times> error option" where
  "ToOption l =
     (if l = LevelAll then (OptAll, None)
      else if l = LevelDebug then (OptDebug, None)
      else if l = LevelInfo then (OptInfo, None)
      else if l = LevelWarn then (OptWarn, None)
      else if l = LevelError then (OptError, None)
      else if l = LevelNone then (OptNone, None)
      else (optionFallback, Some (Errorf ''invalid level, using fallback option'' [])))"

record loggerAndLevel =
  ll_option :: levelOption
  ll_level :: level

definition initLogger :: loggerAndLevel where
  "initLogger = \<lparr>ll_option = optionFallback, ll_level = LevelFallback\<rparr>"

definition SetLogLevel :: "level \<Rightarrow> loggerAndLevel \<Rightarrow> loggerAndLevel" where
  "SetLogLevel lvl _ =
     (case ToOption lvl of
        (opt, None) \<Rightarrow> \<lparr>ll_option = opt, ll_level = lvl\<rparr>
      | (opt, Some _) \<Rightarrow> \<lparr>ll_option = opt, ll_level = LevelFallback\<rparr>)"

definition GetLogLevel :: "loggerAndLevel \<Rightarrow> level" where
  "GetLogLevel l = ll_level l"

text \<open>
  Whatever sequence of levels the logger is set to, the level it reports is a valid level and the filter it
  applies is the option of that level; a level that \<open>ParseLevel\<close> accepts is kept as parsed, and parsing it
  again gives the same level.
\<close>

theorem logger_level_consistent:
  "GetLogLevel (foldl (\<lambda>l v. SetLogLevel v l) initLogger vs) \<in> set Levels \<and>
   ToOption (GetLogLevel (foldl (\<lambda>l v. SetLogLevel v l) initLogger vs)) =
     (ll_option (foldl (\<lambda>l v. SetLogLevel v l) initLogger vs), None) \<and>
   GetLogLevel (SetLogLevel (fst (ParseLevel s)) l) = fst (ParseLevel s) \<and>
   ParseLevel (fst (ParseLevel s)) = (fst (ParseLevel s), None) \<and>
   (snd (ParseLevel s) = None \<longleftrightarrow> s \<in> set Levels)"
proof -
  have inv: "ll_level (SetLogLevel v l) \<in> set Levels \<and> ToOption (ll_level (SetLogLevel v l)) = (ll_option (SetLogLevel v l), None)"
    for v l
    by (simp add: SetLogLevel_def ToOption_def Levels_def level_defs optionFallback_def)
  have "ll_level (foldl (\<lambda>l v. SetLogLevel v l) initLogger vs) \<in> set Levels \<and>
      ToOption (ll_level (foldl (\<lambda>l v. SetLogLevel v l) initLogger vs)) =
        (ll_option (foldl (\<lambda>l v. SetLogLevel v l) initLogger vs), None)"
    by (induction vs rule: rev_induct)
      (simp add: initLogger_def Levels_def ToOption_def optionFallback_def level_defs, simp only: foldl_append foldl.simps inv simp_thms)
  moreover have "GetLogLevel (SetLogLevel (fst (ParseLevel s)) l) = fst (ParseLevel s)"
    by (simp add: GetLogLevel_def SetLogLevel_def ToOption_def ParseLevel_def level_defs)
  moreover have "ParseLevel (fst (ParseLevel s)) = (fst (ParseLevel s), None)"
    by (simp add: ParseLevel_def level_defs)
  moreover have "snd (ParseLevel s) = None \<longleftrightarrow> s \<in> set Levels"
    by (auto simp: ParseLevel_def Levels_def level_defs)
  ultimately show ?thesis by (simp add: GetLogLevel_def)
qed

end
