(* ===== verification/Reconcile.thy ===== *)
theory Reconcile
  imports Guarantees Frr_Daemon Log_Level
begin

text \<open>
  The controller that applies the configuration of a node (\<^verbatim>\<open>frrconfiguration_controller.go\<close>), the one that
  sets the log level (\<^verbatim>\<open>frrk8sconfiguration_controller.go\<close>) and what they log of the configuration
  (\<^verbatim>\<open>dump.go\<close>). What the API server answers is an input of a reconciliation; parameters are the library's
  translation of label selectors, the text of an error, and the FRR handler.
\<close>

section \<open>Answers of the API server\<close>

type_synonym labels = "(string, string) gomap"

datatype k8sError = NotFound | K8sError error

section \<open>Log level\<close>

definition getLogLevel :: "(k8sError, string) result \<Rightarrow> level \<Rightarrow> level \<times> error option" where
  "getLogLevel got defaultLogLevel =
     (case got of
        Inl NotFound \<Rightarrow> (defaultLogLevel, None)
      | Inl (K8sError e) \<Rightarrow> (LevelFallback, Some e)
      | Inr lvl \<Rightarrow> if lvl = '''' then (defaultLogLevel, None) else ParseLevel lvl)"

definition reconcileLogLevel ::
  "(k8sError, string) result \<Rightarrow> level \<Rightarrow> loggerAndLevel \<Rightarrow> error option \<times> loggerAndLevel"
where
  "reconcileLogLevel got defaultLogLevel l =
     (case getLogLevel got defaultLogLevel of
        (_, Some e) \<Rightarrow> (Some e, l)
      | (currentLogLevel, None) \<Rightarrow> (None, SetLogLevel currentLogLevel l))"

section \<open>Configurations of a node and secrets\<close>

type_synonym selectors = "LabelSelector \<Rightarrow> (error, labels \<Rightarrow> bool) result"

definition configsForNode ::
  "selectors \<Rightarrow> FRRConfiguration list \<Rightarrow> labels \<Rightarrow> (error, FRRConfiguration list) result"
where
  "configsForNode LabelSelectorAsSelector cfgs nodeLabels =
     foldE (\<lambda>valid cfg.
         bindE (mapErr (\<lambda>e. Errorf ''could not parse nodeSelector for FRRConfiguration %s/%s, err: %w''
                              [AStr (cfg_Namespace cfg), AStr (cfg_Name cfg), AErr e])
                  (LabelSelectorAsSelector (spec_NodeSelector (cfg_Spec cfg)))) (\<lambda>matches.
         if \<not> matches nodeLabels then Inr valid else Inr (valid @ [cfg])))
       [] cfgs"

definition getSecrets :: "(k8sError, Secret list) result \<Rightarrow> (error, (string, Secret) gomap) result" where
  "getSecrets got =
     (case got of
        Inl NotFound \<Rightarrow> Inr []
      | Inl (K8sError e) \<Rightarrow> Inl e
      | Inr items \<Rightarrow> Inr (fillMap sec_Name items))"

section \<open>What is logged\<close>

definition sanitizedConfig :: "FRRConfiguration \<Rightarrow> FRRConfiguration" where
  "sanitizedConfig c =
     (let bgp = spec_BGP (cfg_Spec c);
          routers = map (\<lambda>r. r\<lparr>rt_Neighbors := map (\<lambda>n. n\<lparr>nb_Password := ''<retracted>''\<rparr>) (rt_Neighbors r)\<rparr>)
                      (bgp_Routers bgp)
      in c\<lparr>cfg_Spec := (cfg_Spec c)\<lparr>spec_BGP := bgp\<lparr>bgp_Routers := routers\<rparr>\<rparr>,
           cfg_Annotations := mapDel (cfg_Annotations c) ''kubectl.kubernetes.io/last-applied-configuration''\<rparr>)"

definition dumpedFRRConfig :: "Config \<Rightarrow> Config" where
  "dumpedFRRConfig c =
     c\<lparr>cf_Routers := map (\<lambda>r. r\<lparr>rc_Neighbors := map (\<lambda>n. n\<lparr>nc_Password := ''<retracted>''\<rparr>) (rc_Neighbors r)\<rparr>)
                       (cf_Routers c)\<rparr>"

section \<open>Reconciling the FRR configuration\<close>

definition ConversionSuccess :: string where "ConversionSuccess = ''success''"

record recParams =
  rp_selectors :: selectors
  rp_errText :: "error \<Rightarrow> string"
  rp_applyConfig :: "Config \<Rightarrow> (error, unit) result"
  rp_alwaysBlock :: "IPNet list"
  rp_defaultLogLevel :: level

record recInput =
  in_configs :: "(error, FRRConfiguration list) result"
  in_frrK8s :: "(k8sError, string) result"
  in_node :: "(error, labels) result"
  in_secrets :: "(k8sError, Secret list) result"

record recState =
  rs_conversionResult :: string
  rs_updates :: nat
  rs_updateErrors :: nat
  rs_configLoaded :: nat
  rs_configStale :: nat
  rs_applied :: "Config list"
  rs_statusReloads :: nat

definition failedText :: "recParams \<Rightarrow> error \<Rightarrow> string" where
  "failedText P e = ''failed: '' @ rp_errText P e"

definition countError :: "recState \<Rightarrow> recState" where
  "countError s = s\<lparr>rs_updateErrors := rs_updateErrors s + 1, rs_configStale := 1\<rparr>"

text \<open>A call of the handler, recorded with its argument.\<close>

definition callHandler :: "recParams \<Rightarrow> Config \<Rightarrow> recState \<Rightarrow> (error, unit) result \<times> recState" where
  "callHandler P cfg s = (rp_applyConfig P cfg, s\<lparr>rs_applied := rs_applied s @ [cfg]\<rparr>)"

text \<open>\<open>None\<close> is the panic of \<^verbatim>\<open>applyEmptyConfig\<close>.\<close>

definition applyEmptyConfig :: "recParams \<Rightarrow> level \<Rightarrow> recState \<Rightarrow> ((error, unit) result \<times> recState) option" where
  "applyEmptyConfig P logLevel s =
     (case apiToFRR \<lparr>cr_FRRConfigs = [], cr_PasswordSecrets = []\<rparr> [] of
        Inl _ \<Rightarrow> None
      | Inr config \<Rightarrow> Some (callHandler P (config\<lparr>cf_Loglevel := LevelFrom logLevel\<rparr>) s))"

text \<open>
  The body: the error it returns, the value of the variable \<open>conversionResult\<close> at that point, and the state.
\<close>

definition reconcileBody :: "recParams \<Rightarrow> recInput \<Rightarrow> recState \<Rightarrow> (error option \<times> string \<times> recState) option" where
  "reconcileBody P inp s =
     (case in_configs inp of
        Inl e \<Rightarrow> Some (Some e, failedText P e, s)
      | Inr items \<Rightarrow>
          (case getLogLevel (in_frrK8s inp) (rp_defaultLogLevel P) of
             (_, Some e) \<Rightarrow> Some (Some e, ConversionSuccess, s)
           | (logLevel, None) \<Rightarrow>
               if items = [] then
                 (case applyEmptyConfig P logLevel s of
                    None \<Rightarrow> None
                  | Some (Inl e, s) \<Rightarrow> Some (Some e, failedText P e, countError s)
                  | Some (Inr _, s) \<Rightarrow> Some (None, ConversionSuccess, s))
               else
                 (case in_node inp of
                    Inl e \<Rightarrow> Some (Some e, failedText P e, s)
                  | Inr nodeLabels \<Rightarrow>
                      (case configsForNode (rp_selectors P) items nodeLabels of
                         Inl e \<Rightarrow> Some (Some e, failedText P e, countError s)
                       | Inr cfgs \<Rightarrow>
                           (case getSecrets (in_secrets inp) of
                              Inl e \<Rightarrow> Some (Some e, failedText P e, s)
                            | Inr secrets \<Rightarrow>
                                (case apiToFRR \<lparr>cr_FRRConfigs = cfgs, cr_PasswordSecrets = secrets\<rparr> (rp_alwaysBlock P) of
                                   Inl e \<Rightarrow> Some (None, failedText P e, countError s)
                                 | Inr config \<Rightarrow>
                                     (case callHandler P (config\<lparr>cf_Loglevel := LevelFrom logLevel\<rparr>) s of
                                        (Inl e, s) \<Rightarrow> Some (Some e, failedText P e, countError s)
                                      | (Inr _, s) \<Rightarrow>
                                          Some (None, ConversionSuccess, s\<lparr>rs_configLoaded := 1, rs_configStale := 0\<rparr>))))))))"

definition Reconcile :: "recParams \<Rightarrow> recInput \<Rightarrow> recState \<Rightarrow> (error option \<times> recState) option" where
  "Reconcile P inp s =
     (case reconcileBody P inp (s\<lparr>rs_updates := rs_updates s + 1\<rparr>) of
        None \<Rightarrow> None
      | Some (err, conversionResult, s') \<Rightarrow>
          Some (err, s'\<lparr>rs_conversionResult := conversionResult,
            rs_statusReloads := rs_statusReloads s' + (if conversionResult \<noteq> rs_conversionResult s then 1 else 0)\<rparr>))"

section \<open>Events of nodes\<close>

datatype k8sObject = NodeObject string labels | OtherObject

fun filterNodeEvent :: "(labels \<Rightarrow> labels \<Rightarrow> bool) \<Rightarrow> k8sObject \<Rightarrow> k8sObject \<Rightarrow> string \<Rightarrow> bool" where
  "filterNodeEvent labelsEquals (NodeObject oldName oldLabels) (NodeObject newName newLabels) thisNode =
     (if oldName \<noteq> newName then True
      else if newName \<noteq> thisNode then False
      else if labelsEquals oldLabels newLabels then False
      else True)"
| "filterNodeEvent _ _ _ _ = True"

section \<open>Outcome of a reconciliation\<close>

lemma applyEmptyConfig_value:
  "applyEmptyConfig P logLevel s =
     Some (callHandler P \<lparr>cf_Loglevel = LevelFrom logLevel, cf_Hostname = [], cf_Routers = [], cf_BFDProfiles = [],
       cf_ExtraConfig = []\<rparr> s)"
  by (simp add: applyEmptyConfig_def apiToFRR_def validateEVPN_def validateUniqueVNIs_def sortMap_def sortMapPtr_eq
      mapKeys_def joinRawConfigs_def)

text \<open>The body returns without calling the handler, or after one call.\<close>

lemma reconcileBody_outcome:
  "\<exists>e res t. reconcileBody P inp s = Some (e, res, t) \<and> rs_statusReloads t = rs_statusReloads s \<and>
     (rs_applied t = rs_applied s \<and> (e \<noteq> None \<or> (\<exists>f. res = failedText P f)) \<or>
      (\<exists>cfg. rs_applied t = rs_applied s @ [cfg] \<and>
        (rp_applyConfig P cfg = Inr () \<and> e = None \<and> res = ConversionSuccess \<or>
         (\<exists>f. rp_applyConfig P cfg = Inl f \<and> e = Some f \<and> res = failedText P f))))"
  by (auto simp: reconcileBody_def applyEmptyConfig_value callHandler_def countError_def
      split: sum.split option.split prod.split)

lemma reconcileBody_applied:
  assumes "reconcileBody P inp s = Some (e, res, t)" "rs_applied t = rs_applied s @ [cfg]"
  shows "cf_Routers cfg = [] \<or>
    (\<exists>items nodeLabels cfgs secrets c. in_configs inp = Inr items \<and> in_node inp = Inr nodeLabels \<and>
       configsForNode (rp_selectors P) items nodeLabels = Inr cfgs \<and>
       apiToFRR \<lparr>cr_FRRConfigs = cfgs, cr_PasswordSecrets = secrets\<rparr> (rp_alwaysBlock P) = Inr c \<and>
       cf_Routers cfg = cf_Routers c)"
  using assms
  by (auto simp: reconcileBody_def applyEmptyConfig_value callHandler_def countError_def
      split: sum.splits option.splits prod.splits if_splits) blast+

lemma reconcile_returns: "\<exists>err s'. Reconcile P inp s = Some (err, s')"
  using reconcileBody_outcome [of P inp "s\<lparr>rs_updates := rs_updates s + 1\<rparr>"] by (auto simp: Reconcile_def)

lemma configsForNode_Inr:
  assumes "configsForNode sel items nl = Inr cfgs" "cfg \<in> set cfgs"
  shows "cfg \<in> set items \<and> (\<exists>m. sel (spec_NodeSelector (cfg_Spec cfg)) = Inr m \<and> m nl)"
proof -
  have "\<forall>cfg\<in>set cfgs. cfg \<in> set items \<and> (\<exists>m. sel (spec_NodeSelector (cfg_Spec cfg)) = Inr m \<and> m nl)"
    using assms(1) unfolding configsForNode_def
    by (rule foldE_invariant) (auto simp: bindE_Inr_iff mapErr_Inr_iff split: if_splits)
  then show ?thesis using assms(2) by blast
qed

text \<open>
  C21: A reconciliation never panics and calls the FRR handler at most once. When it returns no error and the
  conversion result is success, it has called the handler once and the handler accepted; the node status is
  refreshed exactly when the conversion result changed.
\<close>

theorem reconcile_outcome:
  "\<exists>err s'. Reconcile P inp s = Some (err, s') \<and>
     (rs_applied s' = rs_applied s \<or> (\<exists>cfg. rs_applied s' = rs_applied s @ [cfg])) \<and>
     (err = None \<and> rs_conversionResult s' = ConversionSuccess \<longrightarrow>
        (\<exists>cfg. rs_applied s' = rs_applied s @ [cfg] \<and> rp_applyConfig P cfg = Inr ())) \<and>
     rs_statusReloads s' = rs_statusReloads s + (if rs_conversionResult s' = rs_conversionResult s then 0 else 1)"
proof -
  define s1 where "s1 = s\<lparr>rs_updates := rs_updates s + 1\<rparr>"
  have s1: "rs_applied s1 = rs_applied s" "rs_statusReloads s1 = rs_statusReloads s" by (simp_all add: s1_def)
  obtain e res t where body: "reconcileBody P inp s1 = Some (e, res, t)"
    and t: "rs_statusReloads t = rs_statusReloads s"
    and cases: "rs_applied t = rs_applied s \<and> (e \<noteq> None \<or> (\<exists>f. res = failedText P f)) \<or>
      (\<exists>cfg. rs_applied t = rs_applied s @ [cfg] \<and>
        (rp_applyConfig P cfg = Inr () \<and> e = None \<and> res = ConversionSuccess \<or>
         (\<exists>f. rp_applyConfig P cfg = Inl f \<and> e = Some f \<and> res = failedText P f)))"
    using reconcileBody_outcome [of P inp s1] unfolding s1 by blast
  have "failedText P f \<noteq> ConversionSuccess" for f by (simp add: failedText_def ConversionSuccess_def)
  then show ?thesis using body [unfolded s1_def] t cases by (auto simp: Reconcile_def)
qed

definition sampleParams :: recParams where
  "sampleParams = \<lparr>rp_selectors = (\<lambda>_. Inr (\<lambda>_. True)), rp_errText = (\<lambda>_. ''error''), rp_applyConfig = (\<lambda>_. Inr ()),
     rp_alwaysBlock = sampleBlock, rp_defaultLogLevel = LevelInfo\<rparr>"

definition sampleInput :: recInput where
  "sampleInput = \<lparr>in_configs = Inr (cr_FRRConfigs sampleResources), in_frrK8s = Inl NotFound, in_node = Inr [],
     in_secrets = Inr (map snd (cr_PasswordSecrets sampleResources))\<rparr>"

definition sampleRecState :: recState where
  "sampleRecState = \<lparr>rs_conversionResult = '''', rs_updates = 0, rs_updateErrors = 0, rs_configLoaded = 0,
     rs_configStale = 0, rs_applied = [], rs_statusReloads = 0\<rparr>"

lemma sample_reconcile:
  "Reconcile sampleParams sampleInput sampleRecState =
     Some (None, sampleRecState\<lparr>rs_updates := 1, rs_configLoaded := 1,
       rs_applied := [sampleConfig\<lparr>cf_Loglevel := ''informational''\<rparr>],
       rs_conversionResult := ''success'', rs_statusReloads := 1\<rparr>)"
proof -
  have "configsForNode (rp_selectors sampleParams) (cr_FRRConfigs sampleResources) [] = Inr (cr_FRRConfigs sampleResources)"
    "getSecrets (Inr (map snd (cr_PasswordSecrets sampleResources))) = Inr (cr_PasswordSecrets sampleResources)"
    by (simp_all add: configsForNode_def sampleParams_def sampleResources_def getSecrets_def fillMap_def mapSet_def)
  moreover have same: "\<lparr>cr_FRRConfigs = cr_FRRConfigs sampleResources, cr_PasswordSecrets = cr_PasswordSecrets sampleResources\<rparr> =
      sampleResources" by simp
  have "apiToFRR \<lparr>cr_FRRConfigs = cr_FRRConfigs sampleResources, cr_PasswordSecrets = cr_PasswordSecrets sampleResources\<rparr>
      sampleBlock = Inr sampleConfig" unfolding same by (rule sample_value)
  moreover have "cr_FRRConfigs sampleResources \<noteq> []" "rp_alwaysBlock sampleParams = sampleBlock"
    "rp_defaultLogLevel sampleParams = ''info''" "\<And>c. rp_applyConfig sampleParams c = Inr ()"
    by (simp_all add: sampleResources_def sampleParams_def LevelInfo_def)
  ultimately show ?thesis
    by (simp add: Reconcile_def reconcileBody_def sampleInput_def getLogLevel_def callHandler_def
        LevelFrom_def ConversionSuccess_def sampleRecState_def)
qed

theorem reconcile_outcome_witness:
  "\<exists>err s'. Reconcile sampleParams sampleInput sampleRecState = Some (err, s') \<and> err = None \<and>
     (\<exists>cfg. rs_applied s' = [cfg] \<and> rp_applyConfig sampleParams cfg = Inr ()) \<and> rs_statusReloads s' = 1"
  using reconcile_outcome [of sampleParams sampleInput sampleRecState] unfolding sample_reconcile
  by (auto simp: sampleRecState_def ConversionSuccess_def)

text \<open>
  C22: Whatever a reconciliation hands to the FRR handler, a neighbor is only advertised prefixes that an existing
  configuration whose node selector matches the labels of this node declares for the VRF, in its own router
  or through an import.
\<close>

theorem reconcile_advertises_only_for_node:
  assumes "Reconcile P inp s = Some (err, s')" "rs_applied s' = rs_applied s @ [cfg]"
    and "r \<in> set (cf_Routers cfg)" "n \<in> set (rc_Neighbors r)"
    and "p \<in> set (ao_PrefixesV4 (nc_Outgoing n)) \<union> set (ao_PrefixesV6 (nc_Outgoing n))"
  shows "\<exists>items nodeLabels c m. in_configs inp = Inr items \<and> in_node inp = Inr nodeLabels \<and> c \<in> set items \<and>
    rp_selectors P (spec_NodeSelector (cfg_Spec c)) = Inr m \<and> m nodeLabels \<and>
    (\<exists>r'\<in>set (bgp_Routers (spec_BGP (cfg_Spec c))). rt_VRF r' = rc_VRF r \<and> routerProvides c r' p)"
proof -
  define s1 where "s1 = s\<lparr>rs_updates := rs_updates s + 1\<rparr>"
  obtain e res t where body: "reconcileBody P inp s1 = Some (e, res, t)" and "rs_applied s' = rs_applied t"
    using assms(1) by (auto simp: Reconcile_def s1_def split: option.splits)
  then have "rs_applied t = rs_applied s1 @ [cfg]" using assms(2) by (simp add: s1_def)
  then obtain items nl cfgs secrets c where *: "in_configs inp = Inr items" "in_node inp = Inr nl"
    "configsForNode (rp_selectors P) items nl = Inr cfgs"
    "apiToFRR \<lparr>cr_FRRConfigs = cfgs, cr_PasswordSecrets = secrets\<rparr> (rp_alwaysBlock P) = Inr c"
    "cf_Routers cfg = cf_Routers c"
    using reconcileBody_applied [OF body] assms(3) by auto
  have "vrfProvides \<lparr>cr_FRRConfigs = cfgs, cr_PasswordSecrets = secrets\<rparr> (rc_VRF r) p"
    using apiToFRR_provenance [OF *(4), of r n] assms(3-5) *(5) by (auto simp: advertised_def)
  then obtain fc r' where "fc \<in> set cfgs" "r' \<in> set (bgp_Routers (spec_BGP (cfg_Spec fc)))" "rt_VRF r' = rc_VRF r"
    "routerProvides fc r' p"
    by (auto simp: vrfProvides_def)
  then show ?thesis using *(1,2) configsForNode_Inr [OF *(3)] by blast
qed

theorem reconcile_advertises_only_for_node_witness:
  "\<exists>c. c \<in> set (cr_FRRConfigs sampleResources) \<and>
     (\<exists>r'\<in>set (bgp_Routers (spec_BGP (cfg_Spec c))). rt_VRF r' = [] \<and> routerProvides c r' ''192.168.1.0/24'')"
proof -
  have "''192.168.1.0/24'' \<in> set (ao_PrefixesV4 (nc_Outgoing sampleNeighborOut))" "rc_VRF defaultRouterOut = []"
    by (simp_all add: sampleNeighborOut_def defaultRouterOut_def)
  then show ?thesis
    using reconcile_advertises_only_for_node [OF sample_reconcile, of "sampleConfig\<lparr>cf_Loglevel := ''informational''\<rparr>"
        defaultRouterOut sampleNeighborOut "''192.168.1.0/24''"]
    by (auto simp: sampleRecState_def sample_Routers sample_Neighbors sampleInput_def)
qed

section \<open>Two reports that do not match what happened\<close>

text \<open>
  When the log level cannot be read the reconciliation stops before converting anything, and still the
  conversion result becomes success.
\<close>

lemma log_level_error_reported_as_success:
  assumes "in_configs inp = Inr items" "in_frrK8s inp = Inl (K8sError e)"
  shows "\<exists>s'. Reconcile P inp s = Some (Some e, s') \<and> rs_applied s' = rs_applied s \<and>
    rs_conversionResult s' = ConversionSuccess"
  using assms by (simp add: Reconcile_def reconcileBody_def getLogLevel_def)

text \<open>
  When there are no configurations left, applying the empty one leaves the gauge of a stale configuration
  as it was, also when it was set by an earlier failure.
\<close>

lemma empty_config_leaves_stale_gauge:
  assumes "in_configs inp = Inr []" "in_frrK8s inp = Inl NotFound" "\<And>c. rp_applyConfig P c = Inr ()"
  shows "\<exists>s'. Reconcile P inp s = Some (None, s') \<and> rs_conversionResult s' = ConversionSuccess \<and>
    rs_configStale s' = rs_configStale s"
  using assms by (simp add: Reconcile_def reconcileBody_def getLogLevel_def applyEmptyConfig_value callHandler_def)

section \<open>Passwords in the log\<close>

definition withPasswords :: "(Neighbor \<Rightarrow> string) \<Rightarrow> FRRConfiguration \<Rightarrow> FRRConfiguration" where
  "withPasswords pw c =
     c\<lparr>cfg_Spec := (cfg_Spec c)\<lparr>spec_BGP := (spec_BGP (cfg_Spec c))\<lparr>bgp_Routers :=
        map (\<lambda>r. r\<lparr>rt_Neighbors := map (\<lambda>n. n\<lparr>nb_Password := pw n\<rparr>) (rt_Neighbors r)\<rparr>)
          (bgp_Routers (spec_BGP (cfg_Spec c)))\<rparr>\<rparr>\<rparr>"

definition withFRRPasswords :: "(NeighborConfig \<Rightarrow> string) \<Rightarrow> Config \<Rightarrow> Config" where
  "withFRRPasswords pw c =
     c\<lparr>cf_Routers := map (\<lambda>r. r\<lparr>rc_Neighbors := map (\<lambda>n. n\<lparr>nc_Password := pw n\<rparr>) (rc_Neighbors r)\<rparr>) (cf_Routers c)\<rparr>"

text \<open>
  What is logged of the resources and of the FRR configuration does not depend on the passwords of the
  neighbors, and the logged resource has lost the annotation that repeats its last applied version.
\<close>

theorem dumps_hide_passwords:
  "sanitizedConfig (withPasswords pw c) = sanitizedConfig c \<and>
   dumpedFRRConfig (withFRRPasswords fpw f) = dumpedFRRConfig f \<and>
   mapGet (cfg_Annotations (sanitizedConfig c)) ''kubectl.kubernetes.io/last-applied-configuration'' = None"
  by (simp add: sanitizedConfig_def withPasswords_def dumpedFRRConfig_def withFRRPasswords_def Let_def comp_def)

end
