(* ===== verification/Sessions.thy ===== *)
theory Sessions
  imports Guarantees
begin

text \<open>
  The BGP sessions of a built configuration: the shape of each neighbor (endpoint, address family, VRF,
  always-blocked prefixes, local ASN), its timers, and the BFD profiles it refers to. Each property is
  shown of the neighbors that \<open>neighborToFRR\<close> builds and carried through \<open>validateRouterConfig\<close> and
  \<open>mergeRouterConfigs\<close>.
\<close>

section \<open>Normal form\<close>

text \<open>
  C12: Every configuration the conversion builds is canonical: the routers are strictly ordered by VRF, the
  neighbors of each router by their identifier, and validating a router again returns the same router.
\<close>

theorem conversion_result_canonical:
  assumes "apiToFRR resources alwaysBlock = Inr cfg" "r \<in> set (cf_Routers cfg)"
  shows "sorted_wrt (\<lambda>a b. rc_VRF a < rc_VRF b) (cf_Routers cfg) \<and>
    sorted_wrt (\<lambda>a b. ID a < ID b) (rc_Neighbors r) \<and> validateRouterConfig r = Inr r"
  using apiToFRR_sorted_VRF [OF assms(1)] apiToFRR_rNormal [OF assms]
  by (auto simp: validateRouterConfig_fixed sortedByKey_def rNormal_def sorted_wrt_map)

theorem conversion_result_canonical_witness:
  "validateRouterConfig defaultRouterOut = Inr defaultRouterOut \<and>
   validateRouterConfig redRouterOut = Inr redRouterOut"
  using conversion_result_canonical [OF sample_value, of defaultRouterOut]
    conversion_result_canonical [OF sample_value, of redRouterOut]
  by (simp add: sample_Routers)

section \<open>The shape of a session\<close>

definition sessionOk :: "IncomingFilter list \<Rightarrow> string \<Rightarrow> uint32 \<Rightarrow> NeighborConfig \<Rightarrow> bool" where
  "sessionOk block vrf asn n \<longleftrightarrow>
     (nc_Addr n = '''') \<noteq> (nc_Iface n = '''') \<and>
     nc_IPFamily n \<noteq> Unknown \<and> (nc_Iface n \<noteq> '''' \<longrightarrow> nc_IPFamily n = DualStack) \<and>
     nc_VRFName n = vrf \<and> nc_AlwaysBlock n = block \<and>
     \<not> (nc_LocalASN n \<noteq> 0 \<and> nc_ASN n = itoa (unat asn))"

lemma addressFamilyForNeighbor_known:
  assumes "addressFamilyForNeighbor n = Inr fam" "nb_Address n \<noteq> [] \<or> nb_Interface n \<noteq> []"
  shows "fam \<noteq> Unknown \<and> (nb_Interface n \<noteq> [] \<longrightarrow> fam = DualStack)"
  using assms
  by (auto simp: addressFamilyForNeighbor_def bindE_Inr_iff mapErr_Inr_iff ForAddresses_def
      ForAddress_def split: if_splits option.splits)

lemma asnFor_numeric:
  assumes "asnFor n = itoa (unat asn)" "nb_DynamicASN n = [] \<or> nb_DynamicASN n = InternalASNMode \<or> nb_DynamicASN n = ExternalASNMode"
  shows "nb_DynamicASN n = [] \<and> nb_ASN n = asn"
proof -
  have "itoa k \<noteq> InternalASNMode" "itoa k \<noteq> ExternalASNMode" for k
    using itoa_digits [of "CHR ''e''" k] by (auto simp: InternalASNMode_def ExternalASNMode_def isDigit_def byteVal_def)
  then show ?thesis using assms by (auto simp: asnFor_def word_unat_eq_iff split: if_splits)
qed

lemma convertedNeighbor_session:
  assumes "convertedNeighbor resources ab cfg r n nc"
  shows "sessionOk (alwaysBlockToFRR ab) (rt_VRF r) (rt_ASN r) nc"
  using assms
proof (rule convertedNeighbor_run)
  fix ps bfd allP allP'
  assume run: "neighborToFRR n ps (alwaysBlockToFRR ab) (rt_VRF r) (cr_PasswordSecrets resources) bfd = Inr nc"
    and asn: "\<not> (nb_LocalASN n \<noteq> 0 \<and> nb_ASN n \<noteq> 0 \<and> nb_ASN n = rt_ASN r)"
  then obtain fam ht ka pw out inc where fam: "addressFamilyForNeighbor n = Inr fam"
    and checks: "neighborChecks n bfd = Inr ()"
    and nc: "nc = (newNeighbor n fam ht ka pw (rt_VRF r) (alwaysBlockToFRR ab))\<lparr>nc_Outgoing := out, nc_Incoming := inc\<rparr>"
    unfolding neighborToFRR_Inr by blast
  have "nb_LocalASN n = 0 \<or> asnFor n \<noteq> itoa (unat (rt_ASN r))"
    using asnFor_numeric [of n "rt_ASN r"] checks asn by (auto simp: neighborChecks_Inr)
  then show ?thesis
    using addressFamilyForNeighbor_known [OF fam] checks
    by (auto simp: sessionOk_def nc neighborChecks_Inr newNeighbor_def)
qed

lemma mergeIntoNeighbor_session:
  "mergeIntoNeighbor a b = Inr c \<Longrightarrow> sessionOk blk vrf asn a \<Longrightarrow> sessionOk blk vrf asn c"
  by (simp add: sessionOk_def mergeIntoNeighbor_keeps)

lemma mergeRouterConfigs_ASN:
  "mergeRouterConfigs r t = Inr c \<Longrightarrow> rc_MyASN c = rc_MyASN r \<and> rc_MyASN t = rc_MyASN r \<and> rc_VRF t = rc_VRF r"
  by (auto simp: mergeRouterConfigs_Inr mergedRouter_def routersAreCompatible_ok)

lemma convertedRouter_ASN: "convertedRouter resources ab cfg r rc \<Longrightarrow> rc_MyASN rc = rt_ASN r"
  by (auto simp: convertedRouter_def routerToFRRConfig_Inr)

lemma validateRouterConfig_ASN: "validateRouterConfig r = Inr c \<Longrightarrow> rc_MyASN c = rc_MyASN r"
  by (auto simp: validateRouterConfig_def mergeRouterConfigsAt_Inr mergedRouter_def)

lemma apiToFRR_session:
  assumes "apiToFRR resources alwaysBlock = Inr cfg" "r \<in> set (cf_Routers cfg)" "n \<in> set (rc_Neighbors r)"
  shows "sessionOk (alwaysBlockToFRR alwaysBlock) (rc_VRF r) (rc_MyASN r) n"
proof -
  let ?ok = "\<lambda>r. sessionOk (alwaysBlockToFRR alwaysBlock) (rc_VRF r) (rc_MyASN r)"
  have "\<forall>n\<in>set (rc_Neighbors r). ?ok r n"
  proof (rule apiToFRR_router_induct [OF assms(1,2)])
    fix cfg r rc rc'
    assume h: "convertedRouter resources alwaysBlock cfg r rc" "validateRouterConfig rc = Inr rc'"
    have "\<forall>n\<in>set (rc_Neighbors rc). ?ok rc n"
      using h(1) by (metis convertedNeighbor_session convertedRouter_ASN convertedRouter_VRF convertedRouter_neighbors)
    then have "\<forall>n\<in>set (rc_Neighbors rc'). ?ok rc n"
      by (rule validateRouterConfig_neighbors [OF h(2)]) (rule mergeIntoNeighbor_session)
    then show "\<forall>n\<in>set (rc_Neighbors rc'). ?ok rc' n"
      by (simp add: validateRouterConfig_ASN [OF h(2)] validateRouterConfig_VRF [OF h(2)])
  next
    fix a b c
    assume h: "mergeRouterConfigs a b = Inr c" "\<forall>n\<in>set (rc_Neighbors a). ?ok a n" "\<forall>n\<in>set (rc_Neighbors b). ?ok b n"
    have "\<forall>n\<in>set (rc_Neighbors c). ?ok a n"
      by (rule mergeRouterConfigs_neighbors [OF h(1,2)])
        (use h(3) mergeRouterConfigs_ASN [OF h(1)] in \<open>auto intro: mergeIntoNeighbor_session\<close>)
    then show "\<forall>n\<in>set (rc_Neighbors c). ?ok c n"
      using mergeRouterConfigs_ASN [OF h(1)] mergeRouterConfigs_VRF [OF h(1)] by simp
  qed
  then show ?thesis using assms(3) by blast
qed

text \<open>
  C13: Every neighbor of a built configuration is identified by exactly one of address and interface, has a
  known address family, which is dual stack when it is unnumbered, belongs to the VRF of its router and
  rejects the always-blocked prefixes; a neighbor whose numeric ASN is that of the router has no local ASN.
\<close>

theorem sessions_are_well_formed:
  assumes "apiToFRR resources alwaysBlock = Inr cfg" "r \<in> set (cf_Routers cfg)" "n \<in> set (rc_Neighbors r)"
  shows "sessionOk (alwaysBlockToFRR alwaysBlock) (rc_VRF r) (rc_MyASN r) n"
  using assms by (rule apiToFRR_session)

theorem sessions_are_well_formed_witness:
  "sessionOk (alwaysBlockToFRR sampleBlock) '''' 65000 sampleNeighborOut \<and>
   sessionOk (alwaysBlockToFRR sampleBlock) '''' 65000 unnumberedOut"
  using sessions_are_well_formed [OF sample_value, of defaultRouterOut sampleNeighborOut]
    sessions_are_well_formed [OF sample_value, of defaultRouterOut unnumberedOut]
  by (simp add: sample_Routers sample_Neighbors) (simp add: defaultRouterOut_def)

section \<open>Timers\<close>

definition timersOk :: "NeighborConfig \<Rightarrow> bool" where
  "timersOk n =
     ((case nc_HoldTime n of None \<Rightarrow> True | Some h \<Rightarrow> (h = 0 \<or> 3 \<le> h) \<and> h \<noteq> 180) \<and>
      nc_KeepaliveTime n \<noteq> Some 60 \<and> nc_ConnectTime n \<noteq> Some 60 \<and>
      (case (nc_HoldTime n, nc_KeepaliveTime n) of (Some h, Some k) \<Rightarrow> k \<le> h | _ \<Rightarrow> True))"

lemma mergeIntoNeighbor_timers:
  assumes "mergeIntoNeighbor a b = Inr c"
  shows "nc_HoldTime c = None \<or> nc_HoldTime c = nc_HoldTime a"
    "nc_KeepaliveTime c = None \<or> nc_KeepaliveTime c = nc_KeepaliveTime a"
  using assms by (auto simp: mergeIntoNeighbor_Inr_iff cleanNeighborDefaults_def)

lemma truncDiv_mono: "a \<le> b \<Longrightarrow> truncDiv a timeSecond \<le> truncDiv b timeSecond"
  by (auto simp: truncDiv_def timeSecond_def zdiv_mono1 intro: order.trans [of _ 0])

lemma parseTimers_bounds:
  assumes "parseTimers ht ka = Inr (h, k)"
  shows "(h = None \<and> k = None) \<or> (\<exists>s t. h = Some s \<and> k = Some t \<and> (s = 0 \<or> 3 \<le> s) \<and> t \<le> s)"
proof (cases "ht = None \<or> ka = None")
  case True
  then show ?thesis using assms by (auto simp: parseTimers_def split: option.splits)
next
  case False
  then obtain x y where xy: "ht = Some x" "ka = Some y" by auto
  then have "h = Some (truncDiv x timeSecond)" "k = Some (truncDiv y timeSecond)" "y \<le> x"
    "truncDiv x timeSecond = 0 \<or> 3 \<le> truncDiv x timeSecond"
    using assms by (auto simp: parseTimers_def Let_def timeSecond_def split: if_splits)
  then show ?thesis using truncDiv_mono by blast
qed

text \<open>
  C14: In every built configuration a hold time is zero or at least three seconds, a keepalive time is at most
  the hold time beside it, and no timer is spelled out that has the default value of the daemon.
\<close>

theorem timers_are_valid:
  assumes "apiToFRR resources alwaysBlock = Inr cfg" "r \<in> set (cf_Routers cfg)" "n \<in> set (rc_Neighbors r)"
  shows "timersOk n"
proof -
  let ?P = "\<lambda>n. (\<forall>h. nc_HoldTime n = Some h \<longrightarrow> h = 0 \<or> 3 \<le> h) \<and>
    (\<forall>h k. nc_HoldTime n = Some h \<longrightarrow> nc_KeepaliveTime n = Some k \<longrightarrow> k \<le> h)"
  have "?P n"
  proof (rule apiToFRR_neighbor_induct [OF assms])
    show "?P nc" if "convertedNeighbor resources alwaysBlock cfg r n nc" for cfg r n nc
      using that by (rule convertedNeighbor_run)
        (auto simp: neighborToFRR_Inr newNeighbor_def dest!: parseTimers_bounds)
    show "?P c" if "mergeIntoNeighbor a b = Inr c" "?P a" "?P b" for a b c
      using mergeIntoNeighbor_timers [OF that(1)] that(2) by (elim disjE) simp_all
  qed
  then show ?thesis
    using apiToFRR_rNormal [OF assms(1,2)] assms(3)
    by (auto simp: timersOk_def rNormal_def nbNormal_def defaultHoldTime_def defaultKeepaliveTime_def
        defaultConnectTime_def split: option.splits)
qed

theorem timers_are_valid_witness:
  "nc_HoldTime sampleNeighborOut = Some 90 \<and> nc_KeepaliveTime sampleNeighborOut = Some 30 \<and>
   timersOk sampleNeighborOut"
  using timers_are_valid [OF sample_value, of defaultRouterOut sampleNeighborOut]
  by (simp add: sample_Routers sample_Neighbors) (simp add: sampleNeighborOut_def)

section \<open>BFD profiles\<close>

lemma addBFDProfile_Inr:
  "addBFDProfile nm (b, a) q = Inr (b', a') \<longleftrightarrow>
     mapGet b (bp_Name q) = None \<and> b' = mapSet b (bp_Name q) (bfdProfileToFRR q) \<and>
     (mapGet a (bp_Name q) = None \<and> a' = mapSet a (bp_Name q) (bfdProfileToFRR q) \<or>
      mapGet a (bp_Name q) = Some (bfdProfileToFRR q) \<and> a' = a)"
  by (auto simp: addBFDProfile_def Let_def bfdProfileToFRR_def split: option.splits if_splits)

lemma addBFDProfile_all:
  "foldE (addBFDProfile nm) (b, a) qs = Inr (b', a') \<Longrightarrow>
   (mapGet a' k = Some p \<longleftrightarrow> mapGet a k = Some p \<or> (\<exists>q\<in>set qs. bp_Name q = k \<and> p = bfdProfileToFRR q)) \<and>
   (mapGet b' k \<noteq> None \<longleftrightarrow> mapGet b k \<noteq> None \<or> (\<exists>q\<in>set qs. bp_Name q = k))"
proof (induction qs arbitrary: b a)
  case (Cons q qs)
  then obtain b1 a1 where step: "addBFDProfile nm (b, a) q = Inr (b1, a1)"
    and rest: "foldE (addBFDProfile nm) (b1, a1) qs = Inr (b', a')"
    by (auto simp: bindE_Inr_iff)
  have "mapGet a1 k = Some p \<longleftrightarrow> mapGet a k = Some p \<or> bp_Name q = k \<and> p = bfdProfileToFRR q"
    "mapGet b1 k \<noteq> None \<longleftrightarrow> mapGet b k \<noteq> None \<or> bp_Name q = k"
    using step by (auto simp: addBFDProfile_Inr split: if_splits)
  then show ?case using Cons.IH [OF rest] by auto
qed simp

definition configuredProfile :: "FRRConfiguration list \<Rightarrow> BFDProfile \<Rightarrow> bool" where
  "configuredProfile cfgs q \<longleftrightarrow> (\<exists>cfg\<in>set cfgs. q \<in> set (bgp_BFDProfiles (spec_BGP (cfg_Spec cfg))))"

lemma addConfig_profiles:
  "foldE (addConfig ab secrets) s cfgs = Inr s' \<Longrightarrow>
   mapGet (cs_bfdProfilesAllConfigs s') k = Some p \<longleftrightarrow>
     mapGet (cs_bfdProfilesAllConfigs s) k = Some p \<or>
     (\<exists>q. configuredProfile cfgs q \<and> bp_Name q = k \<and> p = bfdProfileToFRR q)"
proof (induction cfgs arbitrary: s)
  case (Cons cfg cfgs)
  then obtain t where step: "addConfig ab secrets s cfg = Inr t" and rest: "foldE (addConfig ab secrets) t cfgs = Inr s'"
    by (auto simp: bindE_Inr_iff)
  obtain bfd where bfd: "foldE (addBFDProfile (cfg_Name cfg)) ([], cs_bfdProfilesAllConfigs s)
       (bgp_BFDProfiles (spec_BGP (cfg_Spec cfg))) = Inr (bfd, cs_bfdProfilesAllConfigs t)"
    using addConfig_Inr [OF step] by metis
  show ?case
    using Cons.IH [OF rest] conjunct1 [OF addBFDProfile_all [OF bfd, of k p]]
    by (auto simp: configuredProfile_def)
qed (simp add: configuredProfile_def)

lemma built_profiles:
  assumes "apiToFRR resources alwaysBlock = Inr cfg"
  shows "set (cf_BFDProfiles cfg) = bfdProfileToFRR ` {q. configuredProfile (cr_FRRConfigs resources) q}"
proof -
  obtain s where run: "foldE (addConfig alwaysBlock (cr_PasswordSecrets resources))
       \<lparr>cs_rawConfigs = [], cs_routersForVRF = [], cs_bfdProfilesAllConfigs = []\<rparr> (cr_FRRConfigs resources) = Inr s"
    and ps: "cf_BFDProfiles cfg = sortMap (cs_bfdProfilesAllConfigs s)"
    using apiToFRR_Inr [OF assms(1)] by metis
  show ?thesis by (auto simp: ps set_sortMap addConfig_profiles [OF run, simplified])
qed

text \<open>
  C15: The BFD profiles of a built configuration are exactly the profiles the resources define, strictly ordered
  by name, and every profile a neighbor refers to is among them.
\<close>

theorem bfd_profiles_complete:
  assumes "apiToFRR resources alwaysBlock = Inr cfg" "r \<in> set (cf_Routers cfg)" "n \<in> set (rc_Neighbors r)"
  shows "set (cf_BFDProfiles cfg) = bfdProfileToFRR ` {q. configuredProfile (cr_FRRConfigs resources) q} \<and>
    sorted_wrt (\<lambda>p q. fbp_Name p < fbp_Name q) (cf_BFDProfiles cfg) \<and>
    (nc_BFDProfile n \<noteq> '''' \<longrightarrow> nc_BFDProfile n \<in> fbp_Name ` set (cf_BFDProfiles cfg))"
proof -
  obtain s where run: "foldE (addConfig alwaysBlock (cr_PasswordSecrets resources))
       \<lparr>cs_rawConfigs = [], cs_routersForVRF = [], cs_bfdProfilesAllConfigs = []\<rparr> (cr_FRRConfigs resources) = Inr s"
    and ps: "cf_BFDProfiles cfg = sortMap (cs_bfdProfilesAllConfigs s)"
    using apiToFRR_Inr [OF assms(1)] by metis
  note get = addConfig_profiles [OF run, simplified]
  have names: "fbp_Name (bfdProfileToFRR q) = bp_Name q" for q by (simp add: bfdProfileToFRR_def)
  have keyed: "keyedBy fbp_Name (cs_bfdProfilesAllConfigs s)"
    by (auto simp: keyedBy_def get names)
  note set = built_profiles [OF assms(1)]
  have "nc_BFDProfile n = [] \<or> (\<exists>q. configuredProfile (cr_FRRConfigs resources) q \<and> bp_Name q = nc_BFDProfile n)"
  proof (rule apiToFRR_neighbor_induct [OF assms])
    fix cfg r n nc
    assume "convertedNeighbor resources alwaysBlock cfg r n nc"
    then show "nc_BFDProfile nc = [] \<or> (\<exists>q. configuredProfile (cr_FRRConfigs resources) q \<and> bp_Name q = nc_BFDProfile nc)"
      by (rule convertedNeighbor_run)
        (auto simp: neighborToFRR_Inr neighborChecks_Inr configuredProfile_def dest!: addBFDProfile_all [THEN conjunct2])
  qed (auto simp: mergeIntoNeighbor_keeps)
  then have "nc_BFDProfile n \<noteq> [] \<longrightarrow> nc_BFDProfile n \<in> fbp_Name ` set (cf_BFDProfiles cfg)"
    unfolding set image_image names by (metis (mono_tags) image_eqI mem_Collect_eq)
  then show ?thesis
    using sortedByKey_sortMap [OF keyed] set unfolding ps [symmetric] sortedByKey_def sorted_wrt_map by simp
qed

theorem bfd_profiles_complete_witness:
  "nc_BFDProfile sampleNeighborOut = ''fast'' \<and> ''fast'' \<in> fbp_Name ` set (cf_BFDProfiles sampleConfig)"
proof -
  have n: "nc_BFDProfile sampleNeighborOut = ''fast''" by (simp add: sampleNeighborOut_def)
  have "defaultRouterOut \<in> set (cf_Routers sampleConfig)" "sampleNeighborOut \<in> set (rc_Neighbors defaultRouterOut)"
    by (simp_all add: sample_Routers sample_Neighbors)
  from bfd_profiles_complete [OF sample_value this] n show ?thesis by auto
qed

end
