(* ===== verification/Rendered.thy ===== *)
theory Rendered
  imports Sessions Frr_Daemon
begin

text \<open>
  What the file says about the filters of a neighbor, from the API resources to the rendered lines. The entries
  of a prefix list are collected over the whole file, because FRR merges all lines with one list name. The
  names of the lists are built from the identifier of the neighbor, and the lists of two neighbors are
  apart as long as their identifiers are.
\<close>

section \<open>Entries of a prefix list\<close>

fun entryOf :: "string \<Rightarrow> tmplItem \<Rightarrow> (string \<times> string \<times> string) list" where
  "entryOf x (PrefixListSeq fam name action prefix) = (if name = x then [(fam, action, prefix)] else [])"
| "entryOf x _ = []"

definition listEntries :: "string \<Rightarrow> tmplItem list \<Rightarrow> (string \<times> string \<times> string) list" where
  "listEntries x items = concat (map (entryOf x) items)"

lemma listEntries_simps [simp]:
  "listEntries x [] = []"
  "listEntries x (t # ts) = entryOf x t @ listEntries x ts"
  "listEntries x (ts @ us) = listEntries x ts @ listEntries x us"
  by (simp_all add: listEntries_def)

lemma listEntries_concat [simp]: "listEntries x (concat tss) = concat (map (listEntries x) tss)"
  by (induction tss) simp_all

definition advertisedEntries :: "string \<Rightarrow> string list \<Rightarrow> (string \<times> string \<times> string) list" where
  "advertisedEntries fam prefixes =
     (if prefixes = [] then [(fam, ''deny'', ''any'')] else map (\<lambda>p. (fam, ''permit'', p)) prefixes)"

definition filterEntries :: "IncomingFilter list \<Rightarrow> (string \<times> string \<times> string) list" where
  "filterEntries filters = map (\<lambda>i. (tmpl_frrIPFamily (if_IPFamily i), ''permit'', if_Prefix i @ Matcher i)) filters"

definition allowedEntries :: "AllowedIn \<Rightarrow> (string \<times> string \<times> string) list" where
  "allowedEntries a =
     filterEntries (AllPrefixes a) @
     (if ai_All a then [(''ip'', ''permit'', ''any''), (''ipv6'', ''permit'', ''any'')]
      else (if ai_PrefixesV4 a = [] then [(''ip'', ''deny'', ''any'')] else []) @
        (if ai_PrefixesV6 a = [] then [(''ipv6'', ''deny'', ''any'')] else []))"

lemma concat_map_if:
  "concat (map (\<lambda>y. if P then [f y] else []) ys) = (if P then map f ys else [])"
  by (induction ys) simp_all

lemma listEntries_toAdvertise:
  "listEntries x (toAdvertiseItems fam name ps) = (if x = name then advertisedEntries fam ps else [])"
  by (auto simp: toAdvertiseItems_def advertisedEntries_def comp_def concat_map_if [where f = "\<lambda>p. (fam, ''permit'', p)", symmetric])

lemma listEntries_filter:
  "listEntries x (filterItems name fs) = (if x = name then filterEntries fs else [])"
  by (induction fs) (auto simp: filterItems_def filterEntries_def)

lemma listEntries_allowed:
  "listEntries x (allowedItems n) = (if x = allowedIncomingList n then allowedEntries (nc_Incoming n) else [])"
  by (simp add: allowedItems_def Let_def listEntries_filter allowedEntries_def)

lemma listEntries_routeMap [simp]: "listEntries x (inRouteMap n action l) = []"
  by (simp add: inRouteMap_def)

lemma listEntries_denied:
  "listEntries x (deniedItems n) = (if x = deniedIncomingList n then filterEntries (nc_AlwaysBlock n) else [])"
  by (simp add: deniedItems_def listEntries_filter) (simp add: filterEntries_def)

lemma listEntries_property:
  "x \<noteq> ppl_PrefixListName pl \<Longrightarrow> listEntries x (propertyListItems nid pl) = []"
  by (simp add: propertyListItems_def comp_def)

section \<open>Names of the lists\<close>

definition fixedLists :: "NeighborConfig \<Rightarrow> string list" where
  "fixedLists n = [ToAdvertisePrefixListV4 n, ToAdvertisePrefixListV6 n, allowedIncomingList n, deniedIncomingList n]"

text \<open>The lists for local preferences and communities end in a word no other list ends in.\<close>

definition modifierNamesOk :: "AllowedOut \<Rightarrow> bool" where
  "modifierNamesOk a \<longleftrightarrow>
     (\<forall>pl\<in>set (ao_LocalPrefPrefixesModifiers a). \<exists>s. pl_Name pl = s @ ''-prefixes'') \<and>
     (\<forall>pl\<in>set (ao_CommunityPrefixesModifiers a). \<exists>s. pl_Name pl = s @ ''-prefixes'')"

lemma familyString_no_dash [simp]: "CHR ''-'' \<notin> set (familyString f)"
  by (cases f) simp_all

lemma familyString_prefixes [simp]: "familyString f \<noteq> ''prefixes''" "''prefixes'' \<noteq> familyString f"
  by (cases f; simp)+

lemma fixedLists_suffix:
  "ToAdvertisePrefixListV4 n = ID n @ CHR ''-'' # ''allowed'' @ CHR ''-'' # ''ipv4''"
  "ToAdvertisePrefixListV6 n = ID n @ CHR ''-'' # ''allowed'' @ CHR ''-'' # ''ipv6''"
  "allowedIncomingList n = ID n @ CHR ''-'' # ''inpl'' @ CHR ''-'' # familyString (nc_IPFamily n)"
  "deniedIncomingList n = (ID n @ ''-denied'') @ CHR ''-'' # ''inpl'' @ CHR ''-'' # familyString (nc_IPFamily n)"
  by (simp_all add: ToAdvertisePrefixListV4_def ToAdvertisePrefixListV6_def allowedIncomingList_def deniedIncomingList_def)

lemma fixedLists_shape:
  assumes "x \<in> set (fixedLists n)"
  obtains i a f where "x = i @ CHR ''-'' # a @ CHR ''-'' # f" "CHR ''-'' \<notin> set a" "CHR ''-'' \<notin> set f" "f \<noteq> ''prefixes''"
    "i = ID n \<or> i = ID n @ ''-denied'' \<and> a = ''inpl''"
proof -
  have no: "CHR ''-'' \<notin> set ''allowed''" "CHR ''-'' \<notin> set ''inpl''" "CHR ''-'' \<notin> set ''ipv4''" "CHR ''-'' \<notin> set ''ipv6''"
    "''ipv4'' \<noteq> ''prefixes''" "''ipv6'' \<noteq> ''prefixes''" by simp_all
  consider "x = ToAdvertisePrefixListV4 n" | "x = ToAdvertisePrefixListV6 n" | "x = allowedIncomingList n" | "x = deniedIncomingList n"
    using assms unfolding fixedLists_def by auto
  then show thesis
  proof cases
    case 1
    show thesis by (rule that [OF 1 [unfolded fixedLists_suffix] no(1,3,5)]) (rule disjI1 [OF refl])
  next
    case 2
    show thesis by (rule that [OF 2 [unfolded fixedLists_suffix] no(1,4,6)]) (rule disjI1 [OF refl])
  next
    case 3
    show thesis by (rule that [OF 3 [unfolded fixedLists_suffix] no(2)]) simp_all
  next
    case 4
    show thesis by (rule that [OF 4 [unfolded fixedLists_suffix] no(2)]) simp_all
  qed
qed

lemma fixedLists_apart:
  assumes "x \<in> set (fixedLists n)" "x \<in> set (fixedLists m)"
    and "ID m \<noteq> ID n @ ''-denied''" "ID n \<noteq> ID m @ ''-denied''"
  shows "ID m = ID n"
proof -
  obtain i a f where n: "x = i @ CHR ''-'' # a @ CHR ''-'' # f" "CHR ''-'' \<notin> set a" "CHR ''-'' \<notin> set f"
    "i = ID n \<or> i = ID n @ ''-denied'' \<and> a = ''inpl''"
    using assms(1) by (rule fixedLists_shape)
  obtain j b g where m: "x = j @ CHR ''-'' # b @ CHR ''-'' # g" "CHR ''-'' \<notin> set b" "CHR ''-'' \<notin> set g"
    "j = ID m \<or> j = ID m @ ''-denied'' \<and> b = ''inpl''"
    using assms(2) by (rule fixedLists_shape)
  have "i = j" using n(1) m(1) dash_inject_two [OF n(2) m(2) n(3) m(3)] by blast
  then show ?thesis using n(4) m(4) assms(3,4) by auto
qed

lemma fixedLists_not_modifier:
  assumes "x \<in> set (fixedLists n)"
  shows "x \<noteq> s @ ''-prefixes''"
proof -
  obtain i a f where x: "x = i @ CHR ''-'' # a @ CHR ''-'' # f" and f: "CHR ''-'' \<notin> set f" "f \<noteq> ''prefixes''"
    using assms by (rule fixedLists_shape)
  have "CHR ''-'' \<notin> set ''prefixes''" by simp
  from dash_inject_last [OF f(1) this, of "i @ CHR ''-'' # a" s] show ?thesis using x f(2) by simp
qed

lemma fixedLists_distinct: "distinct (fixedLists n)"
proof -
  note two = dash_inject_two [of _ _ _ _ "ID n" "ID n"] dash_inject_two [of _ _ _ _ "ID n" "ID n @ ''-denied''"]
  have "ID n \<noteq> ID n @ ''-denied''" by simp
  then show ?thesis
    using two [of "''allowed''" "''allowed''" "''ipv4''" "''ipv6''"]
      two [of "''allowed''" "''inpl''" "''ipv4''" "familyString (nc_IPFamily n)"]
      two [of "''allowed''" "''inpl''" "''ipv6''" "familyString (nc_IPFamily n)"]
      two [of "''inpl''" "''inpl''" "familyString (nc_IPFamily n)" "familyString (nc_IPFamily n)"]
    unfolding fixedLists_def fixedLists_suffix by simp
qed

section \<open>The filters of one neighbor\<close>

lemma modifiers_no_entries:
  assumes "modifierNamesOk (nc_Outgoing m)" "x \<in> set (fixedLists n)"
  shows "listEntries x (concat (map (propertyListItems (ID m)) (PrefixLists (nc_Outgoing m)))) = []"
proof -
  have "listEntries x (propertyListItems (ID m) pl) = []" if "pl \<in> set (PrefixLists (nc_Outgoing m))" for pl
  proof (rule listEntries_property)
    have "\<exists>s. ppl_PrefixListName pl = s @ ''-prefixes''"
      using that assms(1) by (auto simp: PrefixLists_def modifierNamesOk_def PrefixListName_def)
    then show "x \<noteq> ppl_PrefixListName pl" using fixedLists_not_modifier [OF assms(2)] by metis
  qed
  then show ?thesis by (simp add: comp_def)
qed

lemma listEntries_neighborfilters:
  assumes "modifierNamesOk (nc_Outgoing m)" "x \<in> set (fixedLists n)"
  shows "listEntries x (neighborfilters m) =
    (if x = ToAdvertisePrefixListV4 m then advertisedEntries ''ip'' (ao_PrefixesV4 (nc_Outgoing m))
     else if x = ToAdvertisePrefixListV6 m then advertisedEntries ''ipv6'' (ao_PrefixesV6 (nc_Outgoing m))
     else if x = allowedIncomingList m then allowedEntries (nc_Incoming m)
     else if x = deniedIncomingList m then filterEntries (nc_AlwaysBlock m) else [])"
  using modifiers_no_entries [OF assms] fixedLists_distinct [of m]
  by (auto simp: neighborfilters_def outgoingItems_def listEntries_toAdvertise listEntries_allowed listEntries_denied
      fixedLists_def)

definition configNeighbors :: "Config \<Rightarrow> NeighborConfig list" where
  "configNeighbors c = concat (map rc_Neighbors (cf_Routers c))"

lemma listEntries_frr_tmpl:
  "listEntries x (frr_tmpl c) = concat (map (\<lambda>n. listEntries x (neighborfilters n)) (configNeighbors c))"
proof -
  have "concat (map (\<lambda>r. concat (map (\<lambda>n. listEntries x (neighborfilters n)) (rc_Neighbors r))) rs) =
      concat (map (\<lambda>n. listEntries x (neighborfilters n)) (concat (map rc_Neighbors rs)))" for rs
    by (induction rs) simp_all
  then show ?thesis by (simp add: frr_tmpl_def comp_def configNeighbors_def)
qed

definition idsSeparate :: "Config \<Rightarrow> bool" where
  "idsSeparate c \<longleftrightarrow>
     distinct (map ID (configNeighbors c)) \<and>
     (\<forall>m\<in>set (configNeighbors c). \<forall>n\<in>set (configNeighbors c). ID m \<noteq> ID n @ ''-denied'')"

lemma concat_map_single:
  assumes "distinct (map k xs)" "x \<in> set xs" "\<And>y. y \<in> set xs \<Longrightarrow> k y \<noteq> k x \<Longrightarrow> f y = []"
  shows "concat (map f xs) = f x"
  using assms
proof (induction xs)
  case (Cons y ys)
  show ?case
  proof (cases "x = y")
    case True
    then have "f z = []" if "z \<in> set ys" for z
      using that Cons.prems(1) Cons.prems(3) [of z] by (auto simp: image_iff)
    then show ?thesis using True by simp
  next
    case False
    then have "x \<in> set ys" using Cons.prems(2) by simp
    moreover have "k y \<noteq> k x" using Cons.prems(1) \<open>x \<in> set ys\<close> by (auto simp: image_iff)
    ultimately show ?thesis using Cons.IH Cons.prems by simp
  qed
qed simp

lemma listEntries_own:
  assumes "idsSeparate c" "n \<in> set (configNeighbors c)" "\<forall>m\<in>set (configNeighbors c). modifierNamesOk (nc_Outgoing m)"
    and "x \<in> set (fixedLists n)"
  shows "listEntries x (frr_tmpl c) = listEntries x (neighborfilters n)"
  unfolding listEntries_frr_tmpl
proof (rule concat_map_single [where k = ID])
  show "distinct (map ID (configNeighbors c))" using assms(1) by (simp add: idsSeparate_def)
  fix m
  assume m: "m \<in> set (configNeighbors c)" "ID m \<noteq> ID n"
  then have "x \<notin> set (fixedLists m)"
    using fixedLists_apart [OF assms(4), of m] assms(1,2) by (auto simp: idsSeparate_def)
  then show "listEntries x (neighborfilters m) = []"
    using listEntries_neighborfilters [OF _ assms(4), of m] assms(3) m(1) by (simp add: fixedLists_def)
qed (rule assms(2))

section \<open>Modifier lists of a conversion\<close>

lemma mergeAllowedOut_names:
  assumes "mergeAllowedOut a b = Inr c" "modifierNamesOk a" "modifierNamesOk b"
  shows "modifierNamesOk c"
proof -
  have "\<exists>s. pl_Name pl = s @ ''-prefixes''"
    if pl: "pl \<in> set (mergeLocalPrefPrefixLists (ao_LocalPrefPrefixesModifiers a) (ao_LocalPrefPrefixesModifiers b))"
    for pl
    by (rule lpm.merge_invariant [OF mergeLocalPref_keyed keyedBy_fillMap _ _ _ pl,
          where P = "\<lambda>pl. \<exists>s. pl_Name pl = s @ ''-prefixes''"])
      (use assms(2,3) in \<open>fastforce simp: modifierNamesOk_def mapGet_fillMap addPrefixes_def
         dest!: lookupKey_Some\<close>)+
  moreover have "\<exists>s. pl_Name pl = s @ ''-prefixes''"
    if pl: "pl \<in> set (mergeCommunityPrefixLists (ao_CommunityPrefixesModifiers a) (ao_CommunityPrefixesModifiers b))"
    for pl
    by (rule cpm.merge_invariant [OF mergeCommunity_keyed keyedBy_fillMap _ _ _ pl,
          where P = "\<lambda>pl. \<exists>s. pl_Name pl = s @ ''-prefixes''"])
      (use assms(2,3) in \<open>fastforce simp: modifierNamesOk_def mapGet_fillMap addPrefixes_def
         dest!: lookupKey_Some\<close>)+
  moreover have
    "ao_LocalPrefPrefixesModifiers c = mergeLocalPrefPrefixLists (ao_LocalPrefPrefixesModifiers a) (ao_LocalPrefPrefixesModifiers b)"
    "ao_CommunityPrefixesModifiers c = mergeCommunityPrefixLists (ao_CommunityPrefixesModifiers a) (ao_CommunityPrefixesModifiers b)"
    using assms(1) by (auto simp: mergeAllowedOut_Inr_iff)
  ultimately show ?thesis unfolding modifierNamesOk_def by simp
qed

lemma toAdvertiseToFRR_names:
  assumes "toAdvertiseToFRR nb adv ps = Inr out"
  shows "modifierNamesOk out"
proof -
  have "\<exists>s. localPrefPrefixListName i p f = s @ ''-prefixes''" for i p f
    by (rule exI [of _ "i @ ''-'' @ itoa (unat p) @ ''-'' @ f @ ''-localpref''"]) (simp add: localPrefPrefixListName_def)
  moreover have "\<exists>s. communityPrefixListName i c f = s @ ''-prefixes''" for i c f
    by (rule exI [of _ "i @ ''-'' @ commLabel c @ ''-'' @ f @ ''-community''"])
      (simp add: communityPrefixListName_def commLabel_def)
  ultimately show ?thesis
    using toAdvertiseToFRR_lists(1,3) [OF assms]
    by (auto simp: modifierNamesOk_def localPrefListsFor_def communityListsFor_def localPrefList_def communityList_def)
qed

lemma apiToFRR_names:
  assumes "apiToFRR resources alwaysBlock = Inr cfg" "n \<in> set (configNeighbors cfg)"
  shows "modifierNamesOk (nc_Outgoing n)"
proof -
  obtain r where "r \<in> set (cf_Routers cfg)" "n \<in> set (rc_Neighbors r)" using assms(2) by (auto simp: configNeighbors_def)
  from apiToFRR_neighbor_induct [OF assms(1) this, where P = "\<lambda>_ n. modifierNamesOk (nc_Outgoing n)"]
  show ?thesis
    using convertedNeighbor_outgoing toAdvertiseToFRR_names mergeAllowedOut_names mergeIntoNeighbor_out by metis
qed

lemma ApplyConfig_neighbors:
  assumes "ApplyConfig (Inr host) f c = Inr ev" "re_config ev = Some c'"
  shows "configNeighbors c' = configNeighbors c"
proof -
  have "rc_Neighbors \<circ> fillRouterID i = rc_Neighbors" for i by (simp add: fillRouterID_def fun_eq_iff)
  then show ?thesis using assms by (auto simp: ApplyConfig_def Let_def configNeighbors_def)
qed

lemma neighbor_of_router:
  "r \<in> set (cf_Routers c) \<Longrightarrow> n \<in> set (rc_Neighbors r) \<Longrightarrow> n \<in> set (configNeighbors c)"
  by (auto simp: configNeighbors_def)

lemma rendered_fixed_list:
  assumes "apiToFRR resources alwaysBlock = Inr cfg" "idsSeparate cfg" "n \<in> set (configNeighbors cfg)"
    and "configNeighbors c' = configNeighbors cfg" "x \<in> set (fixedLists n)"
  shows "listEntries x (frr_tmpl c') = listEntries x (neighborfilters n)"
  using assms apiToFRR_names [OF assms(1)]
  by (intro listEntries_own) (simp_all add: idsSeparate_def)

text \<open>
  C2: In the file rendered for a configuration that the conversion built and \<open>ApplyConfig\<close> completed, when the
  identifiers of the neighbors are apart, the lists that filter what a neighbor is sent hold exactly a permit
  for each prefix it is advertised, or a single deny when there is none, so a permitted prefix is one its VRF
  provides; the list of what is accepted from it holds exactly its filters, or permits any, or denies any, and
  the list of what is refused holds exactly the always-blocked prefixes.
\<close>

theorem rendered_filters_match_resources:
  assumes "apiToFRR resources alwaysBlock = Inr cfg" "idsSeparate cfg" "r \<in> set (cf_Routers cfg)" "n \<in> set (rc_Neighbors r)"
    and "ApplyConfig (Inr host) f (cfg\<lparr>cf_Loglevel := lvl\<rparr>) = Inr ev" "re_config ev = Some cfg'"
  shows "listEntries (ToAdvertisePrefixListV4 n) (frr_tmpl cfg') = advertisedEntries ''ip'' (ao_PrefixesV4 (nc_Outgoing n)) \<and>
    listEntries (ToAdvertisePrefixListV6 n) (frr_tmpl cfg') = advertisedEntries ''ipv6'' (ao_PrefixesV6 (nc_Outgoing n)) \<and>
    listEntries (allowedIncomingList n) (frr_tmpl cfg') = allowedEntries (nc_Incoming n) \<and>
    listEntries (deniedIncomingList n) (frr_tmpl cfg') = filterEntries (alwaysBlockToFRR alwaysBlock) \<and>
    (\<forall>fam p l. l \<in> {ToAdvertisePrefixListV4 n, ToAdvertisePrefixListV6 n} \<and>
       (fam, ''permit'', p) \<in> set (listEntries l (frr_tmpl cfg')) \<longrightarrow> vrfProvides resources (rc_VRF r) p)"
proof -
  have n: "n \<in> set (configNeighbors cfg)" using assms(3,4) by (rule neighbor_of_router)
  have nb: "configNeighbors cfg' = configNeighbors cfg"
    using ApplyConfig_neighbors [OF assms(5,6)] by (simp add: configNeighbors_def)
  note entries = rendered_fixed_list [OF assms(1,2) n nb]
    listEntries_neighborfilters [OF apiToFRR_names [OF assms(1) n], where n = n]
  have block: "nc_AlwaysBlock n = alwaysBlockToFRR alwaysBlock"
    using apiToFRR_session [OF assms(1,3,4)] by (simp add: sessionOk_def)
  have distinct: "distinct (fixedLists n)" by (rule fixedLists_distinct)
  have adv: "vrfProvides resources (rc_VRF r) p"
    if "p \<in> set (ao_PrefixesV4 (nc_Outgoing n)) \<union> set (ao_PrefixesV6 (nc_Outgoing n))" for p
    using apiToFRR_provenance [OF assms(1,3,4)] that by (auto simp: advertised_def)
  have e: "listEntries (ToAdvertisePrefixListV4 n) (frr_tmpl cfg') = advertisedEntries ''ip'' (ao_PrefixesV4 (nc_Outgoing n))"
    "listEntries (ToAdvertisePrefixListV6 n) (frr_tmpl cfg') = advertisedEntries ''ipv6'' (ao_PrefixesV6 (nc_Outgoing n))"
    "listEntries (allowedIncomingList n) (frr_tmpl cfg') = allowedEntries (nc_Incoming n)"
    "listEntries (deniedIncomingList n) (frr_tmpl cfg') = filterEntries (alwaysBlockToFRR alwaysBlock)"
    using distinct distinct [unfolded distinct_rev [symmetric, of "fixedLists n"]]
    by (simp_all add: entries fixedLists_def block)
  then show ?thesis using adv by (auto simp: advertisedEntries_def split: if_splits)
qed

lemma sample_ids: "map ID (configNeighbors sampleConfig) = [''192.168.10.2'', ''eth0'']"
  by (simp add: configNeighbors_def sampleConfig_def defaultRouterOut_def redRouterOut_def sampleNeighborOut_def
      unnumberedOut_def ID_def)

theorem rendered_filters_match_resources_witness:
  "listEntries ''192.168.10.2-allowed-ipv4''
     (frr_tmpl (sampleConfig\<lparr>cf_Loglevel := ''informational'', cf_Hostname := ''node''\<rparr>)) =
     [(''ip'', ''permit'', ''192.168.1.0/24''), (''ip'', ''permit'', ''192.168.2.0/24'')]"
proof -
  let ?f = "v6OnlyFRR\<lparr>frr_fallbackRouterID := ''''\<rparr>"
  let ?c = "sampleConfig\<lparr>cf_Loglevel := ''informational'', cf_Hostname := ''node''\<rparr>"
  have app: "ApplyConfig (Inr ''node'') ?f (sampleConfig\<lparr>cf_Loglevel := ''informational''\<rparr>) =
      Inr \<lparr>re_config = Some ?c, re_useOld = False\<rparr>" by (simp add: ApplyConfig_def)
  have sep: "idsSeparate sampleConfig"
  proof -
    have "\<forall>i\<in>set (map ID (configNeighbors sampleConfig)). \<forall>j\<in>set (map ID (configNeighbors sampleConfig)). i \<noteq> j @ ''-denied''"
      unfolding sample_ids by simp
    moreover have "distinct (map ID (configNeighbors sampleConfig))" unfolding sample_ids by simp
    ultimately show ?thesis by (auto simp: idsSeparate_def)
  qed
  have mem: "defaultRouterOut \<in> set (cf_Routers sampleConfig)" "sampleNeighborOut \<in> set (rc_Neighbors defaultRouterOut)"
    by (simp_all add: sample_Routers sample_Neighbors)
  have "ToAdvertisePrefixListV4 sampleNeighborOut = ''192.168.10.2-allowed-ipv4''"
    "ao_PrefixesV4 (nc_Outgoing sampleNeighborOut) = [''192.168.1.0/24'', ''192.168.2.0/24'']"
    by (simp_all add: ToAdvertisePrefixListV4_def ID_def sampleNeighborOut_def)
  with rendered_filters_match_resources [OF sample_value sep mem app] show ?thesis
    by (simp add: advertisedEntries_def)
qed

section \<open>When identifiers are apart\<close>

text \<open>
  Identifiers join the address or interface and the VRF with a dash. They are apart when neither contains one
  and no VRF is called \<open>denied\<close>.
\<close>

definition dashFree :: "NeighborConfig \<Rightarrow> bool" where
  "dashFree n \<longleftrightarrow> CHR ''-'' \<notin> set (tmpl_peer n) \<and> CHR ''-'' \<notin> set (nc_VRFName n) \<and> nc_VRFName n \<noteq> ''denied''"

lemma ID_parts: "ID n = tmpl_peer n @ (if nc_VRFName n = [] then [] else CHR ''-'' # nc_VRFName n)"
  by (simp add: ID_def tmpl_peer_def Let_def)

lemma dash_split_unique:
  "CHR ''-'' \<notin> set a \<Longrightarrow> CHR ''-'' \<notin> set b \<Longrightarrow>
   a @ (if v = [] then [] else CHR ''-'' # v) = b @ (if w = [] then [] else CHR ''-'' # w) \<longleftrightarrow> a = b \<and> v = w"
  by (auto simp: dash_inject)

lemma dashFree_ID_inject: "dashFree m \<Longrightarrow> dashFree n \<Longrightarrow> ID m = ID n \<longleftrightarrow> tmpl_peer m = tmpl_peer n \<and> nc_VRFName m = nc_VRFName n"
  unfolding ID_parts dashFree_def by (rule dash_split_unique) simp_all

lemma dashFree_ID_denied:
  assumes "dashFree m" "dashFree n"
  shows "ID m \<noteq> ID n @ ''-denied''"
proof
  assume "ID m = ID n @ ''-denied''"
  then have "tmpl_peer m @ (if nc_VRFName m = [] then [] else CHR ''-'' # nc_VRFName m) =
      tmpl_peer n @ CHR ''-'' # (if nc_VRFName n = [] then ''denied'' else nc_VRFName n @ ''-denied'')"
    by (simp add: ID_parts split: if_splits)
  then have "nc_VRFName m = (if nc_VRFName n = [] then ''denied'' else nc_VRFName n @ ''-denied'')"
    using assms dash_split_unique [of "tmpl_peer m" "tmpl_peer n" "nc_VRFName m"
        "if nc_VRFName n = [] then ''denied'' else nc_VRFName n @ ''-denied''"]
    by (simp add: dashFree_def split: if_splits)
  then show False using assms(1) by (auto simp: dashFree_def split: if_splits)
qed

text \<open>
  Two ways in which they are not: an interface whose name contains the name of another one and of its VRF, and a
  VRF called \<open>denied\<close>, whose accepted prefixes are refused from the same peer in the default VRF.
\<close>

lemma interface_and_vrf_collide:
  "ID (n\<lparr>nc_Iface := ''eth0-red'', nc_VRFName := ''''\<rparr>) = ID (n\<lparr>nc_Iface := ''eth0'', nc_VRFName := ''red''\<rparr>)"
  by (simp add: ID_def)

lemma vrf_denied_collides:
  "deniedIncomingList (n\<lparr>nc_VRFName := ''''\<rparr>) = allowedIncomingList (n\<lparr>nc_VRFName := ''denied''\<rparr>)"
  by (simp add: deniedIncomingList_def allowedIncomingList_def ID_def)

end
