(* ===== verification/Pipeline.thy ===== *)
theory Pipeline
  imports Reconcile Rendered
begin

text \<open>
  The path of a configuration through the process that runs on a node: the controller reconciles and hands a
  configuration to \<open>ApplyConfig\<close>, which sends it to the debouncer; the debouncer renders and writes it and
  signals the reloader; the poller asks for another reload when the last one failed. One step is one event
  of one of these parts, so their interleavings are the sequences of steps. The answers of the API server
  and of the operating system come with the label of the step.
\<close>

section \<open>State and steps\<close>

record pipeParams =
  pp_rec :: recParams
  pp_deepEqual :: "Config option \<Rightarrow> Config option \<Rightarrow> bool"
  pp_reloadInterval :: nat
  pp_failureRetryInterval :: nat
  pp_configFileName :: string
  pp_reloaderPidFileName :: string

text \<open>The content of the configuration file is unknown before the first write and after a failed one.\<close>

record pipeline =
  pi_rec :: recState
  pi_frr :: FRR
  pi_deb :: "Config debWorld"
  pi_file :: "string option"

datatype pipeLabel =
    ReconcileEvent recInput "(error, string) result"
  | PollEvent osState
  | TimerEvent osState
  | ClockEvent

text \<open>The handler of the controller is \<open>ApplyConfig\<close>; what it sends is received by the debouncer.\<close>

definition handlerParams :: "pipeParams \<Rightarrow> (error, string) result \<Rightarrow> FRR \<Rightarrow> recParams" where
  "handlerParams P osHostname f =
     (pp_rec P)\<lparr>rp_applyConfig := (\<lambda>c. bindE (ApplyConfig osHostname f c) (\<lambda>_. Inr ()))\<rparr>"

definition sentEvents :: "(error, string) result \<Rightarrow> FRR \<Rightarrow> Config list \<Rightarrow> Config reloadEvent list" where
  "sentEvents osHostname f cs =
     concat (map (\<lambda>c. case ApplyConfig osHostname f c of Inl _ \<Rightarrow> [] | Inr ev \<Rightarrow> [ev]) cs)"

definition receiveEvent :: "pipeParams \<Rightarrow> Config debWorld \<Rightarrow> Config reloadEvent \<Rightarrow> Config debWorld" where
  "receiveEvent P w ev =
     w\<lparr>dw_deb := receiveReload (pp_deepEqual P) (pp_reloadInterval P) (dw_now w) ev (dw_deb w),
       dw_latest := (if re_useOld ev then dw_latest w else re_config ev)\<rparr>"

definition fileAfter :: "osState \<Rightarrow> string option \<Rightarrow> osCall list \<Rightarrow> string option" where
  "fileAfter sys = foldl (\<lambda>file call.
     case call of
       WriteFile name text \<Rightarrow> (case os_writeFile sys name text of Inr _ \<Rightarrow> Some text | Inl _ \<Rightarrow> None)
     | SigHup _ \<Rightarrow> file)"

abbreviation pipeDebStep :: "pipeParams \<Rightarrow> Config debWorld \<Rightarrow> Config debLabel \<Rightarrow> Config debWorld \<Rightarrow> bool" where
  "pipeDebStep P \<equiv> debStep (pp_deepEqual P) (pp_reloadInterval P) (pp_failureRetryInterval P)"

inductive pipeStep :: "pipeParams \<Rightarrow> pipeline \<Rightarrow> pipeLabel \<Rightarrow> pipeline \<Rightarrow> bool" for P where
  reconcile:
    "Reconcile (handlerParams P osHostname (pi_frr p)) inp (pi_rec p) = Some (err, s') \<Longrightarrow>
     pipeStep P p (ReconcileEvent inp osHostname)
       (p\<lparr>pi_rec := s',
          pi_deb := foldl (receiveEvent P) (pi_deb p)
            (sentEvents osHostname (pi_frr p) (drop (length (rs_applied (pi_rec p))) (rs_applied s')))\<rparr>)"
| poll:
    "pollTick (fetchStatus sys) (pi_frr p) = (evs, f', called) \<Longrightarrow>
     pipeStep P p (PollEvent sys) (p\<lparr>pi_frr := f', pi_deb := foldl (receiveEvent P) (pi_deb p) evs\<rparr>)"
| timer:
    "db_config (dw_deb (pi_deb p)) = Some cfg \<Longrightarrow>
     generateAndReloadConfigFile sys (pp_configFileName P) (pp_reloaderPidFileName P) cfg = (res, calls) \<Longrightarrow>
     pipeDebStep P (pi_deb p) (Fire (isOk res)) w' \<Longrightarrow>
     pipeStep P p (TimerEvent sys) (p\<lparr>pi_deb := w', pi_file := fileAfter sys (pi_file p) calls\<rparr>)"
| clock:
    "pipeDebStep P (pi_deb p) Tick w' \<Longrightarrow> pipeStep P p ClockEvent (p\<lparr>pi_deb := w'\<rparr>)"

inductive pipeRun :: "pipeParams \<Rightarrow> pipeline \<Rightarrow> pipeLabel list \<Rightarrow> pipeline \<Rightarrow> bool" for P where
  none: "pipeRun P p [] p"
| more: "pipeRun P p ls p' \<Longrightarrow> pipeStep P p' l p'' \<Longrightarrow> pipeRun P p (ls @ [l]) p''"

inductive_cases pipeStep_Timer: "pipeStep P p (TimerEvent sys) p'"
inductive_cases pipeStep_Clock: "pipeStep P p ClockEvent p'"
inductive_cases pipeStep_Reconcile: "pipeStep P p (ReconcileEvent inp osHostname) p'"

definition pipeInit :: "recState \<Rightarrow> FRR \<Rightarrow> pipeline" where
  "pipeInit s f = \<lparr>pi_rec = s, pi_frr = f, pi_deb = debWorldInit, pi_file = None\<rparr>"

section \<open>Invariant\<close>

text \<open>
  The debouncer's invariant, it is never stopped, and after a successful call the file holds the rendering of
  the configuration of that call.
\<close>

definition pipeInv :: "pipeParams \<Rightarrow> pipeline \<Rightarrow> bool" where
  "pipeInv P p \<longleftrightarrow>
     debInv (pp_reloadInterval P) (pp_failureRetryInterval P) (pi_deb p) \<and> \<not> dw_stopped (pi_deb p) \<and>
     (\<forall>c. dw_calls (pi_deb p) \<noteq> [] \<and> snd (last (dw_calls (pi_deb p))) = (Some c, True) \<longrightarrow>
        (\<exists>text. templateConfig c = Inr text \<and> pi_file p = Some text))"

lemma pipeInv_init: "pipeInv P (pipeInit s f)"
  by (simp add: pipeInv_def pipeInit_def debInv_init) (simp add: debWorldInit_def)

lemma receiveEvent_simps [simp]:
  "dw_calls (receiveEvent P w ev) = dw_calls w" "dw_stopped (receiveEvent P w ev) = dw_stopped w"
  "dw_now (receiveEvent P w ev) = dw_now w"
  "dw_latest (receiveEvent P w ev) = (if re_useOld ev then dw_latest w else re_config ev)"
  by (simp_all add: receiveEvent_def)

lemma receiveEvent_inv:
  assumes "\<And>a b. pp_deepEqual P a b \<Longrightarrow> a = b"
    and "debInv (pp_reloadInterval P) (pp_failureRetryInterval P) w" "\<not> dw_stopped w"
    and "\<forall>ev\<in>set evs. re_useOld ev \<or> re_config ev \<noteq> None"
  shows "debInv (pp_reloadInterval P) (pp_failureRetryInterval P) (foldl (receiveEvent P) w evs) \<and>
    dw_calls (foldl (receiveEvent P) w evs) = dw_calls w \<and> dw_stopped (foldl (receiveEvent P) w evs) = dw_stopped w \<and>
    dw_now (foldl (receiveEvent P) w evs) = dw_now w"
  using assms(2-4)
proof (induction evs arbitrary: w)
  case (Cons ev evs)
  have "debInv (pp_reloadInterval P) (pp_failureRetryInterval P) (receiveEvent P w ev)"
    unfolding receiveEvent_def
    by (rule debInv_receive [OF assms(1) Cons.prems(1,2)]) (use Cons.prems(3) in simp_all)
  with Cons.IH [of "receiveEvent P w ev"] Cons.prems show ?case by simp
qed simp

lemma pipeInv_receive:
  assumes "\<And>a b. pp_deepEqual P a b \<Longrightarrow> a = b" "pipeInv P p" "\<And>ev. ev \<in> set evs \<Longrightarrow> re_useOld ev \<or> re_config ev \<noteq> None"
    and "pi_deb p' = foldl (receiveEvent P) (pi_deb p) evs" "pi_file p' = pi_file p"
  shows "pipeInv P p'"
proof -
  have "debInv (pp_reloadInterval P) (pp_failureRetryInterval P) (foldl (receiveEvent P) (pi_deb p) evs) \<and>
      dw_calls (foldl (receiveEvent P) (pi_deb p) evs) = dw_calls (pi_deb p) \<and>
      dw_stopped (foldl (receiveEvent P) (pi_deb p) evs) = dw_stopped (pi_deb p) \<and>
      dw_now (foldl (receiveEvent P) (pi_deb p) evs) = dw_now (pi_deb p)"
    by (rule receiveEvent_inv) (use assms(1-3) in \<open>simp_all add: pipeInv_def\<close>)
  then show ?thesis using assms(2,4,5) by (simp add: pipeInv_def)
qed

lemma sentEvents_config: "ev \<in> set (sentEvents h f cs) \<Longrightarrow> re_config ev \<noteq> None"
  by (cases h) (auto simp: sentEvents_def ApplyConfig_def Let_def split: sum.splits)

lemma pollTick_events: "pollTick got f = (evs, f', b) \<Longrightarrow> ev \<in> set evs \<Longrightarrow> re_useOld ev"
  by (auto simp: pollTick_def split: sum.splits if_splits)

lemma generate_writes:
  assumes "generateAndReloadConfigFile sys confFile pidFile c = (res, calls)" "isOk res"
  shows "\<exists>text. templateConfig c = Inr text \<and> fileAfter sys file calls = Some text"
  using assms
  by (auto simp: generateAndReloadConfigFile_def templateConfig_def writeConfig_def reloadConfig_def fileAfter_def Let_def
      isOk_def split: sum.splits prod.splits)

lemma pipeInv_step:
  assumes "\<And>a b. pp_deepEqual P a b \<Longrightarrow> a = b" "pipeInv P p" "pipeStep P p l p'"
  shows "pipeInv P p'"
  using assms(3)
proof cases
  case (reconcile osHostname inp err s')
  show ?thesis
    by (rule pipeInv_receive [OF assms(1,2) disjI2 [OF sentEvents_config]]) (simp_all add: reconcile)
next
  case (poll sys evs f' called)
  show ?thesis
    by (rule pipeInv_receive [OF assms(1,2) disjI1 [OF pollTick_events [OF poll(3)]]]) (simp_all add: poll)
next
  case (timer cfg sys res calls w')
  have inv: "debInv (pp_reloadInterval P) (pp_failureRetryInterval P) w'"
    using debInv_step [OF timer(5) assms(1)] assms(2) by (simp add: pipeInv_def)
  have "last (dw_calls w') = (dw_now (pi_deb p), Some cfg, isOk res)" "\<not> dw_stopped w'"
    using timer(3,5) assms(2) by (auto elim!: debStep_Fire simp: pipeInv_def)
  then show ?thesis
    using inv generate_writes [OF timer(4), of "pi_file p"] by (auto simp: pipeInv_def timer)
next
  case (clock w')
  have "dw_calls w' = dw_calls (pi_deb p)" "dw_stopped w' = dw_stopped (pi_deb p)"
    using clock(3) by (auto elim!: debStep_Tick)
  then show ?thesis using debInv_step [OF clock(3) assms(1)] assms(2) by (auto simp: pipeInv_def clock)
qed

lemma pipeInv_run:
  "pipeRun P p ls p' \<Longrightarrow> (\<And>a b. pp_deepEqual P a b \<Longrightarrow> a = b) \<Longrightarrow> pipeInv P p \<Longrightarrow> pipeInv P p'"
  by (induction rule: pipeRun.induct) (auto intro: pipeInv_step)

section \<open>From the resources to the file\<close>

text \<open>An operating system that lets the daemon write the file, read the process identifier and signal.\<close>

definition osReady :: "pipeParams \<Rightarrow> osState \<Rightarrow> bool" where
  "osReady P sys \<longleftrightarrow>
     os_writeFile sys = (\<lambda>_ _. Inr ()) \<and> isOk (fst (reloadConfig sys (pp_reloaderPidFileName P)))"

fun quietLabel :: "pipeParams \<Rightarrow> pipeLabel \<Rightarrow> bool" where
  "quietLabel P (TimerEvent sys) = osReady P sys"
| "quietLabel P ClockEvent = True"
| "quietLabel P _ = False"

lemma generate_ready:
  assumes "osReady P sys"
    and "generateAndReloadConfigFile sys (pp_configFileName P) (pp_reloaderPidFileName P) c = (res, calls)"
  shows "isOk res"
  using assms by (auto simp: osReady_def generateAndReloadConfigFile_def templateConfig_def writeConfig_def split: prod.splits)

lemma quiet_debRun:
  "pipeRun P p ms p' \<Longrightarrow> \<forall>l\<in>set ms. quietLabel P l \<Longrightarrow>
   \<exists>ls. debRun (pp_deepEqual P) (pp_reloadInterval P) (pp_failureRetryInterval P) (pi_deb p) ls (pi_deb p') \<and>
     (\<forall>l\<in>set ls. l = Fire True \<or> l = Tick)"
proof (induction rule: pipeRun.induct)
  case (none p)
  show ?case by (rule exI [of _ "[]"]) (simp add: debRun.nil)
next
  case (more p ms p' l p'')
  then obtain ls where ls: "debRun (pp_deepEqual P) (pp_reloadInterval P) (pp_failureRetryInterval P) (pi_deb p) ls (pi_deb p')"
    "\<forall>l\<in>set ls. l = Fire True \<or> l = Tick" by auto
  have "\<exists>x. (x = Fire True \<or> x = Tick) \<and> pipeDebStep P (pi_deb p') x (pi_deb p'')"
  proof (cases l)
    case (TimerEvent sys)
    then have ready: "osReady P sys" using more.prems by simp
    from more.hyps(2) [unfolded TimerEvent] show ?thesis
    proof (rule pipeStep_Timer)
      fix cfg res calls w'
      assume p'': "p'' = p'\<lparr>pi_deb := w', pi_file := fileAfter sys (pi_file p') calls\<rparr>"
        and gen: "generateAndReloadConfigFile sys (pp_configFileName P) (pp_reloaderPidFileName P) cfg = (res, calls)"
        and fire: "pipeDebStep P (pi_deb p') (Fire (isOk res)) w'"
      show ?thesis using generate_ready [OF ready gen] fire by (intro exI [of _ "Fire True"]) (simp add: p'')
    qed
  next
    case ClockEvent
    from more.hyps(2) [unfolded ClockEvent] show ?thesis
      by (rule pipeStep_Clock) (intro exI [of _ Tick], simp)
  qed (use more.prems in simp_all)
  then obtain x where "x = Fire True \<or> x = Tick" "pipeDebStep P (pi_deb p') x (pi_deb p'')" by blast
  then show ?case using debRun.snoc [OF ls(1), of x] ls(2) by (intro exI [of _ "ls @ [x]"]) auto
qed

text \<open>A reconciliation that converts the resources of the node hands the result to the debouncer.\<close>

lemma reconcile_hands_over:
  assumes "pipeStep P p (ReconcileEvent inp (Inr host)) p1" "in_configs inp = Inr items" "items \<noteq> []"
    and "getLogLevel (in_frrK8s inp) (rp_defaultLogLevel (pp_rec P)) = (lvl, None)" "in_node inp = Inr nodeLabels"
    and "configsForNode (rp_selectors (pp_rec P)) items nodeLabels = Inr cfgs" "getSecrets (in_secrets inp) = Inr secrets"
    and "apiToFRR \<lparr>cr_FRRConfigs = cfgs, cr_PasswordSecrets = secrets\<rparr> (rp_alwaysBlock (pp_rec P)) = Inr c"
  obtains cfg where "ApplyConfig (Inr host) (pi_frr p) (c\<lparr>cf_Loglevel := LevelFrom lvl\<rparr>) = Inr \<lparr>re_config = Some cfg, re_useOld = False\<rparr>"
    "dw_latest (pi_deb p1) = Some cfg" "dw_now (pi_deb p1) = dw_now (pi_deb p)"
    "rs_conversionResult (pi_rec p1) = ConversionSuccess"
proof -
  let ?c = "c\<lparr>cf_Loglevel := LevelFrom lvl\<rparr>"
  obtain cfg where app: "ApplyConfig (Inr host) (pi_frr p) ?c = Inr \<lparr>re_config = Some cfg, re_useOld = False\<rparr>"
    by (auto simp: ApplyConfig_def Let_def)
  obtain err s' where run: "Reconcile (handlerParams P (Inr host) (pi_frr p)) inp (pi_rec p) = Some (err, s')"
    and p1: "p1 = p\<lparr>pi_rec := s', pi_deb := foldl (receiveEvent P) (pi_deb p)
       (sentEvents (Inr host) (pi_frr p) (drop (length (rs_applied (pi_rec p))) (rs_applied s')))\<rparr>"
    using assms(1) by (rule pipeStep_Reconcile) blast
  have s': "rs_applied s' = rs_applied (pi_rec p) @ [?c]" "rs_conversionResult s' = ConversionSuccess"
    using run assms(2-8) app by (auto simp: Reconcile_def reconcileBody_def handlerParams_def callHandler_def)
  have "pi_deb p1 = receiveEvent P (pi_deb p) \<lparr>re_config = Some cfg, re_useOld = False\<rparr>"
    by (simp add: p1 s' sentEvents_def app)
  then show ?thesis using that [OF app] s'(2) by (simp add: p1)
qed

text \<open>
  C1: The file follows the resources. After any history of reconciliations, polls, reloads and failures, when a
  reconciliation converts the resources selected for the node, and afterwards nothing new arrives, the
  operating system cooperates and the clock passes the longer of the two intervals, the configuration file
  holds the rendering of exactly that conversion, completed with host name, log level and router
  identifiers, and no reload is pending.
\<close>

theorem file_follows_resources:
  assumes "\<And>a b. pp_deepEqual P a b \<Longrightarrow> a = b" "pipeRun P (pipeInit s f) ls p"
    and "pipeStep P p (ReconcileEvent inp (Inr host)) p1" "in_configs inp = Inr items" "items \<noteq> []"
    and "getLogLevel (in_frrK8s inp) (rp_defaultLogLevel (pp_rec P)) = (lvl, None)" "in_node inp = Inr nodeLabels"
    and "configsForNode (rp_selectors (pp_rec P)) items nodeLabels = Inr cfgs" "getSecrets (in_secrets inp) = Inr secrets"
    and "apiToFRR \<lparr>cr_FRRConfigs = cfgs, cr_PasswordSecrets = secrets\<rparr> (rp_alwaysBlock (pp_rec P)) = Inr c"
    and "pipeRun P p1 ms p2" "\<forall>l\<in>set ms. quietLabel P l"
    and "dw_now (pi_deb p1) + max (pp_reloadInterval P) (pp_failureRetryInterval P) < dw_now (pi_deb p2)"
  shows "\<exists>cfg text. ApplyConfig (Inr host) (pi_frr p) (c\<lparr>cf_Loglevel := LevelFrom lvl\<rparr>) =
      Inr \<lparr>re_config = Some cfg, re_useOld = False\<rparr> \<and> templateConfig cfg = Inr text \<and> pi_file p2 = Some text \<and>
    \<not> db_timerSet (dw_deb (pi_deb p2)) \<and> rs_conversionResult (pi_rec p1) = ConversionSuccess"
proof -
  obtain cfg where app: "ApplyConfig (Inr host) (pi_frr p) (c\<lparr>cf_Loglevel := LevelFrom lvl\<rparr>) =
      Inr \<lparr>re_config = Some cfg, re_useOld = False\<rparr>" and latest: "dw_latest (pi_deb p1) = Some cfg"
    and res: "rs_conversionResult (pi_rec p1) = ConversionSuccess"
    using assms(3-10) by (rule reconcile_hands_over)
  have inv: "pipeInv P p1" using pipeInv_step [OF assms(1) pipeInv_run [OF assms(2,1) pipeInv_init] assms(3)] .
  have inv2: "pipeInv P p2" using pipeInv_run [OF assms(11,1) inv] .
  obtain ds where ds: "debRun (pp_deepEqual P) (pp_reloadInterval P) (pp_failureRetryInterval P) (pi_deb p1) ds (pi_deb p2)"
    "\<forall>l\<in>set ds. l = Fire True \<or> l = Tick"
    using quiet_debRun [OF assms(11,12)] by blast
  have "debInv (pp_reloadInterval P) (pp_failureRetryInterval P) (pi_deb p1)" "\<not> dw_stopped (pi_deb p1)"
    using inv by (simp_all add: pipeInv_def)
  from quiet_converges [OF assms(1) this latest ds assms(13)]
  have fin: "\<not> db_timerSet (dw_deb (pi_deb p2))" "dw_calls (pi_deb p2) \<noteq> []" "snd (last (dw_calls (pi_deb p2))) = (Some cfg, True)"
    by blast+
  then obtain rendered where "templateConfig cfg = Inr rendered" "pi_file p2 = Some rendered"
    using inv2 by (auto simp: pipeInv_def)
  then show ?thesis using app res fin(1) by blast
qed

text \<open>The clock can always go on, at most one reload later.\<close>

lemma pipeRun_trans: "pipeRun P p' ms p'' \<Longrightarrow> pipeRun P p ls p' \<Longrightarrow> pipeRun P p (ls @ ms) p''"
proof (induction rule: pipeRun.induct)
  case (more q ms q' l q'')
  then show ?case using pipeRun.more [of P p "ls @ ms" q' l q''] by simp
qed simp

lemma pipe_clock:
  assumes "db_timeOut (dw_deb (pi_deb p)) = None \<or> dw_now (pi_deb p) < the (db_timeOut (dw_deb (pi_deb p)))"
  shows "pipeRun P p [ClockEvent] (p\<lparr>pi_deb := (pi_deb p)\<lparr>dw_now := Suc (dw_now (pi_deb p))\<rparr>\<rparr>)"
proof -
  have "pipeDebStep P (pi_deb p) Tick ((pi_deb p)\<lparr>dw_now := Suc (dw_now (pi_deb p))\<rparr>)"
    by (rule debStep.tick) (use assms in auto)
  from pipeRun.more [OF pipeRun.none pipeStep.clock [OF this]] show ?thesis by simp
qed

lemma pipe_timer:
  assumes "pipeInv P p" "db_timeOut (dw_deb (pi_deb p)) = Some d" "d \<le> dw_now (pi_deb p)" "osReady P sys"
  obtains p' where "pipeRun P p [TimerEvent sys] p'" "db_timeOut (dw_deb (pi_deb p')) = None"
    "dw_now (pi_deb p') = dw_now (pi_deb p)"
proof -
  obtain cfg where cfg: "db_config (dw_deb (pi_deb p)) = Some cfg"
    using assms(1,2) by (auto simp: pipeInv_def debInv_def)
  obtain res calls where gen: "generateAndReloadConfigFile sys (pp_configFileName P) (pp_reloaderPidFileName P) cfg = (res, calls)"
    by (metis surj_pair)
  let ?w = "(pi_deb p)\<lparr>dw_deb := timerFired (pp_failureRetryInterval P) (dw_now (pi_deb p)) (isOk res) (dw_deb (pi_deb p)),
      dw_calls := dw_calls (pi_deb p) @ [(dw_now (pi_deb p), db_config (dw_deb (pi_deb p)), isOk res)]\<rparr>"
  have "pipeDebStep P (pi_deb p) (Fire (isOk res)) ?w"
    by (rule debStep.fire [where d = d]) (use assms in \<open>auto simp: pipeInv_def\<close>)
  from that [OF pipeRun.more [OF pipeRun.none pipeStep.timer [OF cfg gen this], simplified]]
  show ?thesis using generate_ready [OF assms(4) gen] by (simp add: timerFired_def)
qed

lemma pipe_progress:
  assumes "\<And>a b. pp_deepEqual P a b \<Longrightarrow> a = b" "osReady P sys" "pipeInv P p"
  shows "\<exists>ms p'. pipeRun P p ms p' \<and> (\<forall>l\<in>set ms. quietLabel P l) \<and> dw_now (pi_deb p') = dw_now (pi_deb p) + k"
proof (induction k)
  case 0
  show ?case by (intro exI [of _ "[]"] exI [of _ p]) (simp add: pipeRun.none)
next
  case (Suc k)
  then obtain ms p1 where run: "pipeRun P p ms p1" "\<forall>l\<in>set ms. quietLabel P l" "dw_now (pi_deb p1) = dw_now (pi_deb p) + k"
    by blast
  have inv: "pipeInv P p1" using pipeInv_run [OF run(1) assms(1,3)] .
  obtain ns p2 where more: "pipeRun P p1 ns p2" "\<forall>l\<in>set ns. quietLabel P l" "dw_now (pi_deb p2) = dw_now (pi_deb p1)"
    "db_timeOut (dw_deb (pi_deb p2)) = None \<or> dw_now (pi_deb p2) < the (db_timeOut (dw_deb (pi_deb p2)))"
  proof (cases "\<exists>d. db_timeOut (dw_deb (pi_deb p1)) = Some d \<and> d \<le> dw_now (pi_deb p1)")
    case True
    then obtain d where d: "db_timeOut (dw_deb (pi_deb p1)) = Some d" "d \<le> dw_now (pi_deb p1)" by blast
    obtain p2 where "pipeRun P p1 [TimerEvent sys] p2" "db_timeOut (dw_deb (pi_deb p2)) = None"
      "dw_now (pi_deb p2) = dw_now (pi_deb p1)"
      using inv d assms(2) by (rule pipe_timer)
    then show thesis using that [of "[TimerEvent sys]" p2] assms(2) by simp
  next
    case False
    then show thesis using that [of "[]" p1] by (cases "db_timeOut (dw_deb (pi_deb p1))") (auto simp: pipeRun.none)
  qed
  from pipeRun_trans [OF pipe_clock [OF more(4)] pipeRun_trans [OF more(1) run(1)]]
  show ?case using run(2,3) more(2,3) by (intro exI conjI) (assumption | auto)+
qed

definition samplePipe :: pipeParams where
  "samplePipe = \<lparr>pp_rec = sampleParams, pp_deepEqual = (=), pp_reloadInterval = 2, pp_failureRetryInterval = 3,
     pp_configFileName = ''/etc/frr_reloader/frr.conf'', pp_reloaderPidFileName = ''/etc/frr_reloader/reloader.pid''\<rparr>"

lemma sample_ready: "osReady samplePipe sampleOS"
proof -
  have "reloadConfig sampleOS ''/etc/frr_reloader/reloader.pid'' = (Inr (), [SigHup 42])" by code_simp
  then show ?thesis by (simp add: osReady_def samplePipe_def isOk_def) (simp add: sampleOS_def)
qed

lemma sample_selected:
  "in_configs sampleInput = Inr (cr_FRRConfigs sampleResources)" "cr_FRRConfigs sampleResources \<noteq> []"
  "getLogLevel (in_frrK8s sampleInput) (rp_defaultLogLevel (pp_rec samplePipe)) = (''info'', None)"
  "in_node sampleInput = Inr []"
  "configsForNode (rp_selectors (pp_rec samplePipe)) (cr_FRRConfigs sampleResources) [] = Inr (cr_FRRConfigs sampleResources)"
  "getSecrets (in_secrets sampleInput) = Inr (cr_PasswordSecrets sampleResources)"
  "apiToFRR \<lparr>cr_FRRConfigs = cr_FRRConfigs sampleResources, cr_PasswordSecrets = cr_PasswordSecrets sampleResources\<rparr>
     (rp_alwaysBlock (pp_rec samplePipe)) = Inr sampleConfig"
  using sample_value
  by (simp_all add: sampleInput_def sampleResources_def samplePipe_def sampleParams_def getLogLevel_def LevelInfo_def
      configsForNode_def getSecrets_def fillMap_def mapSet_def)

theorem file_follows_resources_witness:
  "\<exists>p1 ms p2 cfg rendered. pipeStep samplePipe (pipeInit sampleRecState v6OnlyFRR) (ReconcileEvent sampleInput (Inr ''node'')) p1 \<and>
     pipeRun samplePipe p1 ms p2 \<and> cf_Hostname cfg = ''node'' \<and> templateConfig cfg = Inr rendered \<and> pi_file p2 = Some rendered"
proof -
  let ?p = "pipeInit sampleRecState v6OnlyFRR"
  obtain err s' where "Reconcile (handlerParams samplePipe (Inr ''node'') (pi_frr ?p)) sampleInput (pi_rec ?p) = Some (err, s')"
    using reconcile_returns by blast
  from pipeStep.reconcile [OF this] obtain p1 where
    step: "pipeStep samplePipe ?p (ReconcileEvent sampleInput (Inr ''node'')) p1" by blast
  have eq: "pp_deepEqual samplePipe a b \<Longrightarrow> a = b" for a b by (simp add: samplePipe_def)
  have "pipeInv samplePipe p1" using pipeInv_step [OF eq pipeInv_init step] .
  from pipe_progress [OF eq sample_ready this, of 4] obtain ms p2 where
    quiet: "pipeRun samplePipe p1 ms p2" "\<forall>l\<in>set ms. quietLabel samplePipe l"
    and now: "dw_now (pi_deb p2) = dw_now (pi_deb p1) + 4" by blast
  then have "dw_now (pi_deb p1) + max (pp_reloadInterval samplePipe) (pp_failureRetryInterval samplePipe) < dw_now (pi_deb p2)"
    by (simp add: samplePipe_def)
  from file_follows_resources [OF eq pipeRun.none step sample_selected quiet this]
  obtain cfg rendered where app: "ApplyConfig (Inr ''node'') (pi_frr ?p) (sampleConfig\<lparr>cf_Loglevel := LevelFrom ''info''\<rparr>) =
      Inr \<lparr>re_config = Some cfg, re_useOld = False\<rparr>" and "templateConfig cfg = Inr rendered" "pi_file p2 = Some rendered"
    by blast
  moreover have "cf_Hostname cfg = ''node''" using app by (auto simp: ApplyConfig_def Let_def)
  ultimately show ?thesis using step quiet(1) by blast
qed

end
