(* ===== verification/Crd_Rules.thy ===== *)
theory Crd_Rules
  imports Sessions
begin

text \<open>
  The validation rules that the markers of \<^verbatim>\<open>api/v1beta1/frrconfiguration_types.go\<close> give the API server: ranges
  and enumerations, and the rules in the Common Expression Language for route distinguishers, route targets
  and the connect time. An expression evaluates to a value or to an error (\<open>None\<close>); the disjunction is true
  when one side is, even if the other is an error, and a rule that ends in an error rejects the value. The
  function \<^verbatim>\<open>isIP\<close> of the API server is a parameter. \<^verbatim>\<open>matches\<close> looks for the pattern anywhere in the text.
\<close>

section \<open>Expressions\<close>

fun celOr :: "bool option \<Rightarrow> bool option \<Rightarrow> bool option" where
  "celOr (Some True) _ = Some True"
| "celOr _ (Some True) = Some True"
| "celOr (Some False) (Some False) = Some False"
| "celOr _ _ = None"

fun celAnd :: "bool option \<Rightarrow> bool option \<Rightarrow> bool option" where
  "celAnd (Some False) _ = Some False"
| "celAnd _ (Some False) = Some False"
| "celAnd (Some True) (Some True) = Some True"
| "celAnd _ _ = None"

definition celNot :: "bool option \<Rightarrow> bool option" where
  "celNot = map_option Not"

definition celIndex :: "string list \<Rightarrow> nat \<Rightarrow> string option" where
  "celIndex xs i = (if i < length xs then Some (xs ! i) else None)"

text \<open>\<^verbatim>\<open>matches('[0-9]+')\<close> and \<^verbatim>\<open>contains('.')\<close>.\<close>

definition celHasDigit :: "string option \<Rightarrow> bool option" where
  "celHasDigit = map_option (list_ex isDigit)"

definition celContainsDot :: "string option \<Rightarrow> bool option" where
  "celContainsDot = map_option (\<lambda>s. CHR ''.'' \<in> set s)"

definition celUint :: "string option \<Rightarrow> nat option" where
  "celUint s = Option.bind s (\<lambda>s. ParseUint10 64 s)"

definition celLe :: "nat option \<Rightarrow> nat \<Rightarrow> bool option" where
  "celLe x k = map_option (\<lambda>n. n \<le> k) x"

definition celGt :: "nat option \<Rightarrow> nat \<Rightarrow> bool option" where
  "celGt x k = map_option (\<lambda>n. n > k) x"

section \<open>Route distinguishers and route targets\<close>

definition colonParts :: "string \<Rightarrow> string list" where
  "colonParts s = splitOn CHR '':'' s"

definition notTwoParts :: "string \<Rightarrow> bool option" where
  "notTwoParts s = Some (length (colonParts s) \<noteq> 2)"

text \<open>\<^verbatim>\<open>self.startsWith('*:')\<close>\<close>

definition isWildcard :: "string \<Rightarrow> bool option" where
  "isWildcard s = Some (hasPrefix s ''*:'')"

definition dotRule :: "string \<Rightarrow> bool option" where
  "dotRule s =
     celOr (celOr (notTwoParts s) (celNot (celContainsDot (celIndex (colonParts s) 0))))
       (celAnd (celHasDigit (celIndex (colonParts s) 1)) (celLe (celUint (celIndex (colonParts s) 1)) 65535))"

definition localRule :: "string \<Rightarrow> bool option" where
  "localRule s = celOr (notTwoParts s) (celHasDigit (celIndex (colonParts s) 1))"

definition globalRule :: "(string \<Rightarrow> bool) \<Rightarrow> string \<Rightarrow> bool option" where
  "globalRule isIP s =
     celOr (notTwoParts s)
       (celOr (map_option isIP (celIndex (colonParts s) 0)) (celHasDigit (celIndex (colonParts s) 0)))"

text \<open>The two rules on a numeric global administrator, after the disjuncts \<open>pre\<close> they start with.\<close>

definition notNumeric :: "string \<Rightarrow> bool option \<Rightarrow> bool option" where
  "notNumeric s pre =
     celOr (celOr (celOr pre (celContainsDot (celIndex (colonParts s) 0))) (celNot (celHasDigit (celIndex (colonParts s) 0))))
       (celNot (celHasDigit (celIndex (colonParts s) 1)))"

definition fourByteRule :: "string \<Rightarrow> bool option \<Rightarrow> bool option" where
  "fourByteRule s pre =
     celOr (celOr (notNumeric s pre) (celLe (celUint (celIndex (colonParts s) 0)) 65535))
       (celLe (celUint (celIndex (colonParts s) 1)) 65535)"

definition twoByteRule :: "string \<Rightarrow> bool option \<Rightarrow> bool option" where
  "twoByteRule s pre =
     celOr (celOr (notNumeric s pre) (celGt (celUint (celIndex (colonParts s) 0)) 65535))
       (celLe (celUint (celIndex (colonParts s) 1)) 4294967295)"

definition RouteDistinguisherRules :: "(string \<Rightarrow> bool) \<Rightarrow> string \<Rightarrow> bool option list" where
  "RouteDistinguisherRules isIP s =
     [Some (length s \<le> 21), Some (length (colonParts s) = 2), globalRule isIP s, localRule s, dotRule s,
      fourByteRule s (notTwoParts s), twoByteRule s (notTwoParts s)]"

definition ImportRouteTargetRules :: "(string \<Rightarrow> bool) \<Rightarrow> string \<Rightarrow> bool option list" where
  "ImportRouteTargetRules isIP s =
     [Some (length s \<le> 21), Some (length (colonParts s) = 2),
      celOr (notTwoParts s)
        (celOr (celOr (isWildcard s) (map_option isIP (celIndex (colonParts s) 0))) (celHasDigit (celIndex (colonParts s) 0))),
      localRule s,
      celOr (celOr (notTwoParts s) (celNot (isWildcard s)))
        (celAnd (celHasDigit (celIndex (colonParts s) 1)) (celLe (celUint (celIndex (colonParts s) 1)) 4294967295)),
      dotRule s,
      fourByteRule s (celOr (notTwoParts s) (isWildcard s)), twoByteRule s (celOr (notTwoParts s) (isWildcard s))]"

definition ExportRouteTargetRules :: "(string \<Rightarrow> bool) \<Rightarrow> string \<Rightarrow> bool option list" where
  "ExportRouteTargetRules isIP s =
     [Some (length s \<le> 21), Some (length (colonParts s) = 2), globalRule isIP s, localRule s, dotRule s,
      fourByteRule s (notTwoParts s), twoByteRule s (notTwoParts s)]"

text \<open>A value is accepted when every rule is true.\<close>

definition rulesHold :: "bool option list \<Rightarrow> bool" where
  "rulesHold rs \<longleftrightarrow> list_all (\<lambda>r. r = Some True) rs"

section \<open>Ranges\<close>

definition inRange :: "nat \<Rightarrow> nat \<Rightarrow> 'a::len word option \<Rightarrow> bool" where
  "inRange lo hi v = (case v of None \<Rightarrow> True | Some w \<Rightarrow> lo \<le> unat w \<and> unat w \<le> hi)"

definition crdBFDProfile :: "BFDProfile \<Rightarrow> bool" where
  "crdBFDProfile b \<longleftrightarrow>
     inRange 10 60000 (bp_ReceiveInterval b) \<and> inRange 10 60000 (bp_TransmitInterval b) \<and>
     inRange 2 255 (bp_DetectMultiplier b) \<and> inRange 10 60000 (bp_EchoInterval b) \<and> inRange 1 254 (bp_MinimumTTL b)"

text \<open>\<^verbatim>\<open>duration(self).getSeconds()\<close> and \<^verbatim>\<open>getMilliseconds()\<close> truncate to whole units.\<close>

definition crdConnectTime :: "Duration option \<Rightarrow> bool" where
  "crdConnectTime t =
     (case t of
        None \<Rightarrow> True
      | Some d \<Rightarrow> truncDiv d timeSecond \<ge> 1 \<and> truncDiv d timeSecond \<le> 65535 \<and> truncDiv d 1000000 mod 1000 = 0)"

definition crdVNIProperties :: "(string \<Rightarrow> bool) \<Rightarrow> VNIProperties \<Rightarrow> bool" where
  "crdVNIProperties isIP p \<longleftrightarrow>
     (vp_RD p = '''' \<or> rulesHold (RouteDistinguisherRules isIP (vp_RD p))) \<and>
     length (vp_ImportRTs p) \<le> 100 \<and> list_all (\<lambda>s. rulesHold (ImportRouteTargetRules isIP s)) (vp_ImportRTs p) \<and>
     length (vp_ExportRTs p) \<le> 100 \<and> list_all (\<lambda>s. rulesHold (ExportRouteTargetRules isIP s)) (vp_ExportRTs p)"

definition crdL2VNI :: "(string \<Rightarrow> bool) \<Rightarrow> L2VNI \<Rightarrow> bool" where
  "crdL2VNI isIP v \<longleftrightarrow> inRange 1 16777215 (Some (l2_VNI v)) \<and> crdVNIProperties isIP (l2_VNIProperties v)"

definition crdL3VNI :: "(string \<Rightarrow> bool) \<Rightarrow> L3VNI \<Rightarrow> bool" where
  "crdL3VNI isIP v \<longleftrightarrow>
     inRange 1 16777215 (Some (l3_VNI v)) \<and> crdVNIProperties isIP (l3_VNIProperties v) \<and>
     length (l3_AdvertisePrefixes v) = 1 \<and> list_all (\<lambda>t. t = AdvertisePrefixUnicast) (l3_AdvertisePrefixes v)"

definition crdEVPNConfig :: "(string \<Rightarrow> bool) \<Rightarrow> EVPNConfig \<Rightarrow> bool" where
  "crdEVPNConfig isIP e \<longleftrightarrow>
     (case ev_AdvertiseVNIs e of None \<Rightarrow> True | Some v \<Rightarrow> v = VNIAdvertisementDisabled \<or> v = VNIAdvertisementAll) \<and>
     length (ev_L2VNIs e) \<le> 10 \<and> list_all (crdL2VNI isIP) (ev_L2VNIs e) \<and>
     (case ev_L3VNI e of None \<Rightarrow> True | Some v \<Rightarrow> crdL3VNI isIP v)"

record crdFormats =
  fmt_isIP :: "string \<Rightarrow> bool"
  fmt_ipv4 :: "string \<Rightarrow> bool"
  fmt_ipv6 :: "string \<Rightarrow> bool"
  fmt_cidr :: "string \<Rightarrow> bool"

text \<open>Fields with \<^verbatim>\<open>omitempty\<close> are absent when they are empty or zero.\<close>

definition crdAllowMode :: "AllowMode \<Rightarrow> bool" where
  "crdAllowMode m \<longleftrightarrow> m = '''' \<or> m = AllowAll \<or> m = AllowRestricted"

definition crdNextHop :: "crdFormats \<Rightarrow> NextHop \<Rightarrow> bool" where
  "crdNextHop F h \<longleftrightarrow> (nh_IPv4 h = '''' \<or> fmt_ipv4 F (nh_IPv4 h)) \<and> (nh_IPv6 h = '''' \<or> fmt_ipv6 F (nh_IPv6 h))"

definition crdAdvertise :: "crdFormats \<Rightarrow> Advertise \<Rightarrow> bool" where
  "crdAdvertise F a \<longleftrightarrow>
     crdAllowMode (aop_Mode (ad_Allowed a)) \<and> crdNextHop F (ad_NextHop a) \<and>
     list_all (\<lambda>l. lpp_Prefixes l \<noteq> []) (ad_PrefixesWithLocalPref a) \<and>
     list_all (\<lambda>c. cp_Prefixes c \<noteq> []) (ad_PrefixesWithCommunity a)"

definition crdPrefixSelector :: "crdFormats \<Rightarrow> PrefixSelector \<Rightarrow> bool" where
  "crdPrefixSelector F s \<longleftrightarrow>
     (ps_Prefix s = '''' \<or> fmt_cidr F (ps_Prefix s)) \<and> unat (ps_LE s) \<le> 128 \<and> unat (ps_GE s) \<le> 128"

definition crdReceive :: "crdFormats \<Rightarrow> Receive \<Rightarrow> bool" where
  "crdReceive F r \<longleftrightarrow> crdAllowMode (aip_Mode (rcv_Allowed r)) \<and> list_all (crdPrefixSelector F) (aip_Prefixes (rcv_Allowed r))"

definition crdNeighbor :: "crdFormats \<Rightarrow> Neighbor \<Rightarrow> bool" where
  "crdNeighbor F n \<longleftrightarrow>
     (nb_DynamicASN n = '''' \<or> nb_DynamicASN n = InternalASNMode \<or> nb_DynamicASN n = ExternalASNMode) \<and>
     inRange 0 16384 (nb_Port n) \<and> crdConnectTime (nb_ConnectTime n) \<and>
     crdAdvertise F (nb_ToAdvertise n) \<and> crdReceive F (nb_ToReceive n) \<and>
     length (nb_AddressFamilies n) \<le> 2 \<and>
     list_all (\<lambda>f. f = AddressFamilyUnicast \<or> f = AddressFamilyEVPN) (nb_AddressFamilies n)"

definition crdRouter :: "crdFormats \<Rightarrow> Router \<Rightarrow> bool" where
  "crdRouter F r \<longleftrightarrow>
     list_all (crdNeighbor F) (rt_Neighbors r) \<and>
     (case rt_EVPN r of None \<Rightarrow> True | Some e \<Rightarrow> crdEVPNConfig (fmt_isIP F) e)"

definition crdFRRConfiguration :: "crdFormats \<Rightarrow> FRRConfiguration \<Rightarrow> bool" where
  "crdFRRConfiguration F c \<longleftrightarrow>
     (let bgp = spec_BGP (cfg_Spec c) in
      length (bgp_Routers bgp) \<le> 50 \<and> list_all (crdRouter F) (bgp_Routers bgp) \<and>
      list_all crdBFDProfile (bgp_BFDProfiles bgp))"

section \<open>What the rules on route distinguishers accept\<close>

lemma celOr_True: "celOr a b = Some True \<longleftrightarrow> a = Some True \<or> b = Some True"
  by (cases "(a, b)" rule: celOr.cases) auto

lemma celAnd_True: "celAnd a b = Some True \<longleftrightarrow> a = Some True \<and> b = Some True"
  by (cases "(a, b)" rule: celAnd.cases) auto

lemma celUint_True:
  "celLe (celUint (Some s)) k = Some True \<longleftrightarrow> s \<noteq> [] \<and> list_all isDigit s \<and> decVal s < 2 ^ 64 \<and> decVal s \<le> k"
  "celGt (celUint (Some s)) k = Some True \<longleftrightarrow> s \<noteq> [] \<and> list_all isDigit s \<and> decVal s < 2 ^ 64 \<and> k < decVal s"
  by (auto simp: celLe_def celGt_def celUint_def ParseUint10_def)

lemmas cel_simps = celOr_True celAnd_True celUint_True celNot_def celHasDigit_def celContainsDot_def celIndex_def
  notTwoParts_def isWildcard_def rulesHold_def

text \<open>A decimal number of at most \<open>k\<close>.\<close>

definition numberUpTo :: "nat \<Rightarrow> string \<Rightarrow> bool" where
  "numberUpTo k s \<longleftrightarrow> s \<noteq> [] \<and> list_all isDigit s \<and> decVal s \<le> k"

lemma list_ex_digit: "s \<noteq> [] \<Longrightarrow> list_all isDigit s \<Longrightarrow> list_ex isDigit s"
  by (cases s) simp_all

lemma digits_no_dot: "list_all isDigit s \<Longrightarrow> CHR ''.'' \<notin> set s"
  by (auto simp: list_all_iff isDigit_def byteVal_def)

lemma splitOn_two: "splitOn c s = [g, l] \<longleftrightarrow> s = g @ c # l \<and> c \<notin> set g \<and> c \<notin> set l"
proof
  assume two: "splitOn c s = [g, l]"
  then have "c \<in> set s" using splitOn_no_sep [of c s] by auto
  then obtain g' t where s: "s = g' @ c # t" "c \<notin> set g'" by (meson split_list_first)
  then have parts: "g' = g" "splitOn c t = [l]" using two by (simp_all add: splitOn_append_sep)
  have "c \<notin> set t"
  proof
    assume "c \<in> set t"
    then obtain u v where "t = u @ c # v" "c \<notin> set u" by (meson split_list_first)
    then have "splitOn c v = []" using parts(2) by (simp add: splitOn_append_sep)
    then show False by simp
  qed
  then show "s = g @ c # l \<and> c \<notin> set g \<and> c \<notin> set l" using s parts by (simp add: splitOn_no_sep)
qed (simp add: splitOn_append_sep splitOn_no_sep)

lemma two_parts:
  "length (colonParts s) = 2 \<longleftrightarrow> (\<exists>g l. s = g @ CHR '':'' # l \<and> CHR '':'' \<notin> set g \<and> CHR '':'' \<notin> set l)"
proof -
  have "length (colonParts s) = 2 \<longleftrightarrow> (\<exists>g l. colonParts s = [g, l])"
    by (auto simp: length_Suc_conv numeral_2_eq_2)
  then show ?thesis by (simp only: colonParts_def splitOn_two)
qed

lemma adminRules_parts:
  assumes "colonParts s = [g, l]"
  shows "globalRule isIP s = Some True \<longleftrightarrow> isIP g \<or> list_ex isDigit g"
    and "localRule s = Some True \<longleftrightarrow> list_ex isDigit l"
    and "dotRule s = Some True \<longleftrightarrow> CHR ''.'' \<notin> set g \<or> numberUpTo 65535 l"
    and "fourByteRule s pre = Some True \<longleftrightarrow> pre = Some True \<or> CHR ''.'' \<in> set g \<or> \<not> list_ex isDigit g \<or> \<not> list_ex isDigit l \<or>
      numberUpTo 65535 g \<or> numberUpTo 65535 l"
    and "twoByteRule s pre = Some True \<longleftrightarrow> pre = Some True \<or> CHR ''.'' \<in> set g \<or> \<not> list_ex isDigit g \<or> \<not> list_ex isDigit l \<or>
      (list_all isDigit g \<and> g \<noteq> [] \<and> decVal g < 2 ^ 64 \<and> 65535 < decVal g) \<or> numberUpTo 4294967295 l"
  using assms
  by (auto simp: globalRule_def localRule_def dotRule_def fourByteRule_def twoByteRule_def notNumeric_def cel_simps
      numberUpTo_def list_ex_digit)

lemma numberUpTo_facts:
  "numberUpTo k s \<Longrightarrow> list_ex isDigit s" "numberUpTo k s \<Longrightarrow> CHR ''.'' \<notin> set s" "numberUpTo j s \<Longrightarrow> j \<le> k \<Longrightarrow> numberUpTo k s"
  by (auto simp: numberUpTo_def list_ex_digit dest: digits_no_dot)

text \<open>What is asked of the global administrator \<open>g\<close> and the local one \<open>l\<close>.\<close>

definition adminOk :: "string \<Rightarrow> string \<Rightarrow> bool" where
  "adminOk g l \<longleftrightarrow> list_ex isDigit g \<and> (numberUpTo 65535 l \<or> numberUpTo 65535 g \<and> numberUpTo 4294967295 l)"

lemma adminRules_meaning:
  assumes "colonParts s = [g, l]" "isIP g \<Longrightarrow> list_ex isDigit g" "pre \<noteq> Some True"
  shows "globalRule isIP s = Some True \<and> localRule s = Some True \<and> dotRule s = Some True \<and>
    fourByteRule s pre = Some True \<and> twoByteRule s pre = Some True \<longleftrightarrow> adminOk g l"
proof -
  have "numberUpTo 65535 l \<Longrightarrow> numberUpTo 4294967295 l" "numberUpTo 65535 g \<Longrightarrow> decVal g \<le> 65535"
    by (auto simp: numberUpTo_def)
  then show ?thesis
    unfolding adminRules_parts [OF assms(1)] adminOk_def
    using assms(2,3) numberUpTo_facts(1) [of _ l] numberUpTo_facts(2) [of _ g] by fastforce
qed

lemma rd_rules:
  assumes "\<And>x. isIP x \<Longrightarrow> CHR '':'' \<notin> set x \<Longrightarrow> list_ex isDigit x"
  shows "rulesHold (RouteDistinguisherRules isIP s) \<longleftrightarrow>
    length s \<le> 21 \<and> (\<exists>g l. s = g @ CHR '':'' # l \<and> CHR '':'' \<notin> set g \<and> CHR '':'' \<notin> set l \<and> adminOk g l)"
proof (cases "length (colonParts s) = 2")
  case True
  then obtain g l where s: "s = g @ CHR '':'' # l" "CHR '':'' \<notin> set g" "CHR '':'' \<notin> set l" unfolding two_parts by blast
  then have parts: "colonParts s = [g, l]" by (simp add: colonParts_def splitOn_two)
  then have uniq: "g' = g \<and> l' = l" if "s = g' @ CHR '':'' # l'" "CHR '':'' \<notin> set g'" "CHR '':'' \<notin> set l'" for g' l'
    using that splitOn_two [of "CHR '':''" s g' l'] by (simp add: colonParts_def)
  have "rulesHold (RouteDistinguisherRules isIP s) \<longleftrightarrow> length s \<le> 21 \<and> adminOk g l"
    using adminRules_meaning [OF parts, of isIP "notTwoParts s"] assms s(2) True
    by (simp add: RouteDistinguisherRules_def rulesHold_def notTwoParts_def)
  also have "\<dots> \<longleftrightarrow> length s \<le> 21 \<and> (\<exists>g l. s = g @ CHR '':'' # l \<and> CHR '':'' \<notin> set g \<and> CHR '':'' \<notin> set l \<and> adminOk g l)"
    using s uniq by metis
  finally show ?thesis .
next
  case False
  then show ?thesis using two_parts [of s] by (auto simp: RouteDistinguisherRules_def rulesHold_def)
qed

lemma import_rules:
  assumes "\<And>x. isIP x \<Longrightarrow> CHR '':'' \<notin> set x \<Longrightarrow> list_ex isDigit x"
  shows "rulesHold (ImportRouteTargetRules isIP s) \<longleftrightarrow>
    length s \<le> 21 \<and> (\<exists>g l. s = g @ CHR '':'' # l \<and> CHR '':'' \<notin> set g \<and> CHR '':'' \<notin> set l \<and>
      (adminOk g l \<or> g = ''*'' \<and> numberUpTo 4294967295 l))"
proof (cases "length (colonParts s) = 2")
  case True
  then obtain g l where s: "s = g @ CHR '':'' # l" "CHR '':'' \<notin> set g" "CHR '':'' \<notin> set l" unfolding two_parts by blast
  then have parts: "colonParts s = [g, l]" by (simp add: colonParts_def splitOn_two)
  then have uniq: "g' = g \<and> l' = l" if "s = g' @ CHR '':'' # l'" "CHR '':'' \<notin> set g'" "CHR '':'' \<notin> set l'" for g' l'
    using that splitOn_two [of "CHR '':''" s g' l'] by (simp add: colonParts_def)
  have wild: "hasPrefix s ''*:'' \<longleftrightarrow> g = ''*''" using s by (cases g; cases "tl g") (auto simp: hasPrefix_iff)
  have "rulesHold (ImportRouteTargetRules isIP s) \<longleftrightarrow> length s \<le> 21 \<and> (adminOk g l \<or> g = ''*'' \<and> numberUpTo 4294967295 l)"
  proof (cases "g = ''*''")
    case star: True
    then have "\<not> adminOk g l" by (simp add: adminOk_def isDigit_def byteVal_def)
    then show ?thesis
      using star True wild adminRules_parts(2-5) [OF parts] numberUpTo_facts(1) [of _ l] parts
      by (auto simp: ImportRouteTargetRules_def cel_simps numberUpTo_def list_ex_digit)
  next
    case False
    then show ?thesis
      using adminRules_meaning [OF parts, of isIP "celOr (notTwoParts s) (isWildcard s)"] assms s(2) True wild
        adminRules_parts(1) [OF parts] parts
      by (auto simp: ImportRouteTargetRules_def cel_simps)
  qed
  also have "\<dots> \<longleftrightarrow> length s \<le> 21 \<and> (\<exists>g l. s = g @ CHR '':'' # l \<and> CHR '':'' \<notin> set g \<and> CHR '':'' \<notin> set l \<and>
      (adminOk g l \<or> g = ''*'' \<and> numberUpTo 4294967295 l))"
    using s uniq by metis
  finally show ?thesis .
next
  case False
  then show ?thesis using two_parts [of s] by (auto simp: ImportRouteTargetRules_def rulesHold_def)
qed

lemmas admin_eval = adminOk_def numberUpTo_def decVal_def isDigit_def digitVal_def byteVal_def

text \<open>
  C17: A route distinguisher passes the rules of the resource definition exactly when it is at most 21 characters
  long and has the form \<open>g:l\<close> with a digit somewhere in \<open>g\<close>, and either \<open>l\<close> is a decimal number of at most 65535 or
  \<open>g\<close> is one and \<open>l\<close> is at most 4294967295; export route targets follow the same rules, import route targets
  may also have \<open>*\<close> for \<open>g\<close>.  \<open>isIP\<close> is the address test of the rule language: an address with no colon has a digit.
\<close>

theorem route_targets_admitted:
  assumes "\<And>x. isIP x \<Longrightarrow> CHR '':'' \<notin> set x \<Longrightarrow> list_ex isDigit x"
  shows "(rulesHold (RouteDistinguisherRules isIP s) \<longleftrightarrow> length s \<le> 21 \<and>
      (\<exists>g l. s = g @ CHR '':'' # l \<and> CHR '':'' \<notin> set g \<and> CHR '':'' \<notin> set l \<and> adminOk g l)) \<and>
    (rulesHold (ExportRouteTargetRules isIP s) \<longleftrightarrow> rulesHold (RouteDistinguisherRules isIP s)) \<and>
    (rulesHold (ImportRouteTargetRules isIP s) \<longleftrightarrow> length s \<le> 21 \<and>
      (\<exists>g l. s = g @ CHR '':'' # l \<and> CHR '':'' \<notin> set g \<and> CHR '':'' \<notin> set l \<and>
        (adminOk g l \<or> g = ''*'' \<and> numberUpTo 4294967295 l)))"
  using rd_rules [OF assms] import_rules [OF assms]
  unfolding ExportRouteTargetRules_def RouteDistinguisherRules_def by blast

theorem route_targets_admitted_witness:
  "rulesHold (RouteDistinguisherRules (\<lambda>x. x = ''10.0.0.1'') ''65000:70000'') \<and>
   rulesHold (ImportRouteTargetRules (\<lambda>x. x = ''10.0.0.1'') ''*:100'')"
proof -
  let ?isIP = "\<lambda>x. x = ''10.0.0.1''"
  have digit: "list_ex isDigit x" if "?isIP x" "CHR '':'' \<notin> set x" for x
    using that by (simp add: isDigit_def byteVal_def)
  have "rulesHold (RouteDistinguisherRules ?isIP (g @ CHR '':'' # l))"
    if "adminOk g l" "CHR '':'' \<notin> set g" "CHR '':'' \<notin> set l" "length (g @ CHR '':'' # l) \<le> 21" for g l
    using route_targets_admitted [of ?isIP, OF digit] that by blast
  from this [of "''65000''" "''70000''"] have rd: "rulesHold (RouteDistinguisherRules ?isIP ''65000:70000'')"
    by (simp add: admin_eval)
  have "rulesHold (ImportRouteTargetRules ?isIP (g @ CHR '':'' # l))"
    if "g = ''*'' \<and> numberUpTo 4294967295 l" "CHR '':'' \<notin> set g" "CHR '':'' \<notin> set l" "length (g @ CHR '':'' # l) \<le> 21"
    for g l
    using route_targets_admitted [of ?isIP, OF digit] that by blast
  from this [of "''*''" "''100''"] rd show ?thesis by (simp add: admin_eval)
qed

lemma rules_accept:
  assumes "adminOk g l" "CHR '':'' \<notin> set g" "CHR '':'' \<notin> set l" "length g + length l \<le> 20"
  shows "rulesHold (RouteDistinguisherRules (\<lambda>_. False) (g @ CHR '':'' # l))"
    "rulesHold (ImportRouteTargetRules (\<lambda>_. False) (g @ CHR '':'' # l))"
proof -
  have "length (g @ CHR '':'' # l) \<le> 21" using assms(4) by simp
  then show "rulesHold (RouteDistinguisherRules (\<lambda>_. False) (g @ CHR '':'' # l))"
    "rulesHold (ImportRouteTargetRules (\<lambda>_. False) (g @ CHR '':'' # l))"
    using assms(1-3) rd_rules [of "\<lambda>_. False"] import_rules [of "\<lambda>_. False"] by blast+
qed

text \<open>
  The test for a number is not anchored and a comparison that fails to parse does not reject: values the messages
  of the rules call invalid are accepted.
\<close>

lemma malformed_distinguishers_accepted:
  "rulesHold (RouteDistinguisherRules (\<lambda>x. False) ''a1:5'')"
  "rulesHold (RouteDistinguisherRules (\<lambda>x. False) ''99999999999:5'')"
  "rulesHold (RouteDistinguisherRules (\<lambda>x. False) ''1.2:5'')"
  using rules_accept [of "''a1''" "''5''"] rules_accept [of "''99999999999''" "''5''"] rules_accept [of "''1.2''" "''5''"]
  by (simp_all add: admin_eval)

section \<open>What is admitted reaches the daemon unchanged\<close>

definition vniAdmitted :: "(string \<Rightarrow> bool) \<Rightarrow> frrVNIProperties \<Rightarrow> bool" where
  "vniAdmitted isIP p \<longleftrightarrow>
     (fvp_RD p = '''' \<or> rulesHold (RouteDistinguisherRules isIP (fvp_RD p))) \<and>
     list_all (\<lambda>s. rulesHold (ImportRouteTargetRules isIP s)) (fvp_ImportRTs p) \<and>
     list_all (\<lambda>s. rulesHold (ExportRouteTargetRules isIP s)) (fvp_ExportRTs p)"

definition l2Admitted :: "(string \<Rightarrow> bool) \<Rightarrow> frrL2VNI \<Rightarrow> bool" where
  "l2Admitted isIP v \<longleftrightarrow> inRange 1 16777215 (Some (fl2_VNI v)) \<and> vniAdmitted isIP (fl2_VNIProperties v)"

definition l3Admitted :: "(string \<Rightarrow> bool) \<Rightarrow> frrL3VNI option \<Rightarrow> bool" where
  "l3Admitted isIP v3 =
     (case v3 of
        None \<Rightarrow> True
      | Some v \<Rightarrow>
          inRange 1 16777215 (Some (fl3_VNI v)) \<and> vniAdmitted isIP (fl3_VNIProperties v) \<and>
          set (fl3_AdvertisePrefixes v) = {AdvertisePrefixUnicast})"

definition evpnAdmitted :: "(string \<Rightarrow> bool) \<Rightarrow> frrEVPNConfig option \<Rightarrow> bool" where
  "evpnAdmitted isIP e =
     (case e of
        None \<Rightarrow> True
      | Some ev \<Rightarrow>
          list_all (l2Admitted isIP) (fev_L2VNIs ev) \<and> l3Admitted isIP (fev_L3VNI ev))"

definition neighborAdmitted :: "NeighborConfig \<Rightarrow> bool" where
  "neighborAdmitted n \<longleftrightarrow>
     inRange 0 16384 (nc_Port n) \<and>
     (case nc_ConnectTime n of None \<Rightarrow> True | Some t \<Rightarrow> 1 \<le> t \<and> t \<le> 65535) \<and>
     set (nc_AddressFamilies n) \<subseteq> {AddressFamilyUnicast, AddressFamilyEVPN}"

definition profileAdmitted :: "frrBFDProfile \<Rightarrow> bool" where
  "profileAdmitted b \<longleftrightarrow>
     inRange 10 60000 (fbp_ReceiveInterval b) \<and> inRange 10 60000 (fbp_TransmitInterval b) \<and>
     inRange 2 255 (fbp_DetectMultiplier b) \<and> inRange 10 60000 (fbp_EchoInterval b) \<and> inRange 1 254 (fbp_MinimumTTL b)"

lemma mergeVNIProperties_admitted:
  "mergeVNIProperties a b = Inr c \<Longrightarrow> vniAdmitted isIP a \<Longrightarrow> vniAdmitted isIP b \<Longrightarrow> vniAdmitted isIP c"
  by (auto simp: mergeVNIProperties_def mergeRTs_def vniAdmitted_def list_all_iff split: if_splits)

lemma mergeL2VNIs_admitted:
  assumes "mergeL2VNIs as bs = Inr cs" "list_all (l2Admitted isIP) as" "list_all (l2Admitted isIP) bs"
  shows "list_all (l2Admitted isIP) cs"
proof (cases "as = [] \<or> bs = []")
  case False
  with assms(1) have run: "mergeKeyed fl2_VNI mergeL2VNI (fillMap fl2_VNI as) bs = Inr cs"
    by (simp add: mergeL2VNIs_def)
  have "l2Admitted isIP c" if "c \<in> set cs" for c
  proof (rule l2m.merge_invariant [OF run keyedBy_fillMap _ _ _ that, where P = "l2Admitted isIP"])
    show "l2Admitted isIP v" if "mapGet (fillMap fl2_VNI as) k = Some v" for k v
      using that assms(2) by (auto simp: mapGet_fillMap list_all_iff dest!: lookupKey_Some)
    show "l2Admitted isIP c" if "mergeL2VNI a b = Inr c" "l2Admitted isIP a" "l2Admitted isIP b" for a b c
      using that mergeVNIProperties_admitted by (auto simp: mergeL2VNI_def result_simps l2Admitted_def)
  qed (use assms(3) in \<open>simp add: list_all_iff\<close>)
  then show ?thesis by (simp add: list_all_iff)
qed (use assms in \<open>auto simp: mergeL2VNIs_def split: if_splits\<close>)

lemma mergeL3VNIs_admitted:
  "mergeL3VNIs a b = Inr c \<Longrightarrow> l3Admitted isIP a \<Longrightarrow> l3Admitted isIP b \<Longrightarrow> l3Admitted isIP c"
  by (cases a; cases b)
    (auto simp: mergeL3VNIs_def l3Admitted_def result_simps dest: mergeVNIProperties_admitted split: if_splits)

lemma mergeEVPNConfigs_admitted:
  assumes "mergeEVPNConfigs a b = Inr c" "evpnAdmitted isIP a" "evpnAdmitted isIP b"
  shows "evpnAdmitted isIP c"
proof (cases "a = None \<or> b = None")
  case False
  then obtain a' b' where ab: "a = Some a'" "b = Some b'" by auto
  with assms(1) obtain l2 l3 where "mergeL2VNIs (fev_L2VNIs a') (fev_L2VNIs b') = Inr l2"
    "mergeL3VNIs (fev_L3VNI a') (fev_L3VNI b') = Inr l3" and c: "\<exists>c'. c = Some c' \<and> fev_L2VNIs c' = l2 \<and> fev_L3VNI c' = l3"
    by (auto simp: mergeEVPNConfigs_Inr)
  then have "list_all (l2Admitted isIP) l2" "l3Admitted isIP l3"
    using assms(2,3) mergeL2VNIs_admitted mergeL3VNIs_admitted unfolding evpnAdmitted_def ab option.case by blast+
  with c show ?thesis by (auto simp: evpnAdmitted_def)
qed (use assms in auto)

lemma evpnToFRR_admitted:
  "(case e of None \<Rightarrow> True | Some ev \<Rightarrow> crdEVPNConfig isIP ev) \<Longrightarrow> evpnAdmitted isIP (evpnToFRR e)"
  by (auto simp: evpnAdmitted_def evpnToFRR_def crdEVPNConfig_def crdL2VNI_def crdL3VNI_def crdVNIProperties_def
      l2Admitted_def l3Admitted_def vniAdmitted_def vniPropertiesToFRR_def list_all_iff length_Suc_conv split: option.splits)

lemma mergeIntoNeighbor_admitted:
  "mergeIntoNeighbor a b = Inr c \<Longrightarrow> neighborAdmitted a \<Longrightarrow> neighborAdmitted b \<Longrightarrow> neighborAdmitted c"
  by (auto simp: mergeIntoNeighbor_Inr_iff cleanNeighborDefaults_def neighborAdmitted_def inRange_def split: option.splits)

lemma neighborToFRR_admitted:
  "neighborToFRR n ps ab vrf secrets bfd = Inr nc \<Longrightarrow> crdNeighbor F n \<Longrightarrow> neighborAdmitted nc"
  by (auto simp: neighborToFRR_Inr newNeighbor_def neighborAdmitted_def crdNeighbor_def crdConnectTime_def list_all_iff
      split: option.splits)

text \<open>
  C16: When every resource passes the rules of the resource definition, the values in a built configuration are in
  their ranges: BFD timers, ports, connect times, VNIs, address families, and every route distinguisher and target
  of a VNI still passes its rules after routers were merged.
\<close>

theorem admitted_values_reach_frr:
  assumes "apiToFRR resources alwaysBlock = Inr cfg" "\<forall>c\<in>set (cr_FRRConfigs resources). crdFRRConfiguration F c"
  shows "(\<forall>b\<in>set (cf_BFDProfiles cfg). profileAdmitted b) \<and>
    (\<forall>r\<in>set (cf_Routers cfg). evpnAdmitted (fmt_isIP F) (rc_EVPN r) \<and> (\<forall>n\<in>set (rc_Neighbors r). neighborAdmitted n))"
proof (intro conjI ballI)
  show "profileAdmitted b" if "b \<in> set (cf_BFDProfiles cfg)" for b
    using that assms(2) unfolding built_profiles [OF assms(1)]
    by (auto simp: configuredProfile_def crdFRRConfiguration_def Let_def list_all_iff crdBFDProfile_def
        profileAdmitted_def bfdProfileToFRR_def)
  have router: "crdRouter F r" if "c \<in> set (cr_FRRConfigs resources)" "r \<in> set (bgp_Routers (spec_BGP (cfg_Spec c)))" for c r
    using that assms(2) by (auto simp: crdFRRConfiguration_def Let_def list_all_iff)
  show "evpnAdmitted (fmt_isIP F) (rc_EVPN r)" if "r \<in> set (cf_Routers cfg)" for r
  proof (rule apiToFRR_router_induct [OF assms(1) that])
    fix c r rc rc'
    assume "convertedRouter resources alwaysBlock c r rc" and v: "validateRouterConfig rc = Inr rc'"
    then have "evpnAdmitted (fmt_isIP F) (rc_EVPN rc)"
      using router [of c r] evpnToFRR_admitted by (auto simp: convertedRouter_def routerToFRRConfig_Inr crdRouter_def)
    then show "evpnAdmitted (fmt_isIP F) (rc_EVPN rc')"
      using v mergeEVPNConfigs_admitted by (auto simp: validateRouterConfig_def mergeRouterConfigsAt_Inr mergedRouter_def)
  qed (auto simp: mergeRouterConfigs_Inr mergedRouter_def intro: mergeEVPNConfigs_admitted)
  show "neighborAdmitted n" if "r \<in> set (cf_Routers cfg)" "n \<in> set (rc_Neighbors r)" for r n
  proof (rule apiToFRR_neighbor_induct [OF assms(1) that])
    show "neighborAdmitted nc" if "convertedNeighbor resources alwaysBlock c r n nc" for c r n nc
      using that router neighborToFRR_admitted by (metis convertedNeighbor_run crdRouter_def list_all_iff)
  qed (rule mergeIntoNeighbor_admitted)
qed

definition sampleFormats :: crdFormats where
  "sampleFormats = \<lparr>fmt_isIP = \<lambda>_. False, fmt_ipv4 = \<lambda>_. True, fmt_ipv6 = \<lambda>_. True, fmt_cidr = \<lambda>_. True\<rparr>"

lemma sample_neighbors_admitted: "crdNeighbor sampleFormats sampleNeighbor" "crdNeighbor sampleFormats unnumberedNeighbor"
  by code_simp+

lemma sample_evpn_admitted: "crdEVPNConfig (\<lambda>_. False) sampleEVPN"
  using rules_accept [of "''65000''" "''1''"] rules_accept [of "''65000''" "''2''"]
  by (simp add: crdEVPNConfig_def sampleEVPN_def crdL2VNI_def crdVNIProperties_def inRange_def admin_eval)

lemma sample_admitted: "\<forall>c\<in>set (cr_FRRConfigs sampleResources). crdFRRConfiguration sampleFormats c"
  using sample_neighbors_admitted sample_evpn_admitted
  by (simp add: sampleResources_def mkConfig_def crdFRRConfiguration_def crdRouter_def sampleRouter_def redRouter_def
      secondRouter_def crdBFDProfile_def sampleBFD_def inRange_def sampleFormats_def crdEVPNConfig_def crdL3VNI_def
      crdVNIProperties_def noProperties_def AdvertisePrefixUnicast_def)

theorem admitted_values_reach_frr_witness:
  "neighborAdmitted unnumberedOut \<and> evpnAdmitted (\<lambda>_. False) (rc_EVPN defaultRouterOut)"
  using admitted_values_reach_frr [OF sample_value sample_admitted]
  by (simp add: sample_Routers sample_Neighbors sampleFormats_def)

end
