(* ===== verification/Reloader.thy ===== *)
theory Reloader
  imports Frr_Daemon
begin

text \<open>
  The other side of the shared volume: \<^verbatim>\<open>cmd/reloader/frr-reloader.sh\<close>, which loads the file into FRR on a
  signal and leaves three files for the daemon's poller. A reload is the list of the files it writes, in
  order, so that a poll between two writes can be described. The outcome and output of the FRR tools are
  parameters; a write replaces the file, and the lock makes one reload follow the other.
\<close>

section \<open>The script\<close>

record reloadTools =
  rl_testOk :: bool
  rl_testOutput :: string
  rl_reloadOk :: bool
  rl_runningConf :: string
  rl_date :: nat

datatype sharedFile = StatusFile | LastErrorFile | RunningConfigFile

type_synonym fileWrite = "sharedFile \<times> string"

definition save_status :: "reloadTools \<Rightarrow> fileWrite list" where
  "save_status t = [(RunningConfigFile, rl_runningConf t)]"

definition reload_frr :: "reloadTools \<Rightarrow> fileWrite list" where
  "reload_frr t =
     [(LastErrorFile, rl_testOutput t)] @
     (if \<not> rl_testOk t then [(StatusFile, itoa (rl_date t) @ '' failure'')] @ save_status t
      else if \<not> rl_reloadOk t then [(StatusFile, itoa (rl_date t) @ '' failure'')] @ save_status t
      else save_status t @ [(LastErrorFile, ''\<newline>''), (StatusFile, itoa (rl_date t) @ '' success'')])"

type_synonym volume = "sharedFile \<Rightarrow> string option"

definition writeFiles :: "volume \<Rightarrow> fileWrite list \<Rightarrow> volume" where
  "writeFiles = foldl (\<lambda>v (f, s). v(f \<mapsto> s))"

text \<open>What the daemon reads: the paths of the script under its default volume are those of \<^verbatim>\<open>frr.go\<close>.\<close>

definition readShared :: "volume \<Rightarrow> string \<Rightarrow> (fileError, string) result" where
  "readShared v path =
     (let file = (if path = statusFileName then v StatusFile
                  else if path = runningConfig then v RunningConfigFile
                  else if path = lastAppliedResult then v LastErrorFile else None)
      in case file of None \<Rightarrow> Inl NotExist | Some s \<Rightarrow> Inr s)"

definition pollVolume :: "osState \<Rightarrow> volume \<Rightarrow> (error, frrStatus) result" where
  "pollVolume sys v = fetchStatus (sys\<lparr>os_readFile := readShared v\<rparr>)"

section \<open>What a poll sees\<close>

lemma itoa_not_space: "c \<in> set (itoa n) \<Longrightarrow> \<not> isSpace c"
  using itoa_digits [of c n] by (auto simp: isSpace_def isDigit_def byteVal_def)

lemma takeWhile_itoa:
  "takeWhile (\<lambda>c. \<not> isSpace c) (itoa n @ CHR '' '' # s) = itoa n"
  "dropWhile (\<lambda>c. \<not> isSpace c) (itoa n @ CHR '' '' # s) = CHR '' '' # s"
  using itoa_not_space by (simp_all add: isSpace_def takeWhile_append2 dropWhile_append2)

lemma stringsFields_status:
  assumes "w \<noteq> []" "\<forall>c\<in>set w. \<not> isSpace c"
  shows "stringsFields (itoa n @ CHR '' '' # w) = [itoa n, w]"
proof -
  obtain c s where c: "itoa n = c # s" by (cases "itoa n") (use itoa_nonempty [of n] in auto)
  obtain d u where w: "w = d # u" using assms(1) by (cases w) auto
  have t: "takeWhile (\<lambda>c. \<not> isSpace c) (s @ CHR '' '' # w) = s" "dropWhile (\<lambda>c. \<not> isSpace c) (s @ CHR '' '' # w) = CHR '' '' # w"
    using takeWhile_itoa [of n w] itoa_not_space [of c n] by (simp_all add: c)
  have u: "takeWhile (\<lambda>c. \<not> isSpace c) u = u" "dropWhile (\<lambda>c. \<not> isSpace c) u = []"
    using assms(2) by (simp_all add: w)
  have "isSpace CHR '' ''" by (simp add: isSpace_def)
  then show ?thesis
    using itoa_not_space [of c n] assms(2) t by (simp add: c) (simp add: w u)
qed

lemma writeFiles_simps [simp]:
  "writeFiles v [] = v" "writeFiles v ((f, s) # ws) = writeFiles (v(f \<mapsto> s)) ws"
  by (simp_all add: writeFiles_def)

lemma path_names [simp]:
  "runningConfig \<noteq> statusFileName" "lastAppliedResult \<noteq> statusFileName" "lastAppliedResult \<noteq> runningConfig"
  by (simp_all add: runningConfig_def statusFileName_def lastAppliedResult_def)

text \<open>The status a poll makes of a volume whose status file has the format of the script.\<close>

lemma pollVolume_value:
  assumes "v StatusFile = Some (itoa n @ CHR '' '' # w)" "w = ''success'' \<or> w = ''failure''"
  shows "pollVolume sys v = Inr \<lparr>st_updateTime = itoa n, st_Current = (case v RunningConfigFile of None \<Rightarrow> '''' | Some s \<Rightarrow> s),
    st_LastReloadResult = (if w = ''success'' then ReloadSuccess else case v LastErrorFile of None \<Rightarrow> '''' | Some s \<Rightarrow> s)\<rparr>"
proof -
  have "stringsFields (itoa n @ CHR '' '' # w) = [itoa n, w]"
    by (rule stringsFields_status) (use assms(2) in \<open>auto simp: isSpace_def\<close>)
  moreover have "containsStr ''success'' ''failure'' = False" "containsStr ''failure'' ''failure'' = True" by code_simp+
  ultimately show ?thesis
    using assms
    by (auto simp: pollVolume_def fetchStatus_def readLastReloadResult_def readOptional_def readShared_def Let_def
        split: option.splits)
qed

definition reloadSucceeds :: "reloadTools \<Rightarrow> bool" where
  "reloadSucceeds t \<longleftrightarrow> rl_testOk t \<and> rl_reloadOk t"

lemma poll_after_reload:
  "pollVolume sys (writeFiles v (reload_frr t)) =
     Inr \<lparr>st_updateTime = itoa (rl_date t), st_Current = rl_runningConf t,
       st_LastReloadResult = (if reloadSucceeds t then ReloadSuccess else rl_testOutput t)\<rparr>"
  by (cases "rl_testOk t"; cases "rl_reloadOk t")
    (simp_all add: reload_frr_def save_status_def reloadSucceeds_def
      pollVolume_value [where n = "rl_date t" and w = "''success''"]
      pollVolume_value [where n = "rl_date t" and w = "''failure''"])

lemma status_written_last:
  assumes "reloadSucceeds t" "ws @ us = reload_frr t"
  shows "us = [] \<or> writeFiles v ws StatusFile = v StatusFile"
proof -
  have "reload_frr t = [(LastErrorFile, rl_testOutput t), (RunningConfigFile, rl_runningConf t), (LastErrorFile, ''\<newline>''),
      (StatusFile, itoa (rl_date t) @ '' success'')]"
    using assms(1) by (simp add: reload_frr_def save_status_def reloadSucceeds_def)
  then show ?thesis using assms(2) by (auto simp: append_eq_Cons_conv)
qed


definition sampleTools :: reloadTools where
  "sampleTools = \<lparr>rl_testOk = True, rl_testOutput = ''Lines To Add'', rl_reloadOk = True, rl_runningConf = ''hostname node'',
     rl_date = 1700000000\<rparr>"


section \<open>Two gaps\<close>

text \<open>
  A failed reload writes its status before the running configuration: a poll in between records the old running
  configuration under the new time, and the polls after it change nothing.
\<close>

lemma failed_reload_hides_running_config:
  assumes "\<not> reloadSucceeds t" "rl_testOutput t \<noteq> ReloadSuccess" "st_updateTime (frr_Status f) \<noteq> itoa (rl_date t)"
    and "v RunningConfigFile = Some old"
  shows "\<exists>ws us f'. ws @ us = reload_frr t \<and>
    pollTick (pollVolume sys (writeFiles v ws)) f = ([\<lparr>re_config = None, re_useOld = True\<rparr>], f', True) \<and>
    st_Current (frr_Status f') = old \<and>
    pollTick (pollVolume sys (writeFiles v (reload_frr t))) f' = ([], f', False)"
proof -
  let ?ws = "[(LastErrorFile, rl_testOutput t), (StatusFile, itoa (rl_date t) @ '' failure'')]"
  have split: "?ws @ save_status t = reload_frr t"
    using assms(1) by (auto simp: reload_frr_def reloadSucceeds_def)
  let ?st = "\<lparr>st_updateTime = itoa (rl_date t), st_Current = old, st_LastReloadResult = rl_testOutput t\<rparr>"
  have "pollVolume sys (writeFiles v ?ws) = Inr ?st"
    using assms(4) by (simp add: pollVolume_value [where n = "rl_date t" and w = "''failure''"])
  then have "pollTick (pollVolume sys (writeFiles v ?ws)) f =
      ([\<lparr>re_config = None, re_useOld = True\<rparr>], f\<lparr>frr_Status := ?st\<rparr>, True)"
    unfolding pollTick_def using assms(2,3) by simp
  moreover have "pollTick (pollVolume sys (writeFiles v (reload_frr t))) (f\<lparr>frr_Status := ?st\<rparr>) = ([], f\<lparr>frr_Status := ?st\<rparr>, False)"
    by (simp add: poll_after_reload pollTick_def)
  ultimately show ?thesis
    using split by (intro exI [of _ ?ws] exI [of _ "save_status t"] exI [of _ "f\<lparr>frr_Status := ?st\<rparr>"]) simp
qed

text \<open>The time has a resolution of a second: the outcome of a second reload within it is never recorded.\<close>

lemma second_reload_in_a_second_is_missed:
  assumes "rl_date t' = rl_date t"
    and "pollTick (pollVolume sys (writeFiles v (reload_frr t))) f = (evs, f', b)"
  shows "pollTick (pollVolume sys (writeFiles (writeFiles v (reload_frr t)) (reload_frr t'))) f' = ([], f', False)"
  using assms by (auto simp: poll_after_reload pollTick_def split: if_splits)

end
