(* ===== verification/Log_Pipe.thy ===== *)
theory Log_Pipe
  imports Frr_Daemon Log_Level
begin

text \<open>
  The reader of the pipe that receives the lines of \<^verbatim>\<open>klog\<close> (\<open>collectGlogs\<close> and \<open>deformat\<close> of
  \<^verbatim>\<open>internal/logging/logging.go\<close>). The input is the finite sequence of bytes written before the pipe is
  closed. \<^verbatim>\<open>bufio.Reader\<close> hands out a long line in pieces of its buffer; the regular expression is matched by
  hand. A time is the list of the arguments of \<^verbatim>\<open>time.Date\<close>, or the current time.
\<close>

section \<open>Matching the prefix of a line\<close>

definition byteIn :: "char \<Rightarrow> nat \<Rightarrow> nat \<Rightarrow> bool" where
  "byteIn c lo hi \<longleftrightarrow> lo \<le> byteVal c \<and> byteVal c \<le> hi"

text \<open>
  \<^verbatim>\<open>utf8.DecodeRune\<close>: the number of bytes of the first rune; a byte that does not start a valid encoding counts
  as one rune.
\<close>

definition contBytes :: "string \<Rightarrow> nat \<Rightarrow> bool" where
  "contBytes s k \<longleftrightarrow> k \<le> length s \<and> list_all (\<lambda>c. byteIn c 0x80 0xBF) (take k s)"

definition secondOk :: "char \<Rightarrow> char \<Rightarrow> bool" where
  "secondOk c d =
     (if byteVal c = 0xE0 then byteIn d 0xA0 0xBF
      else if byteVal c = 0xED then byteIn d 0x80 0x9F
      else if byteVal c = 0xF0 then byteIn d 0x90 0xBF
      else if byteVal c = 0xF4 then byteIn d 0x80 0x8F
      else byteIn d 0x80 0xBF)"

fun runeLen :: "string \<Rightarrow> nat" where
  "runeLen [] = 0"
| "runeLen (c # s) =
     (let n = (if byteIn c 0xC2 0xDF then 1 else if byteIn c 0xE0 0xEF then 2 else if byteIn c 0xF0 0xF4 then 3 else 0)
      in if n = 0 then 1
         else if contBytes s n \<and> secondOk c (hd s) then Suc n else 1)"

text \<open>\<^verbatim>\<open>(.)\<close>: one rune that is not a newline.\<close>

definition matchDot :: "string \<Rightarrow> (string \<times> string) option" where
  "matchDot s = (if s = [] \<or> hd s = CHR 0x0A then None else Some (take (runeLen s) s, drop (runeLen s) s))"

definition matchDigits :: "nat \<Rightarrow> string \<Rightarrow> (string \<times> string) option" where
  "matchDigits k s = (if k \<le> length s \<and> list_all isDigit (take k s) then Some (take k s, drop k s) else None)"

definition matchByte :: "char \<Rightarrow> string \<Rightarrow> string option" where
  "matchByte c s = (if s \<noteq> [] \<and> hd s = c then Some (tl s) else None)"

definition matchPlus :: "(char \<Rightarrow> bool) \<Rightarrow> string \<Rightarrow> (string \<times> string) option" where
  "matchPlus p s = (if s \<noteq> [] \<and> p (hd s) then Some (takeWhile p s, dropWhile p s) else None)"

definition regexpSpace :: "char \<Rightarrow> bool" where
  "regexpSpace c \<longleftrightarrow> c \<in> {CHR '' '', CHR 0x09, CHR 0x0A, CHR 0x0C, CHR 0x0D}"

record logFields =
  lf_severity :: string
  lf_month :: string
  lf_day :: string
  lf_hour :: string
  lf_minute :: string
  lf_second :: string
  lf_micros :: string
  lf_caller :: string
  lf_msg :: string

definition matchLogPrefix :: "string \<Rightarrow> logFields option" where
  "matchLogPrefix b =
     Option.bind (matchDot b) (\<lambda>(severity, s).
     Option.bind (matchDigits 2 s) (\<lambda>(month, s).
     Option.bind (matchDigits 2 s) (\<lambda>(day, s).
     Option.bind (matchByte CHR '' '' s) (\<lambda>s.
     Option.bind (matchDigits 2 s) (\<lambda>(hour, s).
     Option.bind (matchByte CHR '':'' s) (\<lambda>s.
     Option.bind (matchDigits 2 s) (\<lambda>(minute, s).
     Option.bind (matchByte CHR '':'' s) (\<lambda>s.
     Option.bind (matchDigits 2 s) (\<lambda>(second, s).
     Option.bind (matchDot s) (\<lambda>(_, s).
     Option.bind (matchDigits 6 s) (\<lambda>(micros, s).
     Option.bind (matchPlus regexpSpace s) (\<lambda>(_, s).
     Option.bind (matchPlus isDigit s) (\<lambda>(_, s).
     Option.bind (matchByte CHR '' '' s) (\<lambda>s.
     Option.bind (matchPlus (\<lambda>c. c \<noteq> CHR '':'') s) (\<lambda>(file, s).
     Option.bind (matchByte CHR '':'' s) (\<lambda>s.
     Option.bind (matchPlus isDigit s) (\<lambda>(line, s).
     Option.bind (matchByte CHR '']'' s) (\<lambda>s.
     Option.bind (matchByte CHR '' '' s) (\<lambda>s.
     if CHR 0x0A \<in> set s then None
     else Some \<lparr>lf_severity = severity, lf_month = month, lf_day = day, lf_hour = hour, lf_minute = minute,
       lf_second = second, lf_micros = micros, lf_caller = file @ '':'' @ line, lf_msg = s\<rparr>)))))))))))))))))))"

section \<open>One line\<close>

datatype logSeverity = InfoLevel | WarnLevel | ErrorLevel

text \<open>\<open>LocalTime\<close> holds month, day, hour, minute, second and nanoseconds of the current year.\<close>

datatype logTime = CurrentTime | LocalTime int int int int int int

record logEntry =
  le_level :: logSeverity
  le_ts :: logTime
  le_caller :: string
  le_msg :: string

definition deformat :: "string \<Rightarrow> logEntry" where
  "deformat b =
     (let dflt = \<lparr>le_level = InfoLevel, le_ts = CurrentTime, le_caller = '''', le_msg = b\<rparr> in
      if length b < 30 then dflt
      else case matchLogPrefix b of
        None \<Rightarrow> dflt
      | Some ms \<Rightarrow>
          (case (Atoi (lf_month ms), Atoi (lf_day ms), Atoi (lf_hour ms), Atoi (lf_minute ms), Atoi (lf_second ms),
                 Atoi (lf_micros ms)) of
             (Inr month, Inr day, Inr hour, Inr minute, Inr second, Inr micros) \<Rightarrow>
               \<lparr>le_level = (let c = hd (lf_severity ms) in
                   if c = CHR ''I'' then InfoLevel
                   else if c = CHR ''W'' then WarnLevel
                   else if c = CHR ''E'' \<or> c = CHR ''F'' then ErrorLevel
                   else InfoLevel),
                le_ts = LocalTime month day hour minute second (micros * 1000),
                le_caller = lf_caller ms, le_msg = lf_msg ms\<rparr>
           | _ \<Rightarrow> dflt))"

section \<open>The loop over the pipe\<close>

definition readerBufSize :: nat where "readerBufSize = 4096"

datatype readErr = BufferFull | EndOfFile

definition ReadSlice :: "string \<Rightarrow> string \<times> string \<times> readErr option" where
  "ReadSlice inp =
     (let line = takeWhile (\<lambda>c. c \<noteq> CHR 0x0A) inp in
      if length line < length inp \<and> length line < readerBufSize
        then (take (Suc (length line)) inp, drop (Suc (length line)) inp, None)
      else if readerBufSize \<le> length inp then (take readerBufSize inp, drop readerBufSize inp, Some BufferFull)
      else (inp, [], Some EndOfFile))"

text \<open>The line without its end, whether it is only a piece, whether there was none, and the rest of the input.\<close>

definition ReadLine :: "string \<Rightarrow> string \<times> bool \<times> bool \<times> string" where
  "ReadLine inp =
     (case ReadSlice inp of
        (line, rest, Some BufferFull) \<Rightarrow>
          if line \<noteq> [] \<and> last line = CHR 0x0D then (butlast line, True, False, CHR 0x0D # rest) else (line, True, False, rest)
      | (line, rest, err) \<Rightarrow>
          if line = [] then ([], False, err \<noteq> None, rest)
          else if last line = CHR 0x0A then
            let line = butlast line in
            (if line \<noteq> [] \<and> last line = CHR 0x0D then butlast line else line, False, False, rest)
          else (line, False, False, rest))"

lemma ReadSlice_cases:
  obtains (line) l rest where "inp = l @ CHR 0x0A # rest" "CHR 0x0A \<notin> set l" "length l < readerBufSize"
      "ReadSlice inp = (l @ [CHR 0x0A], rest, None)"
  | (full) "readerBufSize \<le> length inp" "CHR 0x0A \<notin> set (take readerBufSize inp)"
      "ReadSlice inp = (take readerBufSize inp, drop readerBufSize inp, Some BufferFull)"
  | (eof) "length inp < readerBufSize" "CHR 0x0A \<notin> set inp" "ReadSlice inp = (inp, [], Some EndOfFile)"
proof -
  let ?p = "\<lambda>c. c \<noteq> CHR 0x0A"
  let ?l = "takeWhile ?p inp"
  have parts: "inp = ?l @ dropWhile ?p inp" by simp
  have notin: "CHR 0x0A \<notin> set ?l" using set_takeWhileD [of "CHR 0x0A" ?p inp] by blast
  have slice: "ReadSlice inp =
     (if length ?l < length inp \<and> length ?l < readerBufSize
        then (take (Suc (length ?l)) inp, drop (Suc (length ?l)) inp, None)
      else if readerBufSize \<le> length inp then (take readerBufSize inp, drop readerBufSize inp, Some BufferFull)
      else (inp, [], Some EndOfFile))"
    by (simp only: ReadSlice_def Let_def)
  show thesis
  proof (cases "length ?l < length inp \<and> length ?l < readerBufSize")
    case True
    then obtain y ys where d: "dropWhile ?p inp = y # ys" using parts by (cases "dropWhile ?p inp") auto
    then have y: "y = CHR 0x0A" using hd_dropWhile [of ?p inp] by auto
    have inp: "inp = ?l @ CHR 0x0A # ys" using parts d y by simp
    have "take (Suc (length ?l)) inp = ?l @ [CHR 0x0A]" "drop (Suc (length ?l)) inp = ys"
      by (subst inp, simp)+
    then have "ReadSlice inp = (?l @ [CHR 0x0A], ys, None)" using slice True by simp
    then show thesis using line [OF inp notin] True by blast
  next
    case long: False
    show thesis
    proof (cases "readerBufSize \<le> length inp")
      case True
      then have "readerBufSize \<le> length ?l" using long by linarith
      then have "take readerBufSize inp = take readerBufSize ?l"
        using take_append [of readerBufSize ?l "dropWhile ?p inp"] by simp
      then have "CHR 0x0A \<notin> set (take readerBufSize inp)" using notin in_set_takeD by metis
      moreover have "ReadSlice inp = (take readerBufSize inp, drop readerBufSize inp, Some BufferFull)"
        using slice long True by simp
      ultimately show thesis by (rule full [OF True])
    next
      case short: False
      then have "\<not> length ?l < length inp" using long length_takeWhile_le [of ?p inp] by linarith
      then have "CHR 0x0A \<notin> set inp" using notin parts by (metis length_append less_add_same_cancel1 length_greater_0_conv append_Nil2)
      moreover have "ReadSlice inp = (inp, [], Some EndOfFile)" using slice long short by simp
      ultimately show thesis using eof short by simp
    qed
  qed
qed

lemma ReadLine_shorter:
  assumes "ReadLine inp = (l, pfx, False, rest)"
  shows "length rest < length inp"
proof (cases rule: ReadSlice_cases [of inp])
  case eof
  then have "inp \<noteq> [] \<and> rest = []" using assms by (simp add: ReadLine_def Let_def split: if_splits)
  then show ?thesis by simp
next
  case full
  then have "length rest \<le> Suc (length inp - readerBufSize)"
    using assms by (auto simp: ReadLine_def split: if_splits)
  then show ?thesis using full(1) by (simp add: readerBufSize_def)
next
  case (line k r)
  then show ?thesis using assms by (auto simp: ReadLine_def Let_def split: if_splits)
qed

text \<open>The inner loop puts the pieces of a line together; \<open>None\<close> is its early return.\<close>

function readPieces :: "string \<Rightarrow> string \<Rightarrow> (string \<times> string) option" where
  "readPieces buf inp =
     (case ReadLine inp of
        (l, pfx, err, rest) \<Rightarrow>
          if err then None else if pfx then readPieces (buf @ l) rest else Some (buf @ l, rest))"
  by pat_completeness auto

termination readPieces
  by (relation "measure (\<lambda>(buf, inp). length inp)") (auto dest: ReadLine_shorter [OF sym])

declare readPieces.simps [simp del]

lemma readPieces_shorter: "readPieces buf inp = Some (line, rest) \<Longrightarrow> length rest < length inp"
proof (induction buf inp rule: readPieces.induct)
  case (1 buf inp)
  obtain l pfx err r where rl: "ReadLine inp = (l, pfx, err, r)" by (metis surj_pair)
  then have step: "readPieces buf inp = (if err then None else if pfx then readPieces (buf @ l) r else Some (buf @ l, r))"
    by (simp add: readPieces.simps [of buf inp])
  have "\<not> err" using "1.prems" step by auto
  then have "length r < length inp" using rl ReadLine_shorter by simp
  moreover have "length rest < length r" if "pfx" "readPieces (buf @ l) r = Some (line, rest)"
    using "1.IH" [of l "(pfx, err, r)" pfx "(err, r)" err r] rl that \<open>\<not> err\<close> by simp
  ultimately show ?case using "1.prems" step \<open>\<not> err\<close> by (auto split: if_splits)
qed

function collectGlogs :: "string \<Rightarrow> logEntry list" where
  "collectGlogs inp =
     (case readPieces [] inp of
        None \<Rightarrow> []
      | Some (buf, rest) \<Rightarrow> deformat buf # collectGlogs rest)"
  by pat_completeness auto

termination collectGlogs
  by (relation "measure length") (auto dest: readPieces_shorter)

declare collectGlogs.simps [simp del]

section \<open>Every line is logged once\<close>

definition stripCR :: "string \<Rightarrow> string" where
  "stripCR l = (if l \<noteq> [] \<and> last l = CHR 0x0D then butlast l else l)"

lemma stripCR_append: "v \<noteq> [] \<Longrightarrow> u @ stripCR v = stripCR (u @ v)"
  by (simp add: stripCR_def butlast_append)

lemma ReadLine_terminated:
  assumes "CHR 0x0A \<notin> set l"
  shows "ReadLine (l @ CHR 0x0A # rest) =
    (if length l < readerBufSize then (stripCR l, False, False, rest)
     else if last (take readerBufSize l) = CHR 0x0D
       then (take (readerBufSize - 1) l, True, False, drop (readerBufSize - 1) l @ CHR 0x0A # rest)
     else (take readerBufSize l, True, False, drop readerBufSize l @ CHR 0x0A # rest))"
proof -
  have tw: "takeWhile (\<lambda>c. c \<noteq> CHR 0x0A) (l @ CHR 0x0A # rest) = l"
    using assms by (subst takeWhile_append2) auto
  show ?thesis
  proof (cases "length l < readerBufSize")
    case True
    then show ?thesis by (simp add: ReadLine_def ReadSlice_def tw stripCR_def)
  next
    case False
    let ?t = "take readerBufSize l"
    have t: "?t \<noteq> []" "butlast ?t = take (readerBufSize - 1) l" "length ?t = readerBufSize"
      using False by (auto simp: butlast_take readerBufSize_def)
    have "last ?t = l ! (readerBufSize - 1)" using t False by (simp add: last_conv_nth)
    then have "last ?t # drop readerBufSize l = drop (readerBufSize - 1) l"
      using False Cons_nth_drop_Suc [of "readerBufSize - 1" l] by (simp add: readerBufSize_def)
    then have "last ?t = CHR 0x0D \<Longrightarrow> CHR 0x0D # drop readerBufSize l @ CHR 0x0A # rest =
        drop (readerBufSize - 1) l @ CHR 0x0A # rest" by (metis append_Cons)
    then show ?thesis using False t by (simp add: ReadLine_def ReadSlice_def tw)
  qed
qed

lemma readPieces_terminated:
  "CHR 0x0A \<notin> set l \<Longrightarrow> readPieces buf (l @ CHR 0x0A # rest) = Some (buf @ stripCR l, rest)"
proof (induction "length l" arbitrary: buf l rule: less_induct)
  case less
  note rl = ReadLine_terminated [OF less.prems, of rest]
  have more: "readPieces (buf @ take k l) (drop k l @ CHR 0x0A # rest) = Some (buf @ take k l @ stripCR (drop k l), rest)"
    if "0 < k" "k \<le> length l" for k
  proof -
    have "length (drop k l) < length l" "CHR 0x0A \<notin> set (drop k l)" using that less.prems in_set_dropD by (simp, metis)
    from less.hyps [OF this, of "buf @ take k l"] show ?thesis by simp
  qed
  show ?case
  proof (cases "length l < readerBufSize")
    case True
    then show ?thesis by (simp add: readPieces.simps [of buf] rl)
  next
    case long: False
    show ?thesis
    proof (cases "last (take readerBufSize l) = CHR 0x0D")
      case True
      let ?k = "readerBufSize - 1"
      have k: "0 < ?k" "?k < length l" using long by (auto simp: readerBufSize_def)
      have "take ?k l @ stripCR (drop ?k l) = stripCR l" using k stripCR_append [of "drop ?k l" "take ?k l"] by simp
      then show ?thesis using more [of ?k] k long True by (simp add: readPieces.simps [of buf] rl)
    next
      case False
      have k: "0 < readerBufSize" "readerBufSize \<le> length l" using long by (auto simp: readerBufSize_def)
      have "take readerBufSize l @ stripCR (drop readerBufSize l) = stripCR l"
      proof (cases "drop readerBufSize l = []")
        case True
        then have "take readerBufSize l = l" using k by simp
        then show ?thesis using False True by (simp add: stripCR_def)
      qed (use stripCR_append [of "drop readerBufSize l" "take readerBufSize l"] in simp)
      then show ?thesis using more [of readerBufSize] k long False by (simp add: readPieces.simps [of buf] rl)
    qed
  qed
qed

lemma collectGlogs_line:
  "CHR 0x0A \<notin> set l \<Longrightarrow> collectGlogs (l @ CHR 0x0A # rest) = deformat (stripCR l) # collectGlogs rest"
  by (simp add: collectGlogs.simps [of "l @ CHR 0x0A # rest"] readPieces_terminated)

lemma readPieces_empty: "readPieces buf [] = None"
  by (simp add: readPieces.simps ReadLine_def ReadSlice_def readerBufSize_def)

lemma collectGlogs_empty: "collectGlogs [] = []"
  by (simp add: collectGlogs.simps readPieces_empty)

text \<open>
  C38: The reader of the log pipe returns on every input; on a sequence of terminated lines of any length it logs
  each line exactly once, whole and in order, without its line end, although the buffer hands out long lines
  in pieces.
\<close>

theorem log_lines_collected:
  assumes "\<forall>l\<in>set ls. CHR 0x0A \<notin> set l"
  shows "collectGlogs (concat (map (\<lambda>l. l @ [CHR 0x0A]) ls)) = map (\<lambda>l. deformat (stripCR l)) ls"
  using assms by (induction ls) (simp_all add: collectGlogs_empty collectGlogs_line)

theorem log_lines_collected_witness:
  "collectGlogs ''W0102 03:04:05.000006       1 file.go:42] hello\<newline>short\<newline>'' =
     [\<lparr>le_level = WarnLevel, le_ts = LocalTime 1 2 3 4 5 6000, le_caller = ''file.go:42'', le_msg = ''hello''\<rparr>,
      \<lparr>le_level = InfoLevel, le_ts = CurrentTime, le_caller = '''', le_msg = ''short''\<rparr>]"
proof -
  have "deformat (stripCR ''W0102 03:04:05.000006       1 file.go:42] hello'') =
      \<lparr>le_level = WarnLevel, le_ts = LocalTime 1 2 3 4 5 6000, le_caller = ''file.go:42'', le_msg = ''hello''\<rparr>"
    "deformat (stripCR ''short'') = \<lparr>le_level = InfoLevel, le_ts = CurrentTime, le_caller = '''', le_msg = ''short''\<rparr>"
    by code_simp+
  then show ?thesis
    using log_lines_collected [of "[''W0102 03:04:05.000006       1 file.go:42] hello'', ''short'']"] by simp
qed

text \<open>An unterminated last line is logged too, unless it fills the buffer exactly: then it is lost.\<close>

lemma last_line_lost:
  assumes "length l = readerBufSize" "CHR 0x0A \<notin> set l" "last l \<noteq> CHR 0x0D"
  shows "collectGlogs l = []"
proof -
  have tw: "takeWhile (\<lambda>c. c \<noteq> CHR 0x0A) l = l" using assms(2) by (auto simp: takeWhile_eq_all_conv)
  have "ReadSlice l = (l, [], Some BufferFull)" unfolding ReadSlice_def tw Let_def using assms(1) by simp
  then have "ReadLine l = (l, True, False, [])" using assms(3) by (simp add: ReadLine_def)
  then have "readPieces [] l = None" by (simp add: readPieces.simps [of "[]" l] readPieces_empty)
  then show ?thesis by (simp add: collectGlogs.simps)
qed

end
