(* ===== verification/Startup.thy ===== *)
theory Startup
  imports Frr_Daemon Log_Level Api_To_Config
begin

text \<open>
  What the commands make of their flags: the always-blocked prefixes and the debounce interval of
  \<^verbatim>\<open>cmd/frr-k8s-controller/main.go\<close>, the TLS options of \<^verbatim>\<open>internal/tlsconfig\<close> and the version text of
  \<^verbatim>\<open>internal/version\<close>. The tables of cipher suites and TLS versions and the sources of certificates are
  those of libraries and are parameters; \<^verbatim>\<open>strings.TrimSpace\<close> is modelled for ASCII white space.
\<close>

section \<open>Trimming\<close>

definition trimBy :: "(char \<Rightarrow> bool) \<Rightarrow> string \<Rightarrow> string" where
  "trimBy p s = rev (dropWhile p (rev (dropWhile p s)))"

definition TrimSpace :: "string \<Rightarrow> string" where
  "TrimSpace s = trimBy isSpace s"

section \<open>Always-blocked prefixes\<close>

definition parseCIDRs :: "string \<Rightarrow> (error, IPNet list) result" where
  "parseCIDRs cidrs =
     (if cidrs = '''' then Inr []
      else mapE (\<lambda>e. case ParseCIDR (trimBy (\<lambda>c. c = CHR '' '') e) of
                       None \<Rightarrow> Inl (Errorf ''failed to parse cidr %s: %w''
                         [AStr e, AErr (Errorf ''invalid CIDR address: %s'' [AStr (trimBy (\<lambda>c. c = CHR '' '') e)])])
                     | Some (_, cidr) \<Rightarrow> Inr cidr)
             (splitOn CHR '','' cidrs))"

section \<open>Debounce interval\<close>

definition timeMillisecond :: int where "timeMillisecond = 1000000"

definition defaultDebounceTimeout :: int where "defaultDebounceTimeout = 3 * timeSecond"

text \<open>The product of two \<^verbatim>\<open>time.Duration\<close>, which are 64 bits wide.\<close>

definition int64 :: "int \<Rightarrow> int" where
  "int64 i = sint (word_of_int i :: 64 word)"

text \<open>\<open>None\<close> is the exit of the process.\<close>

definition debounceTimeout :: "string \<Rightarrow> int option" where
  "debounceTimeout bgpDebounceTimeoutMs =
     (if bgpDebounceTimeoutMs \<noteq> '''' then
        (case Atoi bgpDebounceTimeoutMs of
           Inl _ \<Rightarrow> None
         | Inr parsed \<Rightarrow> if parsed \<le> 0 then None else Some (int64 (parsed * timeMillisecond)))
      else Some defaultDebounceTimeout)"

section \<open>TLS options\<close>

record 'c tlsConfig =
  tc_CipherSuites :: "uint16 list option"
  tc_CurvePreferences :: "uint16 list option"
  tc_MinVersion :: uint16
  tc_Certificates :: "'c list"
  tc_GetCertificate :: "(string \<times> string) option"

definition VersionTLS13 :: uint16 where "VersionTLS13 = 0x0304"

text \<open>\<^verbatim>\<open>strconv.ParseInt(p, 10, 32)\<close>.\<close>

definition ParseInt32 :: "string \<Rightarrow> int option" where
  "ParseInt32 s =
     (let neg = hasPrefix s ''-''; d = (if hasPrefix s ''-'' \<or> hasPrefix s ''+'' then tl s else s) in
      if d = '''' \<or> \<not> list_all isDigit d then None
      else if \<not> neg \<and> decVal d \<ge> 2 ^ 31 \<or> neg \<and> decVal d > 2 ^ 31 then None
      else Some (if neg then - int (decVal d) else int (decVal d)))"

text \<open>The curves of \<^verbatim>\<open>crypto/tls\<close> in Go 1.25, the others print as a number.\<close>

definition curveString :: "uint16 \<Rightarrow> string" where
  "curveString c =
     (if c = 23 then ''CurveP256'' else if c = 24 then ''CurveP384'' else if c = 25 then ''CurveP521''
      else if c = 29 then ''X25519'' else if c = 4588 then ''X25519MLKEM768''
      else ''CurveID('' @ itoa (unat c) @ '')'')"

definition curveStep :: "int list \<times> uint16 list \<Rightarrow> string \<Rightarrow> (error, int list \<times> uint16 list) result" where
  "curveStep = (\<lambda>(seen, result) p.
     let p = TrimSpace p in
     case ParseInt32 p of
       None \<Rightarrow> Inl (Errorf ''invalid curve preference %q: must be a numeric CurveID'' [AStr p])
     | Some n \<Rightarrow>
         if n \<le> 0 \<or> n > 65535 then Inl (Errorf ''curve preference %d is out of range (must be 1-%d)'' [AInt n, AInt 65535])
         else if n \<in> set seen then Inl (Errorf ''duplicate curve preference %d'' [AInt n])
         else
           let curve = word_of_int n :: uint16 in
           if hasPrefix (curveString curve) ''CurveID('' then
             Inl (Errorf ''curve preference %d is not supported by the current Go version'' [AInt n])
           else Inr (seen @ [n], result @ [curve]))"

definition parseCurvePreferences :: "string \<Rightarrow> (error, uint16 list option) result" where
  "parseCurvePreferences curves =
     (if curves = '''' then Inr None
      else bindE (foldE curveStep ([], []) (splitOn CHR '','' curves)) (\<lambda>(_, result). Inr (Some result)))"

definition parseCipherSuites ::
  "(string list \<Rightarrow> (error, uint16 list option) result) \<Rightarrow> string \<Rightarrow> (error, uint16 list option) result"
where
  "parseCipherSuites TLSCipherSuites ciphers =
     (if ciphers = '''' then Inr None else TLSCipherSuites (map TrimSpace (splitOn CHR '','' ciphers)))"

definition parseTLSVersion :: "(string \<Rightarrow> (error, uint16) result) \<Rightarrow> string \<Rightarrow> (error, uint16) result" where
  "parseTLSVersion TLSVersion version = (if version = '''' then Inr VersionTLS13 else TLSVersion version)"

definition OptFor ::
  "(string list \<Rightarrow> (error, uint16 list option) result) \<Rightarrow> (string \<Rightarrow> (error, uint16) result) \<Rightarrow>
   string \<Rightarrow> string \<Rightarrow> string \<Rightarrow> (error, 'c tlsConfig \<Rightarrow> 'c tlsConfig) result"
where
  "OptFor TLSCipherSuites TLSVersion cipherSuites curvePreferences minVersion =
     bindE (mapErr (\<lambda>e. Errorf ''parsing tls-cipher-suites: %w'' [AErr e]) (parseCipherSuites TLSCipherSuites cipherSuites)) (\<lambda>ciphers.
     bindE (mapErr (\<lambda>e. Errorf ''parsing tls-curve-preferences: %w'' [AErr e]) (parseCurvePreferences curvePreferences)) (\<lambda>curves.
     bindE (mapErr (\<lambda>e. Errorf ''parsing tls-min-version: %w'' [AErr e]) (parseTLSVersion TLSVersion minVersion)) (\<lambda>minVer.
     if ciphers \<noteq> None \<and> minVer = VersionTLS13 then Inl (Errorf ''cipher suites cannot be configured with TLS 1.3'' [])
     else Inr (\<lambda>cfg.
       let cfg = (if ciphers \<noteq> None then cfg\<lparr>tc_CipherSuites := ciphers\<rparr> else cfg);
           cfg = (if curves \<noteq> None then cfg\<lparr>tc_CurvePreferences := curves\<rparr> else cfg)
       in cfg\<lparr>tc_MinVersion := minVer\<rparr>))))"

definition emptyTLSConfig :: "'c tlsConfig" where
  "emptyTLSConfig = \<lparr>tc_CipherSuites = None, tc_CurvePreferences = None, tc_MinVersion = 0, tc_Certificates = [],
     tc_GetCertificate = None\<rparr>"

definition selfSignedCert ::
  "(error, string) result \<Rightarrow> (string \<Rightarrow> (error, string \<times> string) result) \<Rightarrow> (string \<times> string \<Rightarrow> (error, 'c) result) \<Rightarrow>
   (error, 'c) result"
where
  "selfSignedCert osHostname GenerateSelfSignedCertKey X509KeyPair =
     bindE (mapErr (\<lambda>e. Errorf ''getting hostname: %w'' [AErr e]) osHostname) (\<lambda>host.
     bindE (mapErr (\<lambda>e. Errorf ''generating self-signed cert: %w'' [AErr e]) (GenerateSelfSignedCertKey host)) (\<lambda>pair.
     mapErr (\<lambda>e. Errorf ''loading self-signed cert: %w'' [AErr e]) (X509KeyPair pair)))"

definition withSelfSigned :: "(error, 'c) result \<Rightarrow> 'c tlsConfig \<Rightarrow> (error, 'c tlsConfig) result" where
  "withSelfSigned selfSigned cfg =
     bindE (mapErr (\<lambda>e. Errorf ''generating self-signed cert: %w'' [AErr e]) selfSigned)
       (\<lambda>cert. Inr (cfg\<lparr>tc_Certificates := [cert]\<rparr>))"

definition withCertWatcher ::
  "(string \<Rightarrow> string \<Rightarrow> (error, unit) result) \<Rightarrow> 'c tlsConfig \<Rightarrow> string \<Rightarrow> string \<Rightarrow> (error, 'c tlsConfig) result"
where
  "withCertWatcher certwatcherNew cfg certFile keyFile =
     bindE (mapErr (\<lambda>e. Errorf ''creating cert watcher: %w'' [AErr e]) (certwatcherNew certFile keyFile))
       (\<lambda>_. Inr (cfg\<lparr>tc_GetCertificate := Some (certFile, keyFile)\<rparr>))"

definition tlsFor ::
  "(error, 'c) result \<Rightarrow> (string \<Rightarrow> string \<Rightarrow> (error, unit) result) \<Rightarrow> ('c tlsConfig \<Rightarrow> 'c tlsConfig) \<Rightarrow> string \<Rightarrow> string \<Rightarrow>
   (error, 'c tlsConfig) result"
where
  "tlsFor selfSigned certwatcherNew tlsOpt certFile keyFile =
     (let cfg = tlsOpt emptyTLSConfig in
      if certFile \<noteq> '''' \<and> keyFile \<noteq> '''' then withCertWatcher certwatcherNew cfg certFile keyFile
      else withSelfSigned selfSigned cfg)"

section \<open>Version\<close>

definition versionString :: "string \<Rightarrow> string \<Rightarrow> string \<Rightarrow> string" where
  "versionString version gitCommit gitBranch =
     (let hasVersion = (version \<noteq> ''''); hasBuildInfo = (gitCommit \<noteq> '''') in
      if hasVersion \<and> hasBuildInfo then ''version '' @ version @ '' (commit '' @ gitCommit @ '', branch '' @ gitBranch @ '')''
      else if \<not> hasVersion \<and> hasBuildInfo then ''(commit '' @ gitCommit @ '', branch '' @ gitBranch @ '')''
      else if hasVersion \<and> \<not> hasBuildInfo then ''version '' @ version @ '' (no build information)''
      else ''(no version or build info)'')"

section \<open>Properties of the parsers\<close>

lemma parseCIDRs_Inr:
  "parseCIDRs s = Inr nets \<longleftrightarrow>
     (if s = [] then nets = []
      else list_all2 (\<lambda>e net. \<exists>ip. ParseCIDR (trimBy (\<lambda>c. c = CHR '' '') e) = Some (ip, net)) (splitOn CHR '','' s) nets)"
proof -
  let ?p = "\<lambda>e. case ParseCIDR (trimBy (\<lambda>c. c = CHR '' '') e) of
      None \<Rightarrow> Inl (Errorf ''failed to parse cidr %s: %w''
        [AStr e, AErr (Errorf ''invalid CIDR address: %s'' [AStr (trimBy (\<lambda>c. c = CHR '' '') e)])])
    | Some (_, cidr) \<Rightarrow> Inr cidr"
  have one: "?p e = Inr net \<longleftrightarrow> (\<exists>ip. ParseCIDR (trimBy (\<lambda>c. c = CHR '' '') e) = Some (ip, net))" for e net
    by (auto split: option.splits)
  have "mapE ?p es = Inr nets \<longleftrightarrow> list_all2 (\<lambda>e net. ?p e = Inr net) es nets" for es
    by (induction es arbitrary: nets) (auto simp: bindE_Inr_iff list_all2_Cons1)
  then show ?thesis unfolding parseCIDRs_def one by auto
qed



definition knownCurves :: "uint16 list" where "knownCurves = [23, 24, 25, 29, 4588]"

lemma curveString_known: "\<not> hasPrefix (curveString c) ''CurveID('' \<longleftrightarrow> c \<in> set knownCurves"
  by (auto simp: curveString_def knownCurves_def hasPrefix_iff)

definition curvesOk :: "int list \<times> uint16 list \<Rightarrow> bool" where
  "curvesOk = (\<lambda>(seen, result). result = map word_of_int seen \<and> distinct seen \<and>
     (\<forall>n\<in>set seen. 0 < n \<and> n \<le> 65535) \<and> set result \<subseteq> set knownCurves)"

lemma curveStep_ok:
  "curveStep st p = Inr st' \<Longrightarrow> curvesOk st \<Longrightarrow> curvesOk st' \<and> length (snd st') = Suc (length (snd st))"
  using curveString_known
  by (cases st) (auto simp: curveStep_def curvesOk_def Let_def image_subset_iff split: option.splits if_splits)

lemma curves_loop:
  "foldE curveStep st ps = Inr st' \<Longrightarrow> curvesOk st \<Longrightarrow> curvesOk st' \<and> length (snd st') = length (snd st) + length ps"
proof (induction ps arbitrary: st)
  case (Cons p ps)
  then obtain t where t: "curveStep st p = Inr t" "foldE curveStep t ps = Inr st'" by (auto simp: bindE_Inr_iff)
  then show ?case using Cons.IH [OF t(2)] curveStep_ok [OF t(1) Cons.prems(2)] by simp
qed simp

lemma curvesOk_distinct:
  assumes "curvesOk (seen, result)"
  shows "distinct result"
proof -
  have "inj_on (word_of_int :: int \<Rightarrow> uint16) (set seen)"
  proof (rule inj_onI)
    fix a b
    assume ab: "a \<in> set seen" "b \<in> set seen" "(word_of_int a :: uint16) = word_of_int b"
    then have "uint (word_of_int a :: uint16) = uint (word_of_int b :: uint16)" by simp
    moreover have "0 < a \<and> a \<le> 65535" "0 < b \<and> b \<le> 65535" using ab(1,2) assms by (auto simp: curvesOk_def)
    ultimately show "a = b" by (simp add: uint_word_of_int)
  qed
  then show ?thesis using assms by (simp add: curvesOk_def distinct_map)
qed

text \<open>
  C39: TLS options that are accepted never combine cipher suites with TLS 1.3 as the minimum, which is the default;
  curve preferences are the given number of distinct supported curves. The server configuration built from
  them keeps these options, and takes its certificate from the files when both are given, from a
  self-signed certificate otherwise.
\<close>

theorem tls_options_valid:
  assumes "OptFor suites versions ciphers curves ver = Inr opt" "tlsFor selfSigned newWatcher opt certFile keyFile = Inr cfg"
  shows "(tc_CipherSuites cfg \<noteq> None \<longrightarrow> tc_MinVersion cfg \<noteq> VersionTLS13) \<and> (ver = '''' \<longrightarrow> tc_MinVersion cfg = VersionTLS13) \<and>
    (curves = '''' \<longrightarrow> tc_CurvePreferences cfg = None) \<and>
    (curves \<noteq> '''' \<longrightarrow> (\<exists>cs. tc_CurvePreferences cfg = Some cs \<and> distinct cs \<and> set cs \<subseteq> set knownCurves \<and>
       length cs = length (splitOn CHR '','' curves))) \<and>
    (if certFile \<noteq> '''' \<and> keyFile \<noteq> '''' then tc_GetCertificate cfg = Some (certFile, keyFile) \<and> tc_Certificates cfg = []
     else tc_GetCertificate cfg = None \<and> (\<exists>c. selfSigned = Inr c \<and> tc_Certificates cfg = [c]))"
proof -
  obtain ci cu mv where parsed: "parseCipherSuites suites ciphers = Inr ci" "parseCurvePreferences curves = Inr cu"
    "parseTLSVersion versions ver = Inr mv" "\<not> (ci \<noteq> None \<and> mv = VersionTLS13)"
    and opt: "opt = (\<lambda>cfg. let cfg = (if ci \<noteq> None then cfg\<lparr>tc_CipherSuites := ci\<rparr> else cfg);
       cfg = (if cu \<noteq> None then cfg\<lparr>tc_CurvePreferences := cu\<rparr> else cfg) in cfg\<lparr>tc_MinVersion := mv\<rparr>)"
    using assms(1) by (auto simp: OptFor_def bindE_Inr_iff mapErr_Inr_iff split: if_splits)
  have o: "tc_CipherSuites (opt emptyTLSConfig) = ci" "tc_CurvePreferences (opt emptyTLSConfig) = cu"
    "tc_MinVersion (opt emptyTLSConfig) = mv" "tc_Certificates (opt emptyTLSConfig) = []" "tc_GetCertificate (opt emptyTLSConfig) = None"
    by (simp_all add: opt emptyTLSConfig_def Let_def)
  have cfg: "tc_CipherSuites cfg = ci" "tc_CurvePreferences cfg = cu" "tc_MinVersion cfg = mv"
    "if certFile \<noteq> [] \<and> keyFile \<noteq> [] then tc_GetCertificate cfg = Some (certFile, keyFile) \<and> tc_Certificates cfg = []
     else tc_GetCertificate cfg = None \<and> (\<exists>c. selfSigned = Inr c \<and> tc_Certificates cfg = [c])"
    using assms(2) by (auto simp: tlsFor_def withCertWatcher_def withSelfSigned_def bindE_Inr_iff mapErr_Inr_iff o Let_def split: if_splits)
  have "\<exists>cs. cu = Some cs \<and> distinct cs \<and> set cs \<subseteq> set knownCurves \<and> length cs = length (splitOn CHR '','' curves)"
    if ne: "curves \<noteq> []"
  proof -
    obtain seen cs where run: "foldE curveStep ([], []) (splitOn CHR '','' curves) = Inr (seen, cs)" and cs: "cu = Some cs"
      using parsed(2) ne by (auto simp: parseCurvePreferences_def bindE_Inr_iff)
    have "curvesOk ([], [])" by (simp add: curvesOk_def)
    from curves_loop [OF run this] have ok: "curvesOk (seen, cs)" "length cs = length (splitOn CHR '','' curves)" by simp_all
    then have "set cs \<subseteq> set knownCurves" unfolding curvesOk_def by blast
    with ok cs curvesOk_distinct [OF ok(1)] show ?thesis by blast
  qed
  then show ?thesis
    using parsed cfg by (auto simp: parseTLSVersion_def parseCurvePreferences_def)
qed

theorem tls_options_valid_witness:
  "\<exists>opt cfg. OptFor (\<lambda>_. Inr (Some [0xC02F])) (\<lambda>_. Inr 0x0303) '''' ''29, 23'' '''' = Inr opt \<and>
     tlsFor (Inr ''cert'') (\<lambda>_ _. Inr ()) opt '''' '''' = Inr cfg \<and> tc_MinVersion cfg = VersionTLS13 \<and>
     (\<exists>cs. tc_CurvePreferences cfg = Some cs \<and> length cs = 2)"
proof -
  have curves: "parseCurvePreferences ''29, 23'' = Inr (Some [29, 23])" by code_simp
  let ?opt = "projr (OptFor (\<lambda>_. Inr (Some [0xC02F])) (\<lambda>_. Inr 0x0303) '''' ''29, 23'' '''' :: (error, string tlsConfig \<Rightarrow> string tlsConfig) result)"
  let ?cfg = "projr (tlsFor (Inr ''cert'') (\<lambda>_ _. Inr ()) ?opt '''' '''')"
  have o: "OptFor (\<lambda>_. Inr (Some [0xC02F])) (\<lambda>_. Inr 0x0303) '''' ''29, 23'' '''' = Inr ?opt"
    by (simp add: OptFor_def curves parseCipherSuites_def parseTLSVersion_def)
  have c: "tlsFor (Inr ''cert'') (\<lambda>_ _. Inr ()) ?opt '''' '''' = Inr ?cfg" by (simp add: tlsFor_def withSelfSigned_def)
  have "length (splitOn CHR '','' ''29, 23'') = 2" by code_simp
  with tls_options_valid [OF o c] have "tc_MinVersion ?cfg = VersionTLS13" "\<exists>cs. tc_CurvePreferences ?cfg = Some cs \<and> length cs = 2"
    by auto
  with o c show ?thesis by (intro exI [of _ ?opt] exI [of _ ?cfg]) simp
qed

end
