(* ===== verification/Node_State.thy ===== *)
theory Node_State
  imports Reconcile
begin

text \<open>
  The controllers of the node state: the one that publishes the running configuration and the results of
  the last conversion and reload (\<^verbatim>\<open>frrstate_controller.go\<close>), with the function that removes passwords
  from them, and the one that deletes the states of nodes without an FRR pod
  (\<^verbatim>\<open>nodestate_cleaner_controller.go\<close>). The answers of the API server are arguments; the calls a
  reconciliation makes are part of its result.
\<close>

section \<open>Removing passwords\<close>

text \<open>
  \<^verbatim>\<open>ReplaceAllString\<close> of the expression \<^verbatim>\<open>password.*\<close>: the leftmost match takes the rest of its line, because a
  dot matches anything but a line feed, and the search goes on behind it.
\<close>

definition newline :: char where "newline = CHR 0x0A"

function cleanPasswords :: "string \<Rightarrow> string" where
  "cleanPasswords [] = []"
| "cleanPasswords (c # s) =
     (if hasPrefix (c # s) ''password''
      then ''password <retracted>'' @ cleanPasswords (dropWhile (\<lambda>c. c \<noteq> newline) (c # s))
      else c # cleanPasswords s)"
  by pat_completeness auto

lemma hasPrefix_password_hd: "hasPrefix (c # s) ''password'' \<Longrightarrow> c = CHR ''p''"
  by (auto simp: hasPrefix_iff)

termination cleanPasswords
proof (relation "measure length")
  fix c s
  assume "hasPrefix (c # s) ''password''"
  then have "dropWhile (\<lambda>c. c \<noteq> newline) (c # s) = dropWhile (\<lambda>c. c \<noteq> newline) s"
    using hasPrefix_password_hd by (simp add: newline_def)
  then show "(dropWhile (\<lambda>c. c \<noteq> newline) (c # s), c # s) \<in> measure length"
    by (simp add: le_imp_less_Suc length_dropWhile_le)
qed auto

definition lineEnd :: "string \<Rightarrow> bool" where
  "lineEnd s \<longleftrightarrow> s = [] \<or> hd s = newline"

lemma dropWhile_line: "newline \<notin> set u \<Longrightarrow> lineEnd t \<Longrightarrow> dropWhile (\<lambda>c. c \<noteq> newline) (u @ t) = t"
  by (induction u) (auto simp: lineEnd_def dropWhile_eq_self_iff)

lemma lineEnd_dropWhile: "lineEnd (dropWhile (\<lambda>c. c \<noteq> newline) s)"
  by (induction s) (auto simp: lineEnd_def)

lemma hasPrefix_append: "length p \<le> length s \<Longrightarrow> hasPrefix (s @ t) p = hasPrefix s p"
  by (auto simp: hasPrefix_iff append_eq_append_conv2)

declare cleanPasswords.simps(2) [simp del]

lemma cleanPasswords_hit:
  "hasPrefix s ''password'' \<Longrightarrow>
   cleanPasswords s = ''password <retracted>'' @ cleanPasswords (dropWhile (\<lambda>c. c \<noteq> newline) s)"
proof (cases s)
  case (Cons c t)
  assume "hasPrefix s ''password''"
  then show ?thesis unfolding Cons by (simp only: cleanPasswords.simps(2) if_True)
qed simp

lemma cleanPasswords_miss: "\<not> hasPrefix (c # s) ''password'' \<Longrightarrow> cleanPasswords (c # s) = c # cleanPasswords s"
  by (simp only: cleanPasswords.simps(2) if_False)

lemma cleanPasswords_match:
  assumes "newline \<notin> set x" "lineEnd t"
  shows "cleanPasswords (''password'' @ x @ t) = ''password <retracted>'' @ cleanPasswords t"
proof -
  have "dropWhile (\<lambda>c. c \<noteq> newline) (''password'' @ x @ t) = t"
    using dropWhile_line [of "''password'' @ x" t] assms by (simp add: newline_def)
  moreover have "hasPrefix (''password'' @ x @ t) ''password''" by (simp add: hasPrefix_iff)
  ultimately show ?thesis by (simp only: cleanPasswords_hit)
qed

lemma cleanPasswords_same_line:
  assumes "newline \<notin> set x" "newline \<notin> set y" "lineEnd t"
  shows "cleanPasswords (pre @ ''password'' @ x @ t) = cleanPasswords (pre @ ''password'' @ y @ t)"
proof -
  define w where "w = ''password''"
  have w: "newline \<notin> set w" "w \<noteq> []" by (simp_all add: w_def newline_def)
  let ?drop = "dropWhile (\<lambda>c. c \<noteq> newline)"
  have "cleanPasswords (pre @ w @ x @ t) = cleanPasswords (pre @ w @ y @ t)"
  proof (induction pre rule: length_induct)
    case (1 pre)
    have hit: "hasPrefix (pre @ w @ z @ t) w = hasPrefix (pre @ w) w" for z
      using hasPrefix_append [of w "pre @ w" "z @ t"] by simp
    show ?case
    proof (cases "hasPrefix (pre @ w) w")
      case True
      have step: "cleanPasswords (pre @ w @ z @ t) = ''password <retracted>'' @ cleanPasswords (?drop (pre @ w @ z @ t))" for z
        using cleanPasswords_hit [of "pre @ w @ z @ t"] True hit [of z] unfolding w_def by blast
      show ?thesis
      proof (cases "newline \<in> set pre")
        case False
        then have "?drop (pre @ w @ z @ t) = t" if "newline \<notin> set z" for z
          using that w dropWhile_line [of "pre @ w @ z" t] assms(3) by simp
        from this [OF assms(1)] this [OF assms(2)] show ?thesis by (simp only: step)
      next
        case nl: True
        then have drop: "?drop (pre @ w @ z @ t) = ?drop pre @ w @ z @ t" for z
          by (induction pre) auto
        obtain c p where pre: "pre = c # p" using nl by (cases pre) auto
        have "c = CHR ''p''" using True hasPrefix_password_hd [of c "p @ w"] unfolding pre w_def by simp
        then have "length (?drop pre) < length pre"
          by (simp add: pre newline_def le_imp_less_Suc length_dropWhile_le)
        then show ?thesis using 1 by (simp only: step drop)
      qed
    next
      case False
      then obtain c p where pre: "pre = c # p" by (cases pre) (auto simp: hasPrefix_iff)
      have "\<not> hasPrefix (c # p @ w @ z @ t) w" for z using False hit [of z] by (simp add: pre)
      from cleanPasswords_miss [folded w_def, OF this]
      have "cleanPasswords (pre @ w @ z @ t) = c # cleanPasswords (p @ w @ z @ t)" for z by (simp add: pre)
      moreover have "cleanPasswords (p @ w @ x @ t) = cleanPasswords (p @ w @ y @ t)" using 1 by (simp add: pre)
      ultimately show ?thesis by simp
    qed
  qed
  then show ?thesis by (simp only: w_def)
qed

lemma cleanPasswords_copied:
  "CHR ''p'' \<notin> set u \<Longrightarrow> cleanPasswords s = u @ t \<Longrightarrow> \<exists>s'. s = u @ s' \<and> cleanPasswords s' = t"
proof (induction u arbitrary: s)
  case (Cons c u)
  show ?case
  proof (cases "hasPrefix s ''password''")
    case True
    then show ?thesis using Cons.prems cleanPasswords_hit [OF True] by simp
  next
    case False
    then obtain s' where "s = c # s'" "cleanPasswords s' = u @ t"
      using Cons.prems(2) by (cases s) (auto simp: cleanPasswords_miss)
    then show ?thesis using Cons.IH [of s'] Cons.prems(1) by auto
  qed
qed simp

lemma lineEnd_cleanPasswords: "lineEnd s \<Longrightarrow> lineEnd (cleanPasswords s)"
proof (cases s)
  case (Cons c t)
  assume "lineEnd s"
  then have "c = newline" by (simp add: Cons lineEnd_def)
  then have "\<not> hasPrefix (c # t) ''password''" using hasPrefix_password_hd [of c t] by (auto simp: newline_def)
  then show ?thesis using \<open>c = newline\<close> by (simp add: Cons cleanPasswords_miss lineEnd_def)
qed simp

lemma cleanPasswords_idem: "cleanPasswords (cleanPasswords s) = cleanPasswords s"
proof (induction s rule: cleanPasswords.induct)
  case (2 c s)
  show ?case
  proof (cases "hasPrefix (c # s) ''password''")
    case True
    let ?t = "dropWhile (\<lambda>c. c \<noteq> newline) (c # s)"
    have "lineEnd (cleanPasswords ?t)" by (rule lineEnd_cleanPasswords [OF lineEnd_dropWhile])
    then have "cleanPasswords (''password'' @ '' <retracted>'' @ cleanPasswords ?t) =
        ''password <retracted>'' @ cleanPasswords (cleanPasswords ?t)"
      by (intro cleanPasswords_match) (simp_all add: newline_def)
    moreover have "''password'' @ '' <retracted>'' @ u = ''password <retracted>'' @ u" for u by simp
    ultimately have "cleanPasswords (''password <retracted>'' @ cleanPasswords ?t) =
        ''password <retracted>'' @ cleanPasswords (cleanPasswords ?t)"
      by metis
    then show ?thesis using 2(1) True by (simp only: cleanPasswords_hit [OF True])
  next
    case False
    have "\<not> hasPrefix (c # cleanPasswords s) ''password''"
    proof
      assume "hasPrefix (c # cleanPasswords s) ''password''"
      then obtain t where "c = CHR ''p''" "cleanPasswords s = ''assword'' @ t" by (auto simp: hasPrefix_iff)
      then have "hasPrefix (c # s) ''password''"
        using cleanPasswords_copied [of "''assword''" s t] by (auto simp: hasPrefix_iff)
      then show False using False by simp
    qed
    from cleanPasswords_miss [OF this] 2(2) [OF False] show ?thesis
      by (simp only: cleanPasswords_miss [OF False])
  qed
qed simp

text \<open>
  C30: In the text that is published, what follows the word password on a line is gone: texts that differ only
  there are published alike, and cleaning a cleaned text changes nothing.
\<close>

theorem published_text_hides_passwords:
  assumes "newline \<notin> set secret" "newline \<notin> set secret'" "lineEnd rest"
  shows "cleanPasswords (before @ ''password'' @ secret @ rest) = cleanPasswords (before @ ''password'' @ secret' @ rest) \<and>
    cleanPasswords (cleanPasswords text) = cleanPasswords text"
  using cleanPasswords_same_line [OF assms] cleanPasswords_idem by blast

theorem published_text_hides_passwords_witness:
  "cleanPasswords (''neighbor eth0 password s3cret'' @ [CHR 0x0A] @ ''exit'') =
     cleanPasswords (''neighbor eth0 password other'' @ [CHR 0x0A] @ ''exit'') \<and>
   cleanPasswords (''neighbor eth0 password s3cret'' @ [CHR 0x0A] @ ''exit'') =
     ''neighbor eth0 password <retracted>'' @ [CHR 0x0A] @ ''exit''"
proof
  show "cleanPasswords (''neighbor eth0 password s3cret'' @ [CHR 0x0A] @ ''exit'') =
     cleanPasswords (''neighbor eth0 password other'' @ [CHR 0x0A] @ ''exit'')"
    using published_text_hides_passwords [of "'' s3cret''" "'' other''" "[CHR 0x0A] @ ''exit''" "''neighbor eth0 ''"]
    by (simp add: newline_def lineEnd_def)
  show "cleanPasswords (''neighbor eth0 password s3cret'' @ [CHR 0x0A] @ ''exit'') =
     ''neighbor eth0 password <retracted>'' @ [CHR 0x0A] @ ''exit''"
    by code_simp
qed

section \<open>The state of this node\<close>

record FRRNodeStateStatus =
  nss_RunningConfig :: string
  nss_LastConversionResult :: string
  nss_LastReloadResult :: string

record FRRNodeState =
  nst_Name :: string
  nst_Status :: FRRNodeStateStatus

definition newNodeState :: "string \<Rightarrow> FRRNodeState" where
  "newNodeState name = \<lparr>nst_Name = name,
     nst_Status = \<lparr>nss_RunningConfig = '''', nss_LastConversionResult = '''', nss_LastReloadResult = ''''\<rparr>\<rparr>"

datatype stateCall = CreateState FRRNodeState | UpdateStatus FRRNodeState

definition desiredNodeStatus :: "frrStatus \<Rightarrow> string \<Rightarrow> FRRNodeStateStatus" where
  "desiredNodeStatus status conversionResult =
     \<lparr>nss_RunningConfig = cleanPasswords (st_Current status), nss_LastConversionResult = conversionResult,
      nss_LastReloadResult = cleanPasswords (st_LastReloadResult status)\<rparr>"

definition reconcileNodeState ::
  "string \<Rightarrow> (k8sError, FRRNodeState) result \<Rightarrow> (FRRNodeState \<Rightarrow> (error, unit) result) \<Rightarrow>
   (FRRNodeState \<Rightarrow> (error, unit) result) \<Rightarrow> frrStatus \<Rightarrow> string \<Rightarrow> error option \<times> stateCall list"
where
  "reconcileNodeState nodeName got create update frrStatus conversionResult =
     (let (state, calls) =
        (case got of
           Inl NotFound \<Rightarrow>
             (bindE (create (newNodeState nodeName)) (\<lambda>_. Inr (newNodeState nodeName)), [CreateState (newNodeState nodeName)])
         | Inl (K8sError e) \<Rightarrow> (Inl e, [])
         | Inr s \<Rightarrow> (Inr s, [])) in
      case state of
        Inl e \<Rightarrow> (Some e, calls)
      | Inr s \<Rightarrow>
          (let newStatus = desiredNodeStatus frrStatus conversionResult in
           if nst_Status s = newStatus then (None, calls)
           else
             (let s = s\<lparr>nst_Status := newStatus\<rparr> in
              case update s of
                Inl e \<Rightarrow> (Some e, calls @ [UpdateStatus s])
              | Inr _ \<Rightarrow> (None, calls @ [UpdateStatus s]))))"

text \<open>Which events start a reconciliation: any but those of the state of another node.\<close>

datatype stateObject = NodeStateObject string | AnyObject

fun nodeStatePredicate :: "string \<Rightarrow> stateObject \<Rightarrow> bool" where
  "nodeStatePredicate nodeName (NodeStateObject name) = (if name \<noteq> nodeName then False else True)"
| "nodeStatePredicate nodeName AnyObject = True"

text \<open>
  The state the API server has after the calls: creating adds a state, updating the status of an existing
  one replaces it.
\<close>

fun applyStateCall :: "stateCall \<Rightarrow> FRRNodeState option \<Rightarrow> FRRNodeState option" where
  "applyStateCall (CreateState s) _ = Some s"
| "applyStateCall (UpdateStatus s) old = (case old of None \<Rightarrow> None | Some _ \<Rightarrow> Some s)"

definition gotState :: "FRRNodeState option \<Rightarrow> (k8sError, FRRNodeState) result" where
  "gotState s = (case s of None \<Rightarrow> Inl NotFound | Some s \<Rightarrow> Inr s)"

text \<open>
  C31: When the API server accepts its calls, one reconciliation leaves the node with a state that holds the
  cleaned running configuration, the conversion result and the cleaned reload result, also when there was no
  state before, and the next reconciliation makes no call.
\<close>

theorem node_state_converges:
  assumes "\<And>s. create s = Inr ()" "\<And>s. update s = Inr ()"
    and "reconcileNodeState nodeName (gotState old) create update status conv = (err, calls)"
  shows "err = None \<and>
    (\<exists>s. foldl (\<lambda>st c. applyStateCall c st) old calls = Some s \<and> nst_Status s = desiredNodeStatus status conv \<and>
       nst_Name s = (case old of None \<Rightarrow> nodeName | Some o' \<Rightarrow> nst_Name o') \<and>
       reconcileNodeState nodeName (gotState (Some s)) create update status conv = (None, []))"
  using assms
  by (cases old) (auto simp: reconcileNodeState_def gotState_def newNodeState_def Let_def split: if_splits)

theorem node_state_converges_witness:
  "reconcileNodeState ''node'' (gotState None) (\<lambda>_. Inr ()) (\<lambda>_. Inr ())
     \<lparr>st_updateTime = ''1'', st_Current = ''cfg'', st_LastReloadResult = ''success''\<rparr> ''success'' =
     (None, [CreateState (newNodeState ''node''), UpdateStatus \<lparr>nst_Name = ''node'',
        nst_Status = \<lparr>nss_RunningConfig = ''cfg'', nss_LastConversionResult = ''success'', nss_LastReloadResult = ''success''\<rparr>\<rparr>]) \<and>
   (\<exists>s. nst_Name s = ''node'' \<and> reconcileNodeState ''node'' (gotState (Some s)) (\<lambda>_. Inr ()) (\<lambda>_. Inr ())
     \<lparr>st_updateTime = ''1'', st_Current = ''cfg'', st_LastReloadResult = ''success''\<rparr> ''success'' = (None, []))"
proof -
  have run: "reconcileNodeState ''node'' (gotState None) (\<lambda>_. Inr ()) (\<lambda>_. Inr ())
     \<lparr>st_updateTime = ''1'', st_Current = ''cfg'', st_LastReloadResult = ''success''\<rparr> ''success'' =
     (None, [CreateState (newNodeState ''node''), UpdateStatus \<lparr>nst_Name = ''node'',
        nst_Status = \<lparr>nss_RunningConfig = ''cfg'', nss_LastConversionResult = ''success'', nss_LastReloadResult = ''success''\<rparr>\<rparr>])"
    by code_simp
  obtain s where "nst_Name s = ''node''" "reconcileNodeState ''node'' (gotState (Some s)) (\<lambda>_. Inr ()) (\<lambda>_. Inr ())
     \<lparr>st_updateTime = ''1'', st_Current = ''cfg'', st_LastReloadResult = ''success''\<rparr> ''success'' = (None, [])"
    using node_state_converges [OF refl refl run] unfolding option.case by blast
  with run show ?thesis by blast
qed

section \<open>States of nodes without an FRR pod\<close>

text \<open>The nodes of the FRR pods, the states that exist and the outcome of deleting one are arguments.\<close>

definition cleanNodeStates ::
  "(error, string list) result \<Rightarrow> (error, string list) result \<Rightarrow> (string \<Rightarrow> (error, unit) result) \<Rightarrow>
   error list \<times> string list"
where
  "cleanNodeStates podNodes states delete =
     (case podNodes of
        Inl e \<Rightarrow> ([e], [])
      | Inr nodesWithFRRPods \<Rightarrow>
          (case states of
             Inl e \<Rightarrow> ([e], [])
           | Inr names \<Rightarrow>
               foldl (\<lambda>(errors, deleted) name.
                   if name \<in> set nodesWithFRRPods then (errors, deleted)
                   else
                     (case delete name of
                        Inl e \<Rightarrow> (errors @ [Errorf ''failed to delete FRRNodeState %s: %w'' [AStr name, AErr e]], deleted @ [name])
                      | Inr _ \<Rightarrow> (errors, deleted @ [name])))
                 ([], []) names))"

text \<open>The events that start the cleaner: states that appear and pods that go.\<close>

datatype cleanerObject = PodObject | NotPodObject

datatype cleanerEvent = CreateEvent cleanerObject | UpdateEvent cleanerObject | DeleteEvent cleanerObject | GenericEvent cleanerObject

fun cleanerPredicate :: "cleanerEvent \<Rightarrow> bool" where
  "cleanerPredicate (CreateEvent ob) = (ob \<noteq> PodObject)"
| "cleanerPredicate (UpdateEvent ob) = False"
| "cleanerPredicate (GenericEvent ob) = False"
| "cleanerPredicate (DeleteEvent ob) = (ob = PodObject)"

lemma sum_unit_cases: "x = Inr () \<longleftrightarrow> (\<forall>e. x \<noteq> Inl e)"
  by (cases x) auto

lemma cleanNodeStates_fold:
  "foldl (\<lambda>(errors, deleted) name.
       if name \<in> A then (errors, deleted)
       else
         (case delete name of
            Inl e \<Rightarrow> (errors @ [Errorf ''failed to delete FRRNodeState %s: %w'' [AStr name, AErr e]], deleted @ [name])
          | Inr _ \<Rightarrow> (errors, deleted @ [name]))) (es, ds) names =
     (es @ concat (map (\<lambda>n. case delete n of Inl e \<Rightarrow> [Errorf ''failed to delete FRRNodeState %s: %w'' [AStr n, AErr e]]
        | Inr _ \<Rightarrow> []) (filter (\<lambda>n. n \<notin> A) names)), ds @ filter (\<lambda>n. n \<notin> A) names)"
  by (induction names arbitrary: es ds) (auto split: sum.split)

text \<open>
  C33: The cleaner tries to delete exactly the states of the nodes that have no FRR pod, in order, going on after a
  failure, and reports an error exactly when a listing or one of the deletions failed; the state of a node
  with an FRR pod is never deleted.
\<close>

theorem cleaner_deletes_orphans:
  assumes "cleanNodeStates podNodes states delete = (errors, deleted)"
  shows "(\<forall>ns ss. podNodes = Inr ns \<and> states = Inr ss \<longrightarrow> deleted = filter (\<lambda>s. s \<notin> set ns) ss \<and>
      (errors = [] \<longleftrightarrow> (\<forall>s\<in>set deleted. delete s = Inr ()))) \<and>
    (\<not> isOk podNodes \<or> \<not> isOk states \<longrightarrow> deleted = [] \<and> errors \<noteq> [])"
  using assms
  by (cases podNodes; cases states)
    (auto simp: cleanNodeStates_def cleanNodeStates_fold isOk_def sum_unit_cases split: sum.splits, blast+)

theorem cleaner_deletes_orphans_witness:
  "cleanNodeStates (Inr [''a'', ''c'']) (Inr [''a'', ''b'', ''d'']) (\<lambda>n. if n = ''b'' then Inl (Errorf ''gone'' []) else Inr ()) =
     ([Errorf ''failed to delete FRRNodeState %s: %w'' [AStr ''b'', AErr (Errorf ''gone'' [])]], [''b'', ''d'']) \<and>
   [''b'', ''d''] = filter (\<lambda>s. s \<notin> set [''a'', ''c'']) [''a'', ''b'', ''d'']"
proof -
  have run: "cleanNodeStates (Inr [''a'', ''c'']) (Inr [''a'', ''b'', ''d'']) (\<lambda>n. if n = ''b'' then Inl (Errorf ''gone'' []) else Inr ()) =
     ([Errorf ''failed to delete FRRNodeState %s: %w'' [AStr ''b'', AErr (Errorf ''gone'' [])]], [''b'', ''d''])"
    by code_simp
  from cleaner_deletes_orphans [OF run] run show ?thesis by blast
qed

end
