(* ===== verification/Validation.thy ===== *)
theory Validation
  imports Sessions
begin

text \<open>
  Checks and outputs of the conversion that span routers: the EVPN constraints and the uniqueness of virtual
  network identifiers, the independence of raw configuration and BFD profiles from the order of the
  resources, and the only source of transient errors.
\<close>

section \<open>EVPN\<close>

definition routerVNIs :: "RouterConfig \<Rightarrow> uint32 list" where
  "routerVNIs r =
     (case rc_EVPN r of
        None \<Rightarrow> []
      | Some ev \<Rightarrow> map fl2_VNI (fev_L2VNIs ev) @
          (case fev_L3VNI ev of None \<Rightarrow> [] | Some l3 \<Rightarrow> [fl3_VNI l3]))"

text \<open>
  The identifiers seen so far determine the outcome: \<open>seenDom\<close> maps a run to the set of them, and the runs
  to the specification \<open>addVNIs\<close> on sets.
\<close>

definition seenDom :: "('e, ('k, 'v) gomap) result \<Rightarrow> 'k set option" where
  "seenDom x = (case x of Inl _ \<Rightarrow> None | Inr m \<Rightarrow> Some (dom (mapGet m)))"

definition addVNIs :: "'k set \<Rightarrow> 'k list \<Rightarrow> 'k set option" where
  "addVNIs S vs = (if distinct vs \<and> set vs \<inter> S = {} then Some (S \<union> set vs) else None)"

lemma seenDom_simps [simp]: "seenDom (Inl e) = None" "seenDom (Inr m) = Some (dom (mapGet m))"
  by (simp_all add: seenDom_def)

lemma seenDom_bindE:
  "(\<And>m. x = Inr m \<Longrightarrow> seenDom (f m) = g (dom (mapGet m))) \<Longrightarrow> seenDom (bindE x f) = Option.bind (seenDom x) g"
  by (cases x) simp_all

lemma addVNIs_append: "addVNIs S (vs @ ws) = Option.bind (addVNIs S vs) (\<lambda>S. addVNIs S ws)"
  by (auto simp: addVNIs_def bind_eq_None_conv split: if_splits)

lemma addVNIs_Nil [simp]: "addVNIs S [] = Some S"
  by (simp add: addVNIs_def)

lemma dom_mapSet: "dom (mapGet (mapSet m k v)) = insert k (dom (mapGet m))"
  by auto

lemma seenDom_seeVNI: "seenDom (seeVNI msg ty vrf seen v) = addVNIs (dom (mapGet seen)) [v]"
  by (cases "mapGet seen v") (auto simp: seeVNI_def addVNIs_def dom_mapSet)

lemma seenDom_seeVNIs: "seenDom (foldE (seeVNI msg ty vrf) seen vs) = addVNIs (dom (mapGet seen)) vs"
proof (induction vs arbitrary: seen)
  case (Cons v vs)
  have "seenDom (foldE (seeVNI msg ty vrf) seen (v # vs)) =
      Option.bind (seenDom (seeVNI msg ty vrf seen v)) (\<lambda>S. addVNIs S vs)"
    by (simp only: foldE.simps) (rule seenDom_bindE, rule Cons.IH)
  then show ?case using addVNIs_append [of "dom (mapGet seen)" "[v]" vs] by (simp add: seenDom_seeVNI)
qed simp

lemma seenDom_uniqueVNIsStep:
  "seenDom (uniqueVNIsStep seen (vrf, r)) = addVNIs (dom (mapGet seen)) (routerVNIs r)"
proof (cases "rc_EVPN r")
  case (Some ev)
  let ?l3 = "case fev_L3VNI ev of None \<Rightarrow> [] | Some l3 \<Rightarrow> [fl3_VNI l3]"
  have "seenDom (uniqueVNIsStep seen (vrf, r)) =
      Option.bind (addVNIs (dom (mapGet seen)) (map fl2_VNI (fev_L2VNIs ev))) (\<lambda>S. addVNIs S ?l3)"
    unfolding uniqueVNIsStep_def Some prod.case option.case
    by (subst seenDom_bindE [where g = "\<lambda>S. addVNIs S ?l3"])
      (simp_all add: seenDom_seeVNIs seenDom_seeVNI split: option.split)
  then show ?thesis by (simp add: Some routerVNIs_def addVNIs_append)
qed (simp add: uniqueVNIsStep_def routerVNIs_def)

lemma seenDom_uniqueVNIs:
  "seenDom (foldE uniqueVNIsStep seen m) = addVNIs (dom (mapGet seen)) (concat (map (\<lambda>kv. routerVNIs (snd kv)) m))"
proof (induction m arbitrary: seen)
  case (Cons kv m)
  obtain vrf r where kv: "kv = (vrf, r)" by (cases kv)
  have "seenDom (foldE uniqueVNIsStep seen (kv # m)) =
      Option.bind (seenDom (uniqueVNIsStep seen kv)) (\<lambda>S. addVNIs S (concat (map (\<lambda>kv. routerVNIs (snd kv)) m)))"
    by (simp only: foldE.simps) (rule seenDom_bindE, rule Cons.IH)
  then show ?case by (simp add: kv seenDom_uniqueVNIsStep addVNIs_append)
qed simp

lemma validateUniqueVNIs_ok:
  "validateUniqueVNIs m = Inr () \<longleftrightarrow> distinct (concat (map (\<lambda>kv. routerVNIs (snd kv)) m))"
proof -
  have "validateUniqueVNIs m = Inr () \<longleftrightarrow> seenDom (foldE uniqueVNIsStep [] m) \<noteq> None"
    by (cases "foldE uniqueVNIsStep [] m") (simp_all add: validateUniqueVNIs_def)
  then show ?thesis unfolding seenDom_uniqueVNIs by (simp add: addVNIs_def dom_def)
qed

lemma distinct_concat_mset:
  assumes "mset xss = mset yss"
  shows "distinct (concat xss) \<longleftrightarrow> distinct (concat yss)"
proof -
  have "mset (concat xss) = mset (concat yss)"
    using assms by (simp add: mset_concat sum_mset_sum_list [symmetric])
  then show ?thesis by (rule mset_eq_imp_distinct_iff)
qed

text \<open>
  C18: In a built configuration no virtual network identifier is used twice, within a router or across routers;
  a router that advertises all VNIs, its SVI addresses or that has layer 2 VNIs has a neighbor with the EVPN
  address family, and a router with a layer 3 VNI has no neighbors.
\<close>

theorem evpn_constraints:
  assumes "apiToFRR resources alwaysBlock = Inr cfg" "r \<in> set (cf_Routers cfg)" "rc_EVPN r = Some ev"
  shows "distinct (concat (map routerVNIs (cf_Routers cfg))) \<and>
    (evpnNeedsNeighbor ev \<longrightarrow> (\<exists>n\<in>set (rc_Neighbors r). AddressFamilyEVPN \<in> set (nc_AddressFamilies n))) \<and>
    (fev_L3VNI ev \<noteq> None \<longrightarrow> rc_Neighbors r = [])"
proof -
  obtain s where run: "foldE (addConfig alwaysBlock (cr_PasswordSecrets resources))
       \<lparr>cs_rawConfigs = [], cs_routersForVRF = [], cs_bfdProfilesAllConfigs = []\<rparr> (cr_FRRConfigs resources) = Inr s"
    and valid: "validateEVPN (cs_routersForVRF s) = Inr ()"
    and rs: "cf_Routers cfg = sortMap (cs_routersForVRF s)"
    using apiToFRR_Inr [OF assms(1)] by metis
  have inv: "routersInv (\<lambda>_. True) (cs_routersForVRF s)"
    by (rule apiToFRR_routersInv [OF run]) simp_all
  then have perm: "mset (map routerVNIs (cf_Routers cfg)) = mset (map (\<lambda>kv. routerVNIs (snd kv)) (cs_routersForVRF s))"
    using mset_sortMap [of "cs_routersForVRF s"] unfolding rs routersInv_def
    by (simp add: image_mset.compositionality comp_def)
  have "distinct (concat (map (\<lambda>kv. routerVNIs (snd kv)) (cs_routersForVRF s)))"
    using valid by (simp add: validateEVPN_def bindE_Inr_iff validateUniqueVNIs_ok)
  then have "distinct (concat (map routerVNIs (cf_Routers cfg)))"
    using distinct_concat_mset [OF perm] by blast
  moreover obtain k where "(k, r) \<in> set (cs_routersForVRF s)"
    using assms(2) unfolding rs set_sortMap by (auto simp: mapGet_map_of dest: map_of_SomeD)
  then have "validateEVPNConfig r = Inr ()"
    using valid by (auto simp: validateEVPN_def bindE_Inr_iff forE_Inr_iff mapErr_Inr_iff)
  then have "evpnNeedsNeighbor ev \<longrightarrow> list_ex (\<lambda>n. AddressFamilyEVPN \<in> set (nc_AddressFamilies n)) (rc_Neighbors r)"
    "fev_L3VNI ev \<noteq> None \<longrightarrow> rc_Neighbors r = []"
    using assms(3) by (auto simp: validateEVPNConfig_def Let_def split: if_splits)
  ultimately show ?thesis by (simp add: list_ex_iff)
qed

theorem evpn_constraints_witness:
  "map routerVNIs (cf_Routers sampleConfig) = [[100], [200]] \<and> distinct (concat (map routerVNIs (cf_Routers sampleConfig))) \<and>
   rc_Neighbors redRouterOut = []"
  using evpn_constraints [OF sample_value, of redRouterOut "the (rc_EVPN redRouterOut)"]
  by (simp add: sampleConfig_def defaultRouterOut_def redRouterOut_def routerVNIs_def)

text \<open>
  Whether the EVPN checks accept a set of routers does not depend on the order in which the map of routers
  is iterated.
\<close>

theorem validateEVPN_order_independent:
  assumes "mset m = mset m'"
  shows "isOk (validateEVPN m) = isOk (validateEVPN m')"
proof -
  have ok: "isOk (validateEVPN m) \<longleftrightarrow>
      (\<forall>(k, r)\<in>set m. validateEVPNConfig r = Inr ()) \<and> distinct (concat (map (\<lambda>kv. routerVNIs (snd kv)) m))" for m
    unfolding isOk_iff by (auto simp: validateEVPN_def bindE_Inr_iff forE_Inr_iff mapErr_Inr_iff validateUniqueVNIs_ok)
  have "mset (map (\<lambda>kv. routerVNIs (snd kv)) m) = mset (map (\<lambda>kv. routerVNIs (snd kv)) m')"
    using assms by simp
  then show ?thesis
    unfolding ok using distinct_concat_mset mset_eq_setD [OF assms] by blast
qed

theorem validateEVPN_order_independent_witness:
  "isOk (validateEVPN [('''', defaultRouterOut), (''red'', redRouterOut)]) =
   isOk (validateEVPN [(''red'', redRouterOut), ('''', defaultRouterOut)])"
  by (rule validateEVPN_order_independent) simp

section \<open>Independence of the order of the resources\<close>

definition rawOf :: "FRRConfiguration \<Rightarrow> namedRawConfig" where
  "rawOf cfg = \<lparr>raw_Priority = raw_Priority (spec_Raw (cfg_Spec cfg)), raw_Config = raw_Config (spec_Raw (cfg_Spec cfg)),
     nrc_configName = cfg_Name cfg\<rparr>"

definition hasRaw :: "FRRConfiguration \<Rightarrow> bool" where
  "hasRaw cfg \<longleftrightarrow> raw_Config (spec_Raw (cfg_Spec cfg)) \<noteq> ''''"

lemma addConfig_raw:
  "foldE (addConfig ab secrets) s cfgs = Inr s' \<Longrightarrow>
   cs_rawConfigs s' = cs_rawConfigs s @ map rawOf (filter hasRaw cfgs)"
proof (induction cfgs arbitrary: s)
  case (Cons cfg cfgs)
  then obtain t where step: "addConfig ab secrets s cfg = Inr t" and rest: "foldE (addConfig ab secrets) t cfgs = Inr s'"
    by (auto simp: bindE_Inr_iff)
  have "cs_rawConfigs t = (if hasRaw cfg then cs_rawConfigs s @ [rawOf cfg] else cs_rawConfigs s)"
    using addConfig_Inr [OF step] unfolding hasRaw_def rawOf_def by metis
  then show ?case using Cons.IH [OF rest] by simp
qed simp

lemma rawLess_key: "rawLess a b \<longleftrightarrow> (raw_Priority a, nrc_configName a) < (raw_Priority b, nrc_configName b)"
  by (auto simp: rawLess_def)

lemma joinRawConfigs_perm:
  assumes "mset raws = mset raws'" "inj_on nrc_configName (set raws)"
  shows "joinRawConfigs raws = joinRawConfigs raws'"
proof -
  have "inj_on (\<lambda>r. (raw_Priority r, nrc_configName r)) (set raws)"
    using assms(2) by (auto simp: inj_on_def)
  moreover have "sorted (map (\<lambda>r. (raw_Priority r, nrc_configName r)) (sortSlice rawLess raws'))"
    by (simp add: sortSlice_key [where key = "\<lambda>r. (raw_Priority r, nrc_configName r)", OF rawLess_key])
  ultimately have "sortSlice rawLess raws' = sortSlice rawLess raws"
    by (intro sortSlice_unique [OF rawLess_key]) (simp_all add: assms(1))
  then show ?thesis by (simp add: joinRawConfigs_def)
qed

lemma configuredProfile_set: "set cfgs = set cfgs' \<Longrightarrow> configuredProfile cfgs = configuredProfile cfgs'"
  by (rule ext) (simp add: configuredProfile_def)

lemma apiToFRR_profiles:
  assumes "apiToFRR resources ab = Inr cfg"
  shows "sortedByKey fbp_Name (cf_BFDProfiles cfg)"
    "set (cf_BFDProfiles cfg) = bfdProfileToFRR ` {q. configuredProfile (cr_FRRConfigs resources) q}"
proof -
  obtain s where run: "foldE (addConfig ab (cr_PasswordSecrets resources))
       \<lparr>cs_rawConfigs = [], cs_routersForVRF = [], cs_bfdProfilesAllConfigs = []\<rparr> (cr_FRRConfigs resources) = Inr s"
    and ps: "cf_BFDProfiles cfg = sortMap (cs_bfdProfilesAllConfigs s)"
    using apiToFRR_Inr [OF assms] by metis
  note get = addConfig_profiles [OF run, simplified]
  have "keyedBy fbp_Name (cs_bfdProfilesAllConfigs s)"
    by (auto simp: keyedBy_def get bfdProfileToFRR_def)
  then show "sortedByKey fbp_Name (cf_BFDProfiles cfg)" by (simp add: ps sortedByKey_sortMap)
  show "set (cf_BFDProfiles cfg) = bfdProfileToFRR ` {q. configuredProfile (cr_FRRConfigs resources) q}"
    by (auto simp: ps set_sortMap get)
qed

lemma apiToFRR_raw:
  assumes "apiToFRR resources ab = Inr cfg"
  shows "cf_ExtraConfig cfg = joinRawConfigs (map rawOf (filter hasRaw (cr_FRRConfigs resources)))"
proof -
  obtain s where "foldE (addConfig ab (cr_PasswordSecrets resources))
       \<lparr>cs_rawConfigs = [], cs_routersForVRF = [], cs_bfdProfilesAllConfigs = []\<rparr> (cr_FRRConfigs resources) = Inr s"
    "cf_ExtraConfig cfg = joinRawConfigs (cs_rawConfigs s)"
    using apiToFRR_Inr [OF assms] by metis
  then show ?thesis by (simp add: addConfig_raw)
qed

text \<open>
  C19: The raw configuration and the BFD profiles of the result do not depend on the order in which the
  resources are listed, for resources with different names.
\<close>

theorem raw_config_and_profiles_order_independent:
  assumes "apiToFRR resources alwaysBlock = Inr cfg" "apiToFRR resources' alwaysBlock' = Inr cfg'"
    and "mset (cr_FRRConfigs resources) = mset (cr_FRRConfigs resources')"
    and "distinct (map cfg_Name (cr_FRRConfigs resources))"
  shows "cf_ExtraConfig cfg = cf_ExtraConfig cfg' \<and> cf_BFDProfiles cfg = cf_BFDProfiles cfg'"
proof
  have "inj_on cfg_Name (set (cr_FRRConfigs resources))" using assms(4) by (simp add: distinct_map)
  then have "inj_on nrc_configName (set (map rawOf (filter hasRaw (cr_FRRConfigs resources))))"
    by (auto simp: inj_on_def rawOf_def)
  moreover have "mset (map rawOf (filter hasRaw (cr_FRRConfigs resources))) =
      mset (map rawOf (filter hasRaw (cr_FRRConfigs resources')))"
    using assms(3) by simp
  ultimately show "cf_ExtraConfig cfg = cf_ExtraConfig cfg'"
    using joinRawConfigs_perm apiToFRR_raw [OF assms(1)] apiToFRR_raw [OF assms(2)] by metis
  have "set (cf_BFDProfiles cfg) = set (cf_BFDProfiles cfg')"
    using apiToFRR_profiles(2) [OF assms(1)] apiToFRR_profiles(2) [OF assms(2)]
      configuredProfile_set [OF mset_eq_setD [OF assms(3)]] by simp
  then show "cf_BFDProfiles cfg = cf_BFDProfiles cfg'"
    by (rule sortedByKey_unique [OF apiToFRR_profiles(1) [OF assms(1)] apiToFRR_profiles(1) [OF assms(2)]])
qed

definition rawResources :: "FRRConfiguration list \<Rightarrow> ClusterResources" where
  "rawResources cfgs = \<lparr>cr_FRRConfigs = cfgs, cr_PasswordSecrets = []\<rparr>"

definition rawSample :: "FRRConfiguration list" where
  "rawSample = [mkConfig ''one'' [] [sampleBFD] 10 ''log one'', mkConfig ''two'' [] [sampleBFD] 5 ''log two'']"

lemma rawSample_value:
  "apiToFRR (rawResources rawSample) [] = Inr (sampleConfig\<lparr>cf_Routers := []\<rparr>)"
  "apiToFRR (rawResources (rev rawSample)) [] = Inr (sampleConfig\<lparr>cf_Routers := []\<rparr>)"
  by code_simp+

theorem raw_config_and_profiles_order_independent_witness:
  "cf_ExtraConfig (projr (apiToFRR (rawResources rawSample) [])) =
     cf_ExtraConfig (projr (apiToFRR (rawResources (rev rawSample)) []))"
proof -
  have "apiToFRR (rawResources rawSample) [] = Inr (projr (apiToFRR (rawResources rawSample) []))"
    "apiToFRR (rawResources (rev rawSample)) [] = Inr (projr (apiToFRR (rawResources (rev rawSample)) []))"
    by (simp_all add: rawSample_value)
  from raw_config_and_profiles_order_independent [OF this] show ?thesis
    by (simp add: rawResources_def rawSample_def mkConfig_def)
qed

section \<open>Transient errors\<close>

text \<open>A result that is no transient error; the rules follow the way the conversion composes results.\<close>

definition permanent :: "(error, 'a) result \<Rightarrow> bool" where
  "permanent x = (case x of Inl e \<Rightarrow> \<not> isTransient e | Inr _ \<Rightarrow> True)"

lemma permanent_Inr [simp]: "permanent (Inr x)" and
  permanent_Inl [simp]: "permanent (Inl e) \<longleftrightarrow> \<not> isTransient e"
  by (simp_all add: permanent_def)

lemma permanent_bindE: "permanent x \<Longrightarrow> (\<And>v. x = Inr v \<Longrightarrow> permanent (f v)) \<Longrightarrow> permanent (bindE x f)"
  by (cases x) simp_all

lemma permanent_mapErr: "permanent x \<Longrightarrow> (\<And>e. \<not> isTransient e \<Longrightarrow> \<not> isTransient (w e)) \<Longrightarrow> permanent (mapErr w x)"
  by (cases x) simp_all

lemma permanent_foldE: "(\<And>s x. x \<in> set xs \<Longrightarrow> permanent (f s x)) \<Longrightarrow> permanent (foldE f s xs)"
  by (induction xs arbitrary: s) (auto intro!: permanent_bindE)

lemma permanent_forE: "(\<And>x. x \<in> set xs \<Longrightarrow> permanent (f x)) \<Longrightarrow> permanent (forE f xs)"
  by (induction xs) (auto intro!: permanent_bindE)

lemma permanent_mapE: "(\<And>x. x \<in> set xs \<Longrightarrow> permanent (f x)) \<Longrightarrow> permanent (mapE f xs)"
  by (induction xs) (auto intro!: permanent_bindE)

lemmas permanent_intros = permanent_bindE permanent_mapErr permanent_foldE permanent_forE permanent_mapE

lemma permanent_leaf_merge:
  "permanent (routersAreCompatible r t)" "permanent (neighborsAreCompatible a b)" "permanent (mergeNextHop x y)"
  "permanent (checkLocalPrefs m p)" "permanent (mergeVNIProperties u v)"
  by (simp_all add: routersAreCompatible_def neighborsAreCompatible_def mergeNextHop_def checkLocalPrefs_def
      mergeVNIProperties_def Let_def)

lemma permanent_mergeAllowedOut: "permanent (mergeAllowedOut a b)"
  by (auto simp: mergeAllowedOut_def intro!: permanent_intros permanent_leaf_merge)

lemma permanent_mergeIntoNeighbor: "permanent (mergeIntoNeighbor a b)"
  by (auto simp: mergeIntoNeighbor_def Let_def intro!: permanent_intros permanent_leaf_merge permanent_mergeAllowedOut)

lemma permanent_mergeNeighborsLists: "permanent (mergeNeighborsLists h ps qs)"
proof -
  have "permanent (neighborStep s p)" for s p
    by (cases s) (auto simp: neighborStep_def Let_def split: option.split
        intro!: permanent_intros permanent_mergeIntoNeighbor)
  then show ?thesis
    by (auto simp: mergeNeighborsLists_def Let_def intro!: permanent_intros)
qed

lemma permanent_mergeEVPNConfigs: "permanent (mergeEVPNConfigs a b)"
proof -
  have "permanent (mergeStep fl2_VNI mergeL2VNI m v)" for m v
    by (auto simp: mergeStep_def mergeL2VNI_def split: option.split intro!: permanent_intros permanent_leaf_merge)
  then have "permanent (mergeL2VNIs vs ws)" for vs ws
    by (auto simp: mergeL2VNIs_def mergeKeyed_def intro!: permanent_intros)
  moreover have "permanent (mergeL3VNIs v w)" for v w
    by (auto simp: mergeL3VNIs_def split: option.split intro!: permanent_intros permanent_leaf_merge)
  ultimately show ?thesis
    by (auto simp: mergeEVPNConfigs_def split: option.split intro!: permanent_intros)
qed

lemma permanent_mergeRouterConfigsAt: "permanent (mergeRouterConfigsAt h ps qs r t)"
  by (auto simp: mergeRouterConfigsAt_def Let_def intro!: permanent_intros permanent_leaf_merge
      permanent_mergeNeighborsLists permanent_mergeEVPNConfigs split: prod.split)

lemma permanent_toAdvertiseToFRR: "permanent (toAdvertiseToFRR nb adv ps)"
proof -
  have "permanent (parseField c k x)" for c k x
    by (auto simp: parseField_def ErrInvalidCommunityValue_def split: option.split)
  then have "permanent (New c)" for c
    by (auto simp: New_def Let_def ErrInvalidCommunityValue_def ErrInvalidCommunityFormat_def split: option.split list.split
        intro!: permanent_intros)
  then have "permanent (communityStep nb f rp m c)" for f rp m c
    by (auto simp: communityStep_def addCommunityPrefix_def Let_def intro!: permanent_intros)
  moreover have "permanent (localPrefStep nb f rp m l)" for f rp m l
    by (auto simp: localPrefStep_def addLocalPrefPrefix_def Let_def intro!: permanent_intros)
  ultimately have "permanent (familyStep nb adv pf m f)" for pf m f
    by (cases m) (auto simp: familyStep_def prefixesWithLocalPrefToFRR_def prefixesWithCommunityToFRR_def
        intro!: permanent_intros)
  moreover have "permanent (nextHopToFRR nb nh)" for nh
    by (auto simp: nextHopToFRR_def split: option.split intro!: permanent_intros)
  ultimately show ?thesis
    by (auto simp: toAdvertiseToFRR_def Let_def intro!: permanent_intros split: prod.split)
qed

lemma permanent_toReceiveToFRR: "permanent (toReceiveToFRR rcv)"
  by (auto simp: toReceiveToFRR_def filterForSelector_def validateSelectorLengths_def IntToUInt32_def
      split: option.split intro!: permanent_intros)

lemma permanent_neighborToFRR:
  assumes "sr_Name (nb_PasswordSecret n) \<noteq> '''' \<Longrightarrow> mapGet secrets (sr_Name (nb_PasswordSecret n)) \<noteq> None"
  shows "permanent (neighborToFRR n ps ab vrf secrets bfd)"
proof -
  have "permanent (passwordForNeighbor n secrets)"
    using assms by (auto simp: passwordForNeighbor_def split: option.split)
  moreover have fam: "permanent (addressFamilyForNeighbor n)"
    by (auto simp: addressFamilyForNeighbor_def ForAddresses_def split: option.split intro!: permanent_intros)
  moreover have "permanent (parseTimers ht ka)" for ht ka
    by (auto simp: parseTimers_def Let_def split: option.split)
  moreover have "permanent (neighborChecks n bfd)" by (simp add: neighborChecks_def)
  ultimately show ?thesis
    by (auto simp: neighborToFRR_def Let_def split: prod.split
        intro!: permanent_intros permanent_toAdvertiseToFRR permanent_toReceiveToFRR)
qed

lemma permanent_checks:
  "permanent (validatePrefixes ps)" "permanent (validateImportVRFs r m)" "permanent (importedPrefixes r m)"
  "permanent (validateOutgoingPrefixes ps r)"
proof -
  have "permanent (validatePrefixesForNeighborFamily qs f)" for qs f
    by (auto simp: validatePrefixesForNeighborFamily_def intro!: permanent_intros)
  moreover have "permanent (addressFamilyForNeighbor n)" for n
    by (auto simp: addressFamilyForNeighbor_def ForAddresses_def split: option.split intro!: permanent_intros)
  moreover have "permanent (recordLocalPref l m p)" for l m p
    by (auto simp: recordLocalPref_def split: option.split)
  ultimately show "permanent (validateOutgoingPrefixes ps r)"
    by (auto simp: validateOutgoingPrefixes_def validateOutgoingForNeighbor_def outgoingStep_def intro!: permanent_intros)
qed (auto simp: validatePrefixes_def validateImportVRFs_def importedPrefixes_def Let_def split: option.split
    intro!: permanent_intros)

lemma apiToFRR_permanent:
  assumes present: "\<And>cfg r n. cfg \<in> set (cr_FRRConfigs resources) \<Longrightarrow> r \<in> set (bgp_Routers (spec_BGP (cfg_Spec cfg))) \<Longrightarrow>
    n \<in> set (rt_Neighbors r) \<Longrightarrow> sr_Name (nb_PasswordSecret n) \<noteq> '''' \<Longrightarrow>
    mapGet (cr_PasswordSecrets resources) (sr_Name (nb_PasswordSecret n)) \<noteq> None"
  shows "permanent (apiToFRR resources alwaysBlock)"
proof -
  have nb: "permanent (neighborToFRR n ps ab vrf (cr_PasswordSecrets resources) bfd)"
    if "cfg \<in> set (cr_FRRConfigs resources)" "r \<in> set (bgp_Routers (spec_BGP (cfg_Spec cfg)))" "n \<in> set (rt_Neighbors r)"
    for cfg r n ps ab vrf bfd
    using present [OF that] by (intro permanent_neighborToFRR) blast
  have r: "permanent (addRouter ab (cr_PasswordSecrets resources) bfd ps m r)"
    if "cfg \<in> set (cr_FRRConfigs resources)" "r \<in> set (bgp_Routers (spec_BGP (cfg_Spec cfg)))" for cfg r ab bfd ps m
    using nb [OF that]
    by (auto simp: addRouter_def routerToFRRConfig_def validateRouterConfig_def mergeRouterConfigs_def Let_def
        split: option.split intro!: permanent_intros permanent_checks permanent_mergeRouterConfigsAt)
  have bfd: "permanent (addBFDProfile nm ms q)" for nm ms q
    by (auto simp: addBFDProfile_def Let_def split: option.split prod.split)
  have "permanent (addConfig alwaysBlock (cr_PasswordSecrets resources) s cfg)"
    if "cfg \<in> set (cr_FRRConfigs resources)" for s cfg
    using r [OF that] bfd by (auto simp: addConfig_def Let_def intro!: permanent_intros)
  moreover have "permanent (validateEVPN m)" for m
    by (auto simp: validateEVPN_def validateEVPNConfig_def validateUniqueVNIs_def uniqueVNIsStep_def seeVNI_def Let_def
        split: option.split prod.split intro!: permanent_intros)
  ultimately show ?thesis
    by (auto simp: apiToFRR_def intro!: permanent_intros)
qed

text \<open>
  C20: The conversion fails with a transient error only when some neighbor refers to a password secret that is
  not among the secrets it was given.
\<close>

theorem transient_only_for_missing_secret:
  assumes "apiToFRR resources alwaysBlock = Inl e" "isTransient e"
  shows "\<exists>cfg\<in>set (cr_FRRConfigs resources). \<exists>r\<in>set (bgp_Routers (spec_BGP (cfg_Spec cfg))).
    \<exists>n\<in>set (rt_Neighbors r). sr_Name (nb_PasswordSecret n) \<noteq> '''' \<and>
      mapGet (cr_PasswordSecrets resources) (sr_Name (nb_PasswordSecret n)) = None"
proof (rule ccontr)
  assume "\<not> ?thesis"
  then have "permanent (apiToFRR resources alwaysBlock)" by (intro apiToFRR_permanent) (metis (no_types))
  then show False using assms by simp
qed

theorem transient_only_for_missing_secret_witness:
  "apiToFRR (sampleResources\<lparr>cr_PasswordSecrets := []\<rparr>) [] =
     Inl (Errorf ''failed to process neighbor %s for router %d-%s: %w''
       [AStr ''65001@192.168.10.2'', ANat 65000, AStr '''',
        AErr (TransientError ''secret %s not found for neighbor %s'' [AStr ''peer'', AStr ''65001@192.168.10.2''])]) \<and>
   (\<exists>cfg\<in>set (cr_FRRConfigs sampleResources). \<exists>r\<in>set (bgp_Routers (spec_BGP (cfg_Spec cfg))).
      \<exists>n\<in>set (rt_Neighbors r). sr_Name (nb_PasswordSecret n) \<noteq> '''')"
proof -
  have "apiToFRR (sampleResources\<lparr>cr_PasswordSecrets := []\<rparr>) [] =
     Inl (Errorf ''failed to process neighbor %s for router %d-%s: %w''
       [AStr ''65001@192.168.10.2'', ANat 65000, AStr '''',
        AErr (TransientError ''secret %s not found for neighbor %s'' [AStr ''peer'', AStr ''65001@192.168.10.2''])])"
    by code_simp
  from this transient_only_for_missing_secret [OF this] show ?thesis by auto
qed

end
