(* ===== verification/Webhook.thy ===== *)
theory Webhook
  imports Validation Reconcile
begin

text \<open>
  The admission webhook for FRRConfigurations (\<^verbatim>\<open>internal/webhooks/frrconfiguration_webhook.go\<close>) and the validation it
  calls (\<^verbatim>\<open>internal/controller/validate.go\<close>). The answers of the API server, the decoded objects of a request and
  the selectors of the library are arguments. So is the cache of selectors, which the library provides: a
  value of type \<open>'c\<close> with its two operations, each returning the cache after it.
\<close>

section \<open>Validation of a list of resources\<close>

datatype objectList = FRRConfigurationList "FRRConfiguration list" | OtherObjectList

text \<open>
  The source overwrites the neighbors in place, through slices that the caller keeps. Writing the empty
  reference again changes nothing (\<open>resetSecrets_idem\<close>), so lists that share a neighbor validate alike in
  any order and the function is modelled on values.
\<close>

definition resetSecrets :: "FRRConfiguration list \<Rightarrow> FRRConfiguration list" where
  "resetSecrets cfgs =
     map (\<lambda>cfg. cfg\<lparr>cfg_Spec := (cfg_Spec cfg)\<lparr>spec_BGP := (spec_BGP (cfg_Spec cfg))\<lparr>bgp_Routers :=
       map (\<lambda>r. r\<lparr>rt_Neighbors := map (\<lambda>n. n\<lparr>nb_PasswordSecret := \<lparr>sr_Name = '''', sr_Namespace = ''''\<rparr>\<rparr>) (rt_Neighbors r)\<rparr>)
         (bgp_Routers (spec_BGP (cfg_Spec cfg)))\<rparr>\<rparr>\<rparr>) cfgs"

definition Validate :: "objectList list \<Rightarrow> (error, unit) result" where
  "Validate resources =
     (let cfgs = concat (map (\<lambda>l. case l of FRRConfigurationList items \<Rightarrow> items | OtherObjectList \<Rightarrow> []) resources) in
      bindE (apiToFRR \<lparr>cr_FRRConfigs = resetSecrets cfgs, cr_PasswordSecrets = []\<rparr> []) (\<lambda>_. Inr ()))"

section \<open>Selectors by their printed form\<close>

text \<open>\<^verbatim>\<open>%v\<close> prints a map with its keys sorted and a struct as its fields in braces.\<close>

definition printLabels :: "(string, string) gomap \<Rightarrow> string" where
  "printLabels m = ''map['' @ joinWith '' '' (map (\<lambda>k. k @ '':'' @ the (mapGet m k)) (sort (mapKeys m))) @ '']''"

definition printRequirement :: "LabelSelectorRequirement \<Rightarrow> string" where
  "printRequirement r = ''{'' @ lsr_Key r @ '' '' @ lsr_Operator r @ '' ['' @ joinWith '' '' (lsr_Values r) @ '']}''"

definition selectorKey :: "LabelSelector \<Rightarrow> string" where
  "selectorKey s =
     printLabels (ls_MatchLabels s) @ ''-['' @ joinWith '' '' (map printRequirement (ls_MatchExpressions s)) @ '']''"

type_synonym selector = "labels \<Rightarrow> bool"

record 'c cacheOps =
  co_Get :: "'c \<Rightarrow> string \<Rightarrow> 'c \<times> selector option"
  co_Add :: "'c \<Rightarrow> string \<Rightarrow> selector \<Rightarrow> 'c"

definition getCachedSelector ::
  "'c cacheOps \<Rightarrow> selectors \<Rightarrow> 'c \<Rightarrow> LabelSelector \<Rightarrow> 'c \<times> (error, selector) result"
where
  "getCachedSelector ops LabelSelectorAsSelector c nodeSelector =
     (let key = selectorKey nodeSelector in
      case co_Get ops c key of
        (c, Some cached) \<Rightarrow> (c, Inr cached)
      | (c, None) \<Rightarrow>
          (case LabelSelectorAsSelector nodeSelector of
             Inl e \<Rightarrow> (c, Inl e)
           | Inr sel \<Rightarrow> (co_Add ops c key sel, Inr sel)))"

section \<open>Validation of one configuration\<close>

record NodeInfo =
  nd_Name :: string
  nd_Labels :: labels

record 'c webhookParams =
  wp_cache :: "'c cacheOps"
  wp_selectors :: selectors
  wp_nodes :: "(error, NodeInfo list) result"
  wp_configs :: "(error, FRRConfiguration list) result"

definition getNodes :: "('c, 'a) webhookParams_scheme \<Rightarrow> (error, NodeInfo list) result" where
  "getNodes P = mapErr (\<lambda>e. errorsJoin e (Errorf ''failed to get existing Node objects'' [])) (wp_nodes P)"

definition getFRRConfigurations :: "('c, 'a) webhookParams_scheme \<Rightarrow> (error, FRRConfiguration list) result" where
  "getFRRConfigurations P =
     mapErr (\<lambda>e. errorsJoin e (Errorf ''failed to get existing FRRConfiguration objects'' [])) (wp_configs P)"

definition containsDisableMP :: "Router list \<Rightarrow> bool" where
  "containsDisableMP routers = list_ex (\<lambda>r. list_ex nb_DisableMP (rt_Neighbors r)) routers"

definition gracefulRestartWarnings :: "FRRConfiguration \<Rightarrow> FRRConfiguration \<Rightarrow> string list" where
  "gracefulRestartWarnings old new =
     [''Graceful restart configuration changed, it will be available on the next restart''.
        rold \<leftarrow> bgp_Routers (spec_BGP (cfg_Spec old)), rnew \<leftarrow> bgp_Routers (spec_BGP (cfg_Spec new)),
        rt_VRF rold = rt_VRF rnew, nold \<leftarrow> rt_Neighbors rold, nnew \<leftarrow> rt_Neighbors rnew,
        nb_ASN nold = nb_ASN nnew \<and> nb_Address nold = nb_Address nnew \<and>
        nb_EnableGracefulRestart nold \<noteq> nb_EnableGracefulRestart nnew]"

text \<open>One existing configuration: the cache, the warnings and the configurations of the node so far.\<close>

definition configStep ::
  "('c, 'a) webhookParams_scheme \<Rightarrow> FRRConfiguration \<Rightarrow> NodeInfo \<Rightarrow> 'c \<times> string list \<times> FRRConfiguration list \<Rightarrow>
   FRRConfiguration \<Rightarrow> 'c \<times> string list \<times> FRRConfiguration list"
where
  "configStep P frrConfig n = (\<lambda>(c, warnings, items) cfg.
     case getCachedSelector (wp_cache P) (wp_selectors P) c (spec_NodeSelector (cfg_Spec cfg)) of
       (c, Inl _) \<Rightarrow> (c, warnings, items)
     | (c, Inr sel) \<Rightarrow>
         if cfg_Name cfg = cfg_Name frrConfig then (c, warnings @ gracefulRestartWarnings cfg frrConfig, items)
         else if sel (nd_Labels n) then (c, warnings, items @ [cfg])
         else (c, warnings, items))"

definition nodeStep ::
  "('c, 'a) webhookParams_scheme \<Rightarrow> FRRConfiguration \<Rightarrow> FRRConfiguration list \<Rightarrow>
   'c \<times> string list \<times> (string \<times> FRRConfiguration list) list \<Rightarrow> NodeInfo \<Rightarrow>
   'c \<times> string list \<times> (string \<times> FRRConfiguration list) list"
where
  "nodeStep P frrConfig existing = (\<lambda>(c, warnings, acc) n.
     case foldl (configStep P frrConfig n) (c, warnings, []) existing of
       (c, warnings, items) \<Rightarrow> (c, warnings, acc @ [(nd_Name n, items @ [frrConfig])]))"

definition validateNodes :: "(string \<times> FRRConfiguration list) list \<Rightarrow> (error, unit) result" where
  "validateNodes matchingNodes =
     forE (\<lambda>(name, cfgs). mapErr (\<lambda>e. errorsJoin e (Errorf ''resource is invalid for node %s'' [AStr name]))
                            (Validate [FRRConfigurationList cfgs])) matchingNodes"

definition validateConfig ::
  "('c, 'a) webhookParams_scheme \<Rightarrow> 'c \<Rightarrow> FRRConfiguration \<Rightarrow> 'c \<times> string list \<times> (error, unit) result"
where
  "validateConfig P c frrConfig =
     (case getCachedSelector (wp_cache P) (wp_selectors P) c (spec_NodeSelector (cfg_Spec frrConfig)) of
        (c, Inl e) \<Rightarrow> (c, [], Inl (errorsJoin e (Errorf ''resource contains an invalid NodeSelector'' [])))
      | (c, Inr sel) \<Rightarrow>
          (case getNodes P of
             Inl e \<Rightarrow> (c, [], Inl e)
           | Inr existingNodes \<Rightarrow>
               (let warnings = (if containsDisableMP (bgp_Routers (spec_BGP (cfg_Spec frrConfig)))
                  then [''disableMP is deprecated, is ignored and will be removed in a future release''] else []) in
                case getFRRConfigurations P of
                  Inl e \<Rightarrow> (c, warnings, Inl e)
                | Inr existing \<Rightarrow>
                    (case foldl (nodeStep P frrConfig existing) (c, warnings, []) (filter (\<lambda>n. sel (nd_Labels n)) existingNodes) of
                       (c, warnings, matchingNodes) \<Rightarrow> (c, warnings, validateNodes matchingNodes)))))"

section \<open>The handler\<close>

datatype admissionOperation = Create | Update | Delete | Connect

datatype admissionResponse = Errored nat error | Denied error | Allowed "string list"

definition decodeRequest ::
  "admissionOperation \<Rightarrow> (error, FRRConfiguration) result \<Rightarrow> nat \<Rightarrow> (error, FRRConfiguration) result \<Rightarrow>
   (error, FRRConfiguration) result"
where
  "decodeRequest op object oldSize oldObject =
     (if op = Delete then oldObject
      else bindE object (\<lambda>config. if oldSize > 0 then bindE oldObject (\<lambda>_. Inr config) else Inr config))"

definition Handle ::
  "('c, 'a) webhookParams_scheme \<Rightarrow> 'c \<Rightarrow> admissionOperation \<Rightarrow> (error, FRRConfiguration) result \<Rightarrow> nat \<Rightarrow>
   (error, FRRConfiguration) result \<Rightarrow> 'c \<times> admissionResponse"
where
  "Handle P c op object oldSize oldObject =
     (case decodeRequest op object oldSize oldObject of
        Inl e \<Rightarrow> (c, Errored 400 e)
      | Inr config \<Rightarrow>
          (if op = Create \<or> op = Update then
             (case validateConfig P c config of
                (c, _, Inl e) \<Rightarrow> (c, Denied e)
              | (c, warnings, Inr _) \<Rightarrow> (c, Allowed warnings))
           else (c, Allowed [])))"

text \<open>The answer of the health endpoint: status code and body.\<close>

definition healthHandler :: "string \<Rightarrow> nat \<times> string" where
  "healthHandler httpMethod =
     (if httpMethod \<noteq> ''GET'' then (405, ''Method not allowed'' @ [CHR 0x0A]) else (200, ''{\"status\": \"ok\"}''))"

section \<open>What the cache promises\<close>

text \<open>
  A cache may forget entries at any time, but what it returns under a key was added under that key. Its contents
  are sound when every entry is the selector of some label selector printed as its key; a label selector
  is separated when no valid one that selects differently is printed like it.
\<close>

definition cached :: "'c cacheOps \<Rightarrow> 'c \<Rightarrow> string \<Rightarrow> selector option" where
  "cached ops c k = snd (co_Get ops c k)"

definition cacheLaws :: "'c cacheOps \<Rightarrow> bool" where
  "cacheLaws ops \<longleftrightarrow>
     (\<forall>c k k' v. cached ops (fst (co_Get ops c k)) k' = Some v \<longrightarrow> cached ops c k' = Some v) \<and>
     (\<forall>c k v k' w. cached ops (co_Add ops c k v) k' = Some w \<longrightarrow> k' = k \<and> w = v \<or> cached ops c k' = Some w)"

definition cacheSound :: "'c cacheOps \<Rightarrow> selectors \<Rightarrow> 'c \<Rightarrow> bool" where
  "cacheSound ops sel c \<longleftrightarrow> (\<forall>k v. cached ops c k = Some v \<longrightarrow> (\<exists>s. selectorKey s = k \<and> sel s = Inr v))"

definition separated :: "selectors \<Rightarrow> FRRConfiguration \<Rightarrow> bool" where
  "separated sel cfg \<longleftrightarrow> (\<forall>s v. selectorKey s = selectorKey (spec_NodeSelector (cfg_Spec cfg)) \<and> sel s = Inr v \<longrightarrow>
     sel (spec_NodeSelector (cfg_Spec cfg)) = Inr v)"

lemma getCachedSelector_sound:
  assumes laws: "cacheLaws ops" and sound: "cacheSound ops sel c" and sep: "separated sel cfg"
  shows "\<exists>c'. getCachedSelector ops sel c (spec_NodeSelector (cfg_Spec cfg)) = (c', sel (spec_NodeSelector (cfg_Spec cfg))) \<and>
    cacheSound ops sel c'"
proof -
  let ?s = "spec_NodeSelector (cfg_Spec cfg)"
  obtain c1 r where get: "co_Get ops c (selectorKey ?s) = (c1, r)" by (cases "co_Get ops c (selectorKey ?s)")
  have sound1: "cacheSound ops sel c1"
    using laws sound get unfolding cacheLaws_def cacheSound_def by (metis fst_conv)
  show ?thesis
  proof (cases r)
    case (Some v)
    then have "cached ops c (selectorKey ?s) = Some v" by (simp add: cached_def get)
    then have "sel ?s = Inr v" using sound sep unfolding cacheSound_def separated_def by blast
    then show ?thesis using Some get sound1 by (simp add: getCachedSelector_def)
  next
    case None
    show ?thesis
    proof (cases "sel ?s")
      case (Inr v)
      have "cacheSound ops sel (co_Add ops c1 (selectorKey ?s) v)"
        using laws sound1 Inr unfolding cacheLaws_def cacheSound_def by metis
      then show ?thesis using None Inr get by (simp add: getCachedSelector_def)
    qed (use None get sound1 in \<open>simp add: getCachedSelector_def\<close>)
  qed
qed

section \<open>Which configurations are validated together\<close>

definition selects :: "selectors \<Rightarrow> labels \<Rightarrow> FRRConfiguration \<Rightarrow> bool" where
  "selects sel nl cfg = (case sel (spec_NodeSelector (cfg_Spec cfg)) of Inl _ \<Rightarrow> False | Inr m \<Rightarrow> m nl)"

definition besides :: "FRRConfiguration \<Rightarrow> FRRConfiguration list \<Rightarrow> FRRConfiguration list" where
  "besides new existing = filter (\<lambda>cfg. cfg_Name cfg \<noteq> cfg_Name new) existing"

lemma configStep_fold:
  assumes "cacheLaws (wp_cache P)" "cacheSound (wp_cache P) (wp_selectors P) c" "\<forall>cfg\<in>set existing. separated (wp_selectors P) cfg"
  shows "\<exists>c' w'. foldl (configStep P new n) (c, w, items) existing =
      (c', w', items @ filter (selects (wp_selectors P) (nd_Labels n)) (besides new existing)) \<and>
    cacheSound (wp_cache P) (wp_selectors P) c'"
  using assms(2,3)
proof (induction existing arbitrary: c w items)
  case (Cons cfg existing)
  obtain c1 where get: "getCachedSelector (wp_cache P) (wp_selectors P) c (spec_NodeSelector (cfg_Spec cfg)) =
      (c1, wp_selectors P (spec_NodeSelector (cfg_Spec cfg)))" "cacheSound (wp_cache P) (wp_selectors P) c1"
    using getCachedSelector_sound [OF assms(1) Cons.prems(1), of cfg] Cons.prems(2) by auto
  have "\<exists>w1. configStep P new n (c, w, items) cfg =
      (c1, w1, items @ filter (selects (wp_selectors P) (nd_Labels n)) (besides new [cfg]))"
    by (auto simp: configStep_def get(1) besides_def selects_def split: sum.split)
  then obtain w1 where step: "configStep P new n (c, w, items) cfg =
      (c1, w1, items @ filter (selects (wp_selectors P) (nd_Labels n)) (besides new [cfg]))" ..
  show ?case
    using Cons.IH [OF get(2), of w1 "items @ filter (selects (wp_selectors P) (nd_Labels n)) (besides new [cfg])"] Cons.prems(2)
    by (auto simp: step besides_def)
qed (simp add: besides_def)

lemma nodeStep_fold:
  assumes "cacheLaws (wp_cache P)" "cacheSound (wp_cache P) (wp_selectors P) c" "\<forall>cfg\<in>set existing. separated (wp_selectors P) cfg"
  shows "\<exists>c' w'. foldl (nodeStep P new existing) (c, w, acc) nodes =
      (c', w', acc @ map (\<lambda>n. (nd_Name n, filter (selects (wp_selectors P) (nd_Labels n)) (besides new existing) @ [new])) nodes)"
  using assms(2)
proof (induction nodes arbitrary: c w acc)
  case (Cons n nodes)
  obtain c1 w1 where fold: "foldl (configStep P new n) (c, w, []) existing =
      (c1, w1, filter (selects (wp_selectors P) (nd_Labels n)) (besides new existing))"
    "cacheSound (wp_cache P) (wp_selectors P) c1"
    using configStep_fold [OF assms(1) Cons.prems assms(3), of new n w "[]"] by auto
  then have "nodeStep P new existing (c, w, acc) n =
      (c1, w1, acc @ [(nd_Name n, filter (selects (wp_selectors P) (nd_Labels n)) (besides new existing) @ [new])])"
    by (simp add: nodeStep_def)
  then show ?case
    using Cons.IH [OF fold(2), of w1
        "acc @ [(nd_Name n, filter (selects (wp_selectors P) (nd_Labels n)) (besides new existing) @ [new])]"] by simp
qed simp

lemma configsForNode_filter:
  assumes "\<forall>cfg\<in>set cfgs. isOk (sel (spec_NodeSelector (cfg_Spec cfg)))"
  shows "configsForNode sel cfgs nl = Inr (filter (selects sel nl) cfgs)"
proof -
  have "foldE (\<lambda>valid cfg.
         bindE (mapErr (\<lambda>e. Errorf ''could not parse nodeSelector for FRRConfiguration %s/%s, err: %w''
                              [AStr (cfg_Namespace cfg), AStr (cfg_Name cfg), AErr e])
                  (sel (spec_NodeSelector (cfg_Spec cfg)))) (\<lambda>matches.
         if \<not> matches nl then Inr valid else Inr (valid @ [cfg])))
       acc cfgs = Inr (acc @ filter (selects sel nl) cfgs)" for acc
    using assms by (induction cfgs arbitrary: acc) (auto simp: isOk_iff selects_def)
  then show ?thesis by (simp add: configsForNode_def)
qed

lemma isOk_Validate:
  "isOk (Validate [FRRConfigurationList cfgs]) =
   isOk (apiToFRR \<lparr>cr_FRRConfigs = resetSecrets cfgs, cr_PasswordSecrets = []\<rparr> [])"
  by (simp add: Validate_def isOk_bindE) (simp add: isOk_iff)

lemma resetSecrets_idem: "resetSecrets (resetSecrets cfgs) = resetSecrets cfgs"
  by (simp add: resetSecrets_def)


text \<open>A cluster with one node, whose cache is an association list and whose selectors match every node.\<close>

definition listCache :: "(string \<times> selector) list cacheOps" where
  "listCache = \<lparr>co_Get = (\<lambda>c k. (c, map_of c k)), co_Add = (\<lambda>c k v. (k, v) # c)\<rparr>"

definition sampleWebhook :: "FRRConfiguration list \<Rightarrow> (string \<times> selector) list webhookParams" where
  "sampleWebhook existing = \<lparr>wp_cache = listCache, wp_selectors = (\<lambda>_. Inr (\<lambda>_. True)),
     wp_nodes = Inr [\<lparr>nd_Name = ''node'', nd_Labels = []\<rparr>], wp_configs = Inr existing\<rparr>"

lemma sampleWebhook_ok:
  "cacheLaws (wp_cache (sampleWebhook existing))" "cacheSound (wp_cache (sampleWebhook existing)) sel []"
  "separated (wp_selectors (sampleWebhook existing)) cfg"
  "isOk (wp_selectors (sampleWebhook existing) s)"
  by (auto simp: cacheLaws_def cacheSound_def separated_def cached_def sampleWebhook_def listCache_def)


section \<open>Errors of the webhook\<close>

lemma Validate_permanent: "permanent (Validate ls)"
  unfolding Validate_def Let_def
  by (intro permanent_bindE apiToFRR_permanent) (auto simp: resetSecrets_def)

text \<open>
  The webhook never denies a request because of a missing secret: unless the library or the API server
  report one, no error it denies with is transient, so admission does not depend on the order in which
  secrets and configurations are created. Deleting a configuration is always allowed, once decoded.
\<close>

theorem webhook_never_transient:
  assumes "\<And>s e. wp_selectors P s = Inl e \<Longrightarrow> \<not> isTransient e"
    and "\<And>e. wp_nodes P = Inl e \<Longrightarrow> \<not> isTransient e" "\<And>e. wp_configs P = Inl e \<Longrightarrow> \<not> isTransient e"
  shows "(snd (Handle P c op object oldSize oldObject) = Denied e \<longrightarrow> \<not> isTransient e) \<and>
    snd (Handle P c Delete object oldSize (Inr old)) = Allowed []"
proof -
  have sel: "\<not> isTransient e" if "getCachedSelector ops (wp_selectors P) c s = (c', Inl e)" for ops s c c' e
    using that assms(1) by (auto simp: getCachedSelector_def Let_def split: prod.splits option.splits sum.splits)
  have nodes: "permanent (getNodes P)" "permanent (getFRRConfigurations P)"
    using assms(2,3) by (auto simp: permanent_def getNodes_def getFRRConfigurations_def errorsJoin_def mapErr_def split: sum.splits)
  have nv: "permanent (validateNodes ns)" for ns
    by (auto simp: validateNodes_def errorsJoin_def intro!: permanent_forE permanent_mapErr Validate_permanent)
  have verdict: "permanent (snd (snd (validateConfig P c cfg)))" for cfg
    using nodes nv
    by (auto simp: validateConfig_def errorsJoin_def Let_def dest: sel split: prod.split sum.split)
  have "\<not> isTransient e" if denied: "snd (Handle P c op object oldSize oldObject) = Denied e"
  proof -
    obtain cfg c' w where "validateConfig P c cfg = (c', w, Inl e)"
      using denied by (auto simp: Handle_def split: prod.splits sum.splits if_splits)
    then show ?thesis using verdict [of cfg] by simp
  qed
  then show ?thesis by (simp add: Handle_def decodeRequest_def)
qed

theorem webhook_never_transient_witness:
  "snd (Handle (sampleWebhook []) [] Create (Inr (mkConfig ''one'' [sampleRouter] [] 0 '''')) 0 (Inl (Errorf ''empty'' []))) \<noteq>
     Denied (TransientError ''secret %s not found for neighbor %s'' [AStr ''peer'', AStr ''65001@192.168.10.2'']) \<and>
   snd (Handle (sampleWebhook []) [] Delete (Inr (mkConfig ''one'' [] [] 0 '''')) 0 (Inr (mkConfig ''one'' [] [] 0 ''''))) = Allowed []"
proof -
  have never: "(snd (Handle (sampleWebhook []) [] op object 0 oldObject) = Denied e \<longrightarrow> \<not> isTransient e) \<and>
      snd (Handle (sampleWebhook []) [] Delete object 0 (Inr old)) = Allowed []" for op object oldObject e old
    by (rule webhook_never_transient) (simp_all add: sampleWebhook_def)
  show ?thesis
    using never [of Create "Inr (mkConfig ''one'' [sampleRouter] [] 0 '''')" "Inl (Errorf ''empty'' [])"
        "TransientError ''secret %s not found for neighbor %s'' [AStr ''peer'', AStr ''65001@192.168.10.2'']"] never
    by auto
qed

section \<open>What the webhook cannot see\<close>

text \<open>
  C24: The webhook leaves out the existing configurations with the name of the new one also when they are in
  another namespace, where they are other resources. So it admits a configuration that conflicts with one of
  them, and the controller then cannot convert the two together.
\<close>

definition conflictingRouter :: Router where
  "conflictingRouter = secondRouter\<lparr>rt_ASN := 65010\<rparr>"


text \<open>
  The printed form of a label selector is not injective: a label value with a blank and a colon in it, which is
  not a valid value, prints like two labels. When the selector with the two labels is in the cache, the
  invalid one is taken for it and accepted.
\<close>

definition twoLabels :: LabelSelector where
  "twoLabels = \<lparr>ls_MatchLabels = [(''a'', ''b''), (''c'', ''d'')], ls_MatchExpressions = []\<rparr>"

definition blankLabel :: LabelSelector where
  "blankLabel = \<lparr>ls_MatchLabels = [(''a'', ''b c:d'')], ls_MatchExpressions = []\<rparr>"

lemma invalid_selector_from_cache:
  assumes "sel twoLabels = Inr m" "sel blankLabel = Inl e"
  shows "snd (getCachedSelector listCache sel (fst (getCachedSelector listCache sel [] twoLabels)) blankLabel) = Inr m"
proof -
  have "selectorKey twoLabels = selectorKey blankLabel" by code_simp
  then show ?thesis using assms by (simp add: getCachedSelector_def listCache_def)
qed

end
