(* ===== verification/Json.thy ===== *)
theory Json
  imports Go_Net Errors
begin

text \<open>
  What the program uses of \<^verbatim>\<open>encoding/json\<close>: \<^verbatim>\<open>Unmarshal\<close> checks the syntax of the whole text first and then
  stores the values it finds in Go values, continuing after a value of the wrong type but reporting the first
  one as its error. The text is cut into tokens, which an automaton with a stack assembles; a value is then
  decoded onto an existing Go value. Of the errors only their presence is modelled, not their text. When an
  object repeats the name of a list, the later list starts afresh here.
\<close>

section \<open>Values and tokens\<close>

text \<open>A number is kept as its literal: sign, integer digits, fraction digits and exponent.\<close>

datatype json =
    JNull
  | JBool bool
  | JNum bool string string "int option"
  | JStr string
  | JArr "json list"
  | JObj "(string \<times> json) list"

datatype token = TLBrace | TRBrace | TLBrack | TRBrack | TColon | TComma | TStr string | TLit json

section \<open>Strings\<close>

text \<open>The number of bytes of the UTF-8 sequence a text begins with, \<open>0\<close> when it is not valid.\<close>

definition isCont :: "char \<Rightarrow> bool" where
  "isCont c \<longleftrightarrow> 0x80 \<le> byteVal c \<and> byteVal c \<le> 0xBF"

definition runeSize :: "string \<Rightarrow> nat" where
  "runeSize s =
     (case s of
        [] \<Rightarrow> 0
      | a # t \<Rightarrow>
          let x = byteVal a;
              y = (case t of b # _ \<Rightarrow> byteVal b | [] \<Rightarrow> 0);
              conts = (\<lambda>n. length (take n t) = n \<and> list_all isCont (take n t))
          in if x < 0x80 then 1
             else if 0xC2 \<le> x \<and> x \<le> 0xDF then (if conts 1 then 2 else 0)
             else if 0xE0 \<le> x \<and> x \<le> 0xEF then
               (if conts 2 \<and> (x = 0xE0 \<longrightarrow> 0xA0 \<le> y) \<and> (x = 0xED \<longrightarrow> y \<le> 0x9F) then 3 else 0)
             else if 0xF0 \<le> x \<and> x \<le> 0xF4 then
               (if conts 3 \<and> (x = 0xF0 \<longrightarrow> 0x90 \<le> y) \<and> (x = 0xF4 \<longrightarrow> y \<le> 0x8F) then 4 else 0)
             else 0)"

definition encodeRune :: "nat \<Rightarrow> string" where
  "encodeRune r =
     map char_of (if r < 0x80 then [r]
       else if r < 0x800 then [0xC0 + r div 0x40, 0x80 + r mod 0x40]
       else if r < 0x10000 then [0xE0 + r div 0x1000, 0x80 + r div 0x40 mod 0x40, 0x80 + r mod 0x40]
       else [0xF0 + r div 0x40000, 0x80 + r div 0x1000 mod 0x40, 0x80 + r div 0x40 mod 0x40, 0x80 + r mod 0x40])"

definition replacementChar :: nat where "replacementChar = 0xFFFD"

definition getu4 :: "string \<Rightarrow> (nat \<times> string) option" where
  "getu4 s =
     (if length s < 4 \<or> list_ex (\<lambda>c. hexVal c = None) (take 4 s) then None
      else Some (foldl (\<lambda>n c. n * 16 + the (hexVal c)) 0 (take 4 s), drop 4 s))"

definition backslash :: char where "backslash = CHR 0x5C"

definition quote :: char where "quote = CHR 0x22"

text \<open>The second half of a surrogate pair, if the text goes on with one.\<close>

definition lowSurrogate :: "nat \<Rightarrow> string \<Rightarrow> (nat \<times> string) option" where
  "lowSurrogate r s =
     (if 0xD800 \<le> r \<and> r < 0xDC00 \<and> hasPrefix s [backslash, CHR ''u''] then
        (case getu4 (drop 2 s) of
           Some (r', t) \<Rightarrow>
             if 0xDC00 \<le> r' \<and> r' < 0xE000 then Some ((r - 0xD800) * 0x400 + (r' - 0xDC00) + 0x10000, t) else None
         | None \<Rightarrow> None)
      else None)"

definition escapeChar :: "char \<Rightarrow> char option" where
  "escapeChar e = map_of [(quote, quote), (backslash, backslash), (CHR ''/'', CHR ''/''), (CHR ''b'', CHR 0x08),
     (CHR ''f'', CHR 0x0C), (CHR ''n'', CHR 0x0A), (CHR ''r'', CHR 0x0D), (CHR ''t'', CHR 0x09)] e"

definition prepend :: "string \<Rightarrow> (string \<times> string) option \<Rightarrow> (string \<times> string) option" where
  "prepend p x = map_option (\<lambda>(v, rest). (p @ v, rest)) x"

text \<open>The contents of a string literal behind its opening quote, and the text behind the closing one.\<close>

function unquote :: "string \<Rightarrow> (string \<times> string) option" where
  "unquote [] = None"
| "unquote (c # s) =
     (if c = quote then Some ([], s)
      else if c = backslash then
        (case s of
           [] \<Rightarrow> None
         | e # t \<Rightarrow>
             if e = CHR ''u'' then
               (case getu4 t of
                  None \<Rightarrow> None
                | Some (r, t') \<Rightarrow>
                    (case lowSurrogate r t' of
                       Some (r', t'') \<Rightarrow> prepend (encodeRune r') (unquote t'')
                     | None \<Rightarrow>
                         prepend (encodeRune (if 0xD800 \<le> r \<and> r < 0xE000 then replacementChar else r)) (unquote t')))
             else (case escapeChar e of None \<Rightarrow> None | Some b \<Rightarrow> prepend [b] (unquote t)))
      else if byteVal c < 0x20 then None
      else
        (let n = runeSize (c # s) in
         if n = 0 then prepend (encodeRune replacementChar) (unquote s)
         else prepend (take n (c # s)) (unquote (drop n (c # s)))))"
  by pat_completeness auto

lemma getu4_length: "getu4 s = Some (r, t) \<Longrightarrow> length t < length s"
  by (auto simp: getu4_def split: if_splits)

lemma lowSurrogate_length: "lowSurrogate r s = Some (r', t) \<Longrightarrow> length t < length s"
  by (auto simp: lowSurrogate_def dest!: getu4_length split: if_splits option.splits)

termination unquote
  by (relation "measure length") (auto dest!: getu4_length lowSurrogate_length)

declare unquote.simps(2) [simp del]

lemma unquote_length: "unquote s = Some (v, t) \<Longrightarrow> length t < length s"
proof (induction s arbitrary: v t rule: unquote.induct)
  case (2 c s)
  have p: "prepend p x = Some (v, t) \<longleftrightarrow> (\<exists>w. x = Some (w, t) \<and> v = p @ w)" for p x
    by (auto simp: prepend_def)
  show ?case
    using 2 by (fastforce simp: p unquote.simps(2) Let_def dest: getu4_length lowSurrogate_length
        split: if_splits option.splits list.splits prod.splits)
qed simp

section \<open>Numbers\<close>

definition lexDigits :: "string \<Rightarrow> (string \<times> string) option" where
  "lexDigits s = (let d = takeWhile isDigit s in if d = [] then None else Some (d, dropWhile isDigit s))"

definition lexInt :: "string \<Rightarrow> (string \<times> string) option" where
  "lexInt s = (if hasPrefix s ''0'' then Some (''0'', tl s) else lexDigits s)"

definition lexFrac :: "string \<Rightarrow> (string \<times> string) option" where
  "lexFrac s = (if hasPrefix s ''.'' then lexDigits (tl s) else Some ([], s))"

definition lexExp :: "string \<Rightarrow> (int option \<times> string) option" where
  "lexExp s =
     (if hasPrefix s ''e'' \<or> hasPrefix s ''E'' then
        (let neg = hasPrefix (tl s) ''-'';
             t = (if hasPrefix (tl s) ''-'' \<or> hasPrefix (tl s) ''+'' then tl (tl s) else tl s)
         in map_option (\<lambda>(d, r). (Some (if neg then - int (decVal d) else int (decVal d)), r)) (lexDigits t))
      else Some (None, s))"

definition lexNumber :: "string \<Rightarrow> (json \<times> string) option" where
  "lexNumber s =
     (let neg = hasPrefix s ''-'' in
      case lexInt (if neg then tl s else s) of
        None \<Rightarrow> None
      | Some (i, r) \<Rightarrow>
          (case lexFrac r of
             None \<Rightarrow> None
           | Some (f, r) \<Rightarrow> map_option (\<lambda>(e, r). (JNum neg i f e, r)) (lexExp r)))"

lemma lexDigits_length: "lexDigits s = Some (d, r) \<Longrightarrow> length r < length s"
proof -
  assume "lexDigits s = Some (d, r)"
  then have "takeWhile isDigit s \<noteq> []" "r = dropWhile isDigit s" by (auto simp: lexDigits_def Let_def split: if_splits)
  moreover have "length (takeWhile isDigit s) + length (dropWhile isDigit s) = length s"
    by (metis length_append takeWhile_dropWhile_id)
  ultimately show ?thesis by (cases "takeWhile isDigit s") auto
qed

lemma lexNumber_length: "lexNumber s = Some (v, r) \<Longrightarrow> length r < length s"
proof -
  have i: "length r < length s" if "lexInt s = Some (d, r)" for s d r
    using that by (cases s) (auto simp: lexInt_def dest: lexDigits_length split: if_splits)
  have f: "length r \<le> length s" if "lexFrac s = Some (d, r)" for s d r
    using that by (cases s) (auto simp: lexFrac_def dest: lexDigits_length split: if_splits)
  have e: "length r \<le> length s" if "lexExp s = Some (d, r)" for s d r
    using that by (fastforce simp: lexExp_def Let_def dest: lexDigits_length split: if_splits)
  assume "lexNumber s = Some (v, r)"
  then obtain d1 r1 d2 r2 d3 where "lexInt (if hasPrefix s ''-'' then tl s else s) = Some (d1, r1)"
      "lexFrac r1 = Some (d2, r2)" "lexExp r2 = Some (d3, r)"
    by (auto simp: lexNumber_def Let_def split: option.splits prod.splits)
  from i [OF this(1)] f [OF this(2)] e [OF this(3)] show ?thesis by (auto split: if_splits)
qed

section \<open>Tokens\<close>

definition isJsonSpace :: "char \<Rightarrow> bool" where
  "isJsonSpace c \<longleftrightarrow> c = CHR 0x20 \<or> c = CHR 0x09 \<or> c = CHR 0x0A \<or> c = CHR 0x0D"

definition punctuation :: "char \<Rightarrow> token option" where
  "punctuation c = map_of [(CHR ''{'', TLBrace), (CHR ''}'', TRBrace), (CHR ''['', TLBrack), (CHR '']'', TRBrack),
     (CHR '':'', TColon), (CHR '','', TComma)] c"

function lex :: "string \<Rightarrow> token list option" where
  "lex [] = Some []"
| "lex (c # s) =
     (if isJsonSpace c then lex s
      else case punctuation c of
        Some t \<Rightarrow> map_option ((#) t) (lex s)
      | None \<Rightarrow>
          if c = quote then
            (case unquote s of None \<Rightarrow> None | Some (v, r) \<Rightarrow> map_option ((#) (TStr v)) (lex r))
          else if hasPrefix (c # s) ''true'' then map_option ((#) (TLit (JBool True))) (lex (drop 3 s))
          else if hasPrefix (c # s) ''false'' then map_option ((#) (TLit (JBool False))) (lex (drop 4 s))
          else if hasPrefix (c # s) ''null'' then map_option ((#) (TLit JNull)) (lex (drop 3 s))
          else
            (case lexNumber (c # s) of None \<Rightarrow> None | Some (v, r) \<Rightarrow> map_option ((#) (TLit v)) (lex r)))"
  by pat_completeness auto

termination lex
  by (relation "measure length") (auto dest!: unquote_length lexNumber_length)

declare lex.simps(2) [simp del]

section \<open>The automaton\<close>

text \<open>
  The stack holds the open arrays and objects with what they contain so far; the mode says what may come next.
  More than ten thousand open brackets are an error.
\<close>

datatype frame = FArr "json list" | FObj "(string \<times> json) list" string

datatype mode = WantValue | WantElemOrEnd | WantKeyOrEnd | WantKey | WantColon | AfterValue | Finished json

definition maxNestingDepth :: nat where "maxNestingDepth = 10000"

fun addValue :: "json \<Rightarrow> frame list \<Rightarrow> frame list \<times> mode" where
  "addValue v [] = ([], Finished v)"
| "addValue v (FArr vs # st) = (FArr (vs @ [v]) # st, AfterValue)"
| "addValue v (FObj kvs k # st) = (FObj (kvs @ [(k, v)]) k # st, AfterValue)"

definition open_frame :: "frame \<Rightarrow> mode \<Rightarrow> frame list \<Rightarrow> (frame list \<times> mode) option" where
  "open_frame f m st = (if length st < maxNestingDepth then Some (f # st, m) else None)"

fun tokenStep :: "frame list \<Rightarrow> mode \<Rightarrow> token \<Rightarrow> (frame list \<times> mode) option" where
  "tokenStep (FArr vs # st) WantElemOrEnd TRBrack = Some (addValue (JArr vs) st)"
| "tokenStep st m (TLit v) = (if m = WantValue \<or> m = WantElemOrEnd then Some (addValue v st) else None)"
| "tokenStep st m TLBrack = (if m = WantValue \<or> m = WantElemOrEnd then open_frame (FArr []) WantElemOrEnd st else None)"
| "tokenStep st m TLBrace = (if m = WantValue \<or> m = WantElemOrEnd then open_frame (FObj [] []) WantKeyOrEnd st else None)"
| "tokenStep st WantValue (TStr v) = Some (addValue (JStr v) st)"
| "tokenStep st WantElemOrEnd (TStr v) = Some (addValue (JStr v) st)"
| "tokenStep (FObj kvs _ # st) WantKeyOrEnd (TStr k) = Some (FObj kvs k # st, WantColon)"
| "tokenStep (FObj kvs _ # st) WantKey (TStr k) = Some (FObj kvs k # st, WantColon)"
| "tokenStep (FObj kvs _ # st) WantKeyOrEnd TRBrace = Some (addValue (JObj kvs) st)"
| "tokenStep st WantColon TColon = Some (st, WantValue)"
| "tokenStep (FArr vs # st) AfterValue TComma = Some (FArr vs # st, WantValue)"
| "tokenStep (FArr vs # st) AfterValue TRBrack = Some (addValue (JArr vs) st)"
| "tokenStep (FObj kvs k # st) AfterValue TComma = Some (FObj kvs k # st, WantKey)"
| "tokenStep (FObj kvs _ # st) AfterValue TRBrace = Some (addValue (JObj kvs) st)"
| "tokenStep _ _ _ = None"

fun parseTokens :: "frame list \<Rightarrow> mode \<Rightarrow> token list \<Rightarrow> json option" where
  "parseTokens st m [] = (case m of Finished v \<Rightarrow> Some v | _ \<Rightarrow> None)"
| "parseTokens st m (t # ts) = (case tokenStep st m t of None \<Rightarrow> None | Some (st, m) \<Rightarrow> parseTokens st m ts)"

definition parseJSON :: "string \<Rightarrow> json option" where
  "parseJSON s = (case lex s of None \<Rightarrow> None | Some ts \<Rightarrow> parseTokens [] WantValue ts)"

section \<open>Decoding onto Go values\<close>

text \<open>
  A decoder takes the JSON value and the Go value it is stored in. A null leaves a string, number, bool or struct
  as it is and empties a map or slice.
\<close>

type_synonym 'a decoder = "json \<Rightarrow> 'a \<Rightarrow> (error, 'a) result"

definition jsonError :: "string \<Rightarrow> error" where
  "jsonError what = Errorf ''json: %s'' [AStr what]"

definition decodeString :: "string decoder" where
  "decodeString j old =
     (case j of JNull \<Rightarrow> Inr old | JStr s \<Rightarrow> Inr s | _ \<Rightarrow> Inl (jsonError ''cannot unmarshal value into string''))"

definition decodeBool :: "bool decoder" where
  "decodeBool j old =
     (case j of JNull \<Rightarrow> Inr old | JBool b \<Rightarrow> Inr b | _ \<Rightarrow> Inl (jsonError ''cannot unmarshal value into bool''))"

text \<open>\<^verbatim>\<open>int\<close> and \<^verbatim>\<open>int64\<close> on a 64-bit platform: an integer literal in range.\<close>

definition decodeInt :: "int decoder" where
  "decodeInt j old =
     (case j of
        JNull \<Rightarrow> Inr old
      | JNum neg i f e \<Rightarrow>
          let n = (if neg then - int (decVal i) else int (decVal i)) in
          if f = [] \<and> e = None \<and> - (2 ^ 63) \<le> n \<and> n < 2 ^ 63 then Inr n
          else Inl (jsonError ''cannot unmarshal number into int'')
      | _ \<Rightarrow> Inl (jsonError ''cannot unmarshal value into int''))"

definition decodeUint32 :: "uint32 decoder" where
  "decodeUint32 j old =
     (case j of
        JNull \<Rightarrow> Inr old
      | JNum neg i f e \<Rightarrow>
          if \<not> neg \<and> f = [] \<and> e = None \<and> decVal i < 2 ^ 32 then Inr (of_nat (decVal i))
          else Inl (jsonError ''cannot unmarshal number into uint32'')
      | _ \<Rightarrow> Inl (jsonError ''cannot unmarshal value into uint32''))"

text \<open>An \<^verbatim>\<open>interface{}\<close> takes any value, but a number must fit a \<^verbatim>\<open>float64\<close> after rounding.\<close>

definition floatOverflows :: "string \<Rightarrow> string \<Rightarrow> int option \<Rightarrow> bool" where
  "floatOverflows i f e =
     (let m = decVal (i @ f); x = (case e of None \<Rightarrow> 0 | Some x \<Rightarrow> x) - int (length f) in
      if x \<ge> 0 then m * 10 ^ nat x \<ge> 2 ^ 1024 - 2 ^ 970 else m \<ge> (2 ^ 1024 - 2 ^ 970) * 10 ^ nat (- x))"

fun decodeAny :: "json \<Rightarrow> bool" where
  "decodeAny (JNum _ i f e) = (\<not> floatOverflows i f e)"
| "decodeAny (JArr vs) = (\<forall>v\<in>set vs. decodeAny v)"
| "decodeAny (JObj kvs) = (\<forall>kv\<in>set kvs. decodeAny (snd kv))"
| "decodeAny _ = True"

definition decodeInterface :: "unit decoder" where
  "decodeInterface j old = (if decodeAny j then Inr () else Inl (jsonError ''cannot unmarshal number into float64''))"

definition decodeSlice :: "'a \<Rightarrow> 'a decoder \<Rightarrow> 'a list decoder" where
  "decodeSlice zero dec j old =
     (case j of
        JNull \<Rightarrow> Inr []
      | JArr vs \<Rightarrow> mapE (\<lambda>v. dec v zero) vs
      | _ \<Rightarrow> Inl (jsonError ''cannot unmarshal value into slice''))"

definition decodeMap :: "'a \<Rightarrow> 'a decoder \<Rightarrow> (string, 'a) gomap decoder" where
  "decodeMap zero dec j old =
     (case j of
        JNull \<Rightarrow> Inr []
      | JObj kvs \<Rightarrow> foldE (\<lambda>m (k, v). bindE (dec v zero) (\<lambda>x. Inr (mapSet m k x))) old kvs
      | _ \<Rightarrow> Inl (jsonError ''cannot unmarshal value into map''))"

text \<open>
  A field of a struct is found by its exact name or else regardless of case; two letters outside ASCII fold to
  ASCII ones. Other names are skipped.
\<close>

function foldName :: "string \<Rightarrow> string" where
  "foldName [] = []"
| "foldName (c # s) =
     (if hasPrefix (c # s) [CHR 0xC5, CHR 0xBF] then CHR ''S'' # foldName (drop 1 s)
      else if hasPrefix (c # s) [CHR 0xE2, CHR 0x84, CHR 0xAA] then CHR ''K'' # foldName (drop 2 s)
      else (if 97 \<le> byteVal c \<and> byteVal c \<le> 122 then char_of (byteVal c - 32) else c) # foldName s)"
  by pat_completeness auto

termination foldName
  by (relation "measure length") auto

type_synonym 'a fields = "(string \<times> 'a decoder) list"

definition findField :: "'a fields \<Rightarrow> string \<Rightarrow> 'a decoder option" where
  "findField fs k =
     (case map_of fs k of
        Some d \<Rightarrow> Some d
      | None \<Rightarrow> map_option snd (find (\<lambda>(n, _). foldName n = foldName k) fs))"

definition decodeStruct :: "'a fields \<Rightarrow> 'a decoder" where
  "decodeStruct fs j old =
     (case j of
        JNull \<Rightarrow> Inr old
      | JObj kvs \<Rightarrow> foldE (\<lambda>s (k, v). case findField fs k of None \<Rightarrow> Inr s | Some d \<Rightarrow> d v s) old kvs
      | _ \<Rightarrow> Inl (jsonError ''cannot unmarshal value into struct''))"

text \<open>The decoder of a field from its decoder, its getter and its setter.\<close>

definition field :: "'b decoder \<Rightarrow> ('a \<Rightarrow> 'b) \<Rightarrow> ('b \<Rightarrow> 'a \<Rightarrow> 'a) \<Rightarrow> 'a decoder" where
  "field dec get put j s = bindE (dec j (get s)) (\<lambda>x. Inr (put x s))"

definition Unmarshal :: "'a decoder \<Rightarrow> string \<Rightarrow> 'a \<Rightarrow> (error, 'a) result" where
  "Unmarshal dec text old =
     (case parseJSON text of None \<Rightarrow> Inl (jsonError ''invalid syntax'') | Some j \<Rightarrow> dec j old)"

lemma decodeMap_distinct:
  assumes "decodeMap zero dec j old = Inr m" "distinct (mapKeys old)"
  shows "distinct (mapKeys m)"
proof (cases j)
  case (JObj kvs)
  with assms(1) have "foldE (\<lambda>m (k, v). bindE (dec v zero) (\<lambda>x. Inr (mapSet m k x))) old kvs = Inr m"
    by (simp add: decodeMap_def)
  then show ?thesis
    by (rule foldE_invariant) (use assms(2) in \<open>auto simp: bindE_Inr_iff split: prod.splits\<close>)
qed (use assms in \<open>auto simp: decodeMap_def\<close>)

lemma Unmarshal_map_distinct:
  "Unmarshal (decodeMap zero dec) text [] = Inr m \<Longrightarrow> distinct (mapKeys m)"
  by (auto simp: Unmarshal_def intro: decodeMap_distinct split: option.splits)

end
