(* ===== verification/Frr_Parse.thy ===== *)
theory Frr_Parse
  imports Json Ip_Family
begin

text \<open>
  The output of vtysh (\<^verbatim>\<open>internal/frr/parse.go\<close>): the structs it is decoded into with the names of their JSON fields,
  and the functions that turn it into neighbors, routes, BFD peers and VRFs.
\<close>

section \<open>What vtysh prints\<close>

record MessageStats =
  ms_OpensSent :: int
  ms_OpensReceived :: int
  ms_NotificationsSent :: int
  ms_UpdatesSent :: int
  ms_UpdatesReceived :: int
  ms_KeepalivesSent :: int
  ms_KeepalivesReceived :: int
  ms_RouteRefreshSent :: int
  ms_TotalSent :: int
  ms_TotalReceived :: int

definition zeroMessageStats :: MessageStats where
  "zeroMessageStats = \<lparr>ms_OpensSent = 0, ms_OpensReceived = 0, ms_NotificationsSent = 0, ms_UpdatesSent = 0,
      ms_UpdatesReceived = 0, ms_KeepalivesSent = 0, ms_KeepalivesReceived = 0, ms_RouteRefreshSent = 0,
      ms_TotalSent = 0, ms_TotalReceived = 0\<rparr>"

definition decodeMessageStats :: "MessageStats decoder" where
  "decodeMessageStats = decodeStruct
     [(''opensSent'', field decodeInt ms_OpensSent (\<lambda>x s. s\<lparr>ms_OpensSent := x\<rparr>)),
      (''opensRecv'', field decodeInt ms_OpensReceived (\<lambda>x s. s\<lparr>ms_OpensReceived := x\<rparr>)),
      (''notificationsSent'',
      field decodeInt ms_NotificationsSent (\<lambda>x s. s\<lparr>ms_NotificationsSent := x\<rparr>)),
      (''updatesSent'', field decodeInt ms_UpdatesSent (\<lambda>x s. s\<lparr>ms_UpdatesSent := x\<rparr>)),
      (''updatesRecv'', field decodeInt ms_UpdatesReceived (\<lambda>x s. s\<lparr>ms_UpdatesReceived := x\<rparr>)),
      (''keepalivesSent'', field decodeInt ms_KeepalivesSent (\<lambda>x s. s\<lparr>ms_KeepalivesSent := x\<rparr>)),
      (''keepalivesRecv'',
      field decodeInt ms_KeepalivesReceived (\<lambda>x s. s\<lparr>ms_KeepalivesReceived := x\<rparr>)),
      (''routeRefreshSent'',
      field decodeInt ms_RouteRefreshSent (\<lambda>x s. s\<lparr>ms_RouteRefreshSent := x\<rparr>)),
      (''totalSent'', field decodeInt ms_TotalSent (\<lambda>x s. s\<lparr>ms_TotalSent := x\<rparr>)),
      (''totalRecv'', field decodeInt ms_TotalReceived (\<lambda>x s. s\<lparr>ms_TotalReceived := x\<rparr>))]"

record PeerBFDInfo =
  pb_Status :: string

definition zeroPeerBFDInfo :: PeerBFDInfo where
  "zeroPeerBFDInfo = \<lparr>pb_Status = ''''\<rparr>"

definition decodePeerBFDInfo :: "PeerBFDInfo decoder" where
  "decodePeerBFDInfo = decodeStruct
     [(''status'', field decodeString pb_Status (\<lambda>x s. s\<lparr>pb_Status := x\<rparr>))]"

record afInfo =
  af_SentPrefixCounter :: int
  af_AcceptedPrefixCounter :: int

definition zeroAfInfo :: afInfo where
  "zeroAfInfo = \<lparr>af_SentPrefixCounter = 0, af_AcceptedPrefixCounter = 0\<rparr>"

definition decodeAfInfo :: "afInfo decoder" where
  "decodeAfInfo = decodeStruct
     [(''sentPrefixCounter'',
      field decodeInt af_SentPrefixCounter (\<lambda>x s. s\<lparr>af_SentPrefixCounter := x\<rparr>)),
      (''acceptedPrefixCounter'',
      field decodeInt af_AcceptedPrefixCounter (\<lambda>x s. s\<lparr>af_AcceptedPrefixCounter := x\<rparr>))]"

record FRRNeighbor =
  fn_BGPNeighborAddr :: string
  fn_RemoteAs :: int
  fn_LocalAs :: int
  fn_RemoteRouterID :: string
  fn_BgpVersion :: int
  fn_BgpState :: string
  fn_PortForeign :: int
  fn_MsgStats :: MessageStats
  fn_VRFName :: string
  fn_AddressFamilyInfo :: "(string, afInfo) gomap"
  fn_BFDInfo :: PeerBFDInfo

definition zeroFRRNeighbor :: FRRNeighbor where
  "zeroFRRNeighbor = \<lparr>fn_BGPNeighborAddr = '''', fn_RemoteAs = 0, fn_LocalAs = 0, fn_RemoteRouterID = '''',
      fn_BgpVersion = 0, fn_BgpState = '''', fn_PortForeign = 0, fn_MsgStats = zeroMessageStats, fn_VRFName = '''',
      fn_AddressFamilyInfo = [], fn_BFDInfo = zeroPeerBFDInfo\<rparr>"

definition decodeFRRNeighbor :: "FRRNeighbor decoder" where
  "decodeFRRNeighbor = decodeStruct
     [(''bgpNeighborAddr'',
      field decodeString fn_BGPNeighborAddr (\<lambda>x s. s\<lparr>fn_BGPNeighborAddr := x\<rparr>)),
      (''remoteAs'', field decodeInt fn_RemoteAs (\<lambda>x s. s\<lparr>fn_RemoteAs := x\<rparr>)),
      (''localAs'', field decodeInt fn_LocalAs (\<lambda>x s. s\<lparr>fn_LocalAs := x\<rparr>)),
      (''remoteRouterId'',
      field decodeString fn_RemoteRouterID (\<lambda>x s. s\<lparr>fn_RemoteRouterID := x\<rparr>)),
      (''bgpVersion'', field decodeInt fn_BgpVersion (\<lambda>x s. s\<lparr>fn_BgpVersion := x\<rparr>)),
      (''bgpState'', field decodeString fn_BgpState (\<lambda>x s. s\<lparr>fn_BgpState := x\<rparr>)),
      (''portForeign'', field decodeInt fn_PortForeign (\<lambda>x s. s\<lparr>fn_PortForeign := x\<rparr>)),
      (''messageStats'', field decodeMessageStats fn_MsgStats (\<lambda>x s. s\<lparr>fn_MsgStats := x\<rparr>)),
      (''vrf'', field decodeString fn_VRFName (\<lambda>x s. s\<lparr>fn_VRFName := x\<rparr>)),
      (''addressFamilyInfo'',
      field (decodeMap zeroAfInfo decodeAfInfo) fn_AddressFamilyInfo (\<lambda>x s. s\<lparr>fn_AddressFamilyInfo := x\<rparr>)),
      (''peerBfdInfo'', field decodePeerBFDInfo fn_BFDInfo (\<lambda>x s. s\<lparr>fn_BFDInfo := x\<rparr>))]"

record frrNexthop =
  nx_IP :: string
  nx_Scope :: string

definition zeroFrrNexthop :: frrNexthop where
  "zeroFrrNexthop = \<lparr>nx_IP = '''', nx_Scope = ''''\<rparr>"

definition decodeFrrNexthop :: "frrNexthop decoder" where
  "decodeFrrNexthop = decodeStruct
     [(''ip'', field decodeString nx_IP (\<lambda>x s. s\<lparr>nx_IP := x\<rparr>)),
      (''scope'', field decodeString nx_Scope (\<lambda>x s. s\<lparr>nx_Scope := x\<rparr>))]"

record FRRRoute =
  fr_Valid :: bool
  fr_PeerID :: string
  fr_LocalPref :: uint32
  fr_Origin :: string
  fr_Nexthops :: "frrNexthop list"

definition zeroFRRRoute :: FRRRoute where
  "zeroFRRRoute = \<lparr>fr_Valid = False, fr_PeerID = '''', fr_LocalPref = 0, fr_Origin = '''',
      fr_Nexthops = []\<rparr>"

definition decodeFRRRoute :: "FRRRoute decoder" where
  "decodeFRRRoute = decodeStruct
     [(''valid'', field decodeBool fr_Valid (\<lambda>x s. s\<lparr>fr_Valid := x\<rparr>)),
      (''peerId'', field decodeString fr_PeerID (\<lambda>x s. s\<lparr>fr_PeerID := x\<rparr>)),
      (''locPrf'', field decodeUint32 fr_LocalPref (\<lambda>x s. s\<lparr>fr_LocalPref := x\<rparr>)),
      (''origin'', field decodeString fr_Origin (\<lambda>x s. s\<lparr>fr_Origin := x\<rparr>)),
      (''nexthops'',
      field (decodeSlice zeroFrrNexthop decodeFrrNexthop) fr_Nexthops (\<lambda>x s. s\<lparr>fr_Nexthops := x\<rparr>))]"

record IPInfo =
  ii_Routes :: "(string, FRRRoute list) gomap"

definition zeroIPInfo :: IPInfo where
  "zeroIPInfo = \<lparr>ii_Routes = []\<rparr>"

definition decodeIPInfo :: "IPInfo decoder" where
  "decodeIPInfo = decodeStruct
     [(''routes'',
      field (decodeMap [] (decodeSlice zeroFRRRoute decodeFRRRoute)) ii_Routes (\<lambda>x s. s\<lparr>ii_Routes := x\<rparr>))]"

record BFDPeer =
  bd_Multihop :: bool
  bd_Peer :: string
  bd_Local :: string
  bd_Vrf :: string
  bd_Interface :: string
  bd_ID :: int
  bd_RemoteID :: int
  bd_PassiveMode :: bool
  bd_Status :: string
  bd_Uptime :: int
  bd_Diagnostic :: string
  bd_RemoteDiagnostic :: string
  bd_ReceiveInterval :: int
  bd_TransmitInterval :: int
  bd_EchoReceiveInterval :: int
  bd_EchoTransmitInterval :: int
  bd_DetectMultiplier :: int
  bd_RemoteReceiveInterval :: int
  bd_RemoteTransmitInterval :: int
  bd_RemoteEchoInterval :: int
  bd_RemoteEchoReceiveInterval :: int
  bd_RemoteDetectMultiplier :: int

definition zeroBFDPeer :: BFDPeer where
  "zeroBFDPeer = \<lparr>bd_Multihop = False, bd_Peer = '''', bd_Local = '''', bd_Vrf = '''', bd_Interface = '''',
      bd_ID = 0, bd_RemoteID = 0, bd_PassiveMode = False, bd_Status = '''', bd_Uptime = 0, bd_Diagnostic = '''',
      bd_RemoteDiagnostic = '''', bd_ReceiveInterval = 0, bd_TransmitInterval = 0, bd_EchoReceiveInterval = 0,
      bd_EchoTransmitInterval = 0, bd_DetectMultiplier = 0, bd_RemoteReceiveInterval = 0,
      bd_RemoteTransmitInterval = 0, bd_RemoteEchoInterval = 0, bd_RemoteEchoReceiveInterval = 0,
      bd_RemoteDetectMultiplier = 0\<rparr>"

definition decodeBFDPeer :: "BFDPeer decoder" where
  "decodeBFDPeer = decodeStruct
     [(''multihop'', field decodeBool bd_Multihop (\<lambda>x s. s\<lparr>bd_Multihop := x\<rparr>)),
      (''peer'', field decodeString bd_Peer (\<lambda>x s. s\<lparr>bd_Peer := x\<rparr>)),
      (''local'', field decodeString bd_Local (\<lambda>x s. s\<lparr>bd_Local := x\<rparr>)),
      (''vrf'', field decodeString bd_Vrf (\<lambda>x s. s\<lparr>bd_Vrf := x\<rparr>)),
      (''interface'', field decodeString bd_Interface (\<lambda>x s. s\<lparr>bd_Interface := x\<rparr>)),
      (''id'', field decodeInt bd_ID (\<lambda>x s. s\<lparr>bd_ID := x\<rparr>)),
      (''remote-id'', field decodeInt bd_RemoteID (\<lambda>x s. s\<lparr>bd_RemoteID := x\<rparr>)),
      (''passive-mode'', field decodeBool bd_PassiveMode (\<lambda>x s. s\<lparr>bd_PassiveMode := x\<rparr>)),
      (''status'', field decodeString bd_Status (\<lambda>x s. s\<lparr>bd_Status := x\<rparr>)),
      (''uptime'', field decodeInt bd_Uptime (\<lambda>x s. s\<lparr>bd_Uptime := x\<rparr>)),
      (''diagnostic'', field decodeString bd_Diagnostic (\<lambda>x s. s\<lparr>bd_Diagnostic := x\<rparr>)),
      (''remote-diagnostic'',
      field decodeString bd_RemoteDiagnostic (\<lambda>x s. s\<lparr>bd_RemoteDiagnostic := x\<rparr>)),
      (''receive-interval'',
      field decodeInt bd_ReceiveInterval (\<lambda>x s. s\<lparr>bd_ReceiveInterval := x\<rparr>)),
      (''transmit-interval'',
      field decodeInt bd_TransmitInterval (\<lambda>x s. s\<lparr>bd_TransmitInterval := x\<rparr>)),
      (''echo-receive-interval'',
      field decodeInt bd_EchoReceiveInterval (\<lambda>x s. s\<lparr>bd_EchoReceiveInterval := x\<rparr>)),
      (''echo-transmit-interval'',
      field decodeInt bd_EchoTransmitInterval (\<lambda>x s. s\<lparr>bd_EchoTransmitInterval := x\<rparr>)),
      (''detect-multiplier'',
      field decodeInt bd_DetectMultiplier (\<lambda>x s. s\<lparr>bd_DetectMultiplier := x\<rparr>)),
      (''remote-receive-interval'',
      field decodeInt bd_RemoteReceiveInterval (\<lambda>x s. s\<lparr>bd_RemoteReceiveInterval := x\<rparr>)),
      (''remote-transmit-interval'',
      field decodeInt bd_RemoteTransmitInterval (\<lambda>x s. s\<lparr>bd_RemoteTransmitInterval := x\<rparr>)),
      (''remote-echo-interval'',
      field decodeInt bd_RemoteEchoInterval (\<lambda>x s. s\<lparr>bd_RemoteEchoInterval := x\<rparr>)),
      (''remote-echo-receive-interval'',
      field decodeInt bd_RemoteEchoReceiveInterval (\<lambda>x s. s\<lparr>bd_RemoteEchoReceiveInterval := x\<rparr>)),
      (''remote-detect-multiplier'',
      field decodeInt bd_RemoteDetectMultiplier (\<lambda>x s. s\<lparr>bd_RemoteDetectMultiplier := x\<rparr>))]"

record BFDPeerCounters =
  bc_Peer :: string
  bc_ControlPacketInput :: int
  bc_ControlPacketOutput :: int
  bc_EchoPacketInput :: int
  bc_EchoPacketOutput :: int
  bc_SessionUpEvents :: int
  bc_SessionDownEvents :: int
  bc_ZebraNotifications :: int

definition zeroBFDPeerCounters :: BFDPeerCounters where
  "zeroBFDPeerCounters = \<lparr>bc_Peer = '''', bc_ControlPacketInput = 0, bc_ControlPacketOutput = 0,
      bc_EchoPacketInput = 0, bc_EchoPacketOutput = 0, bc_SessionUpEvents = 0, bc_SessionDownEvents = 0,
      bc_ZebraNotifications = 0\<rparr>"

definition decodeBFDPeerCounters :: "BFDPeerCounters decoder" where
  "decodeBFDPeerCounters = decodeStruct
     [(''peer'', field decodeString bc_Peer (\<lambda>x s. s\<lparr>bc_Peer := x\<rparr>)),
      (''control-packet-input'',
      field decodeInt bc_ControlPacketInput (\<lambda>x s. s\<lparr>bc_ControlPacketInput := x\<rparr>)),
      (''control-packet-output'',
      field decodeInt bc_ControlPacketOutput (\<lambda>x s. s\<lparr>bc_ControlPacketOutput := x\<rparr>)),
      (''echo-packet-input'',
      field decodeInt bc_EchoPacketInput (\<lambda>x s. s\<lparr>bc_EchoPacketInput := x\<rparr>)),
      (''echo-packet-output'',
      field decodeInt bc_EchoPacketOutput (\<lambda>x s. s\<lparr>bc_EchoPacketOutput := x\<rparr>)),
      (''session-up'', field decodeInt bc_SessionUpEvents (\<lambda>x s. s\<lparr>bc_SessionUpEvents := x\<rparr>)),
      (''session-down'',
      field decodeInt bc_SessionDownEvents (\<lambda>x s. s\<lparr>bc_SessionDownEvents := x\<rparr>)),
      (''zebra-notifications'',
      field decodeInt bc_ZebraNotifications (\<lambda>x s. s\<lparr>bc_ZebraNotifications := x\<rparr>))]"


section \<open>Neighbors\<close>

record frrPeer =
  np_ID :: string
  np_VRF :: string
  np_BGPState :: string
  np_Connected :: bool
  np_LocalAS :: string
  np_RemoteAS :: string
  np_PrefixSent :: int
  np_PrefixReceived :: int
  np_Port :: int
  np_RemoteRouterID :: string
  np_MsgStats :: MessageStats
  np_BFDStatus :: string

definition MetricName :: "frrPeer \<Rightarrow> string" where
  "MetricName n = np_ID n"

definition bgpConnected :: string where "bgpConnected = ''Established''"

text \<open>Sums of \<^verbatim>\<open>int\<close> values wrap around at 64 bits.\<close>

definition wrap64 :: "int \<Rightarrow> int" where
  "wrap64 x = (x + 2 ^ 63) mod 2 ^ 64 - 2 ^ 63"

definition sumPrefixes :: "(afInfo \<Rightarrow> int) \<Rightarrow> (string, afInfo) gomap \<Rightarrow> int" where
  "sumPrefixes counter m = foldl (\<lambda>acc (_, s). wrap64 (acc + counter s)) 0 m"

text \<open>The body of both loops over the decoded neighbors.\<close>

definition peerFrom :: "string \<Rightarrow> FRRNeighbor \<Rightarrow> frrPeer" where
  "peerFrom k n =
     \<lparr>np_ID = k, np_VRF = '''', np_BGPState = fn_BgpState n, np_Connected = (fn_BgpState n = bgpConnected),
      np_LocalAS = itoaInt (fn_LocalAs n), np_RemoteAS = itoaInt (fn_RemoteAs n),
      np_PrefixSent = sumPrefixes af_SentPrefixCounter (fn_AddressFamilyInfo n),
      np_PrefixReceived = sumPrefixes af_AcceptedPrefixCounter (fn_AddressFamilyInfo n),
      np_Port = fn_PortForeign n, np_RemoteRouterID = fn_RemoteRouterID n, np_MsgStats = fn_MsgStats n,
      np_BFDStatus = pb_Status (fn_BFDInfo n)\<rparr>"

definition unmarshalNeighbors :: "string \<Rightarrow> (error, (string, FRRNeighbor) gomap) result" where
  "unmarshalNeighbors vtyshRes =
     mapErr (\<lambda>e. errorsJoin e (Errorf ''failed to parse vtysh response'' []))
       (Unmarshal (decodeMap zeroFRRNeighbor decodeFRRNeighbor) vtyshRes [])"

definition ParseNeighbour :: "string \<Rightarrow> (error, frrPeer) result" where
  "ParseNeighbour vtyshRes =
     bindE (unmarshalNeighbors vtyshRes) (\<lambda>res.
     if length res > 1 then Inl (Errorf ''more than one peer were returned'' [])
     else case res of
       [] \<Rightarrow> Inl (Errorf ''no peers were returned'' [])
     | (k, n) # _ \<Rightarrow> Inr (peerFrom k n))"

definition ParseNeighbours :: "string \<Rightarrow> (error, frrPeer list) result" where
  "ParseNeighbours vtyshRes =
     bindE (unmarshalNeighbors vtyshRes) (\<lambda>toParse. Inr (map (\<lambda>(k, n). peerFrom k n) toParse))"

section \<open>Routes\<close>

record Route =
  ro_Destination :: IPNet
  ro_NextHops :: "IP list"
  ro_LocalPref :: uint32
  ro_Origin :: string

text \<open>\<^verbatim>\<open>net.IP.Equal\<close>: an IPv4 address equals its form in IPv6.\<close>

definition IPEqual :: "IP \<Rightarrow> IP \<Rightarrow> bool" where
  "IPEqual a b =
     (if length a = length b then a = b
      else if length a = 4 \<and> length b = 16 then take 12 b = v4InV6Prefix \<and> a = drop 12 b
      else if length a = 16 \<and> length b = 4 then take 12 a = v4InV6Prefix \<and> drop 12 a = b
      else False)"

definition addNextHop :: "IP list \<Rightarrow> frrNexthop \<Rightarrow> (error, IP list) result" where
  "addNextHop hops h =
     (case ParseIP (nx_IP h) of
        None \<Rightarrow> Inl (Errorf ''failed to parse ip %s'' [AStr (nx_IP h)])
      | Some ip \<Rightarrow>
          if To4 ip = None \<and> nx_Scope h = ''link-local'' then Inr hops
          else if list_ex (IPEqual ip) hops then Inr hops
          else Inr (hops @ [ip]))"

definition addPath :: "Route \<Rightarrow> FRRRoute \<Rightarrow> (error, Route) result" where
  "addPath r n =
     bindE (foldE addNextHop (ro_NextHops r) (fr_Nexthops n)) (\<lambda>hops.
     Inr (r\<lparr>ro_LocalPref := fr_LocalPref n, ro_Origin := fr_Origin n, ro_NextHops := hops\<rparr>))"

definition addRoute :: "(string, Route) gomap \<Rightarrow> string \<times> FRRRoute list \<Rightarrow> (error, (string, Route) gomap) result" where
  "addRoute res = (\<lambda>(k, frrRoutes).
     case ParseCIDR k of
       None \<Rightarrow> Inl (errorsJoin (Errorf ''invalid CIDR address: %s'' [AStr k]) (Errorf ''failed to parse cidr for %s'' [AStr k]))
     | Some (destIP, dest) \<Rightarrow>
         bindE (foldE addPath \<lparr>ro_Destination = dest, ro_NextHops = [], ro_LocalPref = 0, ro_Origin = ''''\<rparr> frrRoutes) (\<lambda>r.
         Inr (mapSet res (IPString destIP) r)))"

definition ParseRoutes :: "string \<Rightarrow> (error, (string, Route) gomap) result" where
  "ParseRoutes vtyshRes =
     bindE (mapErr (\<lambda>e. errorsJoin e (Errorf ''failed to parse vtysh response'' []))
              (Unmarshal decodeIPInfo vtyshRes zeroIPInfo)) (\<lambda>toParse.
     foldE addRoute [] (ii_Routes toParse))"

section \<open>BFD peers and VRFs\<close>

definition ParseBFDPeers :: "string \<Rightarrow> (error, BFDPeer list) result" where
  "ParseBFDPeers vtyshRes =
     mapErr (\<lambda>e. errorsJoin e (Errorf ''failed to parse vtysh response'' []))
       (Unmarshal (decodeSlice zeroBFDPeer decodeBFDPeer) vtyshRes [])"

definition ParseVRFs :: "string \<Rightarrow> (error, string list) result" where
  "ParseVRFs vtyshRes =
     bindE (mapErr (\<lambda>e. errorsJoin e (Errorf ''parseVRFs: failed to parse vtysh response'' []))
              (Unmarshal (decodeMap () decodeInterface) vtyshRes [])) (\<lambda>vrfs.
     Inr (sort (mapKeys vrfs)))"

section \<open>Neighbors are parsed alike, one or all\<close>

lemma wrap64_range: "- (2 ^ 63) \<le> wrap64 x \<and> wrap64 x < 2 ^ 63"
proof -
  have "0 \<le> (x + 2 ^ 63) mod 2 ^ 64 \<and> (x + 2 ^ 63) mod (2 ^ 64) < 2 ^ 64" by simp
  then show ?thesis by (simp add: wrap64_def)
qed

lemma wrap64_add: "wrap64 (wrap64 a + b) = wrap64 (a + b)"
proof -
  have "((a + 2 ^ 63) mod 2 ^ 64 - 2 ^ 63 + b + 2 ^ 63) mod 2 ^ 64 = ((a + 2 ^ 63) mod 2 ^ 64 + b) mod (2 ^ 64 :: int)"
    by (simp add: algebra_simps)
  also have "\<dots> = (a + 2 ^ 63 + b) mod 2 ^ 64" by (simp only: mod_add_left_eq)
  finally show ?thesis by (simp add: wrap64_def algebra_simps)
qed

text \<open>The order of the loop over the address families does not matter.\<close>

lemma sumPrefixes_sum: "sumPrefixes counter m = wrap64 (\<Sum>(_, s)\<leftarrow>m. counter s)"
proof -
  have "foldl (\<lambda>acc (_, s). wrap64 (acc + counter s)) (wrap64 a) m = wrap64 (a + (\<Sum>(_, s)\<leftarrow>m. counter s))" for a
    by (induction m arbitrary: a) (auto simp: wrap64_add add.assoc)
  from this [of 0] show ?thesis by (simp add: sumPrefixes_def wrap64_def)
qed

lemma unmarshalNeighbors_distinct: "unmarshalNeighbors s = Inr m \<Longrightarrow> distinct (map fst m)"
  using Unmarshal_map_distinct [of zeroFRRNeighbor decodeFRRNeighbor s m]
  by (simp add: unmarshalNeighbors_def mapErr_Inr_iff mapKeys_def)

lemma ParseNeighbours_IDs:
  assumes "ParseNeighbours s = Inr ns"
  shows "distinct (map np_ID ns)"
proof -
  obtain m where m: "unmarshalNeighbors s = Inr m" "ns = map (\<lambda>(k, n). peerFrom k n) m"
    using assms by (auto simp: ParseNeighbours_def bindE_Inr_iff)
  have "map np_ID ns = map fst m" unfolding m(2) by (auto simp: peerFrom_def)
  then show ?thesis using unmarshalNeighbors_distinct [OF m(1)] by simp
qed


definition sampleNeighborJSON :: string where
  "sampleNeighborJSON = ''{ \"172.18.0.4\": {\"remoteAs\":64512, \"bgpState\":\"Established\", \"portForeign\":179,
    \"addressFamilyInfo\":{\"ipv4Unicast\":{\"sentPrefixCounter\":2}, \"ipv6Unicast\":{\"sentPrefixCounter\":3}}}}''"


section \<open>Next hops\<close>

definition hopsOk :: "IP list \<Rightarrow> bool" where
  "hopsOk hops \<longleftrightarrow> distinct hops \<and> (\<forall>h\<in>set hops. length h = 16)"

lemma addNextHop_ok: "addNextHop hops h = Inr hops' \<Longrightarrow> hopsOk hops \<Longrightarrow> hopsOk hops'"
  by (auto simp: addNextHop_def hopsOk_def IPEqual_def list_ex_iff dest: ParseIP_length split: option.splits if_splits)

lemma addPath_ok:
  assumes "addPath r n = Inr r'" "hopsOk (ro_NextHops r)"
  shows "hopsOk (ro_NextHops r') \<and> ro_Destination r' = ro_Destination r"
proof -
  obtain hops where hops: "foldE addNextHop (ro_NextHops r) (fr_Nexthops n) = Inr hops"
      "r' = r\<lparr>ro_LocalPref := fr_LocalPref n, ro_Origin := fr_Origin n, ro_NextHops := hops\<rparr>"
    using assms(1) by (auto simp: addPath_def bindE_Inr_iff)
  have "hopsOk hops" using hops(1) by (rule foldE_invariant) (use assms(2) in \<open>auto intro: addNextHop_ok\<close>)
  then show ?thesis by (simp add: hops(2))
qed

text \<open>
  C36: The routes that are parsed are listed under the address of their destination, and the next hops of each are
  different addresses in their 16-byte form.
\<close>

theorem parsed_routes:
  assumes "ParseRoutes s = Inr routes" "mapGet routes k = Some r"
  shows "distinct (ro_NextHops r) \<and> (\<forall>h\<in>set (ro_NextHops r). length h = 16) \<and>
    (\<exists>cidr ip. ParseCIDR cidr = Some (ip, ro_Destination r) \<and> k = IPString ip)"
proof -
  let ?ok = "\<lambda>k r. hopsOk (ro_NextHops r) \<and> (\<exists>cidr ip. ParseCIDR cidr = Some (ip, ro_Destination r) \<and> k = IPString ip)"
  obtain toParse :: IPInfo where "foldE addRoute [] (ii_Routes toParse) = Inr routes"
    using assms(1) by (auto simp: ParseRoutes_def bindE_Inr_iff)
  then have "\<forall>k r. mapGet routes k = Some r \<longrightarrow> ?ok k r"
  proof (rule foldE_invariant)
    fix m x m'
    assume m: "\<forall>k r. mapGet m k = Some r \<longrightarrow> ?ok k r" and step: "addRoute m x = Inr m'"
    obtain cidr paths where x: "x = (cidr, paths)" by (cases x)
    from step obtain ip dest r where r: "ParseCIDR cidr = Some (ip, dest)" "m' = mapSet m (IPString ip) r"
        "foldE addPath \<lparr>ro_Destination = dest, ro_NextHops = [], ro_LocalPref = 0, ro_Origin = ''''\<rparr> paths = Inr r"
      by (auto simp: x addRoute_def bindE_Inr_iff split: option.splits)
    have "hopsOk (ro_NextHops r) \<and> ro_Destination r = dest"
      using r(3) by (rule foldE_invariant) (auto simp: hopsOk_def dest: addPath_ok)
    then show "\<forall>k r. mapGet m' k = Some r \<longrightarrow> ?ok k r" using m r(1) by (auto simp: r(2))
  qed simp
  then show ?thesis using assms(2) unfolding hopsOk_def by blast
qed

definition sampleRoutesJSON :: string where
  "sampleRoutesJSON = ''{\"routes\": {\"192.168.10.0/24\": [{\"locPrf\":100, \"nexthops\":[{\"ip\":\"172.18.0.2\"}]},
     {\"locPrf\":200, \"nexthops\":[{\"ip\":\"172.18.0.2\"}, {\"ip\":\"172.18.0.3\"}]}]}}''"

theorem parsed_routes_witness:
  "\<exists>routes r. ParseRoutes sampleRoutesJSON = Inr routes \<and> mapGet routes ''192.168.10.0'' = Some r \<and>
     length (ro_NextHops r) = 2 \<and> distinct (ro_NextHops r)"
proof -
  have "case ParseRoutes sampleRoutesJSON of
      Inr m \<Rightarrow> (case mapGet m ''192.168.10.0'' of Some r \<Rightarrow> length (ro_NextHops r) = 2 | None \<Rightarrow> False)
    | _ \<Rightarrow> False" by code_simp
  then obtain m r where "ParseRoutes sampleRoutesJSON = Inr m" "mapGet m ''192.168.10.0'' = Some r" "length (ro_NextHops r) = 2"
    by (auto split: sum.splits option.splits)
  then show ?thesis using parsed_routes [of sampleRoutesJSON m "''192.168.10.0''" r] by blast
qed

text \<open>
  Because the key of a route is the address of its destination without the length of the prefix, a route is lost
  when another one has the same address.
\<close>

lemma routes_with_one_address_collide:
  "case ParseRoutes ''{\"routes\": {\"10.0.0.0/8\": [{\"locPrf\":1}], \"10.0.0.0/16\": [{\"locPrf\":2}]}}'' of
     Inr m \<Rightarrow> length m = 1 | Inl _ \<Rightarrow> False"
  by code_simp

end
