(* ===== verification/Metrics.thy ===== *)
theory Metrics
  imports Frr_Parse
begin

text \<open>
  The metrics process: the commands it runs in vtysh (\<^verbatim>\<open>cmd/metrics/vtysh\<close>), its liveness handler
  (\<^verbatim>\<open>cmd/metrics/liveness\<close>) and the collectors for BGP and BFD (\<^verbatim>\<open>cmd/metrics/collector\<close>). Running vtysh is the
  parameter \<open>frrCli\<close>. A sample carries its value as the integer before its conversion to a float.
\<close>

section \<open>Commands\<close>

type_synonym Cli = "string \<Rightarrow> (error, string) result"

definition VRFs :: "Cli \<Rightarrow> (error, string list) result" where
  "VRFs frrCli = bindE (frrCli ''show bgp vrf all json'') ParseVRFs"

definition perVRF :: "Cli \<Rightarrow> (string \<Rightarrow> string) \<Rightarrow> (string \<Rightarrow> (error, 'a) result) \<Rightarrow> (error, (string, 'a) gomap) result" where
  "perVRF frrCli command parse =
     bindE (VRFs frrCli) (\<lambda>vrfs.
     foldE (\<lambda>res vrf. bindE (frrCli (command vrf)) (\<lambda>text. bindE (parse text) (\<lambda>x. Inr (mapSet res vrf x)))) [] vrfs)"

definition GetBGPNeighbors :: "Cli \<Rightarrow> (error, (string, frrPeer list) gomap) result" where
  "GetBGPNeighbors frrCli = perVRF frrCli (\<lambda>vrf. ''show bgp vrf '' @ vrf @ '' neighbors json'') ParseNeighbours"

definition GetBFDPeers :: "Cli \<Rightarrow> (error, (string, BFDPeer list) gomap) result" where
  "GetBFDPeers frrCli = perVRF frrCli (\<lambda>vrf. ''show bfd vrf '' @ vrf @ '' peers json'') ParseBFDPeers"

definition GetBFDPeersCounters :: "Cli \<Rightarrow> (error, (string, BFDPeerCounters list) gomap) result" where
  "GetBFDPeersCounters frrCli =
     perVRF frrCli (\<lambda>vrf. ''show bfd vrf '' @ vrf @ '' peers counters json'')
       (\<lambda>countersJSON. Unmarshal (decodeSlice zeroBFDPeerCounters decodeBFDPeerCounters) countersJSON [])"

section \<open>Liveness\<close>

definition expectedDaemons :: "string list" where
  "expectedDaemons = [''bfdd'', ''bgpd'', ''staticd'', ''watchfrr'', ''zebra'']"

text \<open>The status code of the answer.\<close>

definition livenessHandler :: "Cli \<Rightarrow> nat" where
  "livenessHandler frrCli =
     (case frrCli ''show daemons'' of
        Inl _ \<Rightarrow> 500
      | Inr res \<Rightarrow>
          (let runningDaemons = splitOn (CHR '' '') (trimSuffix res [CHR 0x0A]);
               expected = filter (\<lambda>d. d \<notin> set runningDaemons) expectedDaemons
           in if expected \<noteq> [] then 404 else 200))"

section \<open>Collectors\<close>

record collectorMetric =
  mt_Name :: string
  mt_Help :: string

definition collectorNamespace :: string where "collectorNamespace = ''frrk8s''"

definition collectorSubsystem :: string where "collectorSubsystem = ''bgp''"

definition bfdSubsystem :: string where "bfdSubsystem = ''bfd''"

definition SessionUp :: collectorMetric where
  "SessionUp = \<lparr>mt_Name = ''session_up'', mt_Help = ''BGP session state (1 is up, 0 is down)''\<rparr>"

definition UpdatesSent :: collectorMetric where
  "UpdatesSent = \<lparr>mt_Name = ''updates_total'', mt_Help = ''Number of BGP UPDATE messages sent''\<rparr>"

definition Prefixes :: collectorMetric where
  "Prefixes = \<lparr>mt_Name = ''announced_prefixes_total'',
     mt_Help = ''Number of prefixes currently being advertised on the BGP session''\<rparr>"

definition ReceivedPrefixes :: collectorMetric where
  "ReceivedPrefixes = \<lparr>mt_Name = ''received_prefixes_total'',
     mt_Help = ''Number of prefixes currently being received on the BGP session''\<rparr>"

text \<open>
  A description is the qualified name, which \<^verbatim>\<open>prometheus.BuildFQName\<close> joins with underscores, and the help text;
  every description here has the labels peer and vrf.
\<close>

record promDesc =
  ds_fqName :: string
  ds_help :: string

definition bgpDesc :: "string \<Rightarrow> string \<Rightarrow> promDesc" where
  "bgpDesc name help = \<lparr>ds_fqName = joinWith ''_'' [collectorNamespace, collectorSubsystem, name], ds_help = help\<rparr>"

definition bfdDesc :: "string \<Rightarrow> string \<Rightarrow> promDesc" where
  "bfdDesc name help = \<lparr>ds_fqName = joinWith ''_'' [collectorNamespace, bfdSubsystem, name], ds_help = help\<rparr>"

definition sessionUpDesc :: promDesc where "sessionUpDesc = bgpDesc (mt_Name SessionUp) (mt_Help SessionUp)"

definition prefixesDesc :: promDesc where "prefixesDesc = bgpDesc (mt_Name Prefixes) (mt_Help Prefixes)"

definition receivedPrefixesDesc :: promDesc where
  "receivedPrefixesDesc = bgpDesc (mt_Name ReceivedPrefixes) (mt_Help ReceivedPrefixes)"

definition opensSentDesc :: promDesc where
  "opensSentDesc = bgpDesc ''opens_sent'' ''Number of BGP open messages sent''"

definition opensReceivedDesc :: promDesc where
  "opensReceivedDesc = bgpDesc ''opens_received'' ''Number of BGP open messages received''"

definition notificationsSentDesc :: promDesc where
  "notificationsSentDesc = bgpDesc ''notifications_sent'' ''Number of BGP notification messages sent''"

definition updatesSentDesc :: promDesc where "updatesSentDesc = bgpDesc (mt_Name UpdatesSent) (mt_Help UpdatesSent)"

definition updatesReceivedDesc :: promDesc where
  "updatesReceivedDesc = bgpDesc ''updates_total_received'' ''Number of BGP UPDATE messages received''"

definition keepalivesSentDesc :: promDesc where
  "keepalivesSentDesc = bgpDesc ''keepalives_sent'' ''Number of BGP keepalive messages sent''"

definition keepalivesReceivedDesc :: promDesc where
  "keepalivesReceivedDesc = bgpDesc ''keepalives_received'' ''Number of BGP keepalive messages received''"

definition routeRefreshSentedDesc :: promDesc where
  "routeRefreshSentedDesc = bgpDesc ''route_refresh_sent'' ''Number of BGP route refresh messages sent''"

definition totalSentDesc :: promDesc where
  "totalSentDesc = bgpDesc ''total_sent'' ''Number of total BGP messages sent''"

definition totalReceivedDesc :: promDesc where
  "totalReceivedDesc = bgpDesc ''total_received'' ''Number of total BGP messages received''"

definition bfdSessionUpDesc :: promDesc where
  "bfdSessionUpDesc = bfdDesc (mt_Name SessionUp) ''BFD session state (1 is up, 0 is down)''"

definition controlPacketInputDesc :: promDesc where
  "controlPacketInputDesc = bfdDesc ''control_packet_input'' ''Number of received BFD control packets''"

definition controlPacketOutputDesc :: promDesc where
  "controlPacketOutputDesc = bfdDesc ''control_packet_output'' ''Number of sent BFD control packets''"

definition echoPacketInputDesc :: promDesc where
  "echoPacketInputDesc = bfdDesc ''echo_packet_input'' ''Number of received BFD echo packets''"

definition echoPacketOutputDesc :: promDesc where
  "echoPacketOutputDesc = bfdDesc ''echo_packet_output'' ''Number of sent BFD echo packets''"

definition sessionUpEventsDesc :: promDesc where
  "sessionUpEventsDesc = bfdDesc ''session_up_events'' ''Number of BFD session up events''"

definition sessionDownEventsDesc :: promDesc where
  "sessionDownEventsDesc = bfdDesc ''session_down_events'' ''Number of BFD session down events''"

definition zebraNotificationsDesc :: promDesc where
  "zebraNotificationsDesc = bfdDesc ''zebra_notifications'' ''Number of BFD zebra notifications''"

definition describeBGP :: "promDesc list" where
  "describeBGP = [sessionUpDesc, prefixesDesc, receivedPrefixesDesc, opensSentDesc, opensReceivedDesc, notificationsSentDesc,
     updatesSentDesc, updatesReceivedDesc, keepalivesSentDesc, keepalivesReceivedDesc, routeRefreshSentedDesc, totalSentDesc,
     totalReceivedDesc]"

definition describeBFD :: "promDesc list" where
  "describeBFD = [bfdSessionUpDesc, controlPacketInputDesc, controlPacketOutputDesc, echoPacketInputDesc, echoPacketOutputDesc,
     sessionUpEventsDesc, sessionDownEventsDesc, zebraNotificationsDesc]"

datatype valueType = GaugeValue | CounterValue

record promMetric =
  pm_desc :: promDesc
  pm_type :: valueType
  pm_value :: int
  pm_peer :: string
  pm_vrf :: string

definition gauge :: "promDesc \<Rightarrow> int \<Rightarrow> string \<Rightarrow> string \<Rightarrow> promMetric" where
  "gauge desc v peer vrf = \<lparr>pm_desc = desc, pm_type = GaugeValue, pm_value = v, pm_peer = peer, pm_vrf = vrf\<rparr>"

definition counterMetric :: "promDesc \<Rightarrow> int \<Rightarrow> string \<Rightarrow> string \<Rightarrow> promMetric" where
  "counterMetric desc v peer vrf = \<lparr>pm_desc = desc, pm_type = CounterValue, pm_value = v, pm_peer = peer, pm_vrf = vrf\<rparr>"

definition neighborMetrics :: "string \<Rightarrow> frrPeer \<Rightarrow> promMetric list" where
  "neighborMetrics vrf n =
     (let peerLabel = MetricName n; ms = np_MsgStats n in
      [gauge sessionUpDesc (if np_Connected n then 1 else 0) peerLabel vrf,
       gauge prefixesDesc (np_PrefixSent n) peerLabel vrf,
       gauge receivedPrefixesDesc (np_PrefixReceived n) peerLabel vrf,
       counterMetric opensSentDesc (ms_OpensSent ms) peerLabel vrf,
       counterMetric opensReceivedDesc (ms_OpensReceived ms) peerLabel vrf,
       counterMetric notificationsSentDesc (ms_NotificationsSent ms) peerLabel vrf,
       counterMetric updatesSentDesc (ms_UpdatesSent ms) peerLabel vrf,
       counterMetric updatesReceivedDesc (ms_UpdatesReceived ms) peerLabel vrf,
       counterMetric keepalivesSentDesc (ms_KeepalivesSent ms) peerLabel vrf,
       counterMetric keepalivesReceivedDesc (ms_KeepalivesReceived ms) peerLabel vrf,
       counterMetric routeRefreshSentedDesc (ms_RouteRefreshSent ms) peerLabel vrf,
       counterMetric totalSentDesc (ms_TotalSent ms) peerLabel vrf,
       counterMetric totalReceivedDesc (ms_TotalReceived ms) peerLabel vrf])"

definition updateNeighborsMetrics :: "(string, frrPeer list) gomap \<Rightarrow> promMetric list" where
  "updateNeighborsMetrics neighbors = concat (map (\<lambda>(vrf, nn). concat (map (neighborMetrics vrf) nn)) neighbors)"

definition collectBGP :: "Cli \<Rightarrow> promMetric list" where
  "collectBGP frrCli = (case GetBGPNeighbors frrCli of Inl _ \<Rightarrow> [] | Inr neighbors \<Rightarrow> updateNeighborsMetrics neighbors)"

definition updatePeersMetrics :: "(string, BFDPeer list) gomap \<Rightarrow> promMetric list" where
  "updatePeersMetrics peersPerVRF =
     concat (map (\<lambda>(vrf, peers).
       map (\<lambda>p. gauge bfdSessionUpDesc (if bd_Status p \<noteq> ''up'' then 0 else 1) (bd_Peer p) vrf) peers) peersPerVRF)"

definition counterMetrics :: "string \<Rightarrow> BFDPeerCounters \<Rightarrow> promMetric list" where
  "counterMetrics vrf p =
     [counterMetric controlPacketInputDesc (bc_ControlPacketInput p) (bc_Peer p) vrf,
      counterMetric controlPacketOutputDesc (bc_ControlPacketOutput p) (bc_Peer p) vrf,
      counterMetric echoPacketInputDesc (bc_EchoPacketInput p) (bc_Peer p) vrf,
      counterMetric echoPacketOutputDesc (bc_EchoPacketOutput p) (bc_Peer p) vrf,
      counterMetric sessionUpEventsDesc (bc_SessionUpEvents p) (bc_Peer p) vrf,
      counterMetric sessionDownEventsDesc (bc_SessionDownEvents p) (bc_Peer p) vrf,
      counterMetric zebraNotificationsDesc (bc_ZebraNotifications p) (bc_Peer p) vrf]"

definition updatePeersCountersMetrics :: "(string, BFDPeerCounters list) gomap \<Rightarrow> promMetric list" where
  "updatePeersCountersMetrics peersCountersPerVRF =
     concat (map (\<lambda>(vrf, peersCounters). concat (map (counterMetrics vrf) peersCounters)) peersCountersPerVRF)"

definition collectBFD :: "Cli \<Rightarrow> promMetric list" where
  "collectBFD frrCli =
     (case GetBFDPeers frrCli of
        Inl _ \<Rightarrow> []
      | Inr peers \<Rightarrow>
          updatePeersMetrics peers @
          (case GetBFDPeersCounters frrCli of Inl _ \<Rightarrow> [] | Inr peersCounters \<Rightarrow> updatePeersCountersMetrics peersCounters))"

section \<open>Samples do not collide\<close>

lemma perVRF_Inr:
  assumes "perVRF frrCli command parse = Inr m"
  shows "distinct (map fst m) \<and> (\<forall>(vrf, x)\<in>set m. \<exists>text. frrCli (command vrf) = Inr text \<and> parse text = Inr x)"
proof -
  obtain vrfs where "foldE (\<lambda>res vrf. bindE (frrCli (command vrf)) (\<lambda>text. bindE (parse text) (\<lambda>x. Inr (mapSet res vrf x)))) [] vrfs = Inr m"
    using assms by (auto simp: perVRF_def bindE_Inr_iff)
  then have "distinct (mapKeys m) \<and> (\<forall>vrf x. mapGet m vrf = Some x \<longrightarrow> (\<exists>text. frrCli (command vrf) = Inr text \<and> parse text = Inr x))"
    by (rule foldE_invariant) (auto simp: bindE_Inr_iff split: if_splits)
  then show ?thesis by (auto simp: mapKeys_def mapGet_map_of)
qed

definition sampleID :: "promMetric \<Rightarrow> string \<times> string \<times> string" where
  "sampleID m = (pm_vrf m, pm_peer m, ds_fqName (pm_desc m))"

lemma neighborMetrics_IDs: "map sampleID (neighborMetrics vrf n) = map (\<lambda>d. (vrf, np_ID n, ds_fqName d)) describeBGP"
  by (simp add: neighborMetrics_def describeBGP_def sampleID_def gauge_def counterMetric_def MetricName_def Let_def)

lemma distinct_describeBGP: "distinct (map ds_fqName describeBGP)"
  by code_simp

lemma neighborMetrics_distinct: "distinct (map (\<lambda>d. (vrf, np_ID n, ds_fqName d)) describeBGP)"
  using distinct_describeBGP by (auto simp: distinct_map inj_on_def)

text \<open>
  C37: The BGP collector never sends two samples of one metric with the same labels, which the registry would refuse,
  and both collectors send only samples of metrics they describe, for the VRFs that vtysh lists.
\<close>

theorem collected_samples:
  "distinct (map sampleID (collectBGP frrCli)) \<and> pm_desc ` set (collectBGP frrCli) \<subseteq> set describeBGP \<and>
   pm_desc ` set (collectBFD frrCli) \<subseteq> set describeBFD"
proof (intro conjI)
  show "distinct (map sampleID (collectBGP frrCli))"
  proof (cases "GetBGPNeighbors frrCli")
    case (Inr m)
    note m = perVRF_Inr [OF Inr [unfolded GetBGPNeighbors_def]]
    have peers: "distinct (map np_ID nn)" if "(vrf, nn) \<in> set m" for vrf nn
      using that m by (auto intro: ParseNeighbours_IDs)
    have "distinct (concat (map (\<lambda>n. map sampleID (neighborMetrics vrf n)) nn))" if "(vrf, nn) \<in> set m" for vrf nn
      by (rule distinct_concat_keyed [where k = np_ID and g = "\<lambda>(_, p, _). p"])
        (use peers [OF that] neighborMetrics_distinct in \<open>auto simp: neighborMetrics_IDs\<close>)
    then have "distinct (concat (map (\<lambda>x. concat (map (\<lambda>n. map sampleID (neighborMetrics (fst x) n)) (snd x))) m))"
      using m by (intro distinct_concat_keyed [where k = fst and g = fst]) (auto simp: neighborMetrics_IDs)
    then show ?thesis
      by (simp add: collectBGP_def Inr updateNeighborsMetrics_def map_concat comp_def case_prod_unfold)
  qed (simp add: collectBGP_def)
  have "pm_desc ` set (neighborMetrics vrf n) = set describeBGP" for vrf n
    by (simp add: neighborMetrics_def describeBGP_def gauge_def counterMetric_def Let_def)
  then show "pm_desc ` set (collectBGP frrCli) \<subseteq> set describeBGP"
    by (fastforce simp: collectBGP_def updateNeighborsMetrics_def split: sum.splits)
  have "pm_desc ` set (counterMetrics vrf p) \<subseteq> set describeBFD" for vrf p
    by (simp add: counterMetrics_def describeBFD_def counterMetric_def)
  then show "pm_desc ` set (collectBFD frrCli) \<subseteq> set describeBFD"
    by (fastforce simp: collectBFD_def updatePeersMetrics_def updatePeersCountersMetrics_def gauge_def describeBFD_def
        split: sum.splits)
qed

text \<open>
  The BFD collector labels a session with its peer and VRF only, so two sessions with one link-local peer on
  different interfaces give two samples with the same labels.
\<close>

definition twoInterfaces :: Cli where
  "twoInterfaces cmd =
     (if cmd = ''show bgp vrf all json'' then Inr ''{\"default\":{}}''
      else if cmd = ''show bfd vrf default peers json'' then
        Inr ''[{\"peer\":\"fe80::1\",\"interface\":\"eth0\"},{\"peer\":\"fe80::1\",\"interface\":\"eth1\"}]''
      else Inr ''[]'')"

lemma bfd_samples_collide: "\<not> distinct (map sampleID (collectBFD twoInterfaces))"
  by code_simp

end
