(* ===== verification/Session_State.thy ===== *)
theory Session_State
  imports Frr_Parse Reconcile
begin

text \<open>
  The controller that publishes one BGPSessionState for each BGP session of the node
  (\<^verbatim>\<open>cmd/status/controller/bgpsessionstate_controller.go\<close>). The answers of the API server, the outcomes of the calls
  and the sessions that vtysh reports are arguments; the calls are part of the result. Deep copies of values
  need no counterpart.
\<close>

section \<open>Resources\<close>

definition nodeLabel :: string where "nodeLabel = ''frrk8s.metallb.io/node''"

definition peerLabel :: string where "peerLabel = ''frrk8s.metallb.io/peer''"

definition vrfLabel :: string where "vrfLabel = ''frrk8s.metallb.io/vrf''"

definition noBFDConfigured :: string where "noBFDConfigured = ''N/A''"

record BGPSessionStateStatus =
  ss_BGPStatus :: string
  ss_BFDStatus :: string
  ss_Node :: string
  ss_Peer :: string
  ss_VRF :: string

record BGPSessionState =
  bs_Name :: string
  bs_GenerateName :: string
  bs_Namespace :: string
  bs_Labels :: labels
  bs_Status :: BGPSessionStateStatus

text \<open>A key that a map does not have reads as the empty string.\<close>

definition labelOr :: "labels \<Rightarrow> string \<Rightarrow> string" where
  "labelOr m k = (case mapGet m k of None \<Rightarrow> '''' | Some v \<Rightarrow> v)"

definition nodeFor :: "BGPSessionState \<Rightarrow> string" where "nodeFor s = labelOr (bs_Labels s) nodeLabel"

definition peerFor :: "BGPSessionState \<Rightarrow> string" where "peerFor s = labelOr (bs_Labels s) peerLabel"

definition vrfFor :: "BGPSessionState \<Rightarrow> string" where "vrfFor s = labelOr (bs_Labels s) vrfLabel"

definition labelFormatForNeighbor :: "string \<Rightarrow> string" where
  "labelFormatForNeighbor peer =
     (case ParseAddr peer of
        None \<Rightarrow> peer
      | Some (Addr4 b) \<Rightarrow> peer
      | Some (Addr6 b z) \<Rightarrow> replaceChar (CHR '':'') (CHR ''-'') (StringExpanded (Addr6 b z)))"

section \<open>States by VRF and peer\<close>

type_synonym peersStatus = "(string, BGPSessionState) gomap"

definition psAdd :: "peersStatus \<Rightarrow> BGPSessionState \<Rightarrow> peersStatus" where
  "psAdd ps s = mapSet ps (peerFor s) s"

definition hasPeerFor :: "peersStatus \<Rightarrow> BGPSessionState \<Rightarrow> bool" where
  "hasPeerFor ps s = (mapGet ps (peerFor s) \<noteq> None)"

definition statusFor :: "peersStatus \<Rightarrow> string \<Rightarrow> BGPSessionState option" where
  "statusFor ps peer = mapGet ps (labelFormatForNeighbor peer)"

definition psRemove :: "peersStatus \<Rightarrow> string \<Rightarrow> peersStatus" where
  "psRemove ps peer = mapDel ps (labelFormatForNeighbor peer)"

definition statusStep ::
  "(string, peersStatus) gomap \<times> BGPSessionState list \<Rightarrow> BGPSessionState \<Rightarrow> (string, peersStatus) gomap \<times> BGPSessionState list"
where
  "statusStep = (\<lambda>(existing, duplicates) s.
     let vrf = vrfFor s;
         ps = (case mapGet existing vrf of None \<Rightarrow> [] | Some ps \<Rightarrow> ps)
     in if \<not> hasPeerFor ps s then (mapSet existing vrf (psAdd ps s), duplicates)
        else (existing, duplicates @ [s]))"

definition peersStatusPerVRF :: "BGPSessionState list \<Rightarrow> (string, peersStatus) gomap \<times> BGPSessionState list" where
  "peersStatusPerVRF statuses = foldl statusStep ([], []) statuses"

text \<open>A missing default VRF gives a key with no sessions.\<close>

definition renameDefaultVRF :: "(string, 'a list) gomap \<Rightarrow> (string, 'a list) gomap" where
  "renameDefaultVRF m =
     mapDel (mapSet m '''' (case mapGet m ''default'' of None \<Rightarrow> [] | Some v \<Rightarrow> v)) ''default''"

section \<open>What should be there\<close>

record sessionParams =
  sp_NodeName :: string
  sp_Namespace :: string

definition desiredStateFor :: "sessionParams \<Rightarrow> frrPeer \<Rightarrow> string \<Rightarrow> BGPSessionState option \<Rightarrow> BGPSessionState" where
  "desiredStateFor P neigh vrf existing =
     (let bfdStatus = (if np_BFDStatus neigh = '''' then noBFDConfigured else np_BFDStatus neigh) in
      \<lparr>bs_Name = (case existing of None \<Rightarrow> '''' | Some e \<Rightarrow> bs_Name e),
       bs_GenerateName = (case existing of None \<Rightarrow> sp_NodeName P @ ''-'' | Some e \<Rightarrow> bs_GenerateName e),
       bs_Namespace = (case existing of None \<Rightarrow> sp_Namespace P | Some e \<Rightarrow> bs_Namespace e),
       bs_Labels = [(nodeLabel, sp_NodeName P), (peerLabel, labelFormatForNeighbor (np_ID neigh)), (vrfLabel, vrf)],
       bs_Status = \<lparr>ss_BGPStatus = np_BGPState neigh, ss_BFDStatus = bfdStatus, ss_Node = sp_NodeName P,
         ss_Peer = labelFormatForNeighbor (np_ID neigh), ss_VRF = vrf\<rparr>\<rparr>)"

text \<open>\<^verbatim>\<open>reflect.DeepEqual\<close> of label maps.\<close>

definition labelsEqual :: "labels \<Rightarrow> labels \<Rightarrow> bool" where
  "labelsEqual a b = list_all (\<lambda>k. mapGet a k = mapGet b k) (mapKeys a @ mapKeys b)"

definition neighborStateStep ::
  "sessionParams \<Rightarrow> string \<Rightarrow> (string, peersStatus) gomap \<times> BGPSessionState list \<Rightarrow> frrPeer \<Rightarrow>
   (string, peersStatus) gomap \<times> BGPSessionState list"
where
  "neighborStateStep P vrf = (\<lambda>(existingStates, toApply) neigh.
     let (existingStates, existingState) =
           (case mapGet existingStates vrf of
              None \<Rightarrow> (existingStates, None)
            | Some ps \<Rightarrow> (mapSet existingStates vrf (psRemove ps (np_ID neigh)), statusFor ps (np_ID neigh)));
         desiredState = desiredStateFor P neigh vrf existingState
     in case existingState of
          Some e \<Rightarrow>
            if labelsEqual (bs_Labels desiredState) (bs_Labels e) \<and> bs_Status desiredState = bs_Status e
            then (existingStates, toApply) else (existingStates, toApply @ [desiredState])
        | None \<Rightarrow> (existingStates, toApply @ [desiredState]))"

definition desiredStatesForExisting ::
  "sessionParams \<Rightarrow> (string, frrPeer list) gomap \<Rightarrow> (string, peersStatus) gomap \<Rightarrow> BGPSessionState list \<times> BGPSessionState list"
where
  "desiredStatesForExisting P vrfNeighbors states =
     (let (existingStates, toApply) =
        foldl (\<lambda>acc (vrf, neighs). foldl (neighborStateStep P vrf) acc neighs) (states, []) vrfNeighbors
      in (toApply, concat (map (\<lambda>(_, ps). map snd ps) existingStates)))"

section \<open>Reconciling\<close>

datatype sessionCall = DeleteSession BGPSessionState | CreateOrPatch BGPSessionState

text \<open>Whether the outcome of a deletion counts as a failure.\<close>

definition deleteError :: "(k8sError, unit) result \<Rightarrow> error option" where
  "deleteError r = (case r of Inl (K8sError e) \<Rightarrow> Some e | _ \<Rightarrow> None)"

text \<open>The duplicates are deleted one by one until a deletion fails.\<close>

fun deleteDuplicates ::
  "(BGPSessionState \<Rightarrow> (k8sError, unit) result) \<Rightarrow> BGPSessionState list \<Rightarrow> error option \<times> sessionCall list"
where
  "deleteDuplicates del [] = (None, [])"
| "deleteDuplicates del (s # ss) =
     (case deleteError (del s) of
        Some e \<Rightarrow> (Some e, [DeleteSession s])
      | None \<Rightarrow> (case deleteDuplicates del ss of (e, calls) \<Rightarrow> (e, DeleteSession s # calls)))"

record sessionInput =
  si_list :: "(error, BGPSessionState list) result"
  si_neighbors :: "(error, (string, frrPeer list) gomap) result"
  si_delete :: "BGPSessionState \<Rightarrow> (k8sError, unit) result"
  si_createOrPatch :: "BGPSessionState \<Rightarrow> (error, unit) result"
  si_request :: "string \<times> string"

text \<open>The errors that are returned, whether the request is queued again after the resync period, and the calls.\<close>

definition reconcileSessions :: "sessionParams \<Rightarrow> sessionInput \<Rightarrow> error list \<times> bool \<times> sessionCall list" where
  "reconcileSessions P inp =
     (case si_list inp of
        Inl e \<Rightarrow> ([e], False, [])
      | Inr items \<Rightarrow>
          (let (states, duplicates) = peersStatusPerVRF items in
           case deleteDuplicates (si_delete inp) duplicates of
             (Some e, calls) \<Rightarrow> ([e], False, calls)
           | (None, calls) \<Rightarrow>
               (case si_neighbors inp of
                  Inl e \<Rightarrow> ([e], False, calls)
                | Inr neighbors \<Rightarrow>
                    (let (toApply, toRemove) = desiredStatesForExisting P (renameDefaultVRF neighbors) states;
                         errs = List.map_filter (\<lambda>s. deleteError (si_delete inp s)) toRemove @
                           List.map_filter (\<lambda>s. case si_createOrPatch inp s of Inl e \<Rightarrow> Some e | Inr _ \<Rightarrow> None) toApply;
                         calls = calls @ map DeleteSession toRemove @ map CreateOrPatch toApply
                     in if errs \<noteq> [] then (errs, False, calls)
                        else ([], si_request inp = ('''', sp_NodeName P), calls)))))"

section \<open>Events\<close>

datatype sessionObject = SessionObject "labels option" | NodeStateObj string | OtherObj

fun filterBGPSessionStateEvent :: "string \<Rightarrow> sessionObject \<Rightarrow> bool" where
  "filterBGPSessionStateEvent nodeName (SessionObject lbls) =
     (case lbls of None \<Rightarrow> False | Some m \<Rightarrow> labelOr m nodeLabel = nodeName)"
| "filterBGPSessionStateEvent nodeName _ = True"

fun filterFRRNodeStateEvent :: "string \<Rightarrow> sessionObject \<Rightarrow> bool" where
  "filterFRRNodeStateEvent nodeName (NodeStateObj name) = (name = nodeName)"
| "filterFRRNodeStateEvent nodeName _ = True"

section \<open>What a reconciliation plans\<close>

definition peerKey :: "frrPeer \<Rightarrow> string" where
  "peerKey n = labelFormatForNeighbor (np_ID n)"

definition existingAt :: "(string, peersStatus) gomap \<Rightarrow> string \<Rightarrow> string \<Rightarrow> BGPSessionState option" where
  "existingAt states vrf peer = (case mapGet states vrf of None \<Rightarrow> None | Some ps \<Rightarrow> mapGet ps peer)"

definition inSync :: "sessionParams \<Rightarrow> string \<Rightarrow> frrPeer \<Rightarrow> BGPSessionState \<Rightarrow> bool" where
  "inSync P vrf n e =
     (let d = desiredStateFor P n vrf (Some e) in labelsEqual (bs_Labels d) (bs_Labels e) \<and> bs_Status d = bs_Status e)"

definition plan :: "sessionParams \<Rightarrow> (string, peersStatus) gomap \<Rightarrow> string \<Rightarrow> frrPeer \<Rightarrow> BGPSessionState option" where
  "plan P states vrf n =
     (case existingAt states vrf (peerKey n) of
        None \<Rightarrow> Some (desiredStateFor P n vrf None)
      | Some e \<Rightarrow> if inSync P vrf n e then None else Some (desiredStateFor P n vrf (Some e)))"

definition wfStates :: "(string, peersStatus) gomap \<Rightarrow> bool" where
  "wfStates states \<longleftrightarrow> distinct (mapKeys states) \<and> (\<forall>ps\<in>snd ` set states. distinct (mapKeys ps))"

lemma plan_cong: "existingAt a vrf (peerKey n) = existingAt b vrf (peerKey n) \<Longrightarrow> plan P a vrf n = plan P b vrf n"
  by (simp add: plan_def)

lemma map_filter_eq: "(\<And>x. x \<in> set xs \<Longrightarrow> f x = g x) \<Longrightarrow> List.map_filter f xs = List.map_filter g xs"
  by (induction xs) (simp_all add: map_filter_simps split: option.split)

lemma set_map_filter: "set (List.map_filter f xs) = {y. \<exists>x\<in>set xs. f x = Some y}"
  by (induction xs) (auto simp: map_filter_simps split: option.split)

lemma wfStates_mapSet:
  assumes "wfStates states" "distinct (mapKeys ps)"
  shows "wfStates (mapSet states vrf ps)"
proof -
  have d: "distinct (mapKeys (mapSet states vrf ps))" using assms(1) by (simp add: wfStates_def)
  have "distinct (mapKeys q)" if "(v, q) \<in> set (mapSet states vrf ps)" for v q
  proof -
    have "mapGet (mapSet states vrf ps) v = Some q" using that d by (simp add: mapGet_map_of mapKeys_def)
    then have "q = ps \<or> mapGet states v = Some q" by (simp split: if_splits)
    then have "q = ps \<or> (v, q) \<in> set states" by (auto simp: mapGet_map_of dest: map_of_SomeD)
    then show ?thesis using assms by (auto simp: wfStates_def)
  qed
  then show ?thesis using d by (auto simp: wfStates_def)
qed

lemma wfStates_ps: "wfStates states \<Longrightarrow> mapGet states vrf = Some ps \<Longrightarrow> distinct (mapKeys ps)"
  by (force simp: wfStates_def mapGet_map_of dest: map_of_SomeD)

lemma distinct_mapDel [simp]: "distinct (mapKeys m) \<Longrightarrow> distinct (mapKeys (mapDel m k))"
  by (simp add: mapKeys_def mapDel_def distinct_delete)

lemma neighborStateStep_run:
  assumes "wfStates states"
  shows "\<exists>states'. neighborStateStep P vrf (states, toApply) n =
      (states', toApply @ (case plan P states vrf n of None \<Rightarrow> [] | Some d \<Rightarrow> [d])) \<and> wfStates states' \<and>
    (\<forall>v l. existingAt states' v l = (if v = vrf \<and> l = peerKey n then None else existingAt states v l))"
proof (cases "mapGet states vrf")
  case None
  then show ?thesis using assms
    by (auto simp: neighborStateStep_def plan_def existingAt_def)
next
  case (Some ps)
  let ?states' = "mapSet states vrf (psRemove ps (np_ID n))"
  have "wfStates ?states'" using assms wfStates_ps [OF assms Some] by (simp add: wfStates_mapSet psRemove_def)
  moreover have "\<forall>v l. existingAt ?states' v l = (if v = vrf \<and> l = peerKey n then None else existingAt states v l)"
    using Some by (simp add: existingAt_def psRemove_def peerKey_def)
  moreover have "neighborStateStep P vrf (states, toApply) n =
      (?states', toApply @ (case plan P states vrf n of None \<Rightarrow> [] | Some d \<Rightarrow> [d]))"
    using Some by (auto simp: neighborStateStep_def plan_def existingAt_def statusFor_def peerKey_def inSync_def Let_def
        split: option.split)
  ultimately show ?thesis by blast
qed

lemma neighborStateStep_fold:
  assumes "wfStates states" "distinct (map peerKey ns)"
  shows "\<exists>states'. foldl (neighborStateStep P vrf) (states, toApply) ns =
      (states', toApply @ List.map_filter (plan P states vrf) ns) \<and> wfStates states' \<and>
    (\<forall>v l. existingAt states' v l = (if v = vrf \<and> l \<in> peerKey ` set ns then None else existingAt states v l))"
  using assms
proof (induction ns arbitrary: states toApply)
  case (Cons n ns)
  obtain s1 where s1: "neighborStateStep P vrf (states, toApply) n =
      (s1, toApply @ (case plan P states vrf n of None \<Rightarrow> [] | Some d \<Rightarrow> [d]))" "wfStates s1"
      "\<forall>v l. existingAt s1 v l = (if v = vrf \<and> l = peerKey n then None else existingAt states v l)"
    using neighborStateStep_run [OF Cons.prems(1)] by blast
  have "plan P s1 vrf m = plan P states vrf m" if "m \<in> set ns" for m
  proof (rule plan_cong)
    have "peerKey m \<in> peerKey ` set ns" using that by simp
    then have "peerKey m \<noteq> peerKey n" using Cons.prems(2) by auto
    then show "existingAt s1 vrf (peerKey m) = existingAt states vrf (peerKey m)" using s1(3) by simp
  qed
  then have "List.map_filter (plan P s1 vrf) ns = List.map_filter (plan P states vrf) ns" by (rule map_filter_eq)
  with Cons.IH [OF s1(2), of "toApply @ (case plan P states vrf n of None \<Rightarrow> [] | Some d \<Rightarrow> [d])"] Cons.prems(2)
  show ?case by (auto simp: s1(1,3) map_filter_simps split: option.split)
qed (simp add: map_filter_simps)

lemma desiredStates_run:
  assumes "wfStates states" "distinct (map fst vn)" "\<forall>ns\<in>snd ` set vn. distinct (map peerKey ns)"
  shows "\<exists>states'. foldl (\<lambda>acc (vrf, ns). foldl (neighborStateStep P vrf) acc ns) (states, toApply) vn =
      (states', toApply @ concat (map (\<lambda>(vrf, ns). List.map_filter (plan P states vrf) ns) vn)) \<and> wfStates states' \<and>
    (\<forall>v l. existingAt states' v l = (if \<exists>ns. (v, ns) \<in> set vn \<and> l \<in> peerKey ` set ns then None else existingAt states v l))"
  using assms
proof (induction vn arbitrary: states toApply)
  case (Cons x vn)
  obtain vrf ns where x: "x = (vrf, ns)" by (cases x)
  obtain s1 where s1: "foldl (neighborStateStep P vrf) (states, toApply) ns =
      (s1, toApply @ List.map_filter (plan P states vrf) ns)" "wfStates s1"
      "\<forall>v l. existingAt s1 v l = (if v = vrf \<and> l \<in> peerKey ` set ns then None else existingAt states v l)"
  proof -
    have "distinct (map peerKey ns)" using Cons.prems(3) by (simp add: x)
    from neighborStateStep_fold [OF Cons.prems(1) this, of P vrf toApply] show thesis using that by blast
  qed
  have same: "existingAt s1 v l = existingAt states v l" if "(v, ms) \<in> set vn" for v ms l
  proof -
    have "v \<noteq> vrf" using that Cons.prems(2) by (auto simp: x image_iff)
    then show ?thesis using s1(3) by simp
  qed
  have "List.map_filter (plan P s1 v) ms = List.map_filter (plan P states v) ms" if "(v, ms) \<in> set vn" for v ms
    by (intro map_filter_eq plan_cong same [OF that])
  then have filters: "map (\<lambda>(vrf, ns). List.map_filter (plan P s1 vrf) ns) vn = map (\<lambda>(vrf, ns). List.map_filter (plan P states vrf) ns) vn"
    by auto
  have "distinct (map fst vn)" "\<forall>ns\<in>snd ` set vn. distinct (map peerKey ns)" using Cons.prems(2,3) by simp_all
  from Cons.IH [OF s1(2) this, of "toApply @ List.map_filter (plan P states vrf) ns"]
  obtain s2 where s2: "foldl (\<lambda>acc (vrf, ns). foldl (neighborStateStep P vrf) acc ns) (s1, toApply @ List.map_filter (plan P states vrf) ns) vn =
      (s2, (toApply @ List.map_filter (plan P states vrf) ns) @ concat (map (\<lambda>(vrf, ns). List.map_filter (plan P states vrf) ns) vn))"
      "wfStates s2"
      "\<forall>v l. existingAt s2 v l = (if \<exists>ns. (v, ns) \<in> set vn \<and> l \<in> peerKey ` set ns then None else existingAt s1 v l)"
    unfolding filters by blast
  have "existingAt s2 v l = (if \<exists>ns. (v, ns) \<in> set (x # vn) \<and> l \<in> peerKey ` set ns then None else existingAt states v l)" for v l
    using s2(3) [rule_format, of v l] s1(3) [rule_format, of v l] by (simp add: x) blast
  then show ?case using s2(1,2) by (simp add: x s1(1))
qed simp

lemma set_states:
  assumes wf: "wfStates states"
  shows "set (concat (map (\<lambda>(_, ps). map snd ps) states)) = {s. \<exists>v l. existingAt states v l = Some s}"
proof (intro equalityI subsetI)
  fix s
  assume "s \<in> set (concat (map (\<lambda>(_, ps). map snd ps) states))"
  then obtain v ps l where ps: "(v, ps) \<in> set states" "(l, s) \<in> set ps" by auto
  then have "mapGet states v = Some ps" using wf by (simp add: wfStates_def mapGet_map_of mapKeys_def)
  moreover from wfStates_ps [OF wf this] have "mapGet ps l = Some s" using ps(2) by (simp add: mapGet_map_of mapKeys_def)
  ultimately have "existingAt states v l = Some s" by (simp add: existingAt_def)
  then show "s \<in> {s. \<exists>v l. existingAt states v l = Some s}" by blast
next
  fix s
  assume "s \<in> {s. \<exists>v l. existingAt states v l = Some s}"
  then obtain v l ps where "mapGet states v = Some ps" "mapGet ps l = Some s"
    by (auto simp: existingAt_def split: option.splits)
  then have "(v, ps) \<in> set states" "(l, s) \<in> set ps" by (simp_all add: mapGet_map_of map_of_SomeD)
  then show "s \<in> set (concat (map (\<lambda>(_, ps). map snd ps) states))" by force
qed

text \<open>The first state of a session is kept, the others are duplicates.\<close>

lemma label_names: "nodeLabel \<noteq> peerLabel" "nodeLabel \<noteq> vrfLabel" "peerLabel \<noteq> vrfLabel"
  by (simp_all add: nodeLabel_def peerLabel_def vrfLabel_def)

definition sessionKey :: "BGPSessionState \<Rightarrow> string \<times> string" where
  "sessionKey s = (vrfFor s, peerFor s)"

lemma peersStatusPerVRF_run:
  "\<exists>states duplicates. foldl statusStep ([], []) items = (states, duplicates) \<and> wfStates states \<and>
     (\<forall>v l. existingAt states v l = find (\<lambda>s. sessionKey s = (v, l)) items) \<and>
     (\<exists>kept. mset items = mset kept + mset duplicates \<and> distinct (map sessionKey kept) \<and>
        sessionKey ` set duplicates \<subseteq> sessionKey ` set kept \<and> (\<forall>v l. find (\<lambda>s. sessionKey s = (v, l)) items = find (\<lambda>s. sessionKey s = (v, l)) kept))"
proof (induction items rule: rev_induct)
  case Nil
  show ?case by (auto simp: wfStates_def existingAt_def)
next
  case (snoc s items)
  from snoc.IH obtain states dups kept where IH: "foldl statusStep ([], []) items = (states, dups)" "wfStates states"
      "\<forall>v l. existingAt states v l = find (\<lambda>s. sessionKey s = (v, l)) items"
      "mset items = mset kept + mset dups" "distinct (map sessionKey kept)"
      "\<forall>v l. find (\<lambda>s. sessionKey s = (v, l)) items = find (\<lambda>s. sessionKey s = (v, l)) kept"
      "sessionKey ` set dups \<subseteq> sessionKey ` set kept" by (elim exE conjE) (rule that; assumption)
  have find_snoc: "find p (xs @ [y]) = (case find p xs of Some r \<Rightarrow> Some r | None \<Rightarrow> if p y then Some y else None)"
    for p :: "BGPSessionState \<Rightarrow> bool" and xs y
    by (induction xs) auto
  let ?ps = "case mapGet states (vrfFor s) of None \<Rightarrow> [] | Some ps \<Rightarrow> ps"
  have run: "foldl statusStep ([], []) (items @ [s]) =
      (if \<not> hasPeerFor ?ps s then (mapSet states (vrfFor s) (psAdd ?ps s), dups) else (states, dups @ [s]))"
    unfolding foldl_append IH(1) by (simp add: statusStep_def Let_def)
  have has: "hasPeerFor ?ps s \<longleftrightarrow> find (\<lambda>t. sessionKey t = sessionKey s) kept \<noteq> None"
  proof -
    have "hasPeerFor ?ps s \<longleftrightarrow> existingAt states (vrfFor s) (peerFor s) \<noteq> None"
      by (auto simp: hasPeerFor_def existingAt_def split: option.split)
    also have "existingAt states (vrfFor s) (peerFor s) = find (\<lambda>t. sessionKey t = sessionKey s) kept"
      using IH(3,6) by (simp add: sessionKey_def)
    finally show ?thesis .
  qed
  show ?case
  proof (cases "hasPeerFor ?ps s")
    case True
    have "foldl statusStep ([], []) (items @ [s]) = (states, dups @ [s])" using True unfolding run by simp
    moreover have "find (\<lambda>t. sessionKey t = (v, l)) (items @ [s]) = find (\<lambda>t. sessionKey t = (v, l)) items" for v l
      using True has IH(6) by (auto simp: find_snoc sessionKey_def split: option.splits)
    moreover have "sessionKey s \<in> sessionKey ` set kept"
    proof -
      have "find (\<lambda>t. sessionKey t = sessionKey s) kept \<noteq> None" using True has by simp
      then obtain t where "t \<in> set kept" "sessionKey t = sessionKey s" unfolding find_None_iff by blast
      then show ?thesis by (intro image_eqI [of _ _ t]) simp_all
    qed
    ultimately show ?thesis using IH
      by (intro exI [of _ states] exI [of _ "dups @ [s]"] conjI exI [of _ kept]) simp_all
  next
    case False
    let ?states = "mapSet states (vrfFor s) (psAdd ?ps s)"
    have "distinct (mapKeys ?ps)" using wfStates_ps [OF IH(2)] by (auto split: option.splits)
    then have "wfStates ?states" using IH(2) by (intro wfStates_mapSet) (simp_all add: psAdd_def)
    moreover have "foldl statusStep ([], []) (items @ [s]) = (?states, dups)" using False unfolding run by simp
    moreover have none: "find (\<lambda>t. sessionKey t = sessionKey s) items = None"
      using False has IH(6) by (auto simp: sessionKey_def)
    moreover have "existingAt ?states v l = find (\<lambda>t. sessionKey t = (v, l)) (items @ [s])" for v l
    proof -
      have "existingAt ?states v l = (if sessionKey s = (v, l) then Some s else existingAt states v l)"
        by (auto simp: existingAt_def psAdd_def sessionKey_def split: option.split)
      then show ?thesis using IH(3) none by (auto simp: find_snoc split: option.split)
    qed
    moreover have "sessionKey s \<notin> sessionKey ` set kept"
      using False has by (auto simp: find_None_iff)
    moreover have "sessionKey ` set dups \<subseteq> sessionKey ` set (kept @ [s])" using IH(7) by auto
    ultimately show ?thesis using IH(4-6)
      by (intro exI [of _ ?states] exI [of _ dups] conjI exI [of _ "kept @ [s]"]) (simp_all add: find_snoc)
  qed
qed

section \<open>No calls when everything is in place\<close>

text \<open>The sessions vtysh reports, by the VRF of their resources.\<close>

definition sessionsOf :: "(string, frrPeer list) gomap \<Rightarrow> (string \<times> frrPeer) list" where
  "sessionsOf neighbors = concat (map (\<lambda>(vrf, ns). map (Pair vrf) ns) (renameDefaultVRF neighbors))"

definition sessionKeys :: "(string, frrPeer list) gomap \<Rightarrow> (string \<times> string) set" where
  "sessionKeys neighbors = (\<lambda>(vrf, n). (vrf, peerKey n)) ` set (sessionsOf neighbors)"

definition wfNeighbors :: "(string, frrPeer list) gomap \<Rightarrow> bool" where
  "wfNeighbors neighbors \<longleftrightarrow> distinct (map fst neighbors) \<and> (\<forall>ns\<in>snd ` set neighbors. distinct (map peerKey ns))"

lemma wfNeighbors_rename:
  assumes "wfNeighbors neighbors"
  shows "wfNeighbors (renameDefaultVRF neighbors)"
proof -
  have d: "distinct (mapKeys (renameDefaultVRF neighbors))"
    using assms by (simp add: wfNeighbors_def renameDefaultVRF_def flip: mapKeys_def)
  have "distinct (map peerKey ns)" if "(vrf, ns) \<in> set (renameDefaultVRF neighbors)" for vrf ns
  proof -
    have "mapGet (renameDefaultVRF neighbors) vrf = Some ns" using that d by (simp add: mapGet_map_of mapKeys_def)
    then have "ns = [] \<or> (\<exists>v. mapGet neighbors v = Some ns)"
      by (auto simp: renameDefaultVRF_def split: if_splits option.splits)
    then show ?thesis using assms by (force simp: wfNeighbors_def mapGet_map_of dest: map_of_SomeD)
  qed
  then show ?thesis using d by (auto simp: wfNeighbors_def mapKeys_def)
qed

lemma sessionsOf_unique:
  assumes "wfNeighbors neighbors" "(vrf, n) \<in> set (sessionsOf neighbors)" "(vrf, m) \<in> set (sessionsOf neighbors)"
    and "peerKey n = peerKey m"
  shows "n = m"
proof -
  note wf = wfNeighbors_rename [OF assms(1)]
  obtain ns ms where "(vrf, ns) \<in> set (renameDefaultVRF neighbors)" "n \<in> set ns"
      "(vrf, ms) \<in> set (renameDefaultVRF neighbors)" "m \<in> set ms"
    using assms(2,3) by (auto simp: sessionsOf_def)
  moreover from this wf have "ns = ms" by (metis eq_key_imp_eq_value wfNeighbors_def)
  ultimately show ?thesis using wf assms(4) by (force simp: wfNeighbors_def distinct_map inj_on_def)
qed

lemma desired_key: "sessionKey (desiredStateFor P n vrf e) = (vrf, peerKey n)"
  using label_names
  by (simp add: sessionKey_def vrfFor_def peerFor_def labelOr_def desiredStateFor_def peerKey_def Let_def mapGet_map_of)

lemma plan_key: "plan P states vrf n = Some d \<Longrightarrow> sessionKey d = (vrf, peerKey n)"
  by (auto simp: plan_def desired_key split: option.splits if_splits)

lemma plans_distinct:
  assumes "wfNeighbors vn"
  shows "distinct (map sessionKey (concat (map (\<lambda>(vrf, ns). List.map_filter (plan P states vrf) ns) vn)))"
proof -
  have one: "distinct (map sessionKey (List.map_filter (plan P states vrf) ns))" if "distinct (map peerKey ns)" for vrf ns
    using that
  proof (induction ns)
    case (Cons n ns)
    have "(vrf, peerKey n) \<notin> sessionKey ` set (List.map_filter (plan P states vrf) ns)"
      using Cons.prems by (auto simp: set_map_filter plan_key)
    then show ?case using Cons by (auto simp: map_filter_simps plan_key split: option.split)
  qed (simp add: map_filter_simps)
  have "distinct (concat (map (\<lambda>x. map sessionKey (List.map_filter (plan P states (fst x)) (snd x))) vn))"
    using assms one
    by (intro distinct_concat_keyed [where k = fst and g = fst]) (auto simp: wfNeighbors_def set_map_filter plan_key)
  then show ?thesis by (simp add: map_concat comp_def case_prod_unfold)
qed

text \<open>
  What a reconciliation does for stored states and sessions: which states it keeps, which it deletes, and which
  it creates or patches.
\<close>

lemma sessions_plan:
  assumes "wfNeighbors neighbors"
  obtains states dups kept toApply toRemove where "peersStatusPerVRF items = (states, dups)"
    "desiredStatesForExisting P (renameDefaultVRF neighbors) states = (toApply, toRemove)"
    "mset items = mset kept + mset dups" "distinct (map sessionKey kept)" "sessionKey ` set dups \<subseteq> sessionKey ` set kept"
    "set toRemove = {s \<in> set kept. sessionKey s \<notin> sessionKeys neighbors}"
    "set toApply = {d. \<exists>vrf n. (vrf, n) \<in> set (sessionsOf neighbors) \<and> plan P states vrf n = Some d}"
    "\<And>v l s. existingAt states v l = Some s \<longleftrightarrow> s \<in> set kept \<and> sessionKey s = (v, l)"
    "distinct (map sessionKey toApply)"
proof -
  obtain states dups kept where run: "foldl statusStep ([], []) items = (states, dups)" "wfStates states"
      "\<forall>v l. existingAt states v l = find (\<lambda>s. sessionKey s = (v, l)) items"
      "mset items = mset kept + mset dups" "distinct (map sessionKey kept)" "sessionKey ` set dups \<subseteq> sessionKey ` set kept"
      "\<forall>v l. find (\<lambda>s. sessionKey s = (v, l)) items = find (\<lambda>s. sessionKey s = (v, l)) kept"
    using peersStatusPerVRF_run [of items] by (elim exE conjE) (rule that; assumption)
  have at: "existingAt states v l = Some s \<longleftrightarrow> s \<in> set kept \<and> sessionKey s = (v, l)" for v l s
  proof -
    have "find (\<lambda>s. sessionKey s = (v, l)) kept = Some s \<longleftrightarrow> s \<in> set kept \<and> sessionKey s = (v, l)"
      using run(5) by (induction kept) (auto simp: rev_image_eqI)
    then show ?thesis using run(3,7) by simp
  qed
  have wf: "wfNeighbors (renameDefaultVRF neighbors)" by (rule wfNeighbors_rename [OF assms])
  obtain states' where fold: "foldl (\<lambda>acc (vrf, ns). foldl (neighborStateStep P vrf) acc ns) (states, []) (renameDefaultVRF neighbors) =
      (states', concat (map (\<lambda>(vrf, ns). List.map_filter (plan P states vrf) ns) (renameDefaultVRF neighbors)))" "wfStates states'"
      "\<forall>v l. existingAt states' v l =
        (if \<exists>ns. (v, ns) \<in> set (renameDefaultVRF neighbors) \<and> l \<in> peerKey ` set ns then None else existingAt states v l)"
    using desiredStates_run [OF run(2), of "renameDefaultVRF neighbors" P "[]"] wf unfolding wfNeighbors_def append_Nil by blast
  have keys: "(\<exists>ns. (v, ns) \<in> set (renameDefaultVRF neighbors) \<and> l \<in> peerKey ` set ns) \<longleftrightarrow> (v, l) \<in> sessionKeys neighbors" for v l
    by (force simp: sessionKeys_def sessionsOf_def)
  have remove: "existingAt states' v l = Some s \<longleftrightarrow> s \<in> set kept \<and> sessionKey s = (v, l) \<and> (v, l) \<notin> sessionKeys neighbors" for v l s
    using fold(3) at [of v l s] unfolding keys by auto
  show thesis
  proof (rule that [OF _ _ run(4-6)])
    show "peersStatusPerVRF items = (states, dups)" by (simp add: peersStatusPerVRF_def run(1))
    show "desiredStatesForExisting P (renameDefaultVRF neighbors) states =
        (concat (map (\<lambda>(vrf, ns). List.map_filter (plan P states vrf) ns) (renameDefaultVRF neighbors)),
         concat (map (\<lambda>(_, ps). map snd ps) states'))"
      by (simp add: desiredStatesForExisting_def fold(1))
    show "set (concat (map (\<lambda>(_, ps). map snd ps) states')) = {s \<in> set kept. sessionKey s \<notin> sessionKeys neighbors}"
      unfolding set_states [OF fold(2)] remove by (auto simp: sessionKey_def)
    show "set (concat (map (\<lambda>(vrf, ns). List.map_filter (plan P states vrf) ns) (renameDefaultVRF neighbors))) =
        {d. \<exists>vrf n. (vrf, n) \<in> set (sessionsOf neighbors) \<and> plan P states vrf n = Some d}"
      by (force simp: sessionsOf_def set_map_filter)
    show "distinct (map sessionKey (concat (map (\<lambda>(vrf, ns). List.map_filter (plan P states vrf) ns) (renameDefaultVRF neighbors))))"
      by (rule plans_distinct [OF wf])
  qed (rule at)
qed

lemma deleteDuplicates_calls: "snd (deleteDuplicates del ds) = [] \<longleftrightarrow> ds = []"
  by (cases ds) (auto split: option.split prod.split)

lemma reconcile_no_calls:
  assumes "si_list inp = Inr items" "si_neighbors inp = Inr neighbors" "peersStatusPerVRF items = (states, dups)"
    "desiredStatesForExisting P (renameDefaultVRF neighbors) states = (toApply, toRemove)"
  shows "snd (snd (reconcileSessions P inp)) = [] \<longleftrightarrow> dups = [] \<and> toRemove = [] \<and> toApply = []"
  using deleteDuplicates_calls [of "si_delete inp" dups]
  by (auto simp: reconcileSessions_def assms Let_def split: prod.split option.split)

lemma no_duplicates_iff:
  assumes "mset items = mset kept + mset dups" "distinct (map sessionKey kept)" "sessionKey ` set dups \<subseteq> sessionKey ` set kept"
  shows "dups = [] \<longleftrightarrow> distinct (map sessionKey items)"
proof -
  have "mset (map sessionKey items) = mset (map sessionKey (kept @ dups))" using assms(1) by simp
  then have "distinct (map sessionKey items) \<longleftrightarrow> distinct (map sessionKey (kept @ dups))" by (rule mset_eq_imp_distinct_iff)
  then show ?thesis using assms(2,3) by (cases dups) auto
qed

lemma states_match_iff:
  assumes unique: "\<And>s t. s \<in> K \<Longrightarrow> t \<in> K \<Longrightarrow> sessionKey s = sessionKey t \<Longrightarrow> s = t"
    and keys: "keys = {(vrf, peerKey n) |vrf n. (vrf, n) \<in> S}"
  shows "sessionKey ` K \<subseteq> keys \<and> (\<forall>vrf n. (vrf, n) \<in> S \<longrightarrow> (\<exists>s\<in>K. sessionKey s = (vrf, peerKey n) \<and> Q vrf n s)) \<longleftrightarrow>
    sessionKey ` K = keys \<and> (\<forall>s\<in>K. \<forall>vrf n. (vrf, n) \<in> S \<longrightarrow> sessionKey s = (vrf, peerKey n) \<longrightarrow> Q vrf n s)"
    (is "?l1 \<and> ?l2 \<longleftrightarrow> ?r1 \<and> ?r2")
proof
  assume l: "?l1 \<and> ?l2"
  have "x \<in> sessionKey ` K" if x: "x \<in> keys" for x
  proof -
    obtain vrf n where vn: "x = (vrf, peerKey n)" "(vrf, n) \<in> S" using x unfolding keys by blast
    then obtain t where "t \<in> K" "sessionKey t = x" using l by blast
    then show ?thesis by (intro image_eqI [of _ _ t]) simp_all
  qed
  moreover have "Q vrf n s" if s: "s \<in> K" "(vrf, n) \<in> S" "sessionKey s = (vrf, peerKey n)" for s vrf n
  proof -
    obtain t where "t \<in> K" "sessionKey t = (vrf, peerKey n)" "Q vrf n t" using l s(2) by blast
    with unique [of s t] s show ?thesis by simp
  qed
  ultimately show "?r1 \<and> ?r2" using l by blast
next
  assume r: "?r1 \<and> ?r2"
  have "\<exists>s\<in>K. sessionKey s = (vrf, peerKey n) \<and> Q vrf n s" if vn: "(vrf, n) \<in> S" for vrf n
  proof -
    have "(vrf, peerKey n) \<in> keys" using vn unfolding keys by blast
    then obtain s where "s \<in> K" "sessionKey s = (vrf, peerKey n)" using r by force
    then show ?thesis using r vn by blast
  qed
  then show "?l1 \<and> ?l2" using r by blast
qed

lemma no_calls_iff:
  assumes "si_list inp = Inr items" "si_neighbors inp = Inr neighbors" "wfNeighbors neighbors"
  shows "snd (snd (reconcileSessions P inp)) = [] \<longleftrightarrow>
    distinct (map sessionKey items) \<and> sessionKey ` set items = sessionKeys neighbors \<and>
    (\<forall>s\<in>set items. \<forall>vrf n. (vrf, n) \<in> set (sessionsOf neighbors) \<longrightarrow> sessionKey s = (vrf, peerKey n) \<longrightarrow> inSync P vrf n s)"
proof -
  obtain states dups kept toApply toRemove where p: "peersStatusPerVRF items = (states, dups)"
    "desiredStatesForExisting P (renameDefaultVRF neighbors) states = (toApply, toRemove)"
    "mset items = mset kept + mset dups" "distinct (map sessionKey kept)" "sessionKey ` set dups \<subseteq> sessionKey ` set kept"
    "set toRemove = {s \<in> set kept. sessionKey s \<notin> sessionKeys neighbors}"
    "set toApply = {d. \<exists>vrf n. (vrf, n) \<in> set (sessionsOf neighbors) \<and> plan P states vrf n = Some d}"
    "\<And>v l s. existingAt states v l = Some s \<longleftrightarrow> s \<in> set kept \<and> sessionKey s = (v, l)"
    by (rule sessions_plan [OF assms(3)]) blast
  have remove: "toRemove = [] \<longleftrightarrow> sessionKey ` set kept \<subseteq> sessionKeys neighbors"
    unfolding set_empty [symmetric] p(6) by blast
  have none: "plan P states vrf n = None \<longleftrightarrow> (\<exists>s\<in>set kept. sessionKey s = (vrf, peerKey n) \<and> inSync P vrf n s)" for vrf n
  proof -
    have "plan P states vrf n = None \<longleftrightarrow> (\<exists>s. existingAt states vrf (peerKey n) = Some s \<and> inSync P vrf n s)"
      by (auto simp: plan_def split: option.split)
    then show ?thesis unfolding p(8) by blast
  qed
  have "toApply = [] \<longleftrightarrow> (\<forall>vrf n. (vrf, n) \<in> set (sessionsOf neighbors) \<longrightarrow> plan P states vrf n = None)"
    unfolding set_empty [symmetric] p(7) by (auto simp flip: not_Some_eq)
  note applied = this [unfolded none]
  have "s = t" if "s \<in> set kept" "t \<in> set kept" "sessionKey s = sessionKey t" for s t
    using that p(4) by (auto simp: distinct_map inj_on_def)
  moreover have "sessionKeys neighbors = {(vrf, peerKey n) |vrf n. (vrf, n) \<in> set (sessionsOf neighbors)}"
    by (auto simp: sessionKeys_def)
  ultimately have match: "toRemove = [] \<and> toApply = [] \<longleftrightarrow> sessionKey ` set kept = sessionKeys neighbors \<and>
      (\<forall>s\<in>set kept. \<forall>vrf n. (vrf, n) \<in> set (sessionsOf neighbors) \<longrightarrow> sessionKey s = (vrf, peerKey n) \<longrightarrow> inSync P vrf n s)"
    unfolding remove applied by (rule states_match_iff)
  show ?thesis
  proof (cases "dups = []")
    case True
    then have "set items = set kept" using p(3) by (auto dest: mset_eq_setD)
    then show ?thesis
      using reconcile_no_calls [OF assms(1,2) p(1,2), unfolded match] no_duplicates_iff [OF p(3-5)] True by simp
  next
    case False
    then show ?thesis
      using reconcile_no_calls [OF assms(1,2) p(1,2), unfolded match] no_duplicates_iff [OF p(3-5)] by simp
  qed
qed

text \<open>
  A reconciliation makes no call exactly when the stored states correspond one to one to the sessions of the
  node: no two states are for the same VRF and peer, the states are those of the sessions, and each has the
  labels and the status of its session.
\<close>

theorem no_calls_when_in_sync:
  assumes "si_list inp = Inr items" "si_neighbors inp = Inr neighbors" "wfNeighbors neighbors"
  shows "snd (snd (reconcileSessions P inp)) = [] \<longleftrightarrow>
    distinct (map sessionKey items) \<and> sessionKey ` set items = sessionKeys neighbors \<and>
    (\<forall>s\<in>set items. \<forall>vrf n. (vrf, n) \<in> set (sessionsOf neighbors) \<longrightarrow> sessionKey s = (vrf, peerKey n) \<longrightarrow> inSync P vrf n s)"
  using no_calls_iff [OF assms] .

definition samplePeer :: frrPeer where
  "samplePeer = peerFrom ''fc00::4'' (zeroFRRNeighbor\<lparr>fn_BgpState := ''Established''\<rparr>)"

definition sampleSessionParams :: sessionParams where
  "sampleSessionParams = \<lparr>sp_NodeName = ''node'', sp_Namespace = ''frr''\<rparr>"

definition sampleSession :: BGPSessionState where
  "sampleSession = \<lparr>bs_Name = ''node-1'', bs_GenerateName = ''node-'', bs_Namespace = ''frr'',
     bs_Labels = [(nodeLabel, ''node''), (peerLabel, ''fc00-0000-0000-0000-0000-0000-0000-0004''), (vrfLabel, '''')],
     bs_Status = \<lparr>ss_BGPStatus = ''Established'', ss_BFDStatus = ''N/A'', ss_Node = ''node'',
       ss_Peer = ''fc00-0000-0000-0000-0000-0000-0000-0004'', ss_VRF = ''''\<rparr>\<rparr>"

definition quietInput :: "(string, frrPeer list) gomap \<Rightarrow> BGPSessionState list \<Rightarrow> sessionInput" where
  "quietInput neighbors items = \<lparr>si_list = Inr items, si_neighbors = Inr neighbors, si_delete = (\<lambda>_. Inr ()),
     si_createOrPatch = (\<lambda>_. Inr ()), si_request = ('''', ''node'')\<rparr>"

theorem no_calls_when_in_sync_witness:
  "reconcileSessions sampleSessionParams (quietInput [(''default'', [samplePeer])] [sampleSession]) = ([], True, []) \<and>
   sessionKey ` set [sampleSession] = sessionKeys [(''default'', [samplePeer])]"
proof -
  have calls: "reconcileSessions sampleSessionParams (quietInput [(''default'', [samplePeer])] [sampleSession]) = ([], True, [])"
    by code_simp
  have "si_list (quietInput [(''default'', [samplePeer])] [sampleSession]) = Inr [sampleSession]"
    "si_neighbors (quietInput [(''default'', [samplePeer])] [sampleSession]) = Inr [(''default'', [samplePeer])]"
    "wfNeighbors [(''default'', [samplePeer])]"
    by (simp_all add: quietInput_def wfNeighbors_def)
  from no_calls_when_in_sync [OF this, of sampleSessionParams] calls show ?thesis by simp
qed

section \<open>Convergence\<close>

text \<open>
  The states the API server has after a call. A new state gets a name that is not in use and no status, because the
  status of a new object is not stored; a patch sets the status and nothing else, because the
  function that changes the object before it is patched writes only its owner and its status.
\<close>

definition noStatus :: BGPSessionStateStatus where
  "noStatus = \<lparr>ss_BGPStatus = '''', ss_BFDStatus = '''', ss_Node = '''', ss_Peer = '''', ss_VRF = ''''\<rparr>"

fun applySession :: "(BGPSessionState list \<Rightarrow> string) \<Rightarrow> BGPSessionState list \<Rightarrow> sessionCall \<Rightarrow> BGPSessionState list" where
  "applySession fresh st (DeleteSession s) = filter (\<lambda>t. bs_Name t \<noteq> bs_Name s) st"
| "applySession fresh st (CreateOrPatch s) =
     (if bs_Name s = '''' then st @ [s\<lparr>bs_Name := fresh st, bs_Status := noStatus\<rparr>]
      else map (\<lambda>t. if bs_Name t = bs_Name s then t\<lparr>bs_Status := bs_Status s\<rparr> else t) st)"

definition sessionCalls :: "sessionParams \<Rightarrow> (string, frrPeer list) gomap \<Rightarrow> BGPSessionState list \<Rightarrow> sessionCall list" where
  "sessionCalls P neighbors st = snd (snd (reconcileSessions P (quietInput neighbors st)))"

definition sessionRound ::
  "sessionParams \<Rightarrow> (BGPSessionState list \<Rightarrow> string) \<Rightarrow> (string, frrPeer list) gomap \<Rightarrow> BGPSessionState list \<Rightarrow> BGPSessionState list"
where
  "sessionRound P fresh neighbors st = foldl (applySession fresh) st (sessionCalls P neighbors st)"

text \<open>States with different names and with the labels the controller writes, and nothing besides.\<close>

definition wellLabelled :: "sessionParams \<Rightarrow> BGPSessionState \<Rightarrow> bool" where
  "wellLabelled P s = labelsEqual [(nodeLabel, sp_NodeName P), (peerLabel, peerFor s), (vrfLabel, vrfFor s)] (bs_Labels s)"

definition wfStore :: "sessionParams \<Rightarrow> BGPSessionState list \<Rightarrow> bool" where
  "wfStore P st \<longleftrightarrow> distinct (map bs_Name st) \<and> (\<forall>s\<in>set st. bs_Name s \<noteq> '''' \<and> wellLabelled P s)"

lemma desired_wellLabelled: "wellLabelled P (desiredStateFor P n vrf e)"
proof -
  have "peerFor (desiredStateFor P n vrf e) = peerKey n" "vrfFor (desiredStateFor P n vrf e) = vrf"
    using desired_key [of P n vrf e] by (simp_all add: sessionKey_def)
  moreover have "bs_Labels (desiredStateFor P n vrf e) = [(nodeLabel, sp_NodeName P), (peerLabel, peerKey n), (vrfLabel, vrf)]"
    by (simp add: desiredStateFor_def peerKey_def Let_def)
  ultimately show ?thesis by (simp add: wellLabelled_def labelsEqual_def list_all_iff)
qed

lemma quiet_deletes: "deleteDuplicates (\<lambda>_. Inr ()) ds = (None, map DeleteSession ds)"
  by (induction ds) (simp_all add: deleteError_def)

lemma sessionCalls_eq:
  assumes "peersStatusPerVRF st = (states, dups)"
    "desiredStatesForExisting P (renameDefaultVRF neighbors) states = (toApply, toRemove)"
  shows "sessionCalls P neighbors st = map DeleteSession (dups @ toRemove) @ map CreateOrPatch toApply"
  by (simp add: sessionCalls_def reconcileSessions_def quietInput_def assms quiet_deletes Let_def deleteError_def map_filter_def)

lemma deletes_run:
  "foldl (applySession fresh) st (map DeleteSession ds) = filter (\<lambda>t. bs_Name t \<notin> bs_Name ` set ds) st"
  by (induction ds arbitrary: st) (auto simp: conj_commute intro!: filter_cong)

lemma session_updates:
  "sessionKey (s\<lparr>bs_Name := x\<rparr>) = sessionKey s" "sessionKey (s\<lparr>bs_Status := y\<rparr>) = sessionKey s"
  "wellLabelled P (s\<lparr>bs_Name := x\<rparr>) = wellLabelled P s" "wellLabelled P (s\<lparr>bs_Status := y\<rparr>) = wellLabelled P s"
  by (simp_all add: sessionKey_def vrfFor_def peerFor_def wellLabelled_def)

text \<open>Creating and patching keeps the store well-formed and adds exactly the keys of what is created.\<close>

lemma applySession_wf:
  assumes "fresh st \<notin> bs_Name ` set st \<and> fresh st \<noteq> ''''" "wellLabelled P a" "wfStore P st"
  shows "wfStore P (applySession fresh st (CreateOrPatch a)) \<and>
    map sessionKey (applySession fresh st (CreateOrPatch a)) = map sessionKey st @ (if bs_Name a = '''' then [sessionKey a] else [])"
proof (cases "bs_Name a = ''''")
  case True
  then show ?thesis using assms by (simp add: wfStore_def session_updates)
next
  case False
  let ?f = "\<lambda>t. if bs_Name t = bs_Name a then t\<lparr>bs_Status := bs_Status a\<rparr> else t"
  have "bs_Name (?f t) = bs_Name t \<and> sessionKey (?f t) = sessionKey t \<and> wellLabelled P (?f t) = wellLabelled P t" for t
    by (simp add: session_updates)
  then show ?thesis using assms(3) False by (simp add: wfStore_def comp_def ball_Un session_updates)
qed

lemma applies_run:
  assumes "\<And>st. fresh st \<notin> bs_Name ` set st \<and> fresh st \<noteq> ''''" "\<forall>a\<in>set as. wellLabelled P a" "wfStore P st"
  shows "wfStore P (foldl (applySession fresh) st (map CreateOrPatch as)) \<and>
    map sessionKey (foldl (applySession fresh) st (map CreateOrPatch as)) =
      map sessionKey st @ map sessionKey (filter (\<lambda>a. bs_Name a = '''') as)"
  using assms(2,3)
proof (induction as arbitrary: st)
  case (Cons a as)
  let ?st = "applySession fresh st (CreateOrPatch a)"
  have st: "wfStore P ?st" "map sessionKey ?st = map sessionKey st @ (if bs_Name a = '''' then [sessionKey a] else [])"
    using applySession_wf [of fresh st P a] assms(1) Cons.prems by simp_all
  have "\<forall>b\<in>set as. wellLabelled P b" using Cons.prems(1) by simp
  from Cons.IH [OF this st(1)] show ?case unfolding st(2) by (simp del: applySession.simps)
qed simp

lemma desired_name: "bs_Name (desiredStateFor P n vrf e) = (case e of None \<Rightarrow> '''' | Some e \<Rightarrow> bs_Name e)"
  by (simp add: desiredStateFor_def Let_def)

lemma missing_sessions:
  assumes rest: "set rest = {s \<in> K. sessionKey s \<in> sessionKeys nb}"
    and at: "\<And>v l s. existingAt states v l = Some s \<longleftrightarrow> s \<in> K \<and> sessionKey s = (v, l)"
    and created: "\<And>a. a \<in> set cr \<longleftrightarrow> (\<exists>vrf n. (vrf, n) \<in> set (sessionsOf nb) \<and>
      existingAt states vrf (peerKey n) = None \<and> a = desiredStateFor P n vrf None)"
  shows "sessionKey ` set rest \<inter> sessionKey ` set cr = {} \<and> sessionKey ` set rest \<union> sessionKey ` set cr = sessionKeys nb"
proof
  have "sessionKey s \<noteq> sessionKey a" if s: "s \<in> set rest" and a: "a \<in> set cr" for s a
  proof
    assume eq: "sessionKey s = sessionKey a"
    obtain vrf n where "existingAt states vrf (peerKey n) = None" "sessionKey a = (vrf, peerKey n)"
      using a by (auto simp: created desired_key)
    then show False using at [of vrf "peerKey n" s] s rest eq by simp
  qed
  then show "sessionKey ` set rest \<inter> sessionKey ` set cr = {}" by blast
  have "x \<in> sessionKey ` set rest \<union> sessionKey ` set cr" if x: "x \<in> sessionKeys nb" for x
  proof -
    obtain vrf n where vn: "x = (vrf, peerKey n)" "(vrf, n) \<in> set (sessionsOf nb)" using x by (auto simp: sessionKeys_def)
    show ?thesis
    proof (cases "existingAt states vrf (peerKey n)")
      case None
      then have "desiredStateFor P n vrf None \<in> set cr" using vn(2) created by blast
      then show ?thesis using vn(1) desired_key [of P n vrf None] by (metis UnI2 imageI)
    next
      case (Some s)
      then have "s \<in> set rest" "sessionKey s = x" using at x vn(1) by (simp_all add: rest)
      then show ?thesis by blast
    qed
  qed
  moreover have "sessionKey a \<in> sessionKeys nb" if "a \<in> set cr" for a
    using that by (force simp: sessionKeys_def created desired_key)
  ultimately show "sessionKey ` set rest \<union> sessionKey ` set cr = sessionKeys nb" using rest by blast
qed

text \<open>The first round leaves exactly one state for each session.\<close>

lemma first_round:
  assumes fresh: "\<And>st. fresh st \<notin> bs_Name ` set st \<and> fresh st \<noteq> ''''" and wf: "wfStore P st" "wfNeighbors neighbors"
    and st': "st' = sessionRound P fresh neighbors st"
  shows "wfStore P st' \<and> distinct (map sessionKey st') \<and> sessionKey ` set st' = sessionKeys neighbors"
proof -
  obtain states dups kept toApply toRemove where p: "peersStatusPerVRF st = (states, dups)"
    "desiredStatesForExisting P (renameDefaultVRF neighbors) states = (toApply, toRemove)"
    "mset st = mset kept + mset dups" "distinct (map sessionKey kept)" "sessionKey ` set dups \<subseteq> sessionKey ` set kept"
    "set toRemove = {s \<in> set kept. sessionKey s \<notin> sessionKeys neighbors}"
    "set toApply = {d. \<exists>vrf n. (vrf, n) \<in> set (sessionsOf neighbors) \<and> plan P states vrf n = Some d}"
    "\<And>v l s. existingAt states v l = Some s \<longleftrightarrow> s \<in> set kept \<and> sessionKey s = (v, l)"
    "distinct (map sessionKey toApply)"
    by (rule sessions_plan [OF wf(2)]) blast
  have names: "distinct (map bs_Name st)" using wf(1) by (simp add: wfStore_def)
  define rest where "rest = filter (\<lambda>t. bs_Name t \<notin> bs_Name ` set (dups @ toRemove)) st"
  have set_st: "set st = set kept \<union> set dups" using p(3) by (metis set_append mset_append mset_eq_setD)
  have "set kept \<inter> set dups = {}"
  proof -
    have "mset (map bs_Name st) = mset (map bs_Name (kept @ dups))" using p(3) by simp
    then have "distinct (map bs_Name (kept @ dups))" using names mset_eq_imp_distinct_iff by blast
    then show ?thesis by auto
  qed
  moreover have "bs_Name s = bs_Name t \<longleftrightarrow> s = t" if "s \<in> set st" "t \<in> set st" for s t
    using that names by (auto simp: distinct_map inj_on_def)
  ultimately have rest: "set rest = {s \<in> set kept. sessionKey s \<in> sessionKeys neighbors}"
    unfolding rest_def using set_st p(6) by auto
  have "distinct (map bs_Name rest)" using names by (simp add: rest_def distinct_map_filter)
  then have rest_wf: "wfStore P rest" using wf(1) by (auto simp: wfStore_def rest_def)
  have rest_keys: "distinct (map sessionKey rest)"
    using rest p(4) \<open>distinct (map bs_Name rest)\<close> by (auto simp: distinct_map inj_on_def)
  have run: "st' = foldl (applySession fresh) rest (map CreateOrPatch toApply)"
    by (simp add: st' sessionRound_def sessionCalls_eq [OF p(1,2)] deletes_run rest_def del: map_append)
  have labelled: "\<forall>a\<in>set toApply. wellLabelled P a"
    unfolding p(7) by (auto simp: plan_def desired_wellLabelled split: option.splits if_splits)
  let ?created = "filter (\<lambda>a. bs_Name a = '''') toApply"
  have keys': "map sessionKey st' = map sessionKey rest @ map sessionKey ?created" "wfStore P st'"
    using applies_run [OF fresh labelled rest_wf] by (simp_all add: run)
  have kept_names: "bs_Name e \<noteq> ''''" if "e \<in> set kept" for e using that wf(1) set_st by (auto simp: wfStore_def)
  have created: "a \<in> set ?created \<longleftrightarrow> (\<exists>vrf n. (vrf, n) \<in> set (sessionsOf neighbors) \<and>
      existingAt states vrf (peerKey n) = None \<and> a = desiredStateFor P n vrf None)" for a
  proof -
    have "plan P states vrf n = Some d \<and> bs_Name d = '''' \<longleftrightarrow>
        existingAt states vrf (peerKey n) = None \<and> d = desiredStateFor P n vrf None" for vrf n d
    proof (cases "existingAt states vrf (peerKey n)")
      case (Some e)
      then have "bs_Name e \<noteq> ''''" using kept_names p(8) by blast
      then show ?thesis by (auto simp: plan_def Some desired_name)
    qed (auto simp: plan_def desired_name)
    then show ?thesis unfolding set_filter mem_Collect_eq p(7) by blast
  qed
  note sessions = missing_sessions [OF rest p(8) created]
  have "distinct (map sessionKey st')" using sessions rest_keys p(9) by (simp add: keys'(1) distinct_map_filter)
  moreover have "sessionKey ` set st' = sessionKeys neighbors"
    using sessions arg_cong [OF keys'(1), of set] by simp
  ultimately show ?thesis using keys'(2) by simp
qed

text \<open>The second round gives each of them its status.\<close>

definition patchStatus :: "BGPSessionState \<Rightarrow> BGPSessionState \<Rightarrow> BGPSessionState" where
  "patchStatus t a = (if bs_Name t = bs_Name a then t\<lparr>bs_Status := bs_Status a\<rparr> else t)"

lemma patches_run:
  assumes "\<forall>a\<in>set as. bs_Name a \<noteq> ''''"
  shows "foldl (applySession fresh) st (map CreateOrPatch as) = map (\<lambda>t. foldl patchStatus t as) st"
  using assms by (induction as arbitrary: st) (simp_all add: patchStatus_def comp_def)

lemma patches_status:
  assumes "\<forall>a\<in>set as. bs_Name a = bs_Name t \<longrightarrow> bs_Status a = d"
  shows "foldl patchStatus t as = (if \<exists>a\<in>set as. bs_Name a = bs_Name t then t\<lparr>bs_Status := d\<rparr> else t)"
  using assms
proof (induction as arbitrary: t)
  case (Cons a as)
  then show ?case using Cons.IH [of "patchStatus t a"] by (auto simp: patchStatus_def)
qed simp

lemma patches_key: "sessionKey (foldl patchStatus t as) = sessionKey t"
  by (induction as arbitrary: t) (simp_all add: patchStatus_def session_updates)

lemma inSync_status:
  assumes "wellLabelled P t" "sessionKey t = (vrf, peerKey n)" "bs_Status t = bs_Status (desiredStateFor P n vrf e)"
  shows "inSync P vrf n t"
  using assms
  by (auto simp: inSync_def wellLabelled_def sessionKey_def desiredStateFor_def peerKey_def Let_def)

lemma second_round_plan:
  assumes wf: "wfStore P st" "wfNeighbors neighbors"
    and keys: "distinct (map sessionKey st)" "sessionKey ` set st = sessionKeys neighbors"
  obtains toApply where "sessionRound P fresh neighbors st = map (\<lambda>t. foldl patchStatus t toApply) st"
    "\<And>t vrf n a. t \<in> set st \<Longrightarrow> (vrf, n) \<in> set (sessionsOf neighbors) \<Longrightarrow> sessionKey t = (vrf, peerKey n) \<Longrightarrow>
       a \<in> set toApply \<Longrightarrow> bs_Name a = bs_Name t \<Longrightarrow> bs_Status a = bs_Status (desiredStateFor P n vrf None)"
    "\<And>t vrf n. t \<in> set st \<Longrightarrow> (vrf, n) \<in> set (sessionsOf neighbors) \<Longrightarrow> sessionKey t = (vrf, peerKey n) \<Longrightarrow>
       \<not> inSync P vrf n t \<Longrightarrow> desiredStateFor P n vrf (Some t) \<in> set toApply"
proof -
  obtain states dups kept toApply toRemove where p: "peersStatusPerVRF st = (states, dups)"
    "desiredStatesForExisting P (renameDefaultVRF neighbors) states = (toApply, toRemove)"
    "mset st = mset kept + mset dups" "distinct (map sessionKey kept)" "sessionKey ` set dups \<subseteq> sessionKey ` set kept"
    "set toRemove = {s \<in> set kept. sessionKey s \<notin> sessionKeys neighbors}"
    "set toApply = {d. \<exists>vrf n. (vrf, n) \<in> set (sessionsOf neighbors) \<and> plan P states vrf n = Some d}"
    "\<And>v l s. existingAt states v l = Some s \<longleftrightarrow> s \<in> set kept \<and> sessionKey s = (v, l)"
    by (rule sessions_plan [OF wf(2)]) blast
  have dups: "dups = []" using no_duplicates_iff [OF p(3-5)] keys(1) by simp
  then have kept: "set kept = set st" using p(3) by (auto dest: mset_eq_setD)
  then have "toRemove = []" using p(6) keys(2) by (auto simp flip: set_empty)
  with dups have run: "sessionRound P fresh neighbors st = foldl (applySession fresh) st (map CreateOrPatch toApply)"
    by (simp add: sessionRound_def sessionCalls_eq [OF p(1,2)])
  have applied: "\<exists>e vrf n. e \<in> set st \<and> sessionKey e = (vrf, peerKey n) \<and> (vrf, n) \<in> set (sessionsOf neighbors) \<and>
      a = desiredStateFor P n vrf (Some e)" if a: "a \<in> set toApply" for a
  proof -
    obtain vrf n where vn: "(vrf, n) \<in> set (sessionsOf neighbors)" "plan P states vrf n = Some a" using a p(7) by auto
    have "(vrf, peerKey n) \<in> sessionKey ` set st" using vn(1) keys(2) by (force simp: sessionKeys_def)
    then obtain e where "e \<in> set st" "sessionKey e = (vrf, peerKey n)" by auto
    then have "existingAt states vrf (peerKey n) = Some e" using p(8) kept by simp
    then have "a = desiredStateFor P n vrf (Some e)" using vn(2) by (simp add: plan_def split: if_splits)
    then show ?thesis using vn(1) \<open>e \<in> set st\<close> \<open>sessionKey e = (vrf, peerKey n)\<close> by blast
  qed
  then have "\<forall>a\<in>set toApply. bs_Name a \<noteq> ''''" using wf(1) by (force simp: wfStore_def desired_name)
  then have mapped: "sessionRound P fresh neighbors st = map (\<lambda>t. foldl patchStatus t toApply) st" unfolding run by (rule patches_run)
  have same: "bs_Status a = bs_Status (desiredStateFor P n vrf None)"
    if t: "t \<in> set st" "(vrf, n) \<in> set (sessionsOf neighbors)" "sessionKey t = (vrf, peerKey n)" "a \<in> set toApply" "bs_Name a = bs_Name t"
    for t vrf n a
  proof -
    obtain e v m where e: "e \<in> set st" "sessionKey e = (v, peerKey m)" "(v, m) \<in> set (sessionsOf neighbors)"
        "a = desiredStateFor P m v (Some e)" using applied [OF t(4)] by blast
    have "e = t" using t(1,5) e(1,4) wf(1) by (auto simp: desired_name wfStore_def distinct_map inj_on_def)
    then have "v = vrf" "m = n" using sessionsOf_unique [OF wf(2), of vrf m n] e t by auto
    then show ?thesis by (simp add: e(4) desiredStateFor_def Let_def)
  qed
  have "desiredStateFor P n vrf (Some t) \<in> set toApply"
    if t: "t \<in> set st" "(vrf, n) \<in> set (sessionsOf neighbors)" "sessionKey t = (vrf, peerKey n)" "\<not> inSync P vrf n t" for t vrf n
  proof -
    have "existingAt states vrf (peerKey n) = Some t" using p(8) kept t by simp
    then have "plan P states vrf n = Some (desiredStateFor P n vrf (Some t))" using t(4) by (simp add: plan_def)
    then show ?thesis using t(2) p(7) by blast
  qed
  then show thesis using that [OF mapped] same by blast
qed

lemma second_round:
  assumes wf: "wfStore P st" "wfNeighbors neighbors"
    and keys: "distinct (map sessionKey st)" "sessionKey ` set st = sessionKeys neighbors"
    and st': "st' = sessionRound P fresh neighbors st"
  shows "map sessionKey st' = map sessionKey st \<and>
    (\<forall>t\<in>set st'. \<forall>vrf n. (vrf, n) \<in> set (sessionsOf neighbors) \<longrightarrow> sessionKey t = (vrf, peerKey n) \<longrightarrow> inSync P vrf n t)"
proof -
  obtain toApply where mapped: "sessionRound P fresh neighbors st = map (\<lambda>t. foldl patchStatus t toApply) st"
    and same: "\<And>t vrf n a. t \<in> set st \<Longrightarrow> (vrf, n) \<in> set (sessionsOf neighbors) \<Longrightarrow> sessionKey t = (vrf, peerKey n) \<Longrightarrow>
       a \<in> set toApply \<Longrightarrow> bs_Name a = bs_Name t \<Longrightarrow> bs_Status a = bs_Status (desiredStateFor P n vrf None)"
    and late: "\<And>t vrf n. t \<in> set st \<Longrightarrow> (vrf, n) \<in> set (sessionsOf neighbors) \<Longrightarrow> sessionKey t = (vrf, peerKey n) \<Longrightarrow>
       \<not> inSync P vrf n t \<Longrightarrow> desiredStateFor P n vrf (Some t) \<in> set toApply"
    using second_round_plan [OF wf keys] by metis
  have "inSync P vrf n (foldl patchStatus t toApply)"
    if t: "t \<in> set st" "(vrf, n) \<in> set (sessionsOf neighbors)" "sessionKey t = (vrf, peerKey n)" for t vrf n
  proof -
    have "\<forall>a\<in>set toApply. bs_Name a = bs_Name t \<longrightarrow> bs_Status a = bs_Status (desiredStateFor P n vrf None)"
      using same [OF t] by blast
    note status = patches_status [OF this]
    show ?thesis
    proof (cases "inSync P vrf n t")
      case True
      then have "bs_Status t = bs_Status (desiredStateFor P n vrf None)" by (simp add: inSync_def desiredStateFor_def Let_def)
      then have "foldl patchStatus t toApply = t" unfolding status by simp
      then show ?thesis using True by simp
    next
      case False
      have "desiredStateFor P n vrf (Some t) \<in> set toApply" by (rule late [OF t False])
      then have patched: "foldl patchStatus t toApply = t\<lparr>bs_Status := bs_Status (desiredStateFor P n vrf None)\<rparr>"
        unfolding status by (auto simp: desired_name)
      have "wellLabelled P t" using wf(1) t(1) by (simp add: wfStore_def)
      then show ?thesis unfolding patched by (intro inSync_status) (simp_all add: session_updates t(3))
    qed
  qed
  then show ?thesis by (auto simp: st' mapped patches_key)
qed


definition longName :: "BGPSessionState list \<Rightarrow> string" where
  "longName st = CHR ''x'' # concat (map bs_Name st)"

lemma longName_fresh: "longName st \<notin> bs_Name ` set st \<and> longName st \<noteq> ''''"
proof -
  have "length (bs_Name s) < length (longName st)" if "s \<in> set st" for s
    using member_le_sum_list [of "length (bs_Name s)" "map (length \<circ> bs_Name) st"] that
    by (simp add: longName_def length_concat)
  then have "longName st \<notin> bs_Name ` set st" by (metis imageE less_irrefl)
  moreover have "longName st \<noteq> ''''" by (simp add: longName_def)
  ultimately show ?thesis by blast
qed

definition staleStore :: "BGPSessionState list" where
  "staleStore = [sampleSession\<lparr>bs_Status := noStatus\<rparr>, sampleSession\<lparr>bs_Name := ''node-2''\<rparr>,
     sampleSession\<lparr>bs_Name := ''node-3'', bs_Labels := [(nodeLabel, ''node''), (peerLabel, ''10.0.0.1''), (vrfLabel, ''red'')]\<rparr>]"


text \<open>
  A label that someone adds to a state is noticed and never removed: the state is patched at every reconciliation
  from then on, and the patch leaves its labels as they are.
\<close>

lemma added_label_stays:
  "let st = [sampleSession\<lparr>bs_Labels := bs_Labels sampleSession @ [(''team'', ''net'')]\<rparr>] in
   sessionRound sampleSessionParams longName [(''default'', [samplePeer])] st = st \<and>
   sessionCalls sampleSessionParams [(''default'', [samplePeer])] st \<noteq> []"
  by code_simp

end
