(* ===== verification/Spec2Isabelle.thy ===== *)
theory Spec2Isabelle
  imports Merge_Claims Pipeline Crd_Rules Reloader Log_Pipe Startup Node_State Webhook Metrics Session_State
begin

text \<open>
  Verification of frr-k8s, which runs an FRR routing daemon on every node of a Kubernetes cluster and configures
  it from \<open>FRRConfiguration\<close> resources. This theory collects the development; paths are those under
  \<^verbatim>\<open>src/\<close>.

  \<^bold>\<open>The program.\<close> On each node a controller (\<^verbatim>\<open>internal/controller\<close>) reads the resources that select the node, converts
  them into one FRR configuration, merging the routers of one VRF, and hands it to a handler
  (\<^verbatim>\<open>internal/frr\<close>). The handler debounces the configurations, renders the last one with templates, writes the
  file and signals a script (\<^verbatim>\<open>cmd/reloader\<close>) that loads it into FRR and leaves a status, which the handler polls
  to retry failures. Beside this path run an admission webhook (\<^verbatim>\<open>internal/webhooks\<close>) that tries the conversion
  before a resource is stored, controllers that publish the state of the node and of each BGP session
  (\<^verbatim>\<open>internal/controller\<close>, \<^verbatim>\<open>cmd/status\<close>), and an exporter of metrics (\<^verbatim>\<open>cmd/metrics\<close>). The states of
  sessions and the metrics come from what FRR prints through vtysh.

  \<^bold>\<open>How it is modelled.\<close> A Go function that returns a value and an error is a function into a sum type, \<open>Inl\<close> the error with
  its format and arguments; a struct is a record with its fields in order, a nil pointer \<open>None\<close>, a map an
  association list without duplicate keys, an integer a word of its width or an \<open>int\<close> where the code cannot
  leave the range. Effects are part of arguments and results: answers of the API server, of the operating
  system and of vtysh are arguments, and the calls a component makes are returned in order. Loops of goroutines are
  inductive step relations whose labels are the events they select on.

  \<^bold>\<open>Foundations.\<close>
  \<^item> \<open>Prelude\<close>, \<open>Errors\<close>, \<open>Go_Strings\<close>, \<open>Go_Net\<close>, \<open>Json\<close>: results, maps (interface \<open>go_map\<close>), sorted listings, errors, and what
    the program uses of \<^verbatim>\<open>strconv\<close>, \<^verbatim>\<open>strings\<close>, \<^verbatim>\<open>net\<close>, \<^verbatim>\<open>net/netip\<close> and \<^verbatim>\<open>encoding/json\<close>.
  \<^item> \<open>Community\<close>, \<open>Ip_Family\<close>: \<^verbatim>\<open>internal/community\<close>, \<^verbatim>\<open>internal/ipfamily\<close>, \<^verbatim>\<open>internal/safeconvert\<close>; parsing a printed
    community gives it back, and the order of communities is strict and total on values.
  \<^item> \<open>Api_Types\<close>, \<open>Frr_Config\<close>: the structs of \<^verbatim>\<open>api/v1beta1\<close> and of \<^verbatim>\<open>internal/frr/config.go\<close> with the functions the templates
    call.

  \<^bold>\<open>Conversion\<close> (\<^verbatim>\<open>api_to_config.go\<close>, \<^verbatim>\<open>merge.go\<close>).
  \<^item> \<open>Api_To_Config\<close>, \<open>Merge\<close> hold every function of the two files. Neighbors are pointers in the code, and a router is validated by
    merging it with itself, so merging works on a store of neighbors.
  \<^item> \<open>Keyed_Merge\<close> is the interface of every merge by key, interpreted for prefix lists, communities, filters, neighbors and
    VNIs in \<open>Merge_Neighbors\<close> and \<open>Merge_Routers\<close>; \<open>Merge_Claims\<close>: the loop over the store refines the merge of values, the
    order of two routers does not matter, filters are kept when their keys differ.
  \<^item> \<open>Conversion\<close>, \<open>Outgoing\<close>, \<open>Prefix_Names\<close> carry invariants of routers and neighbors through \<open>apiToFRR\<close>. With them \<open>Guarantees\<close>
    shows that only configured prefixes are advertised and that filters are valid; \<open>Sessions\<close> that sessions, timers and BFD
    profiles are well formed and the result canonical; \<open>Validation\<close> the EVPN constraints, independence from the order
    of resources and the only source of transient errors.
  \<^item> \<open>Crd_Rules\<close>: the validation markers of the resource definition, which values they accept, and that accepted values are
    still in their ranges in the configuration of the daemon.
  \<^item> \<open>Samples\<close>: concrete resources and their conversion, on which the witnesses rest.

  \<^bold>\<open>From configuration to daemon.\<close>
  \<^item> \<open>Templates\<close>: the templates of \<^verbatim>\<open>internal/frr/templates\<close> with the text and white space they produce; lines of one list
    are numbered in order.
  \<^item> \<open>Debounce\<close>, \<open>Frr_Daemon\<close>: the loop of \<open>debouncer\<close>, \<open>ApplyConfig\<close>, writing, signalling and polling; the debouncer converges to
    the latest configuration, comes to rest and is rate limited; a reload is signalled only after the write.
  \<^item> \<open>Rendered\<close>: the prefix lists in the file are exactly what the resources ask for, when the identifiers of
    neighbors are apart.
  \<^item> \<open>Reloader\<close>: the script and the poller agree on the status files.
  \<^item> \<open>Reconcile\<close>, \<open>Pipeline\<close>: one reconciliation with its metrics and conversion result; the interleavings of controller,
    handler, debouncer and poller, and that the file on disk follows the resources.

  \<^bold>\<open>Beside it.\<close>
  \<^item> \<open>Webhook\<close>: admission agrees with what the controllers of the selected nodes could convert.
  \<^item> \<open>Node_State\<close>, \<open>Session_State\<close>: published states converge and hide passwords, orphans are deleted.
  \<^item> \<open>Frr_Parse\<close>, \<open>Metrics\<close>: the parsers of vtysh output and the samples of the collectors.
  \<^item> \<open>Log_Level\<close>, \<open>Log_Pipe\<close>, \<open>Startup\<close>: \<^verbatim>\<open>internal/logging\<close>, \<^verbatim>\<open>internal/tlsconfig\<close>, \<^verbatim>\<open>internal/version\<close> and the flags of
    \<^verbatim>\<open>cmd/frr-k8s-controller\<close>.

  \<^bold>\<open>Assumptions.\<close> They are hypotheses of the theorems that need them: \<^verbatim>\<open>reflect.DeepEqual\<close> relates only equal configurations, a selector
  cache returns only what was added, an IP address without a colon contains a digit, the API server
  applies the calls it accepts. Time is discrete and events are not lost while a step is taken. No definition uses
  fuel: every loop of the code that is modelled as a function is shown to end by the length of what is left of
  its input, and loops of goroutines are unbounded runs of a step relation. Texts are lists of bytes; white space
  outside ASCII and the local time zone are not modelled.

  \<^bold>\<open>Not modelled.\<close> The generated deep copies of \<^verbatim>\<open>zz_generated.deepcopy.go\<close> and the generated clients of \<^verbatim>\<open>pkg/client\<close>, since
  resources are values here; registration of types and controllers and the \<^verbatim>\<open>main\<close> functions, which connect library
  objects; certificate rotation, HTTP servers, the JSON printer of the dumps and the log output, which are I/O; the
  lock, the signal traps and the start of the reloader script; the end-to-end tests and demos. Merging of FRR's own state
  with the file is the business of \<^verbatim>\<open>frr-reload.py\<close>, whose outcome is a parameter.
\<close>

end
